(* ===== verification/Prelude.thy ===== *)
theory Prelude
  imports Main "HOL-Library.Sublist"
begin

text \<open>
  What every component shares. The source is TypeScript: a function either returns a value or
  throws, and an \<^verbatim>\<open>async\<close> handler interleaves its own computation with calls to the outside
  world. Both are written out here.

  \<^item> \<open>err\<close> is the thrown \<^verbatim>\<open>Error\<close>: \<^verbatim>\<open>InputError\<close> of \<^verbatim>\<open>names.ts\<close> apart from every other error,
    because \<^verbatim>\<open>pki.ts\<close> distinguishes the two. \<open>'a res\<close> is the outcome of a synchronous function,
    \<open>ebind\<close> sequences two of them, \<open>emap\<close> is \<^verbatim>\<open>Array.map\<close> with a callback that may throw and
    \<open>props\<close> evaluates the properties of an object literal from left to right. \<open>on_ok Q r\<close> says that
    \<open>r\<close>, where it is a value, satisfies \<open>Q\<close>; the rules in \<open>ok_intros\<close> follow the program text.
  \<^item> \<open>('e, 'a) io\<close> is an asynchronous computation: it takes the list of external events performed
    so far and returns the outcome with the longer list. \<open>io_bind\<close>, \<open>io_try\<close> and \<open>io_map\<close> are
    \<^verbatim>\<open>await\<close>, \<^verbatim>\<open>try/catch\<close> and a \<^verbatim>\<open>for\<close> loop of awaited calls.
  \<^item> \<open>emits P m\<close> says that every event \<open>m\<close> performs satisfies \<open>P\<close>; the rules in the collection
    \<open>emits_intros\<close> carry the safety proofs of the tool handlers.
  \<^item> \<open>sort_by\<close> is \<^verbatim>\<open>Array.sort\<close> with a comparison function.
\<close>

named_theorems res_simps \<open>evaluation rules of synchronous computations\<close>
named_theorems emits_intros \<open>which events a computation can perform\<close>
named_theorems ok_intros \<open>what a synchronous computation returns when it returns\<close>

section \<open>Thrown errors and synchronous computations\<close>

datatype err = InputError string | OtherError string

primrec err_message :: "err \<Rightarrow> string" where
  "err_message (InputError m) = m"
| "err_message (OtherError m) = m"

primrec is_input_error :: "err \<Rightarrow> bool" where
  "is_input_error (InputError m) = True"
| "is_input_error (OtherError m) = False"

type_synonym 'a res = "err + 'a"

definition ebind :: "'a res \<Rightarrow> ('a \<Rightarrow> 'b res) \<Rightarrow> 'b res" where
  "ebind m f = (case m of Inl e \<Rightarrow> Inl e | Inr x \<Rightarrow> f x)"

lemma ebind_simps [simp, res_simps]:
  "ebind (Inl e) f = Inl e"
  "ebind (Inr x) f = f x"
  by (simp_all add: ebind_def)

lemma ebind_Inr_iff [res_simps]:
  "ebind m f = Inr y \<longleftrightarrow> (\<exists>x. m = Inr x \<and> f x = Inr y)"
  by (cases m) simp_all

lemma ebind_Inl_iff [res_simps]:
  "ebind m f = Inl e \<longleftrightarrow> m = Inl e \<or> (\<exists>x. m = Inr x \<and> f x = Inl e)"
  by (cases m) auto

lemma if_Inl_Inr_iff [res_simps]: "(if b then Inl e else r) = Inr x \<longleftrightarrow> \<not> b \<and> r = Inr x"
  by simp

lemma ebind_assoc: "ebind (ebind m f) g = ebind m (\<lambda>x. ebind (f x) g)"
  by (cases m) simp_all

lemma ebind_cong [fundef_cong]:
  "m = m' \<Longrightarrow> (\<And>x. m' = Inr x \<Longrightarrow> f x = g x) \<Longrightarrow> ebind m f = ebind m' g"
  by (cases m') simp_all

definition is_ok :: "'a res \<Rightarrow> bool" where
  "is_ok r = (case r of Inl _ \<Rightarrow> False | Inr _ \<Rightarrow> True)"

lemma is_ok_simps [simp]: "is_ok (Inr x)" "\<not> is_ok (Inl e)"
  by (simp_all add: is_ok_def)

lemma is_ok_iff: "is_ok r \<longleftrightarrow> (\<exists>x. r = Inr x)"
  by (cases r) simp_all

lemma is_ok_ebindD: "is_ok (ebind m f) \<Longrightarrow> is_ok m"
  by (cases m) simp_all

primrec emap :: "('a \<Rightarrow> 'b res) \<Rightarrow> 'a list \<Rightarrow> 'b list res" where
  "emap f [] = Inr []"
| "emap f (x # xs) = ebind (f x) (\<lambda>y. ebind (emap f xs) (\<lambda>ys. Inr (y # ys)))"

lemma emap_Inr_length: "emap f xs = Inr ys \<Longrightarrow> length ys = length xs"
  by (induction xs arbitrary: ys) (auto simp: ebind_Inr_iff)

lemma emap_Inr_all: "emap f xs = Inr ys \<Longrightarrow> y \<in> set ys \<Longrightarrow> \<exists>x \<in> set xs. f x = Inr y"
  by (induction xs arbitrary: ys) (auto simp: ebind_Inr_iff)

lemma emap_pure: "(\<And>x. x \<in> set xs \<Longrightarrow> f x = Inr (g x)) \<Longrightarrow> emap f xs = Inr (map g xs)"
  by (induction xs) simp_all

lemma emap_Inl: "emap f xs = Inl e \<Longrightarrow> \<exists>x \<in> set xs. f x = Inl e"
  by (induction xs) (auto simp: ebind_Inl_iff)

lemma emap_InlI: "x \<in> set xs \<Longrightarrow> f x = Inl e \<Longrightarrow> \<exists>e'. emap f xs = Inl e'"
proof (induction xs)
  case Nil
  then show ?case by simp
next
  case (Cons a xs)
  show ?case
  proof (cases "f a")
    case (Inl e')
    then show ?thesis by simp
  next
    case (Inr b)
    with Cons.prems have "x \<in> set xs" "f x = Inl e" by auto
    with Cons.IH obtain e' where "emap f xs = Inl e'" by blast
    with Inr show ?thesis by simp
  qed
qed

text \<open>The properties of an object literal are evaluated in order; the first that throws wins.\<close>

primrec props :: "('k \<times> 'v res) list \<Rightarrow> ('k \<times> 'v) list res" where
  "props [] = Inr []"
| "props (p # ps) = ebind (snd p) (\<lambda>v. ebind (props ps) (\<lambda>vs. Inr ((fst p, v) # vs)))"

lemma props_keys: "props ps = Inr vs \<Longrightarrow> map fst vs = map fst ps"
  by (induction ps arbitrary: vs) (auto simp: ebind_Inr_iff)

lemma props_lookup:
  "props ps = Inr vs \<Longrightarrow> map_of vs k = Some v \<Longrightarrow> map_of ps k = Some (Inr v)"
  by (induction ps arbitrary: vs) (auto simp: ebind_Inr_iff split: if_splits)

lemma props_map_of:
  "props ps = Inr vs \<Longrightarrow> map_of ps k = Some r \<Longrightarrow> \<exists>v. r = Inr v \<and> map_of vs k = Some v"
  by (induction ps arbitrary: vs) (auto simp: ebind_Inr_iff split: if_splits)

lemma props_InlI: "(k, Inl e) \<in> set ps \<Longrightarrow> \<exists>e'. props ps = Inl e'"
proof (induction ps)
  case Nil
  then show ?case by simp
next
  case (Cons p ps)
  show ?case
  proof (cases "snd p")
    case (Inl e')
    then show ?thesis by simp
  next
    case (Inr v)
    with Cons.prems have "(k, Inl e) \<in> set ps" by auto
    with Cons.IH obtain e' where "props ps = Inl e'" by blast
    with Inr show ?thesis by simp
  qed
qed

definition on_ok :: "('a \<Rightarrow> bool) \<Rightarrow> 'a res \<Rightarrow> bool" where
  "on_ok Q r = (\<forall>x. r = Inr x \<longrightarrow> Q x)"

lemma on_okD: "on_ok Q r \<Longrightarrow> r = Inr x \<Longrightarrow> Q x"
  by (simp add: on_ok_def)

lemma on_okI: "(\<And>x. r = Inr x \<Longrightarrow> Q x) \<Longrightarrow> on_ok Q r"
  by (simp add: on_ok_def)

lemma on_ok_Inl [ok_intros, simp]: "on_ok Q (Inl e)"
  by (simp add: on_ok_def)

lemma on_ok_Inr [ok_intros]: "Q x \<Longrightarrow> on_ok Q (Inr x)"
  by (simp add: on_ok_def)

lemma on_ok_Inr_iff [simp]: "on_ok Q (Inr x) = Q x"
  by (simp add: on_ok_def)

lemma on_ok_bind [ok_intros]: "(\<And>x. m = Inr x \<Longrightarrow> on_ok Q (f x)) \<Longrightarrow> on_ok Q (ebind m f)"
  by (auto simp: on_ok_def ebind_Inr_iff)

lemma on_ok_if [ok_intros]: "(b \<Longrightarrow> on_ok Q r) \<Longrightarrow> (\<not> b \<Longrightarrow> on_ok Q s) \<Longrightarrow> on_ok Q (if b then r else s)"
  by simp

lemma on_ok_option [ok_intros]:
  "(x = None \<Longrightarrow> on_ok Q r) \<Longrightarrow> (\<And>y. x = Some y \<Longrightarrow> on_ok Q (f y)) \<Longrightarrow>
   on_ok Q (case x of None \<Rightarrow> r | Some y \<Rightarrow> f y)"
  by (cases x) simp_all

lemma on_ok_emap: "(\<And>x. x \<in> set xs \<Longrightarrow> on_ok Q (f x)) \<Longrightarrow> on_ok (list_all Q) (emap f xs)"
  by (auto simp: on_ok_def list_all_iff dest: emap_Inr_all)

lemma on_ok_mono: "on_ok Q r \<Longrightarrow> (\<And>x. Q x \<Longrightarrow> R x) \<Longrightarrow> on_ok R r"
  by (simp add: on_ok_def)

section \<open>Asynchronous computations and their events\<close>

type_synonym ('e, 'a) io = "'e list \<Rightarrow> 'a res \<times> 'e list"

definition io_lift :: "'a res \<Rightarrow> ('e, 'a) io" where
  "io_lift r = (\<lambda>tr. (r, tr))"

abbreviation io_return :: "'a \<Rightarrow> ('e, 'a) io" where
  "io_return x \<equiv> io_lift (Inr x)"

abbreviation io_throw :: "err \<Rightarrow> ('e, 'a) io" where
  "io_throw e \<equiv> io_lift (Inl e)"

definition io_bind :: "('e, 'a) io \<Rightarrow> ('a \<Rightarrow> ('e, 'b) io) \<Rightarrow> ('e, 'b) io" where
  "io_bind m f = (\<lambda>tr. case m tr of (Inl e, tr') \<Rightarrow> (Inl e, tr') | (Inr x, tr') \<Rightarrow> f x tr')"

definition io_try :: "('e, 'a) io \<Rightarrow> (err \<Rightarrow> ('e, 'a) io) \<Rightarrow> ('e, 'a) io" where
  "io_try m h = (\<lambda>tr. case m tr of (Inl e, tr') \<Rightarrow> h e tr' | (Inr x, tr') \<Rightarrow> (Inr x, tr'))"

text \<open>
  One external event. The reply may depend on everything that happened before, the event
  itself included, so a remote party is an arbitrary function of the history.
\<close>

definition io_event :: "('e list \<Rightarrow> 'e \<Rightarrow> 'a res) \<Rightarrow> 'e \<Rightarrow> ('e, 'a) io" where
  "io_event reply e = (\<lambda>tr. (reply tr e, tr @ [e]))"

primrec io_map :: "('a \<Rightarrow> ('e, 'b) io) \<Rightarrow> 'a list \<Rightarrow> ('e, 'b list) io" where
  "io_map f [] = io_return []"
| "io_map f (x # xs) = io_bind (f x) (\<lambda>y. io_bind (io_map f xs) (\<lambda>ys. io_return (y # ys)))"

lemma io_apply [simp]:
  "io_lift r tr = (r, tr)"
  "io_event reply e tr = (reply tr e, tr @ [e])"
  by (simp_all add: io_lift_def io_event_def)

lemma io_bind_lift [simp]:
  "io_bind (io_return x) f = f x"
  "io_bind (io_throw e) f = io_throw e"
  by (simp_all add: io_bind_def io_lift_def)

lemma io_try_lift [simp]:
  "io_try (io_return x) h = io_return x"
  "io_try (io_throw e) h = h e"
  by (simp_all add: io_try_def io_lift_def)

lemma io_bind_assoc: "io_bind (io_bind m f) g = io_bind m (\<lambda>x. io_bind (f x) g)"
  by (rule ext) (simp add: io_bind_def split: prod.split sum.split)

definition emits :: "('e \<Rightarrow> bool) \<Rightarrow> ('e, 'a) io \<Rightarrow> bool" where
  "emits P m = (\<forall>tr. \<exists>es. snd (m tr) = tr @ es \<and> list_all P es)"

lemma emitsI: "(\<And>tr. \<exists>es. snd (m tr) = tr @ es \<and> list_all P es) \<Longrightarrow> emits P m"
  by (simp add: emits_def)

lemma emitsD:
  assumes "emits P m" and "m tr = (r, tr')"
  shows "\<exists>es. tr' = tr @ es \<and> list_all P es"
  using assms unfolding emits_def by (metis snd_conv)

lemma emits_lift [emits_intros]: "emits P (io_lift r)"
  by (simp add: emits_def)

lemma emits_event [emits_intros]: "P e \<Longrightarrow> emits P (io_event reply e)"
  by (simp add: emits_def)

lemma emits_bind [emits_intros]:
  assumes "emits P m" and "\<And>x. emits P (f x)"
  shows "emits P (io_bind m f)"
proof (rule emitsI)
  fix tr
  obtain r tr' where m: "m tr = (r, tr')" by fastforce
  with assms(1) obtain es where es: "tr' = tr @ es" "list_all P es"
    by (blast dest: emitsD)
  show "\<exists>es. snd (io_bind m f tr) = tr @ es \<and> list_all P es"
  proof (cases r)
    case (Inl e)
    with m es show ?thesis by (simp add: io_bind_def)
  next
    case (Inr x)
    obtain r2 tr2 where f: "f x tr' = (r2, tr2)" by fastforce
    with assms(2) obtain es2 where "tr2 = tr' @ es2" "list_all P es2"
      by (blast dest: emitsD)
    with m es f Inr show ?thesis by (simp add: io_bind_def)
  qed
qed

text \<open>Where the continuation is reached only by values that satisfy \<open>Q\<close>.\<close>

definition returns :: "('a \<Rightarrow> bool) \<Rightarrow> ('e, 'a) io \<Rightarrow> bool" where
  "returns Q m = (\<forall>tr. case fst (m tr) of Inl e \<Rightarrow> True | Inr x \<Rightarrow> Q x)"

lemma returns_lift_iff [simp]: "returns Q (io_lift r) \<longleftrightarrow> (\<forall>x. r = Inr x \<longrightarrow> Q x)"
  by (cases r) (simp_all add: returns_def)

lemma emits_bind_returns:
  assumes "emits P m" and "returns Q m" and "\<And>x. Q x \<Longrightarrow> emits P (f x)"
  shows "emits P (io_bind m f)"
proof (rule emitsI)
  fix tr
  obtain r tr' where m: "m tr = (r, tr')" by fastforce
  with assms(1) obtain es where es: "tr' = tr @ es" "list_all P es"
    by (blast dest: emitsD)
  show "\<exists>es. snd (io_bind m f tr) = tr @ es \<and> list_all P es"
  proof (cases r)
    case (Inl e)
    with m es show ?thesis by (simp add: io_bind_def)
  next
    case (Inr x)
    with m assms(2) have "Q x" unfolding returns_def by (metis fst_conv sum.simps(6))
    obtain r2 tr2 where f: "f x tr' = (r2, tr2)" by fastforce
    with assms(3) [OF \<open>Q x\<close>] obtain es2 where "tr2 = tr' @ es2" "list_all P es2"
      by (blast dest: emitsD)
    with m es f Inr show ?thesis by (simp add: io_bind_def)
  qed
qed

lemma emits_try [emits_intros]:
  assumes "emits P m" and "\<And>e. emits P (h e)"
  shows "emits P (io_try m h)"
proof (rule emitsI)
  fix tr
  obtain r tr' where m: "m tr = (r, tr')" by fastforce
  with assms(1) obtain es where es: "tr' = tr @ es" "list_all P es"
    by (blast dest: emitsD)
  show "\<exists>es. snd (io_try m h tr) = tr @ es \<and> list_all P es"
  proof (cases r)
    case (Inr x)
    with m es show ?thesis by (simp add: io_try_def)
  next
    case (Inl e)
    obtain r2 tr2 where h: "h e tr' = (r2, tr2)" by fastforce
    with assms(2) obtain es2 where "tr2 = tr' @ es2" "list_all P es2"
      by (blast dest: emitsD)
    with m es h Inl show ?thesis by (simp add: io_try_def)
  qed
qed

lemma emits_map [emits_intros]: "(\<And>x. emits P (f x)) \<Longrightarrow> emits P (io_map f xs)"
  by (induction xs) (auto intro: emits_intros)

lemma emits_mono: "emits P m \<Longrightarrow> (\<And>e. P e \<Longrightarrow> Q e) \<Longrightarrow> emits Q m"
  unfolding emits_def by (metis list.pred_mono_strong)

lemma emits_if [emits_intros]: "(b \<Longrightarrow> emits P m) \<Longrightarrow> (\<not> b \<Longrightarrow> emits P n) \<Longrightarrow> emits P (if b then m else n)"
  by simp

lemma emits_option [emits_intros]:
  "(x = None \<Longrightarrow> emits P m) \<Longrightarrow> (\<And>y. x = Some y \<Longrightarrow> emits P (f y)) \<Longrightarrow>
   emits P (case x of None \<Rightarrow> m | Some y \<Rightarrow> f y)"
  by (cases x) simp_all

lemma emits_let [emits_intros]: "emits P (f x) \<Longrightarrow> emits P (let y = x in f y)"
  by simp

section \<open>Generic lemmas on lists\<close>

lemma list_all_dropWhile: "list_all P xs \<Longrightarrow> list_all P (dropWhile Q xs)"
  by (induction xs) auto

lemma set_dropWhile_subset: "set (dropWhile P xs) \<subseteq> set xs"
  by (induction xs) auto

lemma dropWhile_id: "(xs = [] \<or> \<not> P (hd xs)) \<Longrightarrow> dropWhile P xs = xs"
  by (cases xs) auto

lemma hd_dropWhile_not: "dropWhile P xs \<noteq> [] \<Longrightarrow> \<not> P (hd (dropWhile P xs))"
  by (induction xs) auto

lemma sublist_singleton: "sublist [c] xs \<longleftrightarrow> c \<in> set xs"
  by (metis in_set_conv_decomp sublist_def append_Cons append_Nil set_mono_sublist
      list.set_intros(1) subset_iff)

lemma map_of_map_fst_eq: "map fst xs = map fst ys \<Longrightarrow> dom (map_of xs) = dom (map_of ys)"
  by (simp add: dom_map_of_conv_image_fst) (metis list.set_map)

section \<open>Stable sorting\<close>

text \<open>\<^verbatim>\<open>Array.sort\<close> is stable: an element stays before those it does not compare above.\<close>

fun insert_by :: "('a \<Rightarrow> 'a \<Rightarrow> int) \<Rightarrow> 'a \<Rightarrow> 'a list \<Rightarrow> 'a list" where
  "insert_by cmp x [] = [x]"
| "insert_by cmp x (y # ys) = (if cmp x y \<le> 0 then x # y # ys else y # insert_by cmp x ys)"

definition sort_by :: "('a \<Rightarrow> 'a \<Rightarrow> int) \<Rightarrow> 'a list \<Rightarrow> 'a list" where
  "sort_by cmp xs = foldr (insert_by cmp) xs []"

lemma set_insert_by [simp]: "set (insert_by cmp x ys) = insert x (set ys)"
  by (induction ys) auto

lemma set_sort_by [simp]: "set (sort_by cmp xs) = set xs"
  unfolding sort_by_def by (induction xs) simp_all

lemma length_insert_by [simp]: "length (insert_by cmp x ys) = Suc (length ys)"
  by (induction ys) auto

lemma length_sort_by [simp]: "length (sort_by cmp xs) = length xs"
  unfolding sort_by_def by (induction xs) simp_all

end
