(* ===== verification/JsPrim.thy ===== *)
theory JsPrim
  imports Complex_Main Prelude "HOL-Library.Log_Nat"
begin

text \<open>
  JavaScript strings and numbers, as far as the components use them.

  \<^item> A string is a list of 8-bit code units, so the theory covers Latin-1 text; \<open>trim\<close> and
    \<open>toLowerCase\<close> treat code units 0 to 255 as ECMAScript does.
  \<^item> A number is \<open>NaN\<close>, an infinity, or the rational value of a double. \<open>to_double\<close> rounds a
    rational to the nearest double, ties to even; the two zeros are one value, since no
    component tells them apart. \<open>num_to_string\<close> is \<^verbatim>\<open>String(n)\<close> and \<open>str_to_number\<close> is
    \<^verbatim>\<open>Number(s)\<close>.
  \<^item> The lemmas are the ones the validators need: \<open>trim\<close> is idempotent, decimal notation of a
    natural reads back, and integers below \<open>2^53\<close> survive rounding.
\<close>

section \<open>Strings\<close>

abbreviation code :: "char \<Rightarrow> nat" where
  "code c \<equiv> of_char c"

definition is_digit :: "char \<Rightarrow> bool" where
  "is_digit c \<longleftrightarrow> 48 \<le> code c \<and> code c \<le> 57"

definition is_upper :: "char \<Rightarrow> bool" where
  "is_upper c \<longleftrightarrow> 65 \<le> code c \<and> code c \<le> 90"

definition is_lower :: "char \<Rightarrow> bool" where
  "is_lower c \<longleftrightarrow> 97 \<le> code c \<and> code c \<le> 122"

definition is_alpha :: "char \<Rightarrow> bool" where
  "is_alpha c \<longleftrightarrow> is_upper c \<or> is_lower c"

definition is_alnum :: "char \<Rightarrow> bool" where
  "is_alnum c \<longleftrightarrow> is_alpha c \<or> is_digit c"

definition is_hex :: "char \<Rightarrow> bool" where
  "is_hex c \<longleftrightarrow> is_digit c \<or> (97 \<le> code c \<and> code c \<le> 102) \<or> (65 \<le> code c \<and> code c \<le> 70)"

text \<open>\<^verbatim>\<open>\w\<close>, the word characters of \<^verbatim>\<open>\b\<close>.\<close>

definition is_word :: "char \<Rightarrow> bool" where
  "is_word c \<longleftrightarrow> is_alnum c \<or> c = CHR ''_''"

text \<open>WhiteSpace and LineTerminator code units, the class \<^verbatim>\<open>\s\<close>.\<close>

definition is_ws :: "char \<Rightarrow> bool" where
  "is_ws c \<longleftrightarrow> (9 \<le> code c \<and> code c \<le> 13) \<or> code c = 32 \<or> code c = 160"

definition trim :: "string \<Rightarrow> string" where
  "trim s = rev (dropWhile is_ws (rev (dropWhile is_ws s)))"

definition lower_char :: "char \<Rightarrow> char" where
  "lower_char c =
     (if (65 \<le> code c \<and> code c \<le> 90) \<or> (192 \<le> code c \<and> code c \<le> 222 \<and> code c \<noteq> 215)
      then char_of (code c + 32) else c)"

abbreviation toLowerCase :: "string \<Rightarrow> string" where
  "toLowerCase s \<equiv> map lower_char s"

abbreviation startsWith :: "string \<Rightarrow> string \<Rightarrow> bool" where
  "startsWith s p \<equiv> prefix p s"

abbreviation endsWith :: "string \<Rightarrow> string \<Rightarrow> bool" where
  "endsWith s p \<equiv> suffix p s"

abbreviation includes_str :: "string \<Rightarrow> string \<Rightarrow> bool" where
  "includes_str s p \<equiv> sublist p s"

abbreviation replaceChar :: "char \<Rightarrow> char \<Rightarrow> string \<Rightarrow> string" where
  "replaceChar a b s \<equiv> map (\<lambda>c. if c = a then b else c) s"

abbreviation removeChar :: "char \<Rightarrow> string \<Rightarrow> string" where
  "removeChar a s \<equiv> filter (\<lambda>c. c \<noteq> a) s"

fun join :: "string \<Rightarrow> string list \<Rightarrow> string" where
  "join sep [] = []"
| "join sep [x] = x"
| "join sep (x # xs) = x @ sep @ join sep xs"

text \<open>\<^verbatim>\<open>indexOf\<close> and \<^verbatim>\<open>lastIndexOf\<close> of one character; \<open>None\<close> is \<open>-1\<close>.\<close>

fun indexOf :: "char \<Rightarrow> string \<Rightarrow> nat option" where
  "indexOf c [] = None"
| "indexOf c (x # xs) = (if x = c then Some 0 else map_option Suc (indexOf c xs))"

fun lastIndexOf :: "char \<Rightarrow> string \<Rightarrow> nat option" where
  "lastIndexOf c [] = None"
| "lastIndexOf c (x # xs) =
     (case lastIndexOf c xs of Some i \<Rightarrow> Some (Suc i) | None \<Rightarrow> if x = c then Some 0 else None)"

subsection \<open>Lemmas on strings\<close>

lemma trim_Nil [simp]: "trim [] = []"
  by (simp add: trim_def)

lemma hd_trim: "trim s \<noteq> [] \<Longrightarrow> \<not> is_ws (hd (trim s))"
proof -
  assume ne: "trim s \<noteq> []"
  let ?d = "dropWhile is_ws s"
  have dne: "?d \<noteq> []"
  proof
    assume "?d = []"
    then have "trim s = []" unfolding trim_def by (simp only: rev.simps dropWhile.simps)
    with ne show False by simp
  qed
  obtain ys where ys: "rev ?d = ys @ dropWhile is_ws (rev ?d)"
    by (metis takeWhile_dropWhile_id)
  then have "?d = trim s @ rev ys"
    by (simp add: trim_def) (metis rev_append rev_rev_ident)
  with ne have "hd (trim s) = hd ?d" by (metis hd_append2)
  then show ?thesis using hd_dropWhile_not [OF dne] by simp
qed

lemma last_trim: "trim s \<noteq> [] \<Longrightarrow> \<not> is_ws (last (trim s))"
  unfolding trim_def by (metis hd_dropWhile_not last_rev rev.simps(1) rev_is_Nil_conv)

lemma trim_id: "s = [] \<or> (\<not> is_ws (hd s) \<and> \<not> is_ws (last s)) \<Longrightarrow> trim s = s"
proof (cases "s = []")
  case False
  assume "s = [] \<or> (\<not> is_ws (hd s) \<and> \<not> is_ws (last s))"
  with False have "dropWhile is_ws s = s" "dropWhile is_ws (rev s) = rev s"
    by (auto intro!: dropWhile_id simp: hd_rev)
  then show ?thesis by (simp add: trim_def)
qed simp

lemma trim_trim [simp]: "trim (trim s) = trim s"
  using hd_trim last_trim trim_id by blast

lemma set_trim_subset: "set (trim s) \<subseteq> set s"
proof -
  have "set (trim s) = set (dropWhile is_ws (rev (dropWhile is_ws s)))" by (simp add: trim_def)
  also have "\<dots> \<subseteq> set (dropWhile is_ws s)"
    by (metis set_dropWhile_subset set_rev)
  also have "\<dots> \<subseteq> set s" by (rule set_dropWhile_subset)
  finally show ?thesis .
qed

lemma trim_no_ws: "list_all (\<lambda>c. \<not> is_ws c) s \<Longrightarrow> trim s = s"
  by (rule trim_id) (cases s, auto simp: list_all_iff)

lemma lower_lower [simp]: "lower_char (lower_char c) = lower_char c"
proof -
  have "code c < 256" by simp
  then show ?thesis by (auto simp: lower_char_def of_char_of)
qed

lemma lower_char_Cons_comp [simp]: "lower_char \<circ> lower_char = lower_char"
  by (rule ext) simp

lemma lower_char_id: "\<not> is_upper c \<Longrightarrow> code c < 128 \<Longrightarrow> lower_char c = c"
  by (auto simp: lower_char_def is_upper_def)

lemma is_hex_lower: "is_hex c \<Longrightarrow> is_hex (lower_char c) \<and> \<not> is_upper (lower_char c)"
  by (auto simp: is_hex_def is_digit_def is_upper_def lower_char_def of_char_of)

lemma alnum_not_ws: "is_alnum c \<Longrightarrow> \<not> is_ws c"
  by (auto simp: is_alnum_def is_alpha_def is_upper_def is_lower_def is_digit_def is_ws_def)

lemma hex_alnum: "is_hex c \<Longrightarrow> is_alnum c"
  by (auto simp: is_alnum_def is_alpha_def is_upper_def is_lower_def is_digit_def is_hex_def)

text \<open>Evaluation of character classes and case mapping on concrete characters.\<close>

lemmas char_eval = lower_char_def is_ws_def is_digit_def is_upper_def is_lower_def is_alpha_def
  is_alnum_def is_hex_def is_word_def char_of_def bit_0

text \<open>The same classes on the bits of a character: the code equations, which need no arithmetic.\<close>

lemma is_digit_code [code]:
  "is_digit (Char b0 b1 b2 b3 b4 b5 b6 b7) \<longleftrightarrow> \<not> b7 \<and> \<not> b6 \<and> b5 \<and> b4 \<and> \<not> (b3 \<and> (b2 \<or> b1))"
  by (cases b0; cases b1; cases b2; cases b3; cases b4; cases b5; cases b6; cases b7; simp add: is_digit_def)

lemma is_upper_code [code]:
  "is_upper (Char b0 b1 b2 b3 b4 b5 b6 b7) \<longleftrightarrow>
     \<not> b7 \<and> b6 \<and> \<not> b5 \<and> (b0 \<or> b1 \<or> b2 \<or> b3 \<or> b4) \<and> \<not> (b4 \<and> b3 \<and> (b2 \<or> b1 \<and> b0))"
  by (cases b0; cases b1; cases b2; cases b3; cases b4; cases b5; cases b6; cases b7; simp add: is_upper_def)

lemma is_lower_code [code]:
  "is_lower (Char b0 b1 b2 b3 b4 b5 b6 b7) \<longleftrightarrow>
     \<not> b7 \<and> b6 \<and> b5 \<and> (b0 \<or> b1 \<or> b2 \<or> b3 \<or> b4) \<and> \<not> (b4 \<and> b3 \<and> (b2 \<or> b1 \<and> b0))"
  by (cases b0; cases b1; cases b2; cases b3; cases b4; cases b5; cases b6; cases b7; simp add: is_lower_def)

lemma is_hex_code [code]:
  "is_hex (Char b0 b1 b2 b3 b4 b5 b6 b7) \<longleftrightarrow>
     \<not> b7 \<and> (if b6 then \<not> b4 \<and> \<not> b3 \<and> (b0 \<or> b1 \<or> b2) \<and> \<not> (b2 \<and> b1 \<and> b0)
             else b5 \<and> b4 \<and> \<not> (b3 \<and> (b2 \<or> b1)))"
  by (cases b0; cases b1; cases b2; cases b3; cases b4; cases b5; cases b6; cases b7;
      simp add: is_hex_def is_digit_def)

lemma is_ws_code [code]:
  "is_ws (Char b0 b1 b2 b3 b4 b5 b6 b7) \<longleftrightarrow>
     \<not> b6 \<and> \<not> b4 \<and>
     (if b5 then \<not> b3 \<and> \<not> b2 \<and> \<not> b1 \<and> \<not> b0
      else \<not> b7 \<and> b3 \<and> (b0 \<or> b1 \<or> b2) \<and> \<not> (b2 \<and> b1))"
  by (cases b0; cases b1; cases b2; cases b3; cases b4; cases b5; cases b6; cases b7; simp add: is_ws_def)

lemma lower_char_code [code]:
  "lower_char (Char b0 b1 b2 b3 b4 b5 b6 b7) =
     (if is_upper (Char b0 b1 b2 b3 b4 b5 b6 b7) \<or>
         (b7 \<and> b6 \<and> \<not> b5 \<and> \<not> (b4 \<and> b2 \<and> b1 \<and> b0))
      then Char b0 b1 b2 b3 b4 True b6 b7 else Char b0 b1 b2 b3 b4 b5 b6 b7)"
  by (cases b0; cases b1; cases b2; cases b3; cases b4; cases b5; cases b6; cases b7;
      simp add: lower_char_def is_upper_def char_of_def bit_0)

lemma indexOf_None: "indexOf c s = None \<longleftrightarrow> c \<notin> set s"
  by (induction s) auto

lemma indexOf_Some: "indexOf c s = Some i \<Longrightarrow> i < length s \<and> s ! i = c \<and> c \<notin> set (take i s)"
  by (induction s arbitrary: i) (auto split: if_splits)

lemma lastIndexOf_None: "lastIndexOf c s = None \<longleftrightarrow> c \<notin> set s"
  by (induction s) (auto split: option.splits)

lemma lastIndexOf_Some:
  "lastIndexOf c s = Some i \<Longrightarrow> i < length s \<and> s ! i = c \<and> c \<notin> set (drop (Suc i) s)"
proof (induction s arbitrary: i)
  case Nil
  then show ?case by simp
next
  case (Cons x xs)
  show ?case
  proof (cases "lastIndexOf c xs")
    case None
    with Cons.prems have "i = 0" "x = c" by (auto split: if_splits)
    with None show ?thesis by (simp add: lastIndexOf_None)
  next
    case (Some j)
    with Cons.prems have "i = Suc j" by simp
    with Cons.IH [OF Some] show ?thesis by simp
  qed
qed

lemma lastIndexOf_append:
  "c \<notin> set q \<Longrightarrow> lastIndexOf c (p @ c # q) = Some (length p)"
  by (induction p) (simp_all add: lastIndexOf_None [THEN iffD2])

section \<open>Numbers\<close>

subsection \<open>Decimal notation of naturals\<close>

fun show_nat :: "nat \<Rightarrow> string" where
  "show_nat n = (if n < 10 then [char_of (48 + n)] else show_nat (n div 10) @ [char_of (48 + n mod 10)])"

declare show_nat.simps [simp del]

definition read_nat :: "string \<Rightarrow> nat" where
  "read_nat s = foldl (\<lambda>a c. 10 * a + (code c - 48)) 0 s"

lemma show_nat_small: "n < 10 \<Longrightarrow> show_nat n = [char_of (48 + n)]"
  by (subst show_nat.simps) simp

lemma show_nat_large: "10 \<le> n \<Longrightarrow> show_nat n = show_nat (n div 10) @ [char_of (48 + n mod 10)]"
  by (subst show_nat.simps) simp

lemma code_digit: "(d::nat) < 10 \<Longrightarrow> code (char_of (48 + d)) = 48 + d"
  by (simp add: of_char_of)

lemma is_digit_char_of: "(d::nat) < 10 \<Longrightarrow> is_digit (char_of (48 + d))"
  by (simp add: is_digit_def code_digit)

lemma show_nat_nonempty [simp]: "show_nat n \<noteq> []"
  by (subst show_nat.simps) simp

lemma show_nat_digits: "list_all is_digit (show_nat n)"
proof (induction n rule: show_nat.induct)
  case (1 n)
  show ?case
  proof (cases "n < 10")
    case True
    then show ?thesis by (simp add: show_nat_small is_digit_char_of)
  next
    case False
    with "1" show ?thesis by (simp add: show_nat_large is_digit_char_of)
  qed
qed

lemma read_nat_snoc: "read_nat (s @ [c]) = 10 * read_nat s + (code c - 48)"
  by (simp add: read_nat_def)

lemma read_show_nat [simp]: "read_nat (show_nat n) = n"
proof (induction n rule: show_nat.induct)
  case (1 n)
  show ?case
  proof (cases "n < 10")
    case True
    then show ?thesis by (simp add: show_nat_small read_nat_def code_digit)
  next
    case False
    with "1" show ?thesis
      by (simp add: show_nat_large read_nat_snoc code_digit)
  qed
qed

subsection \<open>Doubles\<close>

datatype jsnum = NaN | PInf | NInf | Fin rat

definition pow2 :: "int \<Rightarrow> rat" where
  "pow2 e = (if 0 \<le> e then 2 ^ nat e else 1 / 2 ^ nat (- e))"

definition pow10 :: "int \<Rightarrow> rat" where
  "pow10 e = (if 0 \<le> e then 10 ^ nat e else 1 / 10 ^ nat (- e))"

text \<open>The exponent of the unit in the last place of a nonzero number.\<close>

definition ulp_exp :: "rat \<Rightarrow> int" where
  "ulp_exp q =
     (let (a, b) = quotient_of \<bar>q\<bar>; d = bitlen a - bitlen b;
          e = (if pow2 d \<le> \<bar>q\<bar> then d else d - 1)
      in max (e - 52) (- 1074))"

definition round_even :: "rat \<Rightarrow> int" where
  "round_even q =
     (let f = \<lfloor>q\<rfloor>; r = q - of_int f
      in if r < 1 / 2 then f else if 1 / 2 < r then f + 1 else if even f then f else f + 1)"

text \<open>The least power of two beyond the largest double.\<close>

definition double_limit :: rat where
  "double_limit = 2 ^ 1024"

definition to_double :: "rat \<Rightarrow> jsnum" where
  "to_double q =
     (if q = 0 then Fin 0
      else let u = pow2 (ulp_exp q); v = of_int (round_even (q / u)) * u
           in if double_limit \<le> \<bar>v\<bar> then (if 0 < v then PInf else NInf) else Fin v)"

fun isFinite :: "jsnum \<Rightarrow> bool" where
  "isFinite (Fin q) = True"
| "isFinite _ = False"

fun isInteger :: "jsnum \<Rightarrow> bool" where
  "isInteger (Fin q) = (of_int \<lfloor>q\<rfloor> = q)"
| "isInteger _ = False"

text \<open>\<^verbatim>\<open>Number::toString\<close>: the shortest decimal that rounds to the number.\<close>

definition dec_exp :: "rat \<Rightarrow> int" where
  "dec_exp x =
     (let (a, b) = quotient_of x;
          d = int (length (show_nat (nat a))) - int (length (show_nat (nat b)))
      in if pow10 d \<le> x then d + 1 else d)"

definition shortest :: "rat \<Rightarrow> nat \<times> int" where
  "shortest x =
     (let n = dec_exp x;
          cand = (\<lambda>k. nat \<lfloor>x * pow10 (int k - n) + 1 / 2\<rfloor>);
          good = (\<lambda>k. to_double (of_nat (cand k) * pow10 (n - int k)) = Fin x);
          k = (case find good [1..<18] of Some k \<Rightarrow> k | None \<Rightarrow> 17)
      in if cand k = 10 ^ k then (1, n + 1) else (cand k, n))"

definition format_digits :: "string \<Rightarrow> int \<Rightarrow> string" where
  "format_digits d n =
     (let k = int (length d) in
      if k \<le> n \<and> n \<le> 21 then d @ replicate (nat (n - k)) CHR ''0''
      else if 0 < n \<and> n \<le> 21 then take (nat n) d @ ''.'' @ drop (nat n) d
      else if - 6 < n \<and> n \<le> 0 then ''0.'' @ replicate (nat (- n)) CHR ''0'' @ d
      else (if k = 1 then d else take 1 d @ ''.'' @ drop 1 d)
           @ ''e'' @ (if 0 < n then ''+'' else ''-'') @ show_nat (nat \<bar>n - 1\<bar>))"

definition pos_to_string :: "rat \<Rightarrow> string" where
  "pos_to_string x =
     (if of_int \<lfloor>x\<rfloor> = x \<and> x < 2 ^ 53 then show_nat (nat \<lfloor>x\<rfloor>)
      else case shortest x of (s, n) \<Rightarrow> format_digits (show_nat s) n)"

fun num_to_string :: "jsnum \<Rightarrow> string" where
  "num_to_string NaN = ''NaN''"
| "num_to_string PInf = ''Infinity''"
| "num_to_string NInf = ''-Infinity''"
| "num_to_string (Fin q) = (if q < 0 then ''-'' @ pos_to_string (- q) else pos_to_string q)"

text \<open>\<^verbatim>\<open>StringToNumber\<close>: an unsigned decimal literal, then signs, radix prefixes and infinities.\<close>

definition exponent_part :: "string \<Rightarrow> int option" where
  "exponent_part r =
     (let (neg, ds) = (case r of [] \<Rightarrow> (False, []) | c # cs \<Rightarrow>
            if c = CHR ''-'' then (True, cs) else if c = CHR ''+'' then (False, cs) else (False, r))
      in if ds \<noteq> [] \<and> list_all is_digit ds
         then Some (if neg then - int (read_nat ds) else int (read_nat ds)) else None)"

definition unsigned_decimal :: "string \<Rightarrow> rat option" where
  "unsigned_decimal s =
     (let ip = takeWhile is_digit s; r1 = dropWhile is_digit s;
          dot = (r1 \<noteq> [] \<and> hd r1 = CHR ''.'');
          fp = (if dot then takeWhile is_digit (tl r1) else []);
          r2 = (if dot then dropWhile is_digit (tl r1) else r1);
          mant = of_nat (read_nat (ip @ fp)) / 10 ^ length fp
      in if ip = [] \<and> fp = [] then None
         else if r2 = [] then Some mant
         else if hd r2 = CHR ''e'' \<or> hd r2 = CHR ''E''
              then map_option (\<lambda>e. mant * pow10 e) (exponent_part (tl r2))
         else None)"

definition hex_value :: "char \<Rightarrow> nat" where
  "hex_value c = (if is_digit c then code c - 48 else if is_upper c then code c - 55 else code c - 87)"

definition radix_literal :: "nat \<Rightarrow> string \<Rightarrow> rat option" where
  "radix_literal b ds =
     (if ds \<noteq> [] \<and> list_all (\<lambda>c. is_hex c \<and> hex_value c < b) ds
      then Some (of_nat (foldl (\<lambda>a c. b * a + hex_value c) 0 ds)) else None)"

definition str_to_number :: "string \<Rightarrow> jsnum" where
  "str_to_number s =
     (let t = trim s; lit = (\<lambda>r. case r of None \<Rightarrow> NaN | Some q \<Rightarrow> to_double q) in
      if t = [] then Fin 0
      else if t = ''Infinity'' \<or> t = ''+Infinity'' then PInf
      else if t = ''-Infinity'' then NInf
      else if take 2 t = ''0x'' \<or> take 2 t = ''0X'' then lit (radix_literal 16 (drop 2 t))
      else if take 2 t = ''0o'' \<or> take 2 t = ''0O'' then lit (radix_literal 8 (drop 2 t))
      else if take 2 t = ''0b'' \<or> take 2 t = ''0B'' then lit (radix_literal 2 (drop 2 t))
      else if hd t = CHR ''-'' then lit (map_option uminus (unsigned_decimal (tl t)))
      else if hd t = CHR ''+'' then lit (unsigned_decimal (tl t))
      else lit (unsigned_decimal t))"

subsection \<open>Safe integers\<close>

lemma bitlen_le: "0 \<le> a \<Longrightarrow> a < 2 ^ k \<Longrightarrow> bitlen a \<le> int k"
  by (simp add: bitlen_le_iff_power)

lemma round_even_of_int [simp]: "round_even (of_int n) = n"
  by (simp add: round_even_def)

lemma pow2_nonpos: "e \<le> 0 \<Longrightarrow> \<exists>k. pow2 e = 1 / 2 ^ k"
  by (cases "e = 0") (auto simp: pow2_def intro: exI [of _ 0])

lemma ulp_exp_safe: "\<bar>n\<bar> < 2 ^ 53 \<Longrightarrow> ulp_exp (of_int n) \<le> 0"
proof -
  assume n: "\<bar>n\<bar> < 2 ^ 53"
  have q: "quotient_of \<bar>of_int n\<bar> = (\<bar>n\<bar>, 1)"
    by (metis of_int_abs quotient_of_rat_of_int)
  have "bitlen \<bar>n\<bar> \<le> 53" using bitlen_le [of "\<bar>n\<bar>" 53] n by simp
  moreover have "bitlen (1::int) = 1" by (simp add: bitlen_def floorlog_def)
  ultimately show ?thesis by (simp add: ulp_exp_def q Let_def)
qed

text \<open>Integers below \<open>2^53\<close> in absolute value are doubles: rounding leaves them alone.\<close>

lemma to_double_safe:
  assumes "\<bar>n\<bar> < 2 ^ 53"
  shows "to_double (of_int n) = Fin (of_int n)"
proof -
  obtain k where k: "pow2 (ulp_exp (of_int n)) = 1 / 2 ^ k"
    using pow2_nonpos [OF ulp_exp_safe [OF assms]] by blast
  have "of_int n * 2 ^ k = (of_int (n * 2 ^ k) :: rat)" by simp
  then have r: "round_even (of_int n * 2 ^ k) = n * 2 ^ k"
    by (simp only: round_even_of_int)
  have "(2::rat) ^ 53 < double_limit"
    unfolding double_limit_def by (rule power_strict_increasing) simp_all
  moreover have "\<bar>of_int n :: rat\<bar> < 2 ^ 53"
    using assms by (metis of_int_abs of_int_less_iff of_int_numeral of_int_power)
  ultimately have "\<not> double_limit \<le> \<bar>of_int n\<bar>" by linarith
  then show ?thesis by (simp add: to_double_def k r Let_def)
qed

subsection \<open>Rounding large numbers\<close>

lemma pow2_powi: "pow2 e = 2 powi e"
  by (simp add: pow2_def power_int_def inverse_eq_divide power_one_over)

lemma pow2_pos [simp]: "0 < pow2 e"
  by (simp add: pow2_powi)

lemma pow2_nonneg [simp]: "0 \<le> pow2 e"
  by (simp add: pow2_powi)

lemma pow2_nonzero [simp]: "pow2 e \<noteq> 0"
  by (simp add: pow2_powi)

lemma round_even_ge: "q - 1 / 2 \<le> of_int (round_even q)"
proof -
  have "of_int \<lfloor>q\<rfloor> \<le> q" "q < of_int \<lfloor>q\<rfloor> + 1" by linarith+
  then show ?thesis by (simp add: round_even_def Let_def)
qed

lemma bitlen_quotient:
  assumes "1 \<le> q" and "quotient_of q = (a, b)"
  shows "pow2 (bitlen a - bitlen b - 1) \<le> q" and "bitlen b \<le> bitlen a"
proof -
  have b: "0 < b" using assms(2) by (rule quotient_of_denom_pos)
  have q: "q = of_int a / of_int b" using assms(2) by (rule quotient_of_div)
  with assms(1) b have ab: "b \<le> a" by (simp add: divide_simps)
  with b have a: "0 < a" by simp
  have la: "2 ^ nat (bitlen a - 1) \<le> a" and lb: "b < 2 ^ nat (bitlen b)"
    using bitlen_bounds a b by blast+
  have "1 \<le> bitlen a" using a bitlen_eq_zero_iff [of a] bitlen_nonneg [of a] by linarith
  then have pa: "(2::rat) powi (bitlen a - 1) \<le> of_int a"
    using la by (simp add: power_int_def)
  have pb: "of_int b \<le> (2::rat) powi (bitlen b)"
    using lb bitlen_nonneg [of b]
    by (simp add: power_int_def)
  have "pow2 (bitlen a - bitlen b - 1) = 2 powi (bitlen a - 1) / 2 powi (bitlen b)"
    by (simp add: pow2_powi power_int_diff [symmetric] algebra_simps)
  also have "\<dots> \<le> of_int a / of_int b"
    using pa pb b a by (intro frac_le) simp_all
  finally show "pow2 (bitlen a - bitlen b - 1) \<le> q" by (simp add: q)
  show "bitlen b \<le> bitlen a"
  proof (rule ccontr)
    assume "\<not> bitlen b \<le> bitlen a"
    then have "nat (bitlen a) \<le> nat (bitlen b - 1)" by simp
    then have "(2::int) ^ nat (bitlen a) \<le> 2 ^ nat (bitlen b - 1)" by (rule power_increasing) simp
    moreover have "a < 2 ^ nat (bitlen a)" "2 ^ nat (bitlen b - 1) \<le> b"
      using bitlen_bounds a b by blast+
    ultimately show False using ab by linarith
  qed
qed

lemma ulp_small:
  assumes "1 \<le> q"
  shows "pow2 (ulp_exp q) \<le> q"
proof -
  obtain a b where ab: "quotient_of q = (a, b)" by fastforce
  let ?d = "bitlen a - bitlen b"
  let ?e = "if pow2 ?d \<le> q then ?d else ?d - 1"
  note bl = bitlen_quotient [OF assms ab]
  have e: "pow2 ?e \<le> q" using bl(1) by auto
  have "- 1 \<le> ?e" using bl(2) by simp
  then have "ulp_exp q = ?e - 52" using assms ab by (simp add: ulp_exp_def Let_def)
  moreover have "pow2 (?e - 52) \<le> pow2 ?e"
    unfolding pow2_powi by (rule power_int_increasing) simp_all
  ultimately show ?thesis using e by simp
qed

text \<open>Rounding a number that is at least 1 never halves it.\<close>

lemma to_double_ge_half:
  assumes "1 \<le> q"
  shows "to_double q = PInf \<or> (\<exists>v. to_double q = Fin v \<and> q / 2 \<le> v)"
proof -
  let ?u = "pow2 (ulp_exp q)"
  let ?v = "of_int (round_even (q / ?u)) * ?u"
  have "(q / ?u - 1 / 2) * ?u \<le> ?v"
    using round_even_ge [of "q / ?u"] by (intro mult_right_mono) simp_all
  moreover have "(q / ?u - 1 / 2) * ?u = q - ?u / 2"
    using pow2_pos [of "ulp_exp q"] by (simp add: left_diff_distrib)
  ultimately have "q / 2 \<le> ?v" using ulp_small [OF assms] by linarith
  moreover have "0 < ?v" using calculation assms by linarith
  ultimately show ?thesis using assms by (auto simp: to_double_def Let_def)
qed

text \<open>A decimal string of digits alone is read as the natural it denotes, rounded.\<close>

lemma str_to_number_digits:
  assumes "list_all is_digit ds" and "ds \<noteq> []"
  shows "str_to_number ds = to_double (of_nat (read_nat ds))"
proof -
  have nws: "list_all (\<lambda>c. \<not> is_ws c) ds"
    using assms(1) by (auto simp: list_all_iff is_digit_def is_ws_def)
  have tw: "takeWhile is_digit ds = ds" and dw: "dropWhile is_digit ds = []"
    using assms(1) by (simp_all add: list_all_iff)
  have u: "unsigned_decimal ds = Some (of_nat (read_nat ds))"
    unfolding unsigned_decimal_def tw dw using assms(2) by simp
  obtain c cs where ds: "ds = c # cs" using assms(2) by (cases ds) auto
  with assms(1) have c: "is_digit c" by simp
  have second: "d \<in> set cs \<Longrightarrow> is_digit d" for d using assms(1) ds by (simp add: list_all_iff)
  have no: "take 2 ds \<noteq> [CHR ''0'', x]" if "\<not> is_digit x" for x
    using that second ds by (cases cs) auto
  have c3: "c \<noteq> CHR ''I''" "c \<noteq> CHR ''+''" "c \<noteq> CHR ''-''"
    using c by (auto simp: is_digit_def)
  have words: "ds \<noteq> ''Infinity''" "ds \<noteq> ''+Infinity''" "ds \<noteq> ''-Infinity''"
    using c3 by (simp_all add: ds)
  have radix: "take 2 ds \<noteq> ''0x''" "take 2 ds \<noteq> ''0X''" "take 2 ds \<noteq> ''0o''"
      "take 2 ds \<noteq> ''0O''" "take 2 ds \<noteq> ''0b''" "take 2 ds \<noteq> ''0B''"
    by (rule no, simp add: is_digit_def)+
  have signs: "hd ds \<noteq> CHR ''-''" "hd ds \<noteq> CHR ''+''" using c3 by (simp_all add: ds)
  show ?thesis
    by (simp only: str_to_number_def Let_def trim_no_ws [OF nws] assms(2) words radix signs u
        option.case if_False de_Morgan_disj simp_thms)
qed

end
