(* ===== verification/JsVal.thy ===== *)
theory JsVal
  imports JsPrim
begin

text \<open>
  JavaScript values and objects.

  An object is an association list in property order, without duplicate keys: \<open>oset\<close> replaces in
  place or inserts where ECMAScript would enumerate the new key (array indices ascending, then
  the other keys in order of creation). A key the object does not own is looked up on
  \<^verbatim>\<open>Object.prototype\<close>, whose members are all truthy: \<open>oget\<close> returns \<open>JFun\<close> for them. Accessors,
  symbols and objects with another prototype do not occur.

  The locale \<open>store\<close> is the contract every client of an object relies on (what a lookup returns
  after a store); it is interpreted on \<open>oget\<close> and \<open>oset\<close>.
\<close>

section \<open>Values\<close>

datatype js =
    JUndef
  | JNull
  | JBool bool
  | JNum jsnum
  | JStr string
  | JArr "js list"
  | JObj "(string \<times> js) list"
  | JFun

type_synonym obj = "(string \<times> js) list"

abbreviation JInt :: "int \<Rightarrow> js" where
  "JInt n \<equiv> JNum (Fin (of_int n))"

fun truthy :: "js \<Rightarrow> bool" where
  "truthy JUndef = False"
| "truthy JNull = False"
| "truthy (JBool b) = b"
| "truthy (JNum n) = (n \<noteq> NaN \<and> n \<noteq> Fin 0)"
| "truthy (JStr s) = (s \<noteq> [])"
| "truthy _ = True"

text \<open>\<^verbatim>\<open>typeof v === "object"\<close> holds of \<^verbatim>\<open>null\<close>, arrays and objects; the source always adds a
  truthiness test, and an \<^verbatim>\<open>Array.isArray\<close> test where it wants a record.\<close>

fun is_object :: "js \<Rightarrow> bool" where
  "is_object (JArr _) = True"
| "is_object (JObj _) = True"
| "is_object _ = False"

fun is_record :: "js \<Rightarrow> bool" where
  "is_record (JObj _) = True"
| "is_record _ = False"

fun is_str :: "js \<Rightarrow> bool" where
  "is_str (JStr _) = True"
| "is_str _ = False"

definition nullish :: "js \<Rightarrow> bool" where
  "nullish v \<longleftrightarrow> v = JUndef \<or> v = JNull"

text \<open>The operator \<^verbatim>\<open>??\<close>.\<close>

definition coalesce :: "js \<Rightarrow> js \<Rightarrow> js" where
  "coalesce v w = (if nullish v then w else v)"

text \<open>The elements of an array, none for any other value (\<^verbatim>\<open>Array.isArray(v) ? v : []\<close>).\<close>

fun arr_items :: "js \<Rightarrow> js list" where
  "arr_items (JArr xs) = xs"
| "arr_items _ = []"

fun is_arr :: "js \<Rightarrow> bool" where
  "is_arr (JArr _) = True"
| "is_arr _ = False"

section \<open>Objects\<close>

definition proto_keys :: "string list" where
  "proto_keys =
     [''constructor'', ''__defineGetter__'', ''__defineSetter__'', ''hasOwnProperty'',
      ''__lookupGetter__'', ''__lookupSetter__'', ''isPrototypeOf'', ''propertyIsEnumerable'',
      ''toString'', ''valueOf'', ''__proto__'', ''toLocaleString'']"

definition oget :: "obj \<Rightarrow> string \<Rightarrow> js" where
  "oget ps k =
     (case map_of ps k of Some v \<Rightarrow> v | None \<Rightarrow> if k \<in> set proto_keys then JFun else JUndef)"

text \<open>Member access on a value: a primitive or an array owns none of the keys the code reads.\<close>

fun jget :: "js \<Rightarrow> string \<Rightarrow> js" where
  "jget (JObj ps) k = oget ps k"
| "jget _ k = JUndef"

fun obj_of :: "js \<Rightarrow> obj" where
  "obj_of (JObj ps) = ps"
| "obj_of _ = []"

definition is_index :: "string \<Rightarrow> bool" where
  "is_index k \<longleftrightarrow> k \<noteq> [] \<and> list_all is_digit k \<and> (k = ''0'' \<or> hd k \<noteq> CHR ''0'') \<and> read_nat k < 4294967295"

fun oinsert :: "string \<Rightarrow> js \<Rightarrow> obj \<Rightarrow> obj" where
  "oinsert k v [] = [(k, v)]"
| "oinsert k v (p # ps) =
     (if is_index k \<and> (\<not> is_index (fst p) \<or> read_nat k < read_nat (fst p))
      then (k, v) # p # ps else p # oinsert k v ps)"

fun oreplace :: "string \<Rightarrow> js \<Rightarrow> obj \<Rightarrow> obj" where
  "oreplace k v [] = []"
| "oreplace k v (p # ps) = (if fst p = k then (k, v) # ps else p # oreplace k v ps)"

definition oset :: "obj \<Rightarrow> string \<Rightarrow> js \<Rightarrow> obj" where
  "oset ps k v = (if k \<in> fst ` set ps then oreplace k v ps else oinsert k v ps)"

text \<open>\<^verbatim>\<open>{...a, ...b}\<close>, and the rest of a destructuring.\<close>

definition spread :: "obj \<Rightarrow> obj \<Rightarrow> obj" where
  "spread a b = foldl (\<lambda>o' p. oset o' (fst p) (snd p)) a b"

definition without :: "string list \<Rightarrow> obj \<Rightarrow> obj" where
  "without ks ps = filter (\<lambda>p. fst p \<notin> set ks) ps"

lemma map_of_oinsert: "k \<notin> fst ` set ps \<Longrightarrow> map_of (oinsert k v ps) = (map_of ps)(k \<mapsto> v)"
  by (induction ps) (auto simp: fun_eq_iff)

lemma map_of_oreplace: "k \<in> fst ` set ps \<Longrightarrow> map_of (oreplace k v ps) = (map_of ps)(k \<mapsto> v)"
proof (induction ps)
  case Nil
  then show ?case by simp
next
  case (Cons p ps)
  show ?case
  proof (cases "fst p = k")
    case True
    then show ?thesis by (simp add: fun_eq_iff)
  next
    case False
    with Cons.prems have "k \<in> fst ` set ps" by auto
    with False Cons.IH show ?thesis by (auto simp: fun_eq_iff)
  qed
qed

lemma map_of_oset: "map_of (oset ps k v) = (map_of ps)(k \<mapsto> v)"
  by (simp add: oset_def map_of_oinsert map_of_oreplace)

lemma oget_oset: "oget (oset ps k v) k' = (if k' = k then v else oget ps k')"
  by (simp add: oget_def map_of_oset)

lemma set_fst_oset [simp]: "fst ` set (oset ps k v) = insert k (fst ` set ps)"
  by (metis dom_fun_upd dom_map_of_conv_image_fst map_of_oset option.distinct(1))

lemma fst_set_oinsert: "fst ` set (oinsert k v ps) = insert k (fst ` set ps)"
  by (induction ps) auto

lemma distinct_oinsert:
  "k \<notin> fst ` set ps \<Longrightarrow> distinct (map fst ps) \<Longrightarrow> distinct (map fst (oinsert k v ps))"
proof (induction ps)
  case Nil
  then show ?case by simp
next
  case (Cons p ps)
  then show ?case using fst_set_oinsert [of k v ps] by auto
qed

lemma map_fst_oreplace: "map fst (oreplace k v ps) = map fst ps"
  by (induction ps) auto

text \<open>Storing keeps keys distinct.\<close>

lemma distinct_oset: "distinct (map fst ps) \<Longrightarrow> distinct (map fst (oset ps k v))"
  by (simp add: oset_def distinct_oinsert map_fst_oreplace)

lemma oget_own: "map_of ps k = Some v \<Longrightarrow> oget ps k = v"
  by (simp add: oget_def)

lemma oget_without: "oget (without ks ps) k = (if k \<in> set ks then oget [] k else oget ps k)"
proof -
  have "map_of (filter (\<lambda>p. fst p \<notin> set ks) ps) k = (if k \<in> set ks then None else map_of ps k)"
    by (induction ps) auto
  then show ?thesis by (simp add: oget_def without_def)
qed

subsection \<open>The contract of an object\<close>

locale store =
  fixes get :: "'s \<Rightarrow> 'k \<Rightarrow> 'v"
    and put :: "'s \<Rightarrow> 'k \<Rightarrow> 'v \<Rightarrow> 's"
  assumes get_put: "get (put s k v) k' = (if k' = k then v else get s k')"
begin

definition put_all :: "'s \<Rightarrow> ('k \<times> 'v) list \<Rightarrow> 's" where
  "put_all s ps = foldl (\<lambda>s' p. put s' (fst p) (snd p)) s ps"

lemma put_all_simps [simp]:
  "put_all s [] = s"
  "put_all s (p # ps) = put_all (put s (fst p) (snd p)) ps"
  by (simp_all add: put_all_def)

lemma put_all_append: "put_all s (ps @ qs) = put_all (put_all s ps) qs"
  by (simp add: put_all_def)

lemma put_all_fresh: "k \<notin> fst ` set ps \<Longrightarrow> get (put_all s ps) k = get s k"
  by (induction ps arbitrary: s) (auto simp: get_put)

lemma put_all_get: "get (put_all s ps) k = (case map_of (rev ps) k of Some v \<Rightarrow> v | None \<Rightarrow> get s k)"
proof (induction ps rule: rev_induct)
  case Nil
  then show ?case by simp
next
  case (snoc p ps)
  then show ?case by (simp add: put_all_append get_put)
qed

text \<open>A guarded store: the pattern \<^verbatim>\<open>if (c(get(k))) put(k, v)\<close>.\<close>

definition put_if :: "('v \<Rightarrow> bool) \<Rightarrow> 's \<Rightarrow> 'k \<Rightarrow> 'v \<Rightarrow> 's" where
  "put_if c s k v = (if c (get s k) then put s k v else s)"

lemma get_put_if: "get (put_if c s k v) k' = (if k' = k \<and> c (get s k) then v else get s k')"
  by (simp add: put_if_def get_put)

lemma put_if_keeps: "\<not> c (get s k') \<Longrightarrow> get (put_if c s k v) k' = get s k'"
  by (auto simp: get_put_if)

end

interpretation js_obj: store oget oset
  by unfold_locales (rule oget_oset)

lemma spread_put_all: "spread = js_obj.put_all"
  by (rule ext)+ (simp add: spread_def js_obj.put_all_def)

lemma oget_spread:
  "oget (spread a b) k = (case map_of (rev b) k of Some v \<Rightarrow> v | None \<Rightarrow> oget a k)"
  unfolding spread_put_all by (rule js_obj.put_all_get)

lemma map_of_rev_distinct: "distinct (map fst ps) \<Longrightarrow> map_of (rev ps) = map_of ps"
  by (subst map_of_inject_set) (simp_all add: rev_map [symmetric])

section \<open>Conversions\<close>

text \<open>\<^verbatim>\<open>String(v)\<close>.\<close>

fun js_string :: "js \<Rightarrow> string" where
  "js_string JUndef = ''undefined''"
| "js_string JNull = ''null''"
| "js_string (JBool b) = (if b then ''true'' else ''false'')"
| "js_string (JNum n) = num_to_string n"
| "js_string (JStr s) = s"
| "js_string (JArr xs) = join '','' (map (\<lambda>x. if nullish x then [] else js_string x) xs)"
| "js_string (JObj ps) = ''[object Object]''"
| "js_string JFun = ''function''"

text \<open>\<^verbatim>\<open>Number(v)\<close>.\<close>

fun js_number :: "js \<Rightarrow> jsnum" where
  "js_number JUndef = NaN"
| "js_number JNull = Fin 0"
| "js_number (JBool b) = Fin (if b then 1 else 0)"
| "js_number (JNum n) = n"
| "js_number (JStr s) = str_to_number s"
| "js_number (JArr xs) = str_to_number (js_string (JArr xs))"
| "js_number _ = NaN"

text \<open>\<^verbatim>\<open>JSON.stringify(v, null, gap)\<close>: \<open>None\<close> where it returns \<^verbatim>\<open>undefined\<close>.\<close>

definition hex_digit :: "nat \<Rightarrow> char" where
  "hex_digit n = (if n < 10 then char_of (48 + n) else char_of (87 + n))"

definition json_escape :: "char \<Rightarrow> string" where
  "json_escape c =
     (if c = CHR 0x22 then [CHR 0x5C, CHR 0x22]
      else if c = CHR 0x5C then [CHR 0x5C, CHR 0x5C]
      else if code c = 8 then [CHR 0x5C, CHR ''b'']
      else if code c = 9 then [CHR 0x5C, CHR ''t'']
      else if code c = 10 then [CHR 0x5C, CHR ''n'']
      else if code c = 12 then [CHR 0x5C, CHR ''f'']
      else if code c = 13 then [CHR 0x5C, CHR ''r'']
      else if code c < 32 then [CHR 0x5C, CHR ''u'', CHR ''0'', CHR ''0'', hex_digit (code c div 16), hex_digit (code c mod 16)]
      else [c])"

definition json_quote :: "string \<Rightarrow> string" where
  "json_quote s = [CHR 0x22] @ concat (map json_escape s) @ [CHR 0x22]"

definition json_block :: "string \<Rightarrow> string \<Rightarrow> char \<Rightarrow> char \<Rightarrow> string list \<Rightarrow> string" where
  "json_block gap ind l r parts =
     (if parts = [] then [l, r]
      else if gap = [] then [l] @ join '','' parts @ [r]
      else [l] @ [CHR 0x0A] @ ind @ gap @ join ('','' @ [CHR 0x0A] @ ind @ gap) parts
           @ [CHR 0x0A] @ ind @ [r])"

fun json :: "string \<Rightarrow> string \<Rightarrow> js \<Rightarrow> string option" where
  "json gap ind JUndef = None"
| "json gap ind JFun = None"
| "json gap ind JNull = Some ''null''"
| "json gap ind (JBool b) = Some (if b then ''true'' else ''false'')"
| "json gap ind (JNum n) = Some (if isFinite n then num_to_string n else ''null'')"
| "json gap ind (JStr s) = Some (json_quote s)"
| "json gap ind (JArr xs) =
     Some (json_block gap ind CHR ''['' CHR '']''
       (map (\<lambda>x. case json gap (ind @ gap) x of None \<Rightarrow> ''null'' | Some t \<Rightarrow> t) xs))"
| "json gap ind (JObj ps) =
     Some (json_block gap ind CHR ''{'' CHR ''}''
       (concat (map (\<lambda>p. case json gap (ind @ gap) (snd p) of
            None \<Rightarrow> []
          | Some t \<Rightarrow> [json_quote (fst p) @ (if gap = [] then '':'' else '': '') @ t]) ps)))"

definition JSON_stringify :: "js \<Rightarrow> string option" where
  "JSON_stringify v = json [] [] v"

definition JSON_pretty :: "js \<Rightarrow> string option" where
  "JSON_pretty v = json ''  '' [] v"

text \<open>The text a stringified value becomes in a template or a protocol string.\<close>

definition json_text :: "js \<Rightarrow> string" where
  "json_text v = (case JSON_stringify v of None \<Rightarrow> ''undefined'' | Some t \<Rightarrow> t)"

end
