(* ===== verification/Names.thy ===== *)
theory Names
  imports JsVal
begin

text \<open>
  \<^verbatim>\<open>kcore-mcp/packages/server/src/names.ts\<close>: the validators every string from an operator passes
  before it is put in a request, and \<open>isBlank\<close>.

  Each regular expression is a predicate on the string. The locale \<open>sanitizer\<close> is the contract
  the request builders rely on: a validator normalises its input, accepts exactly the inputs
  whose normal form is safe, and rejects the others with an \<^verbatim>\<open>InputError\<close>. It is interpreted on
  every validator of the file.
\<close>

section \<open>The regular expressions\<close>

definition name_char :: "char \<Rightarrow> bool" where
  "name_char c \<longleftrightarrow> is_alnum c \<or> c \<in> set ''._-''"

definition NAME :: "string \<Rightarrow> bool" where
  "NAME s = (case s of [] \<Rightarrow> False | c # cs \<Rightarrow> is_alnum c \<and> length cs \<le> 62 \<and> list_all name_char cs)"

definition ADDRESS :: "string \<Rightarrow> bool" where
  "ADDRESS s \<longleftrightarrow> 1 \<le> length s \<and> length s \<le> 253 \<and> list_all (\<lambda>c. is_alnum c \<or> c \<in> set ''._:-'') s"

definition SHA256 :: "string \<Rightarrow> bool" where
  "SHA256 s \<longleftrightarrow> length s = 64 \<and> list_all is_hex s"

definition DISK :: "string \<Rightarrow> bool" where
  "DISK s \<longleftrightarrow> prefix ''/dev/'' s \<and>
     (let r = drop 5 s in 1 \<le> length r \<and> length r \<le> 120 \<and> list_all (\<lambda>c. is_alnum c \<or> c \<in> set ''/_-'') r)"

text \<open>\<^verbatim>\<open>[1-9][0-9]{0,18}\<close>, optionally followed by a unit, letter case ignored.\<close>

definition size_digits :: "string \<Rightarrow> bool" where
  "size_digits ds \<longleftrightarrow> ds \<noteq> [] \<and> length ds \<le> 19 \<and> list_all is_digit ds \<and> hd ds \<noteq> CHR ''0''"

definition size_units :: "string list" where
  "size_units = [[], ''b'', ''k'', ''ki'', ''kb'', ''kib'', ''m'', ''mi'', ''mb'', ''mib'',
     ''g'', ''gi'', ''gb'', ''gib'', ''t'', ''ti'', ''tb'', ''tib'']"

definition SIZE :: "string \<Rightarrow> bool" where
  "SIZE s \<longleftrightarrow> size_digits (takeWhile is_digit s) \<and> toLowerCase (dropWhile is_digit s) \<in> set size_units"

section \<open>The validators\<close>

definition control_char :: "char \<Rightarrow> bool" where
  "control_char c \<longleftrightarrow> code c = 0 \<or> code c = 13 \<or> code c = 10"

lemma control_char_code [code]:
  "control_char (Char b0 b1 b2 b3 b4 b5 b6 b7) \<longleftrightarrow>
     \<not> b7 \<and> \<not> b6 \<and> \<not> b5 \<and> \<not> b4 \<and>
     (if b3 then (b2 \<and> \<not> b1 \<and> b0) \<or> (\<not> b2 \<and> b1 \<and> \<not> b0) else \<not> b2 \<and> \<not> b1 \<and> \<not> b0)"
  by (cases b0; cases b1; cases b2; cases b3; cases b4; cases b5; cases b6; cases b7;
      simp add: control_char_def)

definition rejectControlChars :: "string \<Rightarrow> string \<Rightarrow> unit res" where
  "rejectControlChars value label =
     (if list_ex control_char value
      then Inl (InputError (label @ '' contains a newline or null byte'')) else Inr ())"

definition assertName :: "string \<Rightarrow> string \<Rightarrow> string res" where
  "assertName value label =
     (let trimmed = trim value in
      ebind (rejectControlChars trimmed label) (\<lambda>_.
      if \<not> NAME trimmed
      then Inl (InputError (label @ '' must start with a letter or digit and contain only letters, digits, '.', '_' or '-'' @ [CHR 0x27]))
      else Inr trimmed))"

definition assertAddress :: "string \<Rightarrow> string \<Rightarrow> string res" where
  "assertAddress value label =
     (let trimmed = trim value in
      ebind (rejectControlChars trimmed label) (\<lambda>_.
      if startsWith trimmed ''-'' \<or> \<not> ADDRESS trimmed \<or> \<not> includes_str trimmed '':''
      then Inl (InputError (label @ '' must look like host:port''))
      else Inr trimmed))"

text \<open>
  \<open>url_protocol\<close> stands for the platform's URL parser: the \<^verbatim>\<open>protocol\<close> of \<^verbatim>\<open>new URL(s)\<close>, \<open>None\<close>
  where the constructor throws.
\<close>

definition assertHttpsUrl :: "(string \<Rightarrow> string option) \<Rightarrow> string \<Rightarrow> string res" where
  "assertHttpsUrl url_protocol value =
     (let trimmed = trim value in
      ebind (rejectControlChars trimmed ''image URL'') (\<lambda>_.
      case url_protocol trimmed of
        None \<Rightarrow> Inl (InputError ''image URL must be an https:// address'')
      | Some protocol \<Rightarrow>
          if protocol \<noteq> ''https:'' then Inl (InputError ''image URL must use https://'')
          else Inr trimmed))"

definition assertSha256 :: "string \<Rightarrow> string res" where
  "assertSha256 value =
     (let trimmed = trim value in
      if \<not> SHA256 trimmed then Inl (InputError ''image SHA256 must be 64 hexadecimal characters'')
      else Inr (toLowerCase trimmed))"

definition assertDisk :: "string \<Rightarrow> string \<Rightarrow> string res" where
  "assertDisk value label =
     (let trimmed = trim value in
      ebind (rejectControlChars trimmed label) (\<lambda>_.
      if \<not> DISK trimmed then Inl (InputError (label @ '' must be a /dev/ path'')) else Inr trimmed))"

definition assertSize :: "js \<Rightarrow> string \<Rightarrow> string res" where
  "assertSize value label =
     (let t = trim (js_string value) in
      ebind (rejectControlChars t label) (\<lambda>_.
      if \<not> SIZE t \<and> \<not> size_digits t
      then Inl (InputError (label @ '' must be a byte count or a size such as 40G'')) else Inr t))"

definition assertSshPublicKey :: "string \<Rightarrow> string res" where
  "assertSshPublicKey value =
     (let trimmed = trim value in
      ebind (rejectControlChars trimmed ''SSH public key'') (\<lambda>_.
      if \<not> startsWith trimmed ''ssh-'' then Inl (InputError ''SSH public key must start with ssh-'')
      else if 8192 < length trimmed then Inl (InputError ''SSH public key is too long'')
      else Inr trimmed))"

definition assertArg :: "string \<Rightarrow> string \<Rightarrow> string res" where
  "assertArg value label =
     (let trimmed = trim value in
      ebind (rejectControlChars trimmed label) (\<lambda>_.
      if startsWith trimmed ''-'' \<or> length trimmed = 0 \<or> 4096 < length trimmed
      then Inl (InputError (label @ '' is empty or looks like a flag'')) else Inr trimmed))"

fun isBlank :: "js \<Rightarrow> bool" where
  "isBlank JUndef = True"
| "isBlank JNull = True"
| "isBlank (JStr s) = (trim s = [])"
| "isBlank (JArr xs) = (xs = [])"
| "isBlank _ = False"

section \<open>The contract of a validator\<close>

locale sanitizer =
  fixes check :: "string \<Rightarrow> string res"
    and norm :: "string \<Rightarrow> string"
    and safe :: "string \<Rightarrow> bool"
  assumes norm_norm: "norm (norm v) = norm v"
    and accepts: "safe (norm v) \<Longrightarrow> check v = Inr (norm v)"
    and rejects: "\<not> safe (norm v) \<Longrightarrow> \<exists>m. check v = Inl (InputError m)"
begin

lemma check_InrD: "check v = Inr r \<Longrightarrow> safe r \<and> r = norm v"
  using accepts rejects by (metis Inl_Inr_False Inr_inject)

lemma check_iff: "check v = Inr r \<longleftrightarrow> safe (norm v) \<and> r = norm v"
  using check_InrD accepts by metis

lemma check_again: "check v = Inr r \<Longrightarrow> check r = Inr r"
  by (simp add: check_iff norm_norm)

lemma check_input_error: "check v = Inl e \<Longrightarrow> is_input_error e"
  using accepts rejects by (metis Inl_Inr_False Inl_inject is_input_error.simps(1))

lemma check_all_safe: "emap check vs = Inr rs \<Longrightarrow> list_all safe rs"
  unfolding list_all_iff using emap_Inr_all check_InrD by metis

lemma check_all_again: "emap check vs = Inr rs \<Longrightarrow> emap check rs = Inr rs"
proof -
  assume a: "emap check vs = Inr rs"
  have "emap check rs = Inr (map (\<lambda>r. r) rs)"
    by (rule emap_pure) (metis a check_again emap_Inr_all)
  then show ?thesis by simp
qed

end

subsection \<open>Interpretations\<close>

definition clean :: "string \<Rightarrow> bool" where
  "clean s \<longleftrightarrow> \<not> list_ex control_char s"

definition address_ok :: "string \<Rightarrow> bool" where
  "address_ok s \<longleftrightarrow> ADDRESS s \<and> \<not> prefix ''-'' s \<and> sublist '':'' s"

definition sha_ok :: "string \<Rightarrow> bool" where
  "sha_ok s \<longleftrightarrow> SHA256 s \<and> list_all (\<lambda>c. \<not> is_upper c) s"

definition ssh_ok :: "string \<Rightarrow> bool" where
  "ssh_ok s \<longleftrightarrow> clean s \<and> prefix ''ssh-'' s \<and> length s \<le> 8192"

definition arg_ok :: "string \<Rightarrow> bool" where
  "arg_ok s \<longleftrightarrow> clean s \<and> \<not> prefix ''-'' s \<and> s \<noteq> [] \<and> length s \<le> 4096"

lemma name_char_clean: "name_char c \<Longrightarrow> \<not> control_char c"
  by (auto simp: name_char_def is_alnum_def is_alpha_def is_upper_def is_lower_def is_digit_def
      control_char_def)

lemma alnum_clean: "is_alnum c \<Longrightarrow> \<not> control_char c"
  using name_char_clean by (simp add: name_char_def)

lemma NAME_chars: "NAME s \<Longrightarrow> list_all name_char s"
  by (auto simp: NAME_def name_char_def split: list.splits)

lemma NAME_clean: "NAME s \<Longrightarrow> clean s"
  using NAME_chars by (auto simp: clean_def list_all_iff list_ex_iff dest: name_char_clean)

lemma ADDRESS_clean: "ADDRESS s \<Longrightarrow> clean s"
  by (auto simp: ADDRESS_def clean_def list_all_iff list_ex_iff control_char_def dest: alnum_clean)
     (auto dest!: bspec alnum_clean simp: control_char_def)

lemma DISK_clean: "DISK s \<Longrightarrow> clean s"
proof -
  assume d: "DISK s"
  then obtain r where s: "s = ''/dev/'' @ r" by (auto simp: DISK_def prefix_def)
  with d have "list_all (\<lambda>c. is_alnum c \<or> c \<in> set ''/_-'') r"
    by (simp add: DISK_def Let_def)
  then have "list_all (\<lambda>c. \<not> control_char c) r"
    by (rule list.pred_mono_strong) (auto simp: control_char_def dest: alnum_clean)
  then show ?thesis
    by (simp add: s clean_def control_char_def list_all_iff list_ex_iff)
qed

lemma rejectControlChars_clean: "rejectControlChars v l = Inr () \<longleftrightarrow> clean v"
  by (simp add: rejectControlChars_def clean_def)

lemma rejectControlChars_cases:
  "clean v \<Longrightarrow> rejectControlChars v l = Inr ()"
  "\<not> clean v \<Longrightarrow> \<exists>m. rejectControlChars v l = Inl (InputError m)"
  by (simp_all add: rejectControlChars_def clean_def)

lemma is_hex_lower_iff: "is_hex (lower_char c) \<longleftrightarrow> is_hex c"
proof -
  have "code c < 256" by simp
  then show ?thesis by (auto simp: is_hex_def is_digit_def lower_char_def of_char_of)
qed

lemma SHA256_lower: "SHA256 (toLowerCase s) \<longleftrightarrow> SHA256 s"
  by (simp add: SHA256_def list_all_iff is_hex_lower_iff)

lemma sha_ok_lower: "sha_ok (toLowerCase s) \<longleftrightarrow> SHA256 s"
proof -
  have "SHA256 s \<Longrightarrow> list_all (\<lambda>c. \<not> is_upper c) (toLowerCase s)"
    by (auto simp: SHA256_def list_all_iff dest: is_hex_lower)
  then show ?thesis by (auto simp: sha_ok_def SHA256_lower)
qed

lemma is_ws_lower: "is_ws (lower_char c) \<longleftrightarrow> is_ws c"
proof -
  have "code c < 256" by simp
  then show ?thesis by (auto simp: is_ws_def lower_char_def of_char_of)
qed

lemma trim_lower: "trim (toLowerCase s) = toLowerCase (trim s)"
proof -
  have d: "dropWhile is_ws (toLowerCase t) = toLowerCase (dropWhile is_ws t)" for t
    by (simp add: dropWhile_map o_def is_ws_lower)
  show ?thesis by (simp add: trim_def d rev_map)
qed

interpretation name_check: sanitizer "\<lambda>v. assertName v l" trim NAME for l
  by unfold_locales
     (auto simp: assertName_def Let_def rejectControlChars_def NAME_clean [unfolded clean_def])

interpretation address_check: sanitizer "\<lambda>v. assertAddress v l" trim address_ok for l
  by unfold_locales
     (auto simp: assertAddress_def address_ok_def Let_def rejectControlChars_def
       ADDRESS_clean [unfolded clean_def])

interpretation disk_check: sanitizer "\<lambda>v. assertDisk v l" trim DISK for l
  by unfold_locales
     (auto simp: assertDisk_def Let_def rejectControlChars_def DISK_clean [unfolded clean_def])

interpretation arg_check: sanitizer "\<lambda>v. assertArg v l" trim arg_ok for l
  by unfold_locales (auto simp: assertArg_def arg_ok_def clean_def Let_def rejectControlChars_def)

interpretation ssh_check: sanitizer assertSshPublicKey trim ssh_ok
  by unfold_locales
     (auto simp: assertSshPublicKey_def ssh_ok_def clean_def Let_def rejectControlChars_def)

interpretation sha_check: sanitizer assertSha256 "\<lambda>v. toLowerCase (trim v)" sha_ok
  by unfold_locales (auto simp: assertSha256_def Let_def trim_lower sha_ok_lower)

lemmas validator_iffs =
  name_check.check_iff address_check.check_iff disk_check.check_iff
  arg_check.check_iff ssh_check.check_iff sha_check.check_iff

lemma NAME_trim: "NAME n \<Longrightarrow> trim n = n"
  by (rule trim_no_ws, rule list.pred_mono_strong, erule NAME_chars)
     (auto simp: name_char_def is_ws_def dest: alnum_not_ws)

end
