(* ===== verification/Catalog.thy ===== *)
theory Catalog
  imports Names
begin

text \<open>
  \<^verbatim>\<open>kcore-mcp/packages/server/src/catalog.ts\<close>: the resource kinds the server plans and applies,
  with the fields it may change in place and the fields it may not, and \<open>findKind\<close>, which
  resolves what an operator or a manifest calls a kind.

  The tables \<^verbatim>\<open>BY_ID\<close> and \<^verbatim>\<open>BY_YAML\<close> are association lists. The lemmas show that both are
  injective, that every identifier is its YAML kind in lower case with dashes, and therefore that
  the two-stage lookup is one search by the normalised name.
\<close>

record ResourceKind =
  kind_id :: string
  yamlKind :: string
  title :: string
  summary :: string
  mutable :: "string list"
  immutable :: "string list"

section \<open>The catalogue\<close>

definition kind_cluster :: ResourceKind where
  "kind_cluster = \<lparr>
     kind_id = ''cluster'',
     yamlKind = ''Cluster'',
     title = ''Cluster context'',
     summary = ''Creates a cluster CA, a controller certificate, and a client certificate, then saves the context. Later calls dial the controller with that material.'',
     mutable = [],
     immutable = [''controller'']\<rparr>"

definition kind_vm :: ResourceKind where
  "kind_vm = \<lparr>
     kind_id = ''vm'',
     yamlKind = ''VM'',
     title = ''Virtual machine'',
     summary = ''Declarative VM. Re-applying updates cpu, memory, and desired power state. Disk, NIC, image, and SSH key changes require a replacement.'',
     mutable = [''cpu'', ''memoryBytes'', ''desiredState'', ''gpus'', ''vgpus''],
     immutable = [''pciDevices'', ''network'', ''extraNetworks'', ''imageUrl'', ''imageSha256'', ''imagePath'', ''imageFormat'', ''storageBackend'', ''storageSizeBytes'', ''targetNode'', ''sshKeys'', ''sshPublicKeys'', ''cloudInitUserData'']\<rparr>"

definition kind_network :: ResourceKind where
  "kind_network = \<lparr>
     kind_id = ''network'',
     yamlKind = ''Network'',
     title = ''Network'',
     summary = ''NAT, bridge, or VXLAN network. Every field is immutable in v1, so a change means delete and create.'',
     mutable = [],
     immutable = [''type'', ''externalIp'', ''gatewayIp'', ''internalNetmask'', ''vlanId'', ''targetNode'']\<rparr>"

definition kind_ssh_key :: ResourceKind where
  "kind_ssh_key = \<lparr>
     kind_id = ''ssh-key'',
     yamlKind = ''SshKey'',
     title = ''SSH key'',
     summary = ''Named SSH public key the controller can inject into a VM.'',
     mutable = [],
     immutable = [''publicKey'']\<rparr>"

definition kind_slurm_cluster :: ResourceKind where
  "kind_slurm_cluster = \<lparr>
     kind_id = ''slurm-cluster'',
     yamlKind = ''SlurmCluster'',
     title = ''Slurm cluster'',
     summary = ''Slurm host services on disjoint kcoreOS nodes: slurmctld, slurmdbd, slurmd, and login roles. Compute members are cordoned so the VM scheduler leaves them to slurmd. One node belongs to at most one cluster.'',
     mutable = [''compute'', ''partitions'', ''users'', ''storage'', ''extraConfig'', ''accounting'', ''backupController'', ''gres'', ''reserve''],
     immutable = [''clusterName'', ''controller.nodeId'']\<rparr>"

definition kind_postgresql :: ResourceKind where
  "kind_postgresql = \<lparr>
     kind_id = ''postgresql'',
     yamlKind = ''Postgresql'',
     title = ''PostgreSQL database'',
     summary = ''One database from the NixOS postgresql package (services.postgresql). v1 is a single database per node, reached through the local Unix socket. port can change; package, database, and targetNode cannot.'',
     mutable = [''port''],
     immutable = [''database'', ''package'', ''targetNode'']\<rparr>"

definition kind_container :: ResourceKind where
  "kind_container = \<lparr>
     kind_id = ''container'',
     yamlKind = ''Container'',
     title = ''Container'',
     summary = ''OCI container workload. desiredState is mutable. Image, command, network, env, and ports are immutable.'',
     mutable = [''desiredState''],
     immutable = [''image'', ''command'', ''network'', ''env'', ''ports'']\<rparr>"

definition kind_volume :: ResourceKind where
  "kind_volume = \<lparr>
     kind_id = ''volume'',
     yamlKind = ''Volume'',
     title = ''Volume'',
     summary = ''Detached Ceph data volume. Attach only to a stopped VM.'',
     mutable = [],
     immutable = [''sizeBytes'', ''encrypt'', ''fromSnapshot'']\<rparr>"

definition kind_volume_snapshot :: ResourceKind where
  "kind_volume_snapshot = \<lparr>
     kind_id = ''volume-snapshot'',
     yamlKind = ''VolumeSnapshot'',
     title = ''Volume snapshot'',
     summary = ''Crash-consistent snapshot of a volume.'',
     mutable = [],
     immutable = [''volume'']\<rparr>"

definition kind_snapshot_policy :: ResourceKind where
  "kind_snapshot_policy = \<lparr>
     kind_id = ''snapshot-policy'',
     yamlKind = ''SnapshotPolicy'',
     title = ''Snapshot policy'',
     summary = ''Scheduled snapshots and retention for a VM or a single volume.'',
     mutable = [''schedule'', ''keep'', ''disabled''],
     immutable = [''vm'', ''volume'']\<rparr>"

definition kind_security_group :: ResourceKind where
  "kind_security_group = \<lparr>
     kind_id = ''security-group'',
     yamlKind = ''SecurityGroup'',
     title = ''Security group'',
     summary = ''Firewall rules and attachments. Re-applying reconciles the attachment set.'',
     mutable = [''description'', ''rules'', ''attachments''],
     immutable = [''name'']\<rparr>"

definition kind_disk_layout :: ResourceKind where
  "kind_disk_layout = \<lparr>
     kind_id = ''disk-layout'',
     yamlKind = ''DiskLayout'',
     title = ''Disk layout'',
     summary = ''Day-2 disk layout reconciled by the controller. Plan runs ClassifyDiskLayout before apply. Deleting the resource leaves the node disks alone.'',
     mutable = [''layoutNix'', ''diskLayout''],
     immutable = [''nodeId'']\<rparr>"

definition kind_ceph_cluster :: ResourceKind where
  "kind_ceph_cluster = \<lparr>
     kind_id = ''ceph-cluster'',
     yamlKind = ''CephCluster'',
     title = ''Ceph cluster'',
     summary = ''Ceph cluster spec. publicNetwork and clusterNetwork are required.'',
     mutable = [''size'', ''minSize''],
     immutable = [''publicNetwork'', ''clusterNetwork'', ''fsid'']\<rparr>"

definition kind_shared_filesystem :: ResourceKind where
  "kind_shared_filesystem = \<lparr>
     kind_id = ''shared-filesystem'',
     yamlKind = ''SharedFilesystem'',
     title = ''Shared filesystem'',
     summary = ''CephFS filesystem. Requires an existing Ceph cluster.'',
     mutable = [''quotaBytes'', ''clients''],
     immutable = [''cephCluster'']\<rparr>"

definition kind_object_store :: ResourceKind where
  "kind_object_store = \<lparr>
     kind_id = ''object-store'',
     yamlKind = ''ObjectStore'',
     title = ''Object store'',
     summary = ''RGW object store on a Ceph cluster. members is the list of node ids that run the gateway.'',
     mutable = [''port'', ''tls'', ''members''],
     immutable = [''cephCluster'']\<rparr>"

definition kind_ingress_gateway :: ResourceKind where
  "kind_ingress_gateway = \<lparr>
     kind_id = ''ingress-gateway'',
     yamlKind = ''IngressGateway'',
     title = ''Ingress gateway'',
     summary = ''HTTPS gateway (Caddy + Coraza WAF) on one or two nodes. Applying it enables the service on those nodes through a NixOS rebuild. Needs a public listener address, an ACME email, and port 80 for HTTP-01.'',
     mutable = [''nodes'', ''listeners'', ''highAvailability'', ''tls'', ''defaultWafPolicy'', ''rateLimit'', ''accessLog'', ''kubernetes''],
     immutable = [''name'']\<rparr>"

definition kind_ingress_route :: ResourceKind where
  "kind_ingress_route = \<lparr>
     kind_id = ''ingress-route'',
     yamlKind = ''IngressRoute'',
     title = ''Ingress route'',
     summary = ''Hostnames and paths mapped to VM, external, or Kubernetes backends, or a TCP/SNI route. Plan validates against the cluster and renders the gateway configuration. Start with the WAF in detect mode.'',
     mutable = [''hosts'', ''paths'', ''port'', ''backends'', ''proxyProtocol'', ''rateLimit'', ''waf'', ''headers'', ''redirectHttp'', ''tls''],
     immutable = [''name'', ''gateway'', ''kind'']\<rparr>"

definition kind_waf_policy :: ResourceKind where
  "kind_waf_policy = \<lparr>
     kind_id = ''waf-policy'',
     yamlKind = ''WafPolicy'',
     title = ''WAF policy'',
     summary = ''OWASP Core Rule Set through Coraza: paranoia level, thresholds, IP lists, custom rules. New policies should start with engine detect.'',
     mutable = [''engine'', ''crs'', ''requestBodyLimitBytes'', ''responseBodyInspection'', ''ipAllowList'', ''ipDenyList'', ''customRules'', ''audit''],
     immutable = [''name'']\<rparr>"

definition kind_image :: ResourceKind where
  "kind_image = \<lparr>
     kind_id = ''image'',
     yamlKind = ''Image'',
     title = ''Node image'',
     summary = ''Boot image cached on a node. Read lists ListImages on each ready node. Images are not created through the controller.'',
     mutable = [],
     immutable = [''name'', ''path'']\<rparr>"

definition kind_cluster_update :: ResourceKind where
  "kind_cluster_update = \<lparr>
     kind_id = ''cluster-update'',
     yamlKind = ''ClusterUpdate'',
     title = ''Cluster update'',
     summary = ''Rolling NixOS update. Plan resolves nodes and blockers. Apply creates the update. Destroy cancels a non-terminal update and keeps history. Strategy canary updates one worker first and soaks it (canarySoakSeconds, canaryNode) while the controllers compare it with its peers; kcore_operation promote-update ends the soak early. To move the whole cluster to a release, use kcore_operation set-version.'',
     mutable = [],
     immutable = [''version'', ''flakeRef'', ''flakeRev'']\<rparr>"

definition kind_kubernetes_cluster :: ResourceKind where
  "kind_kubernetes_cluster = \<lparr>
     kind_id = ''kubernetes-cluster'',
     yamlKind = ''KubernetesCluster'',
     title = ''Kubernetes cluster'',
     summary = ''Kubernetes on kcoreOS nodes with Cilium. Apply creates the cluster, or updates it when it exists: adding or removing nodes changes membership. Plan runs node preflight checks and lists blocking issues before any node is rebuilt.'',
     mutable = [''workerNodes'', ''controlPlaneNodes'', ''cilium'', ''highAvailability'', ''localProvisioner'', ''scheduleOnControlPlane''],
     immutable = [''clusterCidr'', ''serviceCidr'', ''clusterDns'', ''apiServerEndpoint'', ''cni'']\<rparr>"

definition kind_object_user :: ResourceKind where
  "kind_object_user = \<lparr>
     kind_id = ''object-user'',
     yamlKind = ''ObjectUser'',
     title = ''Object store user'',
     summary = ''RGW user on an ObjectStore. Creation is not available here: the secret is returned once and this server redacts secrets, so run kctl create object-user NAME --store STORE. Remove a user with the delete-object-user operation.'',
     mutable = [],
     immutable = [''name'', ''store'']\<rparr>"

definition kind_operator :: ResourceKind where
  "kind_operator = \<lparr>
     kind_id = ''operator'',
     yamlKind = ''Operator'',
     title = ''Operator'',
     summary = ''Named human operator with RBAC roles (read-only, vm-admin, cluster-admin, backup-operator). Apply creates the operator and grants the listed roles. Issuing the client certificate stays in kctl so the private key never passes through the model.'',
     mutable = [''roles''],
     immutable = [''name'']\<rparr>"

definition kind_node :: ResourceKind where
  "kind_node = \<lparr>
     kind_id = ''node'',
     yamlKind = ''Node'',
     title = ''Node'',
     summary = ''Read-only node inventory. Use the approve-node, reject-node, cordon-node, drain-node, reboot-node, and rotate-node-certs operations to act on one. Delete removes an empty node and revokes its certificates.'',
     mutable = [],
     immutable = [''nodeId'']\<rparr>"

definition kind_gpus :: ResourceKind where
  "kind_gpus = \<lparr>
     kind_id = ''gpus'',
     yamlKind = ''Gpus'',
     title = ''GPUs and PCI devices'',
     summary = ''Read-only inventory. A name filters to one node. Rows include vGPU slices, the bound profile, and the profiles the card can create.'',
     mutable = [],
     immutable = [''nodeId'']\<rparr>"

definition kind_node_vgpu :: ResourceKind where
  "kind_node_vgpu = \<lparr>
     kind_id = ''node-vgpu'',
     yamlKind = ''NodeVgpu'',
     title = ''vGPU host'',
     summary = ''Turns one node into a vGPU host. vendor is nvidia (default), intel, or amd. NVIDIA stages the Virtual GPU Manager; Intel (xe) and AMD (GIM) split the card into numVfs SR-IOV slices named like intel-2vf or radeon-4vf. Apply pushes the Nix configuration and reports when a reboot is required. Delete disables the host.'',
     mutable = [''vendor'', ''hostCards'', ''numVfs'', ''managerUrl'', ''managerSha256'', ''managerFile'', ''managerVersion''],
     immutable = [''nodeId'']\<rparr>"

definition KINDS :: "ResourceKind list" where
  "KINDS = [kind_cluster, kind_vm, kind_network, kind_ssh_key, kind_slurm_cluster, kind_postgresql, kind_container, kind_volume, kind_volume_snapshot, kind_snapshot_policy, kind_security_group, kind_disk_layout, kind_ceph_cluster, kind_shared_filesystem, kind_object_store, kind_ingress_gateway, kind_ingress_route, kind_waf_policy, kind_image, kind_cluster_update, kind_kubernetes_cluster, kind_object_user, kind_operator, kind_node, kind_gpus, kind_node_vgpu]"

definition BY_ID :: "(string \<times> ResourceKind) list" where
  "BY_ID = map (\<lambda>kind. (kind_id kind, kind)) KINDS"

definition BY_YAML :: "(string \<times> ResourceKind) list" where
  "BY_YAML = map (\<lambda>kind. (toLowerCase (yamlKind kind), kind)) KINDS"

definition kind_key :: "string \<Rightarrow> string" where
  "kind_key value = replaceChar CHR ''_'' CHR ''-'' (toLowerCase (trim value))"

definition findKind :: "string option \<Rightarrow> ResourceKind option" where
  "findKind value =
     (case value of None \<Rightarrow> None | Some v \<Rightarrow>
      if v = [] then None
      else let key = kind_key v in
           case map_of BY_ID key of
             Some kind \<Rightarrow> Some kind
           | None \<Rightarrow> map_of BY_YAML (removeChar CHR ''-'' key))"

definition kindIds :: "string list" where
  "kindIds = map kind_id KINDS"

lemmas kind_defs =
  kind_cluster_def kind_vm_def kind_network_def kind_ssh_key_def
  kind_slurm_cluster_def kind_postgresql_def kind_container_def kind_volume_def
  kind_volume_snapshot_def kind_snapshot_policy_def kind_security_group_def kind_disk_layout_def
  kind_ceph_cluster_def kind_shared_filesystem_def kind_object_store_def kind_ingress_gateway_def
  kind_ingress_route_def kind_waf_policy_def kind_image_def kind_cluster_update_def
  kind_kubernetes_cluster_def kind_object_user_def kind_operator_def kind_node_def
  kind_gpus_def kind_node_vgpu_def

section \<open>The tables are well formed\<close>

lemma kindIds_eval:
  "kindIds = [''cluster'', ''vm'', ''network'', ''ssh-key'', ''slurm-cluster'', ''postgresql'',
     ''container'', ''volume'', ''volume-snapshot'', ''snapshot-policy'', ''security-group'',
     ''disk-layout'', ''ceph-cluster'', ''shared-filesystem'', ''object-store'',
     ''ingress-gateway'', ''ingress-route'', ''waf-policy'', ''image'', ''cluster-update'',
     ''kubernetes-cluster'', ''object-user'', ''operator'', ''node'', ''gpus'', ''node-vgpu'']"
  by (simp add: kindIds_def KINDS_def kind_defs)

lemma distinct_kindIds: "distinct (map kind_id KINDS)"
  using kindIds_eval by (simp add: kindIds_def)

text \<open>The YAML kind of a resource is its identifier without dashes, up to letter case.\<close>

lemma yaml_is_id:
  "list_all (\<lambda>k. toLowerCase (yamlKind k) = removeChar CHR ''-'' (kind_id k)) KINDS"
  by (simp add: KINDS_def kind_defs char_eval)

lemma distinct_yaml: "distinct (map (\<lambda>k. removeChar CHR ''-'' (kind_id k)) KINDS)"
  by (simp add: KINDS_def kind_defs)

lemma fields_disjoint: "list_all (\<lambda>k. set (mutable k) \<inter> set (immutable k) = {}) KINDS"
  by (simp add: KINDS_def kind_defs)

lemma fields_distinct: "list_all (\<lambda>k. distinct (mutable k @ immutable k)) KINDS"
  by (simp add: KINDS_def kind_defs)

lemma kind_key_no_underscore: "CHR ''_'' \<notin> set (kind_key v)"
  by (auto simp: kind_key_def)

lemma ids_are_keys: "list_all (\<lambda>k. kind_key (kind_id k) = kind_id k) KINDS"
  by (simp add: KINDS_def kind_defs kind_key_def char_eval trim_def)

subsection \<open>Lookup\<close>

lemma map_of_injective:
  assumes "distinct (map f xs)"
  shows "map_of (map (\<lambda>x. (f x, x)) xs) k = Some x \<longleftrightarrow> x \<in> set xs \<and> f x = k"
proof -
  have "distinct (map fst (map (\<lambda>x. (f x, x)) xs))" using assms by (simp add: o_def)
  then show ?thesis by (simp add: map_of_eq_Some_iff) auto
qed

lemma BY_ID_lookup: "map_of BY_ID key = Some k \<longleftrightarrow> k \<in> set KINDS \<and> kind_id k = key"
  unfolding BY_ID_def by (rule map_of_injective [OF distinct_kindIds])

lemma distinct_yamlKind: "distinct (map (\<lambda>k. toLowerCase (yamlKind k)) KINDS)"
proof -
  have eq: "map (\<lambda>k. toLowerCase (yamlKind k)) KINDS = map (\<lambda>k. removeChar CHR ''-'' (kind_id k)) KINDS"
    using yaml_is_id by (auto simp: list_all_iff)
  show ?thesis unfolding eq by (rule distinct_yaml)
qed

lemma BY_YAML_lookup:
  "map_of BY_YAML key = Some k \<longleftrightarrow> k \<in> set KINDS \<and> toLowerCase (yamlKind k) = key"
  unfolding BY_YAML_def by (rule map_of_injective [OF distinct_yamlKind])

lemma yamlKind_nonempty: "k \<in> set KINDS \<Longrightarrow> yamlKind k \<noteq> []"
  by (auto simp: KINDS_def kind_defs)

text \<open>
  \<open>findKind\<close> resolves a name to a kind exactly when the name, trimmed, in lower case and
  without dashes and underscores, is the kind's YAML name in lower case; the identifier table
  consulted first never disagrees with the YAML table.
\<close>

theorem findKind_iff:
  "findKind (Some v) = Some k \<longleftrightarrow>
     k \<in> set KINDS \<and> toLowerCase (yamlKind k) = removeChar CHR ''-'' (kind_key v)"
proof (cases "v = []")
  case True
  then show ?thesis
    using yamlKind_nonempty by (auto simp: findKind_def kind_key_def)
next
  case False
  have by_id: "k' \<in> set KINDS \<Longrightarrow> kind_id k' = kind_key v \<Longrightarrow>
      toLowerCase (yamlKind k') = removeChar CHR ''-'' (kind_key v)" for k'
    using yaml_is_id by (auto simp: list_all_iff)
  show ?thesis
  proof (cases "map_of BY_ID (kind_key v)")
    case None
    with False show ?thesis by (simp add: findKind_def Let_def BY_YAML_lookup)
  next
    case (Some k')
    then have k': "k' \<in> set KINDS" "kind_id k' = kind_key v" by (simp_all add: BY_ID_lookup)
    have "k \<in> set KINDS \<Longrightarrow> toLowerCase (yamlKind k) = toLowerCase (yamlKind k') \<Longrightarrow> k = k'"
      using k'(1) distinct_yamlKind by (simp add: distinct_map inj_on_def)
    with False Some by_id [OF k'] k' show ?thesis by (auto simp: findKind_def Let_def)
  qed
qed

lemma findKind_KINDS: "findKind v = Some k \<Longrightarrow> k \<in> set KINDS"
  by (cases v)
     (auto simp: findKind_def Let_def BY_ID_lookup BY_YAML_lookup split: option.splits if_splits)

lemma findKind_id:
  assumes "k \<in> set KINDS"
  shows "findKind (Some (kind_id k)) = Some k"
proof -
  have "kind_key (kind_id k) = kind_id k" using assms ids_are_keys by (simp add: list_all_iff)
  moreover have "kind_id k \<noteq> []" using assms by (auto simp: KINDS_def kind_defs)
  ultimately show ?thesis using assms by (simp add: findKind_def Let_def BY_ID_lookup [THEN iffD2])
qed

end
