(* ===== verification/Platform.thy ===== *)
theory Platform
  imports Names
begin

text \<open>
  What the server takes from its platform and from third-party packages, as the parameters of the
  model: the URL parser, the file system as it is read, the environment, the home directory, the
  process id, the YAML parser and the collation of \<^verbatim>\<open>String.localeCompare\<close>. No definition says what they return.
\<close>

datatype fs_error = FsError (fs_code: string) (fs_message: string)

record platform =
  url_protocol :: "string \<Rightarrow> string option"
  read_file :: "string \<Rightarrow> fs_error + string"
  getenv :: "string \<Rightarrow> string option"
  homedir :: string
  pid :: nat
  parse_yaml :: "string \<Rightarrow> string + js"
  parse_yaml_all :: "string \<Rightarrow> js list"
  localeCompare :: "string \<Rightarrow> string \<Rightarrow> int"

text \<open>A bare machine: no files, no environment, and a URL parser that knows two schemes.\<close>

definition bare_platform :: platform where
  "bare_platform =
     \<lparr>url_protocol = (\<lambda>s. if prefix ''https://'' s then Some ''https:''
        else if prefix ''http://'' s then Some ''http:'' else None),
      read_file = (\<lambda>p. Inl (FsError ''ENOENT'' (''ENOENT: no such file or directory''))),
      getenv = (\<lambda>_. None),
      homedir = ''/root'',
      pid = 1,
      parse_yaml = (\<lambda>_. Inr JNull),
      parse_yaml_all = (\<lambda>_. []),
      localeCompare = (\<lambda>a b. 0)\<rparr>"

section \<open>Paths\<close>

text \<open>\<^verbatim>\<open>path.join\<close> and \<^verbatim>\<open>path.dirname\<close> of POSIX paths: joining normalises away empty segments, \<^verbatim>\<open>.\<close> and
  \<^verbatim>\<open>..\<close>, and keeps a leading or trailing slash.\<close>

fun split_path :: "string \<Rightarrow> string list" where
  "split_path [] = [[]]"
| "split_path (c # cs) =
     (if c = CHR ''/'' then [] # split_path cs
      else case split_path cs of [] \<Rightarrow> [[c]] | seg # segs \<Rightarrow> (c # seg) # segs)"

fun resolve_segs :: "bool \<Rightarrow> string list \<Rightarrow> string list \<Rightarrow> string list" where
  "resolve_segs absolute acc [] = rev acc"
| "resolve_segs absolute acc (seg # segs) =
     (if seg = [] \<or> seg = ''.'' then resolve_segs absolute acc segs
      else if seg = ''..'' then
        (if acc \<noteq> [] \<and> hd acc \<noteq> ''..'' then resolve_segs absolute (tl acc) segs
         else if absolute then resolve_segs absolute acc segs
         else resolve_segs absolute (seg # acc) segs)
      else resolve_segs absolute (seg # acc) segs)"

definition path_normalize :: "string \<Rightarrow> string" where
  "path_normalize p =
     (if p = [] then ''.''
      else let absolute = startsWith p ''/''; trailing = endsWith p ''/'';
               body = join ''/'' (resolve_segs absolute [] (split_path p))
           in if body = [] then (if absolute then ''/'' else if trailing then ''./'' else ''.'')
              else (if absolute then ''/'' else []) @ body @ (if trailing then ''/'' else []))"

definition path_join :: "string list \<Rightarrow> string" where
  "path_join ps = (let qs = filter (\<lambda>p. p \<noteq> []) ps in if qs = [] then ''.'' else path_normalize (join ''/'' qs))"

definition dirname :: "string \<Rightarrow> string" where
  "dirname p =
     (let root = startsWith p ''/'';
          rest = dropWhile (\<lambda>c. c \<noteq> CHR ''/'') (dropWhile (\<lambda>c. c = CHR ''/'') (rev p))
      in if length rest \<le> 1 then (if root then ''/'' else ''.'')
         else if root \<and> length rest = 2 then ''//''
         else rev (tl rest))"

end
