(* ===== verification/Requests_Core.thy ===== *)
theory Requests_Core
  imports Catalog Platform
begin

text \<open>
  The helpers of \<^verbatim>\<open>kcore-mcp/packages/server/src/requests.ts\<close>: reading a property of a spec
  (\<open>opt\<close>, \<open>required\<close>, \<open>boolish\<close>, \<open>stringList\<close>, \<open>deviceList\<close>), enumerations (\<open>backendEnum\<close>,
  \<open>desired\<close>, \<open>operatorRole\<close>), sizes and durations (\<open>sizeBytes\<close>, \<open>soakSeconds\<close>) and addresses
  (\<open>hostOf\<close>). The lemmas say what each accepts and returns; the composite requests are in
  \<open>Requests_Msg\<close> and \<open>Requests\<close>.
\<close>

section \<open>Reading a spec\<close>

definition opt :: "obj \<Rightarrow> string \<Rightarrow> string option" where
  "opt spec key =
     (case oget spec key of
        JNum n \<Rightarrow> Some (num_to_string n)
      | JStr s \<Rightarrow> (let trimmed = trim s in if 0 < length trimmed then Some trimmed else None)
      | _ \<Rightarrow> None)"

definition required :: "obj \<Rightarrow> string \<Rightarrow> string \<Rightarrow> string res" where
  "required spec key label =
     (case opt spec key of
        None \<Rightarrow> Inl (InputError (label @ '' is required''))
      | Some v \<Rightarrow> if v = [] then Inl (InputError (label @ '' is required'')) else Inr v)"

definition boolish :: "js \<Rightarrow> bool" where
  "boolish v \<longleftrightarrow> v = JBool True \<or> v = JStr ''true'' \<or> v = JStr ''yes''"

fun str_item :: "js \<Rightarrow> string option" where
  "str_item (JStr s) = (if trim s = [] then None else Some s)"
| "str_item _ = None"

definition stringList :: "js \<Rightarrow> string list" where
  "stringList v = map trim (List.map_filter str_item (arr_items v))"

definition deviceList :: "js \<Rightarrow> string list" where
  "deviceList v =
     (case v of JStr s \<Rightarrow> if trim s \<noteq> [] then [trim s] else stringList v | _ \<Rightarrow> stringList v)"

text \<open>\<^verbatim>\<open>section(spec, key)\<close>: the nested record, or an empty one.\<close>

definition section_of :: "obj \<Rightarrow> string \<Rightarrow> obj" where
  "section_of spec key = obj_of (oget spec key)"

text \<open>The recurring argument shapes: \<^verbatim>\<open>assertName(required(spec, k, l), l)\<close>, the same with
  \<^verbatim>\<open>assertArg\<close>, \<^verbatim>\<open>opt(spec, k) ?? d\<close> and \<^verbatim>\<open>opt(spec, k) ? assertName(opt(spec, k)!, l) : ""\<close>.\<close>

definition req_name :: "obj \<Rightarrow> string \<Rightarrow> string \<Rightarrow> string res" where
  "req_name spec key label = ebind (required spec key label) (\<lambda>v. assertName v label)"

definition req_arg :: "obj \<Rightarrow> string \<Rightarrow> string \<Rightarrow> string res" where
  "req_arg spec key label = ebind (required spec key label) (\<lambda>v. assertArg v label)"

definition opt_or :: "obj \<Rightarrow> string \<Rightarrow> string \<Rightarrow> string" where
  "opt_or spec key d = (case opt spec key of None \<Rightarrow> d | Some v \<Rightarrow> v)"

definition opt_name :: "obj \<Rightarrow> string \<Rightarrow> string \<Rightarrow> string res" where
  "opt_name spec key label = (case opt spec key of None \<Rightarrow> Inr [] | Some v \<Rightarrow> assertName v label)"

definition jstr :: "string res \<Rightarrow> js res" where
  "jstr r = ebind r (\<lambda>s. Inr (JStr s))"

definition jobj :: "obj res \<Rightarrow> js res" where
  "jobj r = ebind r (\<lambda>ps. Inr (JObj ps))"

definition jarr :: "js list res \<Rightarrow> js res" where
  "jarr r = ebind r (\<lambda>xs. Inr (JArr xs))"

definition jstrs :: "string list \<Rightarrow> js" where
  "jstrs xs = JArr (map JStr xs)"

section \<open>Enumerations\<close>

definition BACKEND :: obj where
  "BACKEND =
     [(''filesystem'', JStr ''STORAGE_BACKEND_TYPE_FILESYSTEM''),
      (''lvm'', JStr ''STORAGE_BACKEND_TYPE_LVM''),
      (''zfs'', JStr ''STORAGE_BACKEND_TYPE_ZFS''),
      (''ceph'', JStr ''STORAGE_BACKEND_TYPE_CEPH'')]"

definition backendEnum :: "string \<Rightarrow> js res" where
  "backendEnum value =
     (let mapped = oget BACKEND (toLowerCase (trim value)) in
      if \<not> truthy mapped then Inl (InputError ''storage backend must be filesystem, lvm, zfs, or ceph'')
      else Inr mapped)"

definition desired :: "js \<Rightarrow> string res" where
  "desired value =
     (if value = JStr ''running'' then Inr ''VM_DESIRED_STATE_RUNNING''
      else if value = JStr ''stopped'' then Inr ''VM_DESIRED_STATE_STOPPED''
      else if value = JUndef \<or> value = JStr [] then Inr ''VM_DESIRED_STATE_UNSPECIFIED''
      else Inl (InputError ''desired state must be running or stopped''))"

definition OPERATOR_ROLES :: obj where
  "OPERATOR_ROLES =
     [(''read-only'', JStr ''OPERATOR_ROLE_KIND_READ_ONLY''),
      (''vm-admin'', JStr ''OPERATOR_ROLE_KIND_VM_ADMIN''),
      (''cluster-admin'', JStr ''OPERATOR_ROLE_KIND_CLUSTER_ADMIN''),
      (''backup-operator'', JStr ''OPERATOR_ROLE_KIND_BACKUP_OPERATOR'')]"

definition operatorRole :: "string \<Rightarrow> js res" where
  "operatorRole value =
     (let mapped = oget OPERATOR_ROLES (replaceChar CHR ''_'' CHR ''-'' (toLowerCase (trim value))) in
      if \<not> truthy mapped
      then Inl (InputError ''role must be read-only, vm-admin, cluster-admin, or backup-operator'')
      else Inr mapped)"

definition APPROVAL :: obj where
  "APPROVAL =
     [(''manual'', JStr ''CLUSTER_UPDATE_APPROVAL_MANUAL''),
      (''auto-non-disruptive'', JStr ''CLUSTER_UPDATE_APPROVAL_AUTO_NON_DISRUPTIVE''),
      (''auto'', JStr ''CLUSTER_UPDATE_APPROVAL_AUTO'')]"

definition ACTIVATION :: obj where
  "ACTIVATION =
     [(''test'', JStr ''CLUSTER_UPDATE_ACTIVATION_TEST''),
      (''switch'', JStr ''CLUSTER_UPDATE_ACTIVATION_SWITCH''),
      (''boot'', JStr ''CLUSTER_UPDATE_ACTIVATION_BOOT''),
      (''auto'', JStr ''CLUSTER_UPDATE_ACTIVATION_AUTO'')]"

definition POSTGRESQL_PACKAGES :: "string list" where
  "POSTGRESQL_PACKAGES =
     [''postgresql'', ''postgresql_14'', ''postgresql_15'', ''postgresql_16'', ''postgresql_17'']"

section \<open>Sizes, durations and addresses\<close>

text \<open>\<^verbatim>\<open>[KMGT]i?B?\<close> in lower case; the value is the power of 1024.\<close>

definition size_unit :: "string \<Rightarrow> nat option" where
  "size_unit u =
     map_of [(''k'', 1), (''ki'', 1), (''kb'', 1), (''kib'', 1),
             (''m'', 2), (''mi'', 2), (''mb'', 2), (''mib'', 2),
             (''g'', 3), (''gi'', 3), (''gb'', 3), (''gib'', 3),
             (''t'', 4), (''ti'', 4), (''tb'', 4), (''tib'', 4)] u"

definition size_text :: "string \<Rightarrow> string \<Rightarrow> string res" where
  "size_text t label =
     (let ds = takeWhile is_digit t; rest = dropWhile is_digit t;
          bad = Inl (InputError (label @ '' must be a byte count or a size such as 40G'')) in
      if t \<noteq> [] \<and> list_all is_digit t then Inr t
      else if ds = [] \<or> hd ds = CHR ''0'' then bad
      else case size_unit (toLowerCase (dropWhile is_ws rest)) of
             None \<Rightarrow> bad
           | Some k \<Rightarrow> Inr (show_nat (read_nat ds * 1024 ^ k)))"

definition truncate_rat :: "rat \<Rightarrow> int" where
  "truncate_rat q = (if 0 \<le> q then \<lfloor>q\<rfloor> else - \<lfloor>- q\<rfloor>)"

fun sizeBytes :: "js \<Rightarrow> string \<Rightarrow> string res" where
  "sizeBytes (JNum n) label =
     (case n of
        Fin q \<Rightarrow> if q < 0 then Inl (InputError (label @ '' must be a byte count''))
                 else Inr (num_to_string (Fin (of_int (truncate_rat q))))
      | _ \<Rightarrow> Inl (InputError (label @ '' must be a byte count'')))"
| "sizeBytes (JStr s) label = size_text (trim s) label"
| "sizeBytes JNull label = Inl (OtherError ''Cannot read properties of null (reading 'trim')'')"
| "sizeBytes _ label = Inl (OtherError ''value.trim is not a function'')"

text \<open>\<^verbatim>\<open>required(spec, key, label)\<close> passed to \<^verbatim>\<open>sizeBytes\<close>.\<close>

definition req_size :: "obj \<Rightarrow> string \<Rightarrow> string \<Rightarrow> string res" where
  "req_size spec key label = ebind (required spec key label) (\<lambda>v. sizeBytes (JStr v) label)"

definition MAX_SOAK_SECONDS :: nat where
  "MAX_SOAK_SECONDS = 7 * 86400"

definition soak_unit :: "string \<Rightarrow> nat option" where
  "soak_unit u = map_of [([], 1), (''s'', 1), (''m'', 60), (''h'', 3600), (''d'', 86400)] u"

text \<open>The product of a double and a positive integer.\<close>

fun num_scale :: "jsnum \<Rightarrow> nat \<Rightarrow> jsnum" where
  "num_scale (Fin q) k = to_double (q * of_nat k)"
| "num_scale n k = n"

fun num_less :: "jsnum \<Rightarrow> jsnum \<Rightarrow> bool" where
  "num_less (Fin a) (Fin b) = (a < b)"
| "num_less NaN _ = False"
| "num_less _ NaN = False"
| "num_less NInf b = (b \<noteq> NInf)"
| "num_less a NInf = False"
| "num_less a PInf = (a \<noteq> PInf)"
| "num_less PInf b = False"

definition soakSeconds :: "js \<Rightarrow> jsnum res" where
  "soakSeconds value =
     (let raw = (case value of JNum n \<Rightarrow> num_to_string n | JStr s \<Rightarrow> trim s | _ \<Rightarrow> []);
          ds = takeWhile is_digit raw;
          u = toLowerCase (dropWhile is_ws (dropWhile is_digit raw))
      in if ds = [] \<or> soak_unit u = None
         then Inl (InputError ''soak must be seconds or a duration such as 90s, 45m, 2h, or 1d'')
         else let seconds = num_scale (str_to_number ds) (the (soak_unit u))
              in if num_less seconds (Fin 1) \<or> num_less (Fin (of_nat MAX_SOAK_SECONDS)) seconds
                 then Inl (InputError (''soak must be between 1 second and '' @ show_nat (MAX_SOAK_SECONDS div 86400) @ '' days''))
                 else Inr seconds)"

definition releaseTag :: "string \<Rightarrow> string" where
  "releaseTag version = (if startsWith version ''v'' then version else ''v'' @ version)"

definition hostOf :: "string \<Rightarrow> string" where
  "hostOf address =
     (if startsWith address ''['' then
        (case indexOf CHR '']'' address of
           Some e \<Rightarrow> if 1 < e then drop 1 (take e address) else address
         | None \<Rightarrow> address)
      else case lastIndexOf CHR '':'' address of
             Some i \<Rightarrow> take i address
           | None \<Rightarrow> butlast address)"

definition disks :: "obj \<Rightarrow> string list res" where
  "disks spec =
     (let value = coalesce (oget spec ''dataDisks'') (oget spec ''dataDisk'') in
      case value of
        JArr xs \<Rightarrow> emap (\<lambda>s. assertDisk s ''data disk'') (List.map_filter str_item xs)
      | JStr s \<Rightarrow> if trim s \<noteq> [] then ebind (assertDisk s ''data disk'') (\<lambda>d. Inr [d]) else Inr []
      | _ \<Rightarrow> Inr [])"

section \<open>What the helpers accept and return\<close>

lemma opt_Some_cases:
  "opt spec key = Some v \<longleftrightarrow>
     (\<exists>n. oget spec key = JNum n \<and> v = num_to_string n) \<or>
     (\<exists>s. oget spec key = JStr s \<and> v = trim s \<and> v \<noteq> [])"
  by (auto simp: opt_def Let_def split: js.splits if_splits)

lemma blank_opt: "isBlank (oget spec key) \<Longrightarrow> opt spec key = None"
  by (cases "oget spec key") (auto simp: opt_def)

lemma blank_required: "isBlank (oget spec key) \<Longrightarrow> \<exists>e. required spec key label = Inl e"
  by (simp add: required_def blank_opt)

lemma blank_req_name: "isBlank (oget spec key) \<Longrightarrow> \<exists>e. req_name spec key label = Inl e"
  using blank_required [of spec key label] by (auto simp: req_name_def)

lemma blank_req_arg: "isBlank (oget spec key) \<Longrightarrow> \<exists>e. req_arg spec key label = Inl e"
  using blank_required [of spec key label] by (auto simp: req_arg_def)

lemma blank_req_size: "isBlank (oget spec key) \<Longrightarrow> \<exists>e. req_size spec key label = Inl e"
  using blank_required [of spec key label] by (auto simp: req_size_def)

lemma req_name_NAME: "req_name spec key label = Inr v \<Longrightarrow> NAME v"
  by (auto simp: req_name_def ebind_Inr_iff dest: name_check.check_InrD)

lemma req_arg_ok: "req_arg spec key label = Inr v \<Longrightarrow> arg_ok v"
  by (auto simp: req_arg_def ebind_Inr_iff dest: arg_check.check_InrD)

lemma props_oget: "props ps = Inr vs \<Longrightarrow> map_of ps k = Some r \<Longrightarrow> r = Inr (oget vs k)"
  by (auto dest: props_map_of simp: oget_own)

lemma props_oget_obj:
  "props ps = Inr vs \<Longrightarrow> map_of ps k = Some (jobj r) \<Longrightarrow> r = Inr (obj_of (oget vs k))"
  by (auto dest!: props_map_of simp: oget_own jobj_def ebind_Inr_iff)

lemma props_oget_str:
  "props ps = Inr vs \<Longrightarrow> map_of ps k = Some (jstr r) \<Longrightarrow> \<exists>s. r = Inr s \<and> oget vs k = JStr s"
  by (auto dest!: props_map_of simp: oget_own jstr_def ebind_Inr_iff)

lemma str_item_Some: "str_item j = Some s \<Longrightarrow> j = JStr s \<and> trim s \<noteq> []"
  by (cases j) (auto split: if_splits)

lemma stringList_nonblank: "x \<in> set (stringList v) \<Longrightarrow> x \<noteq> [] \<and> trim x = x"
proof -
  assume "x \<in> set (stringList v)"
  then obtain j s where "j \<in> set (arr_items v)" "str_item j = Some s" "x = trim s"
    by (auto simp: stringList_def List.map_filter_def)
  then show ?thesis by (auto dest: str_item_Some)
qed

subsection \<open>Sizes\<close>

lemma takeWhile_digits_append:
  "list_all is_digit ds \<Longrightarrow> r = [] \<or> \<not> is_digit (hd r) \<Longrightarrow> takeWhile is_digit (ds @ r) = ds"
  by (induction ds) (cases r; simp)+

lemma dropWhile_digits_append:
  "list_all is_digit ds \<Longrightarrow> r = [] \<or> \<not> is_digit (hd r) \<Longrightarrow> dropWhile is_digit (ds @ r) = r"
  by (induction ds) (cases r; simp)+

lemma dropWhile_ws_append:
  "list_all is_ws w \<Longrightarrow> r = [] \<or> \<not> is_ws (hd r) \<Longrightarrow> dropWhile is_ws (w @ r) = r"
  by (induction w) (cases r; simp)+

lemma digit_not_ws: "is_digit c \<Longrightarrow> \<not> is_ws c"
  by (auto simp: is_digit_def is_ws_def)

lemma show_nat_hd:
  "0 < n \<Longrightarrow> hd (show_nat n) \<noteq> CHR ''0''"
proof (induction n rule: show_nat.induct)
  case (1 n)
  show ?case
  proof (cases "n < 10")
    case True
    have "code (char_of (48 + n)) \<noteq> code CHR ''0''"
      using True "1.prems" by (simp add: code_digit)
    then show ?thesis using True by (metis list.sel(1) show_nat_small)
  next
    case False
    then have "hd (show_nat n) = hd (show_nat (n div 10))"
      by (simp add: show_nat_large)
    moreover have "0 < n div 10" using False by simp
    ultimately show ?thesis using "1.IH" False by simp
  qed
qed

lemma hd_show_nat_digit: "is_digit (hd (show_nat n))"
  using show_nat_digits [of n] by (cases "show_nat n") simp_all

lemma size_unit_letters:
  assumes "size_unit (toLowerCase u) = Some k"
  shows "u \<noteq> [] \<and> \<not> is_digit (hd u) \<and> \<not> is_ws (hd u) \<and> \<not> is_ws (last u)"
proof -
  have low: "toLowerCase u \<noteq> [] \<and> \<not> is_digit (hd (toLowerCase u)) \<and> \<not> is_ws (hd (toLowerCase u))
      \<and> \<not> is_ws (last (toLowerCase u))"
    using assms unfolding size_unit_def by (auto simp: is_digit_def is_ws_def split: if_splits)
  have dig: "is_digit c \<Longrightarrow> is_digit (lower_char c)" for c
    by (auto simp: is_digit_def lower_char_def)
  show ?thesis
  proof (cases u)
    case Nil
    with low show ?thesis by simp
  next
    case (Cons a as)
    with low dig show ?thesis by (auto simp: is_ws_lower last_map)
  qed
qed

lemma sized_string_parts:
  assumes "list_all is_ws w" and "size_unit (toLowerCase u) = Some k"
  shows "trim (show_nat n @ w @ u) = show_nat n @ w @ u"
    and "takeWhile is_digit (show_nat n @ w @ u) = show_nat n"
    and "dropWhile is_ws (dropWhile is_digit (show_nat n @ w @ u)) = u"
    and "\<not> list_all is_digit (show_nat n @ w @ u)"
proof -
  note u = size_unit_letters [OF assms(2)]
  have nd: "\<not> is_digit (hd (w @ u))"
    using u assms(1) by (cases w) (auto dest: digit_not_ws)
  have "\<not> is_ws (hd (show_nat n @ w @ u))"
    using hd_show_nat_digit [of n] by (simp add: digit_not_ws)
  moreover have "\<not> is_ws (last (show_nat n @ w @ u))" using u by simp
  ultimately show "trim (show_nat n @ w @ u) = show_nat n @ w @ u" by (blast intro: trim_id)
  show "takeWhile is_digit (show_nat n @ w @ u) = show_nat n"
    using show_nat_digits nd by (blast intro: takeWhile_digits_append)
  have "dropWhile is_digit (show_nat n @ w @ u) = w @ u"
    using show_nat_digits nd by (blast intro: dropWhile_digits_append)
  then show "dropWhile is_ws (dropWhile is_digit (show_nat n @ w @ u)) = u"
    using assms(1) u by (simp add: dropWhile_ws_append)
  show "\<not> list_all is_digit (show_nat n @ w @ u)"
    using u by (cases u) auto
qed

text \<open>
  A size with a binary unit is the byte count in decimal, computed without overflow; a plain
  byte count is passed on as it is written.
\<close>

lemma sizeBytes_unit:
  assumes "0 < n" and "list_all is_ws w" and "size_unit (toLowerCase u) = Some k"
  shows "sizeBytes (JStr (show_nat n @ w @ u)) label = Inr (show_nat (n * 1024 ^ k))"
proof -
  note parts = sized_string_parts [OF assms(2,3), of n]
  have "size_text (show_nat n @ w @ u) label = Inr (show_nat (n * 1024 ^ k))"
    unfolding size_text_def Let_def parts(2,3)
    using parts(4) show_nat_hd [OF assms(1)] assms(3) by auto
  then show ?thesis by (simp only: sizeBytes.simps parts(1))
qed

lemma trim_digits: "list_all is_digit s \<Longrightarrow> trim s = s"
  by (rule trim_no_ws) (auto simp: list_all_iff dest: digit_not_ws)

lemma sizeBytes_plain: "sizeBytes (JStr (show_nat n)) label = Inr (show_nat n)"
  by (simp add: trim_digits show_nat_digits size_text_def)

lemma size_text_digits: "size_text t label = Inr r \<Longrightarrow> r \<noteq> [] \<and> list_all is_digit r"
  by (auto simp: size_text_def Let_def show_nat_digits split: if_splits option.splits)

lemma sizeBytes_digits_str:
  "sizeBytes (JStr s) label = Inr r \<Longrightarrow> r \<noteq> [] \<and> list_all is_digit r"
  by (simp add: size_text_digits)

subsection \<open>Durations\<close>

lemma to_double_nat: "n < 2 ^ 53 \<Longrightarrow> to_double (of_nat n) = Fin (of_nat n)"
  using to_double_safe [of "int n"] by simp

lemma to_double_big:
  assumes "2 * B \<le> q" and "1 \<le> q"
  shows "to_double q = PInf \<or> (\<exists>v. to_double q = Fin v \<and> B \<le> v)"
proof -
  have "B \<le> q / 2" using assms(1) by simp
  then show ?thesis using to_double_ge_half [OF assms(2)] by (auto intro: order_trans)
qed

text \<open>Doubles count seconds exactly as far as the limit, and never fall back below it.\<close>

lemma num_scale_exact:
  assumes "n * k < 2 ^ 53" and "0 < k"
  shows "num_scale (to_double (of_nat n)) k = Fin (of_nat (n * k))"
proof -
  have "n \<le> n * k" using assms(2) by simp
  then have "n < 2 ^ 53" using assms(1) by linarith
  then show ?thesis
    using to_double_nat [of n] to_double_nat [OF assms(1)] by simp
qed

lemma num_scale_large:
  assumes "2 ^ 53 \<le> n * k" and "0 < k"
  shows "num_less (Fin (of_nat MAX_SOAK_SECONDS)) (num_scale (to_double (of_nat n)) k)"
proof -
  have big: "num_less (Fin (of_nat MAX_SOAK_SECONDS)) (to_double q)" if q: "2 ^ 52 \<le> q" for q :: rat
  proof -
    have "2 * 2 ^ 51 \<le> q" "1 \<le> q" using q by simp_all
    then have "to_double q = PInf \<or> (\<exists>v. to_double q = Fin v \<and> 2 ^ 51 \<le> v)" by (rule to_double_big)
    then show ?thesis by (auto simp: MAX_SOAK_SECONDS_def)
  qed
  have "(of_nat (2 ^ 53) :: rat) \<le> of_nat (n * k)" using assms(1) by (simp only: of_nat_le_iff)
  then have nk: "(2 ^ 53 :: rat) \<le> of_nat n * of_nat k" by simp
  show ?thesis
  proof (cases "n < 2 ^ 53")
    case True
    then show ?thesis using big [of "of_nat n * of_nat k"] nk by (simp add: to_double_nat)
  next
    case False
    then have "(of_nat (2 ^ 53) :: rat) \<le> of_nat n" by (simp only: of_nat_le_iff not_less)
    then have "2 * 2 ^ 52 \<le> (of_nat n :: rat)" "1 \<le> (of_nat n :: rat)" by simp_all
    then consider "to_double (of_nat n) = PInf" | v where "to_double (of_nat n) = Fin v" "2 ^ 52 \<le> v"
      using to_double_big by blast
    then show ?thesis
    proof cases
      case 1
      then show ?thesis by simp
    next
      case 2
      have "(1 :: rat) \<le> of_nat k" using assms(2) by simp
      then have "v * 1 \<le> v * of_nat k" using 2(2) by (intro mult_left_mono) simp_all
      then have "2 ^ 52 \<le> v * of_nat k" using 2(2) by linarith
      then show ?thesis using big 2(1) by simp
    qed
  qed
qed

definition soak_checked :: "jsnum \<Rightarrow> jsnum res" where
  "soak_checked seconds =
     (if num_less seconds (Fin 1) \<or> num_less (Fin (of_nat MAX_SOAK_SECONDS)) seconds
      then Inl (InputError ''soak must be between 1 second and 7 days'')
      else Inr seconds)"

lemma soak_checked_iff:
  assumes "0 < k"
  shows "soak_checked (num_scale (to_double (of_nat n)) k) =
    (if 1 \<le> n * k \<and> n * k \<le> MAX_SOAK_SECONDS then Inr (Fin (of_nat (n * k)))
     else Inl (InputError ''soak must be between 1 second and 7 days''))"
proof (cases "n * k < 2 ^ 53")
  case True
  have lim: "(of_nat MAX_SOAK_SECONDS < (of_nat (n * k) :: rat)) \<longleftrightarrow> MAX_SOAK_SECONDS < n * k"
    by (simp only: of_nat_less_iff)
  have one: "((of_nat (n * k) :: rat) < 1) \<longleftrightarrow> n * k < 1"
    by (metis of_nat_1 of_nat_less_iff)
  show ?thesis
    unfolding num_scale_exact [OF True assms] soak_checked_def num_less.simps lim one by auto
next
  case False
  then have "MAX_SOAK_SECONDS < n * k" by (simp add: MAX_SOAK_SECONDS_def)
  moreover have "num_less (Fin (of_nat MAX_SOAK_SECONDS)) (num_scale (to_double (of_nat n)) k)"
    using False assms by (intro num_scale_large) simp_all
  ultimately show ?thesis by (simp add: soak_checked_def)
qed

lemma show_7: "show_nat (MAX_SOAK_SECONDS div 86400) = ''7''"
  by (simp add: MAX_SOAK_SECONDS_def show_nat.simps char_eval)

lemma soak_raw:
  fixes v :: js
  defines "raw \<equiv> (case v of JNum n \<Rightarrow> num_to_string n | JStr s \<Rightarrow> trim s | _ \<Rightarrow> [])"
  assumes "takeWhile is_digit raw \<noteq> []"
    and "soak_unit (toLowerCase (dropWhile is_ws (dropWhile is_digit raw))) = Some k"
  shows "soakSeconds v =
    soak_checked (num_scale (to_double (of_nat (read_nat (takeWhile is_digit raw)))) k)"
proof -
  have "list_all is_digit (takeWhile is_digit raw)"
    by (auto simp: list_all_iff dest: set_takeWhileD)
  then have "str_to_number (takeWhile is_digit raw) = to_double (of_nat (read_nat (takeWhile is_digit raw)))"
    using assms(2) by (rule str_to_number_digits)
  then show ?thesis
    using assms(2,3) unfolding soakSeconds_def raw_def [symmetric] Let_def soak_checked_def show_7
    by simp
qed

lemma soak_unit_pos: "soak_unit u = Some k \<Longrightarrow> 0 < k"
  by (auto simp: soak_unit_def split: if_splits)

text \<open>Whatever is accepted as a soak is a whole number of seconds within the controller's limit.\<close>

lemma soakSeconds_bounded:
  assumes "soakSeconds value = Inr s"
  shows "\<exists>n. s = Fin (of_nat n) \<and> 1 \<le> n \<and> n \<le> MAX_SOAK_SECONDS"
proof -
  let ?raw = "case value of JNum n \<Rightarrow> num_to_string n | JStr s \<Rightarrow> trim s | _ \<Rightarrow> []"
  have ds: "takeWhile is_digit ?raw \<noteq> []"
    and "soak_unit (toLowerCase (dropWhile is_ws (dropWhile is_digit ?raw))) \<noteq> None"
    using assms unfolding soakSeconds_def Let_def by (auto split: if_splits)
  then obtain k where k: "soak_unit (toLowerCase (dropWhile is_ws (dropWhile is_digit ?raw))) = Some k"
    by blast
  let ?n = "read_nat (takeWhile is_digit ?raw)"
  have "soakSeconds value =
    (if 1 \<le> ?n * k \<and> ?n * k \<le> MAX_SOAK_SECONDS then Inr (Fin (of_nat (?n * k)))
     else Inl (InputError ''soak must be between 1 second and 7 days''))"
    by (simp only: soak_raw [OF ds k] soak_checked_iff [OF soak_unit_pos [OF k]])
  with assms have "1 \<le> ?n * k \<and> ?n * k \<le> MAX_SOAK_SECONDS \<and> s = Fin (of_nat (?n * k))"
    by (simp del: of_nat_mult One_nat_def split: if_splits)
  then show ?thesis by blast
qed

lemma soak_unit_letters:
  assumes "soak_unit (toLowerCase u) = Some k" and "u \<noteq> []"
  shows "\<not> is_digit (hd u) \<and> \<not> is_ws (hd u) \<and> \<not> is_ws (last u)"
proof -
  have low: "length (toLowerCase u) = 1 \<and> \<not> is_digit (hd (toLowerCase u)) \<and> \<not> is_ws (hd (toLowerCase u))"
    using assms unfolding soak_unit_def by (auto simp: is_digit_def is_ws_def split: if_splits)
  then obtain c where u: "u = [c]" by (cases u) auto
  have "is_digit c \<Longrightarrow> is_digit (lower_char c)" by (auto simp: is_digit_def lower_char_def)
  with low u show ?thesis by (auto simp: is_ws_lower)
qed

text \<open>A duration is its count times the seconds of its unit, where that is within the limit.\<close>

lemma soakSeconds_unit:
  assumes "soak_unit (toLowerCase u) = Some k" and "list_all is_ws w" and "u = [] \<Longrightarrow> w = []"
  shows "soakSeconds (JStr (show_nat n @ w @ u)) =
    (if 1 \<le> n * k \<and> n * k \<le> MAX_SOAK_SECONDS then Inr (Fin (of_nat (n * k)))
     else Inl (InputError ''soak must be between 1 second and 7 days''))"
proof -
  have nd: "w @ u = [] \<or> \<not> is_digit (hd (w @ u))"
    using assms soak_unit_letters [OF assms(1)] by (cases w; cases u) (auto dest: digit_not_ws)
  have nw: "u = [] \<or> \<not> is_ws (hd u)" using soak_unit_letters [OF assms(1)] by auto
  have "\<not> is_ws (last (show_nat n @ w @ u))"
  proof (cases "u = []")
    case True
    have "is_digit (last (show_nat n))" using show_nat_digits [of n] by (simp add: list_all_iff)
    then show ?thesis using True assms(3) by (simp add: digit_not_ws)
  next
    case False
    then show ?thesis using soak_unit_letters [OF assms(1)] by simp
  qed
  moreover have "\<not> is_ws (hd (show_nat n @ w @ u))"
    using hd_show_nat_digit [of n] by (simp add: digit_not_ws)
  ultimately have t: "trim (show_nat n @ w @ u) = show_nat n @ w @ u" by (blast intro: trim_id)
  have ds: "takeWhile is_digit (show_nat n @ w @ u) = show_nat n"
    using show_nat_digits nd by (rule takeWhile_digits_append)
  have "dropWhile is_digit (show_nat n @ w @ u) = w @ u"
    using show_nat_digits nd by (rule dropWhile_digits_append)
  then have un: "dropWhile is_ws (dropWhile is_digit (show_nat n @ w @ u)) = u"
    using dropWhile_ws_append [OF assms(2) nw] by simp
  have "soakSeconds (JStr (show_nat n @ w @ u)) =
      soak_checked (num_scale (to_double (of_nat (read_nat (show_nat n)))) k)"
    using soak_raw [of "JStr (show_nat n @ w @ u)" k] assms(1)
    by (simp only: js.case t ds un show_nat_nonempty not_False_eq_True simp_thms)
  then show ?thesis by (simp only: read_show_nat soak_checked_iff [OF soak_unit_pos [OF assms(1)]])
qed

subsection \<open>Addresses\<close>

lemma ADDRESS_no_bracket: "ADDRESS a \<Longrightarrow> \<not> prefix ''['' a"
  by (cases a) (auto simp: ADDRESS_def char_eval)

text \<open>A validated address is its host, a colon, and a port without colons.\<close>

lemma hostOf_split:
  assumes "address_ok a"
  shows "\<exists>port. a = hostOf a @ CHR '':'' # port \<and> CHR '':'' \<notin> set port"
proof -
  have "CHR '':'' \<in> set a" using assms by (simp add: address_ok_def sublist_singleton)
  then obtain i where i: "lastIndexOf CHR '':'' a = Some i"
    by (metis lastIndexOf_None option.exhaust)
  have "hostOf a = take i a"
    using assms i ADDRESS_no_bracket by (simp add: hostOf_def address_ok_def)
  moreover have "a = take i a @ CHR '':'' # drop (Suc i) a" "CHR '':'' \<notin> set (drop (Suc i) a)"
    using lastIndexOf_Some [OF i] id_take_nth_drop [of i a] by auto
  ultimately show ?thesis by metis
qed

end
