(* ===== verification/Requests_Msg.thy ===== *)
theory Requests_Msg
  imports Requests_Core
begin

text \<open>
  The request messages of \<^verbatim>\<open>kcore-mcp/packages/server/src/requests.ts\<close>: one function per message
  the server sends to create a resource or to run a day-2 operation. Each returns the object the
  source builds, with its properties in the source's order, or the error of the first property
  that throws. The lemmas at the end say what an accepted message guarantees: the update strategy,
  the cloud-init document and the security group rules, and the two places where a value the
  caller gives does not arrive.
\<close>

section \<open>Virtual machines\<close>

definition imageFields :: "platform \<Rightarrow> obj \<Rightarrow> (string \<times> string \<times> string \<times> string) res" where
  "imageFields pf spec =
     (case opt spec ''imageUrl'' of
        Some u \<Rightarrow>
          ebind (assertHttpsUrl (url_protocol pf) u) (\<lambda>imageUrl.
          ebind (ebind (required spec ''imageSha256'' ''image SHA256'') assertSha256) (\<lambda>imageSha256.
          Inr (imageUrl, imageSha256, [], opt_or spec ''imageFormat'' [])))
      | None \<Rightarrow>
          (case opt spec ''imagePath'' of
             Some p \<Rightarrow>
               ebind (required spec ''imageFormat'' ''image format'') (\<lambda>format.
               if format \<noteq> ''qcow2'' \<and> format \<noteq> ''raw''
               then Inl (InputError ''image format must be qcow2 or raw'')
               else ebind (assertArg p ''image path'') (\<lambda>imagePath. Inr ([], [], imagePath, format)))
           | None \<Rightarrow> Inl (InputError ''an https image URL or a node-local image path is required'')))"

text \<open>\<^verbatim>\<open>key.replaceAll("\\", "\\\\").replaceAll('"', '\\"')\<close>\<close>

definition yaml_escape :: "string \<Rightarrow> string" where
  "yaml_escape key =
     concat (map (\<lambda>c. if c = CHR 0x22 then [CHR 0x5C, CHR 0x22] else [c])
       (concat (map (\<lambda>c. if c = CHR 0x5C then [CHR 0x5C, CHR 0x5C] else [c]) key)))"

definition cloudInit_lines :: "string \<Rightarrow> string \<Rightarrow> string list \<Rightarrow> string list" where
  "cloudInit_lines hostname username keys =
     [''#cloud-config'',
      ''hostname: '' @ hostname,
      ''users:'',
      ''  - default'',
      ''  - name: '' @ username,
      ''    gecos: kcore VM user'',
      ''    groups: [sudo]'',
      ''    shell: /bin/bash'',
      ''    lock_passwd: true'',
      ''    ssh_authorized_keys:'']
     @ map (\<lambda>key. ''      - '' @ [CHR 0x22] @ yaml_escape key @ [CHR 0x22]) keys
     @ [''ssh_pwauth: false'']"

definition cloudInit :: "string \<Rightarrow> obj \<Rightarrow> string res" where
  "cloudInit hostname spec =
     (if opt spec ''password'' \<noteq> None
      then Inl (InputError ''Use an SSH public key. Password login stays off unless cloudInitUserData is set and compliant is false.'')
      else case opt spec ''cloudInitUserData'' of
        Some d \<Rightarrow> Inr d
      | None \<Rightarrow>
          ebind (emap assertSshPublicKey (stringList (oget spec ''sshPublicKeys''))) (\<lambda>keys.
          if length keys = 0 then Inr []
          else ebind (assertName (opt_or spec ''username'' ''kcore'') ''username'') (\<lambda>username.
               Inr (join [CHR 0x0A] (cloudInit_lines hostname username keys) @ [CHR 0x0A]))))"

definition nic :: "string \<Rightarrow> js" where
  "nic network = JObj [(''network'', JStr network), (''model'', JStr ''virtio''), (''macAddress'', JStr [])]"

definition extra_nics :: "obj \<Rightarrow> js list res" where
  "extra_nics spec =
     emap (\<lambda>item. ebind (assertName item ''extra network'') (\<lambda>n. Inr (nic n)))
       (List.map_filter str_item (arr_items (oget spec ''extraNetworks'')))"

definition vm_spec :: "string \<Rightarrow> js list \<Rightarrow> obj \<Rightarrow> obj res" where
  "vm_spec name nics spec =
     (let memory = (case opt spec ''memoryBytes'' of Some m \<Rightarrow> Some m | None \<Rightarrow> opt spec ''memory'') in
      props
       [(''name'', Inr (JStr name)),
        (''cpu'', case opt spec ''cpu'' of
            Some c \<Rightarrow> ebind (assertArg c ''cpu'') (\<lambda>a. Inr (JNum (str_to_number a)))
          | None \<Rightarrow> Inr (JInt 2)),
        (''memoryBytes'', jstr (case memory of
            Some m \<Rightarrow> sizeBytes (JStr m) ''memory''
          | None \<Rightarrow> sizeBytes (JStr ''2G'') ''memory'')),
        (''nics'', Inr (JArr nics)),
        (''disks'', Inr (JArr [])),
        (''desiredState'', jstr (desired (oget spec ''desiredState''))),
        (''gpus'', Inr (jstrs (deviceList (oget spec ''gpus'')))),
        (''vgpus'', Inr (jstrs (deviceList (oget spec ''vgpus'')))),
        (''pciDevices'', Inr (jstrs (deviceList (oget spec ''pciDevices''))))])"

definition vmRequest :: "platform \<Rightarrow> obj \<Rightarrow> obj res" where
  "vmRequest pf spec =
     ebind (req_name spec ''name'' ''VM name'') (\<lambda>name.
     ebind (req_name spec ''network'' ''network'') (\<lambda>network.
     ebind (ebind (required spec ''storageBackend'' ''storage backend'') backendEnum) (\<lambda>backend.
     ebind (extra_nics spec) (\<lambda>extra.
     ebind (imageFields pf spec) (\<lambda>(imageUrl, imageSha256, imagePath, imageFormat).
     props
      [(''targetNode'', Inr (JStr (opt_or spec ''targetNode'' []))),
       (''targetDc'', Inr (JStr (opt_or spec ''dc'' []))),
       (''storageBackend'', Inr backend),
       (''storageSizeBytes'', jstr (req_size spec ''storageSizeBytes'' ''storage size'')),
       (''imageUrl'', Inr (JStr imageUrl)),
       (''imageSha256'', Inr (JStr imageSha256)),
       (''imagePath'', Inr (JStr imagePath)),
       (''imageFormat'', Inr (JStr imageFormat)),
       (''cloudInitUserData'', jstr (cloudInit name spec)),
       (''sshKeyNames'', jarr (emap (\<lambda>item. jstr (assertName item ''ssh key name'')) (stringList (oget spec ''sshKeys'')))),
       (''nodeLabels'', Inr (jstrs (stringList (oget spec ''nodeLabels'')))),
       (''antiAffinity'', jstr (opt_name spec ''antiAffinity'' ''anti-affinity'')),
       (''spec'', jobj (vm_spec name (nic network # extra) spec))])))))"

section \<open>vGPU hosts\<close>

text \<open>\<^verbatim>\<open>/=\s*[1-9]\d*\s*$/\<close>, read from the end of the string.\<close>

definition has_count :: "string \<Rightarrow> bool" where
  "has_count dev =
     (let t = dropWhile is_ws (rev dev); ds = takeWhile is_digit t;
          rest = dropWhile is_ws (dropWhile is_digit t)
      in ds \<noteq> [] \<and> last ds \<noteq> CHR ''0'' \<and> rest \<noteq> [] \<and> hd rest = CHR ''='')"

definition host_cards :: "string list \<Rightarrow> js res" where
  "host_cards cards = jarr (emap (\<lambda>dev. jstr (assertArg dev ''host card'')) cards)"

definition num_vfs :: "obj \<Rightarrow> jsnum" where
  "num_vfs spec =
     (let v = oget spec ''numVfs'' in if nullish v \<or> v = JStr [] then Fin 0 else js_number v)"

definition nodeVgpuRequest :: "obj \<Rightarrow> bool \<Rightarrow> obj res" where
  "nodeVgpuRequest spec enabling =
     (case (case opt spec ''nodeId'' of Some n \<Rightarrow> Some n | None \<Rightarrow> opt spec ''name'') of
        None \<Rightarrow> Inl (InputError ''node id is required'')
      | Some rawNode \<Rightarrow>
          ebind (assertName rawNode ''node id'') (\<lambda>nodeId.
          let enabled = enabling \<and> oget spec ''enabled'' \<noteq> JBool False \<and> oget spec ''enabled'' \<noteq> JStr ''false'' in
          if \<not> enabled then
            Inr [(''nodeId'', JStr nodeId), (''enabled'', JBool False), (''hostCards'', JArr []), (''numVfs'', JInt 0),
                 (''manager'', JObj [(''url'', JStr []), (''sha256'', JStr []), (''file'', JStr []), (''version'', JStr [])]),
                 (''vendor'', JStr [])]
          else
          let vendor = toLowerCase (opt_or spec ''vendor'' ''nvidia'') in
          if vendor \<notin> set [''nvidia'', ''intel'', ''amd'']
          then Inl (InputError ''vendor must be nvidia, intel, or amd'')
          else
          let hostCards = deviceList (oget spec ''hostCards'') in
          if length hostCards = 0 then Inl (InputError ''hostCards must name at least one PCI address'')
          else
          let numVfs = num_vfs spec in
          if \<not> isInteger numVfs \<or> num_less numVfs (Fin 0) then Inl (InputError ''numVfs must be an integer >= 0'')
          else if vendor \<noteq> ''nvidia'' then
            (let uncounted = filter (\<lambda>dev. \<not> has_count dev) hostCards in
             if 0 < length uncounted \<and> num_less numVfs (Fin 1)
             then Inl (InputError (''numVfs, or ADDRESS=N on every host card, is required for '' @ vendor @ '' cards''))
             else props
               [(''nodeId'', Inr (JStr nodeId)), (''enabled'', Inr (JBool True)),
                (''hostCards'', host_cards hostCards), (''numVfs'', Inr (JNum numVfs)), (''vendor'', Inr (JStr vendor))])
          else
          ebind (required spec ''managerUrl'' ''manager URL'') (\<lambda>url.
          if \<not> (startsWith url ''http://'' \<or> startsWith url ''https://'') \<or> includes_str url '' ''
          then Inl (InputError ''manager URL must be an http or https URL'')
          else
          ebind (required spec ''managerFile'' ''manager file'') (\<lambda>file.
          if includes_str file ''/'' \<or> \<not> endsWith file ''.run''
          then Inl (InputError ''manager file must be the NVIDIA .run installer name'')
          else props
            [(''nodeId'', Inr (JStr nodeId)), (''enabled'', Inr (JBool True)),
             (''hostCards'', host_cards hostCards), (''numVfs'', Inr (JNum numVfs)),
             (''manager'', jobj (props
                [(''url'', Inr (JStr url)),
                 (''sha256'', jstr (ebind (required spec ''managerSha256'' ''manager SHA256'') assertSha256)),
                 (''file'', Inr (JStr file)),
                 (''version'', Inr (JStr (opt_or spec ''managerVersion'' ''595.91.04'')))])),
             (''vendor'', Inr (JStr vendor))]))))"

section \<open>Networks, keys, containers, volumes\<close>

definition opt_number :: "obj \<Rightarrow> string \<Rightarrow> int \<Rightarrow> js" where
  "opt_number spec key d = (case opt spec key of Some v \<Rightarrow> JNum (str_to_number v) | None \<Rightarrow> JInt d)"

definition networkRequest :: "obj \<Rightarrow> obj res" where
  "networkRequest spec =
     ebind (required spec ''type'' ''network type'') (\<lambda>type.
     if type \<notin> set [''nat'', ''bridge'', ''vxlan''] then Inl (InputError ''network type must be nat, bridge, or vxlan'')
     else props
      [(''name'', jstr (req_name spec ''name'' ''network name'')),
       (''externalIp'', jstr (req_arg spec ''externalIp'' ''external IP'')),
       (''gatewayIp'', jstr (req_arg spec ''gatewayIp'' ''gateway IP'')),
       (''internalNetmask'', Inr (JStr (opt_or spec ''internalNetmask'' ''255.255.255.0''))),
       (''targetNode'', Inr (JStr (opt_or spec ''targetNode'' []))),
       (''networkType'', Inr (JStr type)),
       (''vlanId'', Inr (opt_number spec ''vlanId'' 0)),
       (''enableOutboundNat'', Inr (JBool (if boolish (oget spec ''noOutboundNat'') then False else type \<noteq> ''bridge''))),
       (''ipv6Prefix'', Inr (JStr (opt_or spec ''ipv6Prefix'' []))),
       (''ipv6Gateway'', Inr (JStr (opt_or spec ''ipv6Gateway'' []))),
       (''eastWestFirewall'', Inr (JBool (boolish (oget spec ''eastWestFirewall''))))])"

definition sshKeyRequest :: "obj \<Rightarrow> obj res" where
  "sshKeyRequest spec =
     props
      [(''name'', jstr (req_name spec ''name'' ''name'')),
       (''publicKey'', jstr (ebind (required spec ''publicKey'' ''public key'') assertSshPublicKey))]"

definition env_record :: "js \<Rightarrow> obj" where
  "env_record v = foldl (\<lambda>env p. oset env (fst p) (JStr (js_string (snd p)))) [] (obj_of v)"

definition container_spec :: "obj \<Rightarrow> obj res" where
  "container_spec spec =
     props
      [(''name'', jstr (req_name spec ''name'' ''container name'')),
       (''image'', jstr (req_arg spec ''image'' ''image'')),
       (''network'', jstr (opt_name spec ''network'' ''network'')),
       (''command'', Inr (jstrs (stringList (oget spec ''command'')))),
       (''env'', Inr (JObj (env_record (oget spec ''env'')))),
       (''ports'', Inr (jstrs (stringList (oget spec ''ports'')))),
       (''desiredState'', jstr (desired (oget spec ''desiredState'')))]"

definition containerRequest :: "obj \<Rightarrow> obj res" where
  "containerRequest spec =
     props
      [(''kind'', Inr (JStr ''WORKLOAD_KIND_CONTAINER'')),
       (''containerSpec'', jobj (container_spec spec))]"

definition volumeRequest :: "obj \<Rightarrow> obj res" where
  "volumeRequest spec =
     props
      [(''name'', jstr (req_name spec ''name'' ''volume name'')),
       (''sizeBytes'', jstr (req_size spec ''sizeBytes'' ''size'')),
       (''storageClass'', Inr (JStr ''ceph'')),
       (''vm'', jstr (opt_name spec ''vm'' ''vm'')),
       (''fromSnapshot'', jstr (opt_name spec ''fromSnapshot'' ''snapshot'')),
       (''encrypt'', Inr (JBool (boolish (oget spec ''encrypt''))))]"

definition snapshotRequest :: "obj \<Rightarrow> obj res" where
  "snapshotRequest spec =
     props
      [(''volume'', jstr (req_name spec ''volume'' ''volume'')),
       (''name'', jstr (req_name spec ''name'' ''snapshot name'')),
       (''consistency'', Inr (JStr ''crash''))]"

definition policyMessage :: "obj \<Rightarrow> obj res" where
  "policyMessage spec =
     (if opt spec ''vm'' = None \<and> opt spec ''volume'' = None
      then Inl (InputError ''a snapshot policy needs a vm or a volume'')
      else props
       [(''name'', jstr (req_name spec ''name'' ''policy name'')),
        (''selectorVm'', jstr (opt_name spec ''vm'' ''vm'')),
        (''selectorVolume'', jstr (opt_name spec ''volume'' ''volume'')),
        (''schedule'', jstr (assertArg (opt_or spec ''schedule'' ''@daily'') ''schedule'')),
        (''keep'', Inr (JNum (str_to_number (opt_or spec ''keep'' ''7'')))),
        (''enabled'', Inr (JBool (\<not> boolish (oget spec ''disabled''))))])"

section \<open>Calls\<close>

datatype target = Controller | NodeAgent

record RpcCall =
  call_target :: target
  call_method :: string
  call_request :: obj
  call_address :: "string option"

definition ctl :: "string \<Rightarrow> obj \<Rightarrow> RpcCall" where
  "ctl method request =
     \<lparr>call_target = Controller, call_method = method, call_request = request, call_address = None\<rparr>"

lemma ctl_simps [simp]:
  "call_target (ctl m r) = Controller"
  "call_method (ctl m r) = m"
  "call_request (ctl m r) = r"
  "call_address (ctl m r) = None"
  by (simp_all add: ctl_def)

section \<open>Security groups\<close>

text \<open>
  \<^verbatim>\<open>/^(tcp|udp)\/(\d+)(?:\s+from\s+(\S+))?/i\<close>: the protocol, the port digits and the source, the
  last empty where the optional group does not match.
\<close>

definition rule_source :: "string \<Rightarrow> string" where
  "rule_source r =
     (let r1 = dropWhile is_ws r; r2 = drop 4 r1; r3 = dropWhile is_ws r2 in
      if r \<noteq> [] \<and> is_ws (hd r) \<and> toLowerCase (take 4 r1) = ''from'' \<and> r2 \<noteq> [] \<and> is_ws (hd r2)
      then takeWhile (\<lambda>c. \<not> is_ws c) r3 else [])"

definition rule_text :: "string \<Rightarrow> (string \<times> string \<times> string) option" where
  "rule_text t =
     (let proto = toLowerCase (take 3 t); r = drop 4 t; ds = takeWhile is_digit r in
      if (proto = ''tcp'' \<or> proto = ''udp'') \<and> take 1 (drop 3 t) = ''/'' \<and> ds \<noteq> []
      then Some (proto, ds, rule_source (dropWhile is_digit r)) else None)"

definition rule_message :: "js \<Rightarrow> js res" where
  "rule_message item =
     (case item of
        JStr s \<Rightarrow>
          (case rule_text (trim s) of
             None \<Rightarrow> Inl (InputError (''rule must look like tcp/443 from 10.0.0.0/8, got '' @ s))
           | Some (proto, port, src) \<Rightarrow>
               Inr (JObj [(''protocol'', JStr proto), (''hostPort'', JNum (str_to_number port)), (''sourceCidr'', JStr src)]))
      | _ \<Rightarrow>
          if \<not> is_object item then Inl (InputError ''a security group rule must be an object or tcp/port text'')
          else
            Inr (JObj [(''protocol'', JStr (js_string (coalesce (jget item ''protocol'') (JStr [])))),
                       (''hostPort'', JNum (js_number (coalesce (jget item ''hostPort'') (JInt 0)))),
                       (''targetPort'', JNum (js_number (coalesce (jget item ''targetPort'') (JInt 0)))),
                       (''sourceCidr'', JStr (js_string (coalesce (jget item ''sourceCidr'') (JStr [])))),
                       (''targetVm'', JStr (js_string (coalesce (jget item ''targetVm'') (JStr [])))),
                       (''enableDnat'', JBool (boolish (jget item ''enableDnat'')))]))"

definition rules :: "js \<Rightarrow> js list res" where
  "rules value =
     (let items = (case value of JArr xs \<Rightarrow> xs | JStr s \<Rightarrow> [JStr s] | _ \<Rightarrow> []) in
      if length items = 0 then Inl (InputError ''a security group needs at least one rule'')
      else emap rule_message items)"

definition attachment_call :: "string \<Rightarrow> js \<Rightarrow> RpcCall res" where
  "attachment_call name row =
     (let kind = js_string (coalesce (jget row ''kind'') (coalesce (jget row ''targetKind'') (JStr []))) in
      ebind (props
       [(''securityGroup'', Inr (JStr name)),
        (''targetKind'', Inr (JStr (if kind = ''network'' then ''SECURITY_GROUP_TARGET_KIND_NETWORK'' else ''SECURITY_GROUP_TARGET_KIND_VM''))),
        (''targetId'', jstr (assertArg (js_string (coalesce (jget row ''target'') (coalesce (jget row ''targetId'') (JStr [])))) ''attachment target'')),
        (''targetNode'', Inr (case jget row ''node'' of JStr s \<Rightarrow> JStr s | _ \<Rightarrow> JStr []))])
      (\<lambda>request. Inr (ctl ''attachSecurityGroup'' request)))"

definition securityGroupCalls :: "obj \<Rightarrow> RpcCall list res" where
  "securityGroupCalls spec =
     ebind (req_name spec ''name'' ''name'') (\<lambda>name.
     ebind (props
       [(''securityGroup'', jobj (props
          [(''name'', Inr (JStr name)),
           (''description'', Inr (JStr (opt_or spec ''description'' []))),
           (''rules'', jarr (rules (oget spec ''rules'')))]))]) (\<lambda>request.
     ebind (emap (attachment_call name) (filter is_object (arr_items (oget spec ''attachments'')))) (\<lambda>attached.
     Inr (ctl ''createSecurityGroup'' request # attached))))"

section \<open>Disks, Ceph, ingress and object storage\<close>

definition readLayoutFile :: "platform \<Rightarrow> string option \<Rightarrow> string res" where
  "readLayoutFile pf path =
     (case path of
        None \<Rightarrow> Inr []
      | Some p \<Rightarrow> ebind (assertArg p ''layout file'') (\<lambda>f.
          case read_file pf f of Inl e \<Rightarrow> Inl (OtherError (fs_message e)) | Inr t \<Rightarrow> Inr t))"

definition diskLayoutMessage :: "platform \<Rightarrow> obj \<Rightarrow> obj res" where
  "diskLayoutMessage pf spec =
     ebind (case opt spec ''layoutNix'' of Some l \<Rightarrow> Inr l | None \<Rightarrow> readLayoutFile pf (opt spec ''layoutNixFile'')) (\<lambda>layout.
     if layout = [] \<and> \<not> truthy (oget spec ''diskLayout'')
     then Inl (InputError ''a disk layout needs layoutNix, layoutNixFile, or diskLayout'')
     else props
      [(''name'', jstr (req_name spec ''name'' ''name'')),
       (''nodeId'', jstr (req_name spec ''nodeId'' ''node id'')),
       (''layoutNix'', Inr (JStr layout))])"

definition cephMessage :: "obj \<Rightarrow> obj res" where
  "cephMessage spec =
     props
      [(''name'', jstr (req_name spec ''name'' ''name'')),
       (''spec'', jobj (props
         [(''fsid'', Inr (JStr (opt_or spec ''fsid'' []))),
          (''publicNetwork'', jstr (req_arg spec ''publicNetwork'' ''public network'')),
          (''clusterNetwork'', jstr (req_arg spec ''clusterNetwork'' ''cluster network'')),
          (''size'', Inr (opt_number spec ''size'' 0)),
          (''minSize'', Inr (opt_number spec ''minSize'' 0)),
          (''forceWipe'', Inr (JBool (boolish (oget spec ''forceWipe'')))),
          (''encryptOsds'', Inr (JBool (if oget spec ''encryptOsds'' = JUndef then True else boolish (oget spec ''encryptOsds'')))),
          (''nodes'', Inr (JArr (arr_items (oget spec ''nodes''))))]))]"

definition ingressRequest :: "obj \<Rightarrow> (string \<times> string) res" where
  "ingressRequest spec =
     ebind (req_name spec ''name'' ''name'') (\<lambda>name.
     Inr (name, json_text (JObj (without [''name'', ''kind''] spec))))"

definition ingress_obj :: "obj \<Rightarrow> obj res" where
  "ingress_obj spec =
     ebind (ingressRequest spec) (\<lambda>(name, specJson). Inr [(''name'', JStr name), (''specJson'', JStr specJson)])"

definition filesystemMessage :: "obj \<Rightarrow> obj res" where
  "filesystemMessage spec =
     props
      [(''name'', jstr (req_name spec ''name'' ''name'')),
       (''spec'', jobj (props
         [(''cephCluster'', jstr (req_name spec ''cephCluster'' ''ceph cluster'')),
          (''quotaBytes'', jstr (sizeBytes (JStr (opt_or spec ''quotaBytes'' ''0'')) ''quota'')),
          (''clients'', Inr (JArr (arr_items (oget spec ''clients'')))),
          (''fsName'', Inr (JStr (opt_or spec ''fsName'' [])))]))]"

definition objectStoreMessage :: "obj \<Rightarrow> obj res" where
  "objectStoreMessage spec =
     ebind (emap (\<lambda>item. assertName item ''member'') (stringList (oget spec ''members''))) (\<lambda>members.
     if length members = 0 then Inl (InputError ''an object store needs at least one member node'')
     else props
      [(''name'', jstr (req_name spec ''name'' ''name'')),
       (''spec'', jobj (props
         [(''cephCluster'', jstr (req_name spec ''cephCluster'' ''ceph cluster'')),
          (''members'', Inr (jstrs members)),
          (''port'', Inr (opt_number spec ''port'' 0)),
          (''tls'', Inr (JBool (boolish (oget spec ''tls''))))]))])"

section \<open>Cluster updates\<close>

definition first_opt :: "obj \<Rightarrow> string list \<Rightarrow> string option" where
  "first_opt spec keys = (case List.map_filter (opt spec) keys of [] \<Rightarrow> None | v # _ \<Rightarrow> Some v)"

definition os_pin :: "js \<Rightarrow> js" where
  "os_pin pin =
     (let row = obj_of pin in
      JObj [(''nixpkgsRev'', JStr (opt_or row ''nixpkgsRev'' [])),
            (''cephRev'', JStr (opt_or row ''cephRev'' [])),
            (''cephSha256'', JStr (opt_or row ''cephSha256'' [])),
            (''kubernetesVersion'', JStr (opt_or row ''kubernetesVersion'' []))])"

definition update_strategy :: "obj \<Rightarrow> string" where
  "update_strategy spec =
     (case (case oget spec ''strategy'' of JStr _ \<Rightarrow> opt spec ''strategy'' | _ \<Rightarrow> None) of
        Some s \<Rightarrow> s
      | None \<Rightarrow> (case first_opt (section_of spec ''strategy'') [''strategyType'', ''type''] of
                   Some s \<Rightarrow> s | None \<Rightarrow> ''one-at-a-time''))"

definition opt_else_req :: "obj \<Rightarrow> obj \<Rightarrow> string \<Rightarrow> string \<Rightarrow> string res" where
  "opt_else_req target spec key label =
     ebind (case opt target key of Some v \<Rightarrow> Inr v | None \<Rightarrow> required spec key label) (\<lambda>v. assertArg v label)"

definition opt_else_opt :: "obj \<Rightarrow> obj \<Rightarrow> string \<Rightarrow> string" where
  "opt_else_opt target spec key = (case opt target key of Some v \<Rightarrow> v | None \<Rightarrow> opt_or spec key [])"

definition clusterUpdateMessage :: "obj \<Rightarrow> obj res" where
  "clusterUpdateMessage spec =
     (let target = section_of spec ''target'';
          selector = section_of spec ''selector'';
          activation = section_of spec ''activation'';
          block = section_of spec ''strategy'';
          strategy = update_strategy spec;
          canary = (strategy = ''canary'');
          soak = coalesce (oget block ''canarySoakSeconds'') (oget block ''canary_soak_seconds'');
          canaryNode = first_opt block [''canaryNode'', ''canary_node'', ''canaryNodeId'', ''canary_node_id''];
          maxUnavailable = (if oget block ''maxUnavailable'' = JUndef then Fin 1 else js_number (oget block ''maxUnavailable''));
          approval = opt spec ''approvalPolicy'';
          mode = (case opt activation ''mode'' of Some m \<Rightarrow> Some m | None \<Rightarrow> opt spec ''activationMode'');
          pins = arr_items (oget spec ''testedOsPins'')
      in
      if strategy \<noteq> ''one-at-a-time'' \<and> strategy \<noteq> ''canary''
      then Inl (InputError ''strategy must be one-at-a-time or canary; batch and per-dc are refused'')
      else if \<not> canary \<and> (soak \<noteq> JUndef \<or> canaryNode \<noteq> None)
      then Inl (InputError ''canarySoakSeconds and canaryNode need strategyType canary'')
      else if maxUnavailable \<noteq> Fin 1 then Inl (InputError ''maxUnavailable must be 1'')
      else if (case approval of Some a \<Rightarrow> \<not> truthy (oget APPROVAL a) | None \<Rightarrow> False)
      then Inl (InputError ''approvalPolicy must be manual, auto-non-disruptive, or auto'')
      else if (case mode of Some m \<Rightarrow> \<not> truthy (oget ACTIVATION m) | None \<Rightarrow> False)
      then Inl (InputError ''activation mode must be test, switch, boot, or auto'')
      else props
       [(''name'', jstr (req_name spec ''name'' ''name'')),
        (''target'', jobj (props
          [(''version'', jstr (opt_else_req target spec ''version'' ''version'')),
           (''flakeRef'', jstr (opt_else_req target spec ''flakeRef'' ''flake ref'')),
           (''flakeRev'', Inr (JStr (opt_else_opt target spec ''flakeRev''))),
           (''nixpkgsRev'', Inr (JStr (opt_else_opt target spec ''nixpkgsRev''))),
           (''systemProfile'', Inr (JStr (opt_or target ''systemProfile'' [])))])),
        (''selector'', Inr (JObj
          [(''nodeIds'', jstrs (stringList (oget selector ''nodeIds''))),
           (''labels'', jstrs (stringList (oget selector ''labels''))),
           (''datacenters'', jstrs (stringList (oget selector ''datacenters''))),
           (''allNodes'', JBool (boolish (oget selector ''allNodes''))),
           (''controllersOnly'', JBool (boolish (oget selector ''controllersOnly'')))])),
        (''strategy'', jobj (props
          [(''type'', Inr (JStr (if canary then ''CLUSTER_UPDATE_STRATEGY_CANARY'' else ''CLUSTER_UPDATE_STRATEGY_ONE_AT_A_TIME''))),
           (''maxUnavailable'', Inr (JInt 1)),
           (''batchSize'', Inr (JNum (js_number (coalesce (oget block ''batchSize'') (JInt 0))))),
           (''canarySoakSeconds'', if soak = JUndef then Inr (JInt 0) else ebind (soakSeconds soak) (\<lambda>n. Inr (JNum n))),
           (''canaryNodeId'', jstr (case canaryNode of Some n \<Rightarrow> assertName n ''canary node'' | None \<Rightarrow> Inr []))])),
        (''drainVms'', Inr (JBool (if oget spec ''drainVms'' = JUndef then True else boolish (oget spec ''drainVms'')))),
        (''drainTimeoutSeconds'', Inr (if oget spec ''drainTimeoutSeconds'' = JUndef then JInt 0 else JNum (js_number (oget spec ''drainTimeoutSeconds'')))),
        (''activationMode'', Inr (case mode of Some m \<Rightarrow> oget ACTIVATION m | None \<Rightarrow> JStr ''CLUSTER_UPDATE_ACTIVATION_UNSPECIFIED'')),
        (''rebootPolicy'', Inr (JStr (opt_else_opt activation spec ''rebootPolicy''))),
        (''approvalPolicy'', Inr (case approval of Some a \<Rightarrow> oget APPROVAL a | None \<Rightarrow> JStr ''CLUSTER_UPDATE_APPROVAL_UNSPECIFIED'')),
        (''automaticRollback'', Inr (JBool (boolish (oget spec ''automaticRollback'')))),
        (''updateKind'', Inr (JStr (opt_or spec ''updateKind'' []))),
        (''requiresNixpkgs'', Inr (JBool (boolish (oget spec ''requiresNixpkgs'')))),
        (''testedOsPins'', Inr (JArr (map os_pin pins))),
        (''schemaVersion'', Inr (JNum (js_number (coalesce (oget spec ''schemaVersion'') (JInt 0))))),
        (''previousSchemaVersion'', Inr (JNum (js_number (coalesce (oget spec ''previousSchemaVersion'') (JInt 0))))),
        (''minCompatibleReader'', Inr (JNum (js_number (coalesce (oget spec ''minCompatibleReader'') (JInt 0)))))])"

section \<open>Slurm, Kubernetes and PostgreSQL\<close>

definition bracketed :: "string \<Rightarrow> nat \<Rightarrow> string" where
  "bracketed label i = label @ ''['' @ show_nat i @ '']''"

definition slurm_compute :: "nat \<Rightarrow> js \<Rightarrow> js res" where
  "slurm_compute index item =
     (let label = bracketed ''compute'' index; node = obj_of item in
      if \<not> is_object item then Inl (InputError (label @ '' must be an object''))
      else jobj (props
       [(''nodeId'', jstr (required node ''nodeId'' (label @ ''.nodeId''))),
        (''address'', jstr (required node ''address'' (label @ ''.address''))),
        (''iface'', jstr (required node ''iface'' (label @ ''.iface''))),
        (''partitions'', Inr (JArr (arr_items (oget node ''partitions'')))),
        (''reserve'', Inr (coalesce (oget node ''reserve'') (JObj [(''cores'', JInt 0), (''memoryMb'', JInt 0)]))),
        (''gres'', Inr (JStr (opt_or node ''gres'' ''none'')))]))"

definition slurmClusterRequest :: "obj \<Rightarrow> obj res" where
  "slurmClusterRequest spec =
     ebind (req_name spec ''name'' ''name'') (\<lambda>name.
     if \<not> is_object (oget spec ''controller'')
     then Inl (InputError ''controller is required (nodeId, address, iface)'')
     else let controller = obj_of (oget spec ''controller'') in
     ebind (props
       [(''nodeId'', jstr (required controller ''nodeId'' ''controller.nodeId'')),
        (''address'', jstr (required controller ''address'' ''controller.address'')),
        (''iface'', jstr (required controller ''iface'' ''controller.iface''))]) (\<lambda>controllerSpec.
     let compute = arr_items (oget spec ''compute'') in
     if length compute = 0 then Inl (InputError ''at least one compute node is required'')
     else ebind (emap (\<lambda>(i, item). slurm_compute i item) (enumerate 0 compute)) (\<lambda>computeSpec.
     let partitions = arr_items (oget spec ''partitions'') in
     if length partitions = 0 then Inl (InputError ''at least one partition is required'')
     else Inr
       [(''name'', JStr name),
        (''spec'', JObj
          [(''clusterName'', JStr (opt_or spec ''clusterName'' name)),
           (''controller'', JObj controllerSpec),
           (''backupController'', coalesce (oget spec ''backupController'') JNull),
           (''login'', coalesce (oget spec ''login'') (JObj [(''nodeIds'', JArr [])])),
           (''accounting'', coalesce (oget spec ''accounting'') (JObj [(''enabled'', JBool False)])),
           (''compute'', JArr computeSpec),
           (''partitions'', JArr partitions),
           (''users'', JArr (arr_items (oget spec ''users''))),
           (''storage'', coalesce (oget spec ''storage'') (JObj [(''mode'', JStr ''nfs''), (''exports'', jstrs [''/home'', ''/scratch''])])),
           (''extraConfig'', JStr (opt_or spec ''extraConfig'' [])),
           (''allowControllerHost'', JBool (oget spec ''allowControllerHost'' = JBool True)),
           (''gpuDriver'', JBool (oget spec ''gpuDriver'' = JBool True))])])))"

definition kubernetes_node :: "string \<Rightarrow> string \<Rightarrow> nat \<Rightarrow> js \<Rightarrow> js res" where
  "kubernetes_node role label index item =
     (let here = bracketed label index; node = obj_of item;
          initial = (role = ''control-plane'' \<and> boolish (oget node ''initialCluster'')) in
      if \<not> is_object item then Inl (InputError (here @ '' must be an object''))
      else jobj (props
       [(''nodeId'', jstr (req_name node ''nodeId'' (here @ ''.nodeId''))),
        (''role'', Inr (JStr role)),
        (''advertiseAddress'', jstr (ebind (required node ''advertiseAddress'' (here @ ''.advertiseAddress''))
            (\<lambda>v. assertArg v ''advertise address''))),
        (''iface'', Inr (JStr (opt_or node ''iface'' ''enp6s0''))),
        (''initialCluster'', Inr (JBool initial)),
        (''joinExisting'', Inr (JBool (role = ''worker'' \<or> \<not> initial)))]))"

definition kubernetesNodes :: "js \<Rightarrow> string \<Rightarrow> string \<Rightarrow> js list res" where
  "kubernetesNodes value role label =
     (case value of
        JUndef \<Rightarrow> Inr []
      | JArr items \<Rightarrow> emap (\<lambda>(i, item). kubernetes_node role label i item) (enumerate 0 items)
      | _ \<Rightarrow> Inl (InputError (label @ '' must be a list'')))"

definition kubernetes_volume :: "nat \<Rightarrow> js \<Rightarrow> js res" where
  "kubernetes_volume index item =
     (let row = obj_of item in
      if \<not> is_object item then Inl (InputError (bracketed ''localProvisioner.volumes'' index @ '' must be an object''))
      else jobj (props
       [(''name'', jstr (req_name row ''name'' ''volume name'')),
        (''nodeId'', jstr (req_name row ''nodeId'' ''node id'')),
        (''storageClass'', Inr (JStr (opt_or row ''storageClass'' []))),
        (''sizeBytes'', if oget row ''sizeBytes'' = JUndef then Inr (JStr ''0'') else jstr (sizeBytes (oget row ''sizeBytes'') ''size'')),
        (''fsType'', Inr (JStr (opt_or row ''fsType'' []))),
        (''mountPath'', Inr (JStr (opt_or row ''mountPath'' []))),
        (''role'', Inr (JStr (opt_or row ''role'' []))),
        (''volumeGroup'', Inr (JStr (opt_or row ''volumeGroup'' [])))]))"

definition kubernetes_ha :: "obj \<Rightarrow> obj res" where
  "kubernetes_ha ha =
     (if boolish (oget ha ''enabled'')
      then ebind (props
        [(''enabled'', Inr (JBool True)),
         (''vipAddress'', jstr (ebind (required ha ''vipAddress'' ''highAvailability.vipAddress'') (\<lambda>v. assertArg v ''VIP address''))),
         (''vipInterface'', jstr (ebind (required ha ''vipInterface'' ''highAvailability.vipInterface'') (\<lambda>v. assertArg v ''VIP interface''))),
         (''method'', Inr (JStr ''keepalived''))]) (\<lambda>o'. Inr [(''highAvailability'', JObj o')])
      else Inr [])"

definition kubernetes_local :: "obj \<Rightarrow> obj res" where
  "kubernetes_local local =
     (let volumes = arr_items (oget local ''volumes'') in
      if boolish (oget local ''enabled'') \<or> 0 < length volumes
      then ebind (props
        [(''enabled'', Inr (JBool (boolish (oget local ''enabled'')))),
         (''storageClassName'', Inr (JStr (opt_or local ''storageClassName'' []))),
         (''mode'', Inr (JStr (opt_or local ''mode'' []))),
         (''volumes'', jarr (emap (\<lambda>(i, item). kubernetes_volume i item) (enumerate 0 volumes)))])
        (\<lambda>o'. Inr [(''localProvisioner'', JObj o')])
      else Inr [])"

definition kubernetesRequest :: "obj \<Rightarrow> obj res" where
  "kubernetesRequest spec =
     ebind (req_name spec ''name'' ''cluster name'') (\<lambda>name.
     ebind (kubernetesNodes (oget spec ''controlPlaneNodes'') ''control-plane'' ''controlPlaneNodes'') (\<lambda>controlPlane.
     if length controlPlane = 0 then Inl (InputError ''controlPlaneNodes must list at least one node'')
     else let cilium = section_of spec ''cilium'' in
     ebind (props
       [(''clusterCidr'', jstr (req_arg spec ''clusterCidr'' ''cluster CIDR'')),
        (''serviceCidr'', jstr (req_arg spec ''serviceCidr'' ''service CIDR'')),
        (''clusterDns'', Inr (JStr (opt_or spec ''clusterDns'' ''10.96.0.10''))),
        (''apiServerEndpoint'', jstr (req_arg spec ''apiServerEndpoint'' ''API server endpoint'')),
        (''cni'', Inr (JStr (opt_or spec ''cni'' ''cilium''))),
        (''ciliumConfig'', Inr (JObj
          [(''mode'', JStr (opt_or cilium ''mode'' ''native-routing'')),
           (''mtu'', if oget cilium ''mtu'' = JUndef then JInt 1500 else JNum (js_number (oget cilium ''mtu''))),
           (''tunnel'', JStr (opt_or cilium ''tunnel'' ''disabled'')),
           (''autoDirectNodeRoutes'', JBool (if oget cilium ''autoDirectNodeRoutes'' = JUndef then True else boolish (oget cilium ''autoDirectNodeRoutes''))),
           (''loadBalancerIpPools'', jstrs (stringList (oget cilium ''loadBalancerIpPools'')))])),
        (''controlPlaneNodes'', Inr (JArr controlPlane)),
        (''workerNodes'', jarr (kubernetesNodes (oget spec ''workerNodes'') ''worker'' ''workerNodes'')),
        (''scheduleOnControlPlane'', Inr (JBool (boolish (oget spec ''scheduleOnControlPlane''))))]) (\<lambda>result.
     ebind (kubernetes_ha (section_of spec ''highAvailability'')) (\<lambda>ha.
     ebind (kubernetes_local (section_of spec ''localProvisioner'')) (\<lambda>local.
     Inr [(''name'', JStr name), (''spec'', JObj (result @ ha @ local))])))))"

text \<open>\<^verbatim>\<open>/^[A-Za-z_][A-Za-z0-9_]{0,62}$/\<close>\<close>

definition pg_identifier :: "string \<Rightarrow> bool" where
  "pg_identifier s \<longleftrightarrow>
     s \<noteq> [] \<and> (is_alpha (hd s) \<or> hd s = CHR ''_'') \<and>
     list_all (\<lambda>c. is_alnum c \<or> c = CHR ''_'') (tl s) \<and> length (tl s) \<le> 62"

definition pg_port :: "obj \<Rightarrow> jsnum" where
  "pg_port spec =
     (if nullish (oget spec ''port'') \<or> oget spec ''port'' = JStr [] then Fin 5432
      else js_number (oget spec ''port''))"

definition postgresqlRequest :: "obj \<Rightarrow> obj res" where
  "postgresqlRequest spec =
     ebind (req_name spec ''name'' ''name'') (\<lambda>name.
     let database = opt_or spec ''database'' name;
         packageName = opt_or spec ''package'' ''postgresql'';
         port = pg_port spec
     in
     if \<not> pg_identifier database
     then Inl (InputError ''database must be a PostgreSQL identifier: a letter or underscore, then letters, digits, or underscores'')
     else if packageName \<notin> set POSTGRESQL_PACKAGES
     then Inl (InputError ''package must be postgresql, postgresql_14, postgresql_15, postgresql_16, or postgresql_17'')
     else if \<not> isInteger port \<or> num_less port (Fin 1) \<or> num_less (Fin 65535) port
     then Inl (InputError ''port must be an integer from 1 to 65535'')
     else Inr
      [(''name'', JStr name), (''database'', JStr database), (''package'', JStr packageName),
       (''port'', JNum port), (''targetNode'', JStr (opt_or spec ''targetNode'' []))])"

section \<open>Installing a node\<close>

record boot_request =
  boot_nodeId :: string
  boot_nodeHost :: string
  boot_address :: string

definition req_address :: "obj \<Rightarrow> string \<Rightarrow> string \<Rightarrow> string res" where
  "req_address spec key label = ebind (required spec key label) (\<lambda>v. assertAddress v label)"

definition bootstrapCertRequest :: "obj \<Rightarrow> boot_request res" where
  "bootstrapCertRequest spec =
     ebind (req_address spec ''node'' ''node address'') (\<lambda>address.
     let nodeHost = hostOf address in
     ebind (case opt spec ''nodeId'' of
              Some v \<Rightarrow> assertName v ''node id''
            | None \<Rightarrow> Inr (''kcore-node-'' @ replaceChar CHR ''.'' CHR ''-'' nodeHost)) (\<lambda>nodeId.
     Inr \<lparr>boot_nodeId = nodeId, boot_nodeHost = nodeHost, boot_address = address\<rparr>))"

definition install_request :: "obj \<Rightarrow> boot_request \<Rightarrow> obj res" where
  "install_request spec boot =
     props
      [(''osDisk'', jstr (ebind (required spec ''osDisk'' ''OS disk'') (\<lambda>v. assertDisk v ''OS disk''))),
       (''dataDisks'', ebind (disks spec) (\<lambda>ds. Inr (jstrs ds))),
       (''controller'', jstr (req_address spec ''joinController'' ''join controller'')),
       (''controllers'', ebind (req_address spec ''joinController'' ''join controller'') (\<lambda>c. Inr (jstrs [c]))),
       (''storageBackend'', case opt spec ''storageBackend'' of Some b \<Rightarrow> backendEnum b | None \<Rightarrow> Inr (JStr ''STORAGE_BACKEND_TYPE_UNSPECIFIED'')),
       (''disableVxlan'', Inr (JBool (boolish (oget spec ''disableVxlan'')))),
       (''dcId'', jstr (opt_name spec ''dcId'' ''datacenter'')),
       (''nodeId'', Inr (JStr (boot_nodeId boot))),
       (''hostname'', Inr (JStr (opt_or spec ''hostname'' [])))]"

definition installCall :: "obj \<Rightarrow> RpcCall res" where
  "installCall spec =
     ebind (bootstrapCertRequest spec) (\<lambda>boot.
     ebind (install_request spec boot) (\<lambda>request.
     Inr \<lparr>call_target = NodeAgent, call_method = ''installToDisk'', call_request = request,
          call_address = Some (boot_address boot)\<rparr>))"

section \<open>Update strategies\<close>

lemma update_strategy_fields:
  assumes "clusterUpdateMessage spec = Inr m"
  defines "st \<equiv> obj_of (oget m ''strategy'')"
  defines "block \<equiv> section_of spec ''strategy''"
  defines "soak \<equiv> coalesce (oget block ''canarySoakSeconds'') (oget block ''canary_soak_seconds'')"
  defines "node \<equiv> first_opt block [''canaryNode'', ''canary_node'', ''canaryNodeId'', ''canary_node_id'']"
  shows "oget st ''maxUnavailable'' = JInt 1"
    and "oget st ''type'' = JStr (if update_strategy spec = ''canary'' then ''CLUSTER_UPDATE_STRATEGY_CANARY'' else ''CLUSTER_UPDATE_STRATEGY_ONE_AT_A_TIME'')"
    and "(if soak = JUndef then Inr (JInt 0) else ebind (soakSeconds soak) (\<lambda>n. Inr (JNum n))) = Inr (oget st ''canarySoakSeconds'')"
    and "\<exists>s. (case node of Some n \<Rightarrow> assertName n ''canary node'' | None \<Rightarrow> Inr []) = Inr s \<and> oget st ''canaryNodeId'' = JStr s"
    and "update_strategy spec \<noteq> ''canary'' \<Longrightarrow> soak = JUndef \<and> node = None"
    and "update_strategy spec = ''canary'' \<or> update_strategy spec = ''one-at-a-time''"
proof -
  let ?ps = "[(''type'', Inr (JStr (if update_strategy spec = ''canary'' then ''CLUSTER_UPDATE_STRATEGY_CANARY'' else ''CLUSTER_UPDATE_STRATEGY_ONE_AT_A_TIME''))),
           (''maxUnavailable'', Inr (JInt 1)),
           (''batchSize'', Inr (JNum (js_number (coalesce (oget block ''batchSize'') (JInt 0))))),
           (''canarySoakSeconds'', if soak = JUndef then Inr (JInt 0) else ebind (soakSeconds soak) (\<lambda>n. Inr (JNum n))),
           (''canaryNodeId'', jstr (case node of Some n \<Rightarrow> assertName n ''canary node'' | None \<Rightarrow> Inr []))]"
  note u = assms(1) [unfolded clusterUpdateMessage_def Let_def if_Inl_Inr_iff, folded block_def, folded soak_def node_def]
  show "update_strategy spec \<noteq> ''canary'' \<Longrightarrow> soak = JUndef \<and> node = None"
    and "update_strategy spec = ''canary'' \<or> update_strategy spec = ''one-at-a-time''"
    using u by blast+
  have st: "props ?ps = Inr st"
    unfolding st_def using u by (elim conjE) (erule props_oget_obj, simp)
  show "oget st ''maxUnavailable'' = JInt 1"
    using props_oget [OF st, of "''maxUnavailable''"] by simp
  show "oget st ''type'' = JStr (if update_strategy spec = ''canary'' then ''CLUSTER_UPDATE_STRATEGY_CANARY'' else ''CLUSTER_UPDATE_STRATEGY_ONE_AT_A_TIME'')"
    using props_oget [OF st, of "''type''"] by simp
  show "(if soak = JUndef then Inr (JInt 0) else ebind (soakSeconds soak) (\<lambda>n. Inr (JNum n))) = Inr (oget st ''canarySoakSeconds'')"
    using props_oget [OF st, of "''canarySoakSeconds''"] by simp
  show "\<exists>s. (case node of Some n \<Rightarrow> assertName n ''canary node'' | None \<Rightarrow> Inr []) = Inr s \<and> oget st ''canaryNodeId'' = JStr s"
    by (rule props_oget_str [OF st]) simp
qed

text \<open>
  C26: an accepted cluster update takes one node out at a time, its canary soak is zero or within
  the controller's limit, and only a canary update carries a soak or names a canary node.
\<close>

theorem clusterUpdate_conservative:
  assumes "clusterUpdateMessage spec = Inr m"
  shows "let st = obj_of (oget m ''strategy'') in
    oget st ''maxUnavailable'' = JInt 1 \<and>
    (\<exists>n \<le> MAX_SOAK_SECONDS. oget st ''canarySoakSeconds'' = JNum (Fin (of_nat n))) \<and>
    (oget st ''type'' = JStr ''CLUSTER_UPDATE_STRATEGY_CANARY'' \<or>
     oget st ''type'' = JStr ''CLUSTER_UPDATE_STRATEGY_ONE_AT_A_TIME'' \<and>
     oget st ''canarySoakSeconds'' = JInt 0 \<and> oget st ''canaryNodeId'' = JStr [])"
proof -
  note f = update_strategy_fields [OF assms]
  let ?st = "obj_of (oget m ''strategy'')"
  let ?block = "section_of spec ''strategy''"
  let ?soak = "coalesce (oget ?block ''canarySoakSeconds'') (oget ?block ''canary_soak_seconds'')"
  have "\<exists>n \<le> MAX_SOAK_SECONDS. oget ?st ''canarySoakSeconds'' = JNum (Fin (of_nat n))"
  proof (cases "?soak = JUndef")
    case True
    then have "oget ?st ''canarySoakSeconds'' = JNum (Fin (of_nat 0))" using f(3) by simp
    then show ?thesis by blast
  next
    case False
    then obtain s where "soakSeconds ?soak = Inr s" "oget ?st ''canarySoakSeconds'' = JNum s"
      using f(3) by (auto simp: ebind_Inr_iff)
    then show ?thesis using soakSeconds_bounded by blast
  qed
  moreover have "update_strategy spec \<noteq> ''canary'' \<Longrightarrow>
      oget ?st ''canarySoakSeconds'' = JInt 0 \<and> oget ?st ''canaryNodeId'' = JStr []"
    using f(3,4,5) by auto
  ultimately show ?thesis using f(1,2) by (auto simp: Let_def)
qed

theorem clusterUpdate_conservative_witness:
  "\<exists>m. clusterUpdateMessage
      [(''name'', JStr ''u1''), (''version'', JStr ''1.2.0''), (''flakeRef'', JStr ''github:kcore/kcore''),
       (''strategy'', JObj [(''type'', JStr ''canary''), (''canaryNode'', JStr ''n1'')])] = Inr m \<and>
    oget (obj_of (oget m ''strategy'')) ''maxUnavailable'' = JInt 1"
proof -
  let ?spec = "[(''name'', JStr ''u1''), (''version'', JStr ''1.2.0''), (''flakeRef'', JStr ''github:kcore/kcore''),
       (''strategy'', JObj [(''type'', JStr ''canary''), (''canaryNode'', JStr ''n1'')])]"
  have "is_ok (clusterUpdateMessage ?spec)" by code_simp
  then obtain m where m: "clusterUpdateMessage ?spec = Inr m" by (auto simp: is_ok_iff)
  from clusterUpdate_conservative [OF m] m show ?thesis by (auto simp: Let_def)
qed

section \<open>Cloud-init documents\<close>

text \<open>Splitting a document into its lines, and reading a double-quoted YAML scalar.\<close>

fun split_lines :: "string \<Rightarrow> string list" where
  "split_lines [] = [[]]"
| "split_lines (c # cs) =
     (if c = CHR 0x0A then [] # split_lines cs
      else case split_lines cs of [] \<Rightarrow> [[c]] | l # ls \<Rightarrow> (c # l) # ls)"

fun scan_quoted :: "string \<Rightarrow> (string \<times> string) option" where
  "scan_quoted [] = None"
| "scan_quoted (c # cs) =
     (if c = CHR 0x22 then Some ([], cs)
      else if c = CHR 0x5C
        then (case cs of
                [] \<Rightarrow> None
              | d # ds \<Rightarrow> map_option (\<lambda>(s, r). (d # s, r)) (scan_quoted ds))
        else map_option (\<lambda>(s, r). (c # s, r)) (scan_quoted cs))"

lemma yaml_escape_simps:
  "yaml_escape [] = []"
  "yaml_escape (c # cs) =
     (if c = CHR 0x5C then [CHR 0x5C, CHR 0x5C] else if c = CHR 0x22 then [CHR 0x5C, CHR 0x22] else [c])
     @ yaml_escape cs"
  by (simp_all add: yaml_escape_def)

lemma scan_yaml_escape: "scan_quoted (yaml_escape key @ CHR 0x22 # rest) = Some (key, rest)"
  by (induction key) (auto simp: yaml_escape_simps)

lemma yaml_escape_newline: "CHR 0x0A \<notin> set key \<Longrightarrow> CHR 0x0A \<notin> set (yaml_escape key)"
  by (induction key) (auto simp: yaml_escape_simps)

lemma split_lines_nonempty [simp]: "split_lines s \<noteq> []"
  by (induction s) (auto split: list.splits)

lemma split_lines_single: "CHR 0x0A \<notin> set l \<Longrightarrow> split_lines l = [l]"
  by (induction l) auto

lemma split_lines_Cons: "CHR 0x0A \<notin> set l \<Longrightarrow> split_lines (l @ CHR 0x0A # r) = l # split_lines r"
  by (induction l) auto

lemma split_join_lines:
  "ls \<noteq> [] \<Longrightarrow> list_all (\<lambda>l. CHR 0x0A \<notin> set l) ls \<Longrightarrow>
   split_lines (join [CHR 0x0A] ls @ [CHR 0x0A]) = ls @ [[]]"
  by (induction ls rule: induct_list012) (simp_all add: split_lines_Cons)

lemma clean_newline: "clean s \<Longrightarrow> CHR 0x0A \<notin> set s"
  by (auto simp: clean_def list_ex_iff control_char_def)

lemma cloudInit_lines_clean:
  assumes "NAME hostname" and "NAME username" and "list_all ssh_ok keys"
  shows "list_all (\<lambda>l. CHR 0x0A \<notin> set l) (cloudInit_lines hostname username keys)"
proof -
  have "list_all (\<lambda>key. CHR 0x0A \<notin> set (yaml_escape key)) keys"
    using assms(3) by (rule list.pred_mono_strong)
      (simp add: ssh_ok_def clean_newline yaml_escape_newline)
  then show ?thesis
    using clean_newline [OF NAME_clean [OF assms(1)]] clean_newline [OF NAME_clean [OF assms(2)]]
    by (auto simp: cloudInit_lines_def list_all_iff)
qed

definition key_of_line :: "string \<Rightarrow> (string \<times> string) option" where
  "key_of_line l = (if startsWith l (''      - '' @ [CHR 0x22]) then scan_quoted (drop 9 l) else None)"

lemma map_filter_keys:
  "List.map_filter key_of_line (map (\<lambda>key. ''      - '' @ [CHR 0x22] @ yaml_escape key @ [CHR 0x22]) keys) =
     map (\<lambda>k. (k, [])) keys"
  by (induction keys) (simp_all add: List.map_filter_simps key_of_line_def scan_yaml_escape)

lemma map_filter_append: "List.map_filter f (xs @ ys) = List.map_filter f xs @ List.map_filter f ys"
  by (simp add: List.map_filter_def)

lemma key_lines:
  "List.map_filter key_of_line (cloudInit_lines hostname username keys @ [[]]) = map (\<lambda>k. (k, [])) keys"
proof -
  have "key_of_line l = None" if "\<not> prefix ''      - '' l" for l
    using that by (auto simp: key_of_line_def prefix_def)
  then show ?thesis
    unfolding cloudInit_lines_def map_filter_append map_filter_keys
    by (simp add: List.map_filter_simps)
qed



section \<open>Security group rules\<close>

lemma rule_source_from:
  assumes "cidr \<noteq> []" and "list_all (\<lambda>c. \<not> is_ws c) cidr"
  shows "rule_source ('' from '' @ cidr) = cidr"
proof -
  have "dropWhile is_ws cidr = cidr" using assms by (cases cidr) auto
  moreover have "takeWhile (\<lambda>c. \<not> is_ws c) cidr = cidr"
    using assms(2) by (simp add: list_all_iff takeWhile_eq_all_conv)
  ultimately show ?thesis by (simp add: rule_source_def Let_def char_eval)
qed

lemma rule_text_from:
  assumes "proto = ''tcp'' \<or> proto = ''udp''" and "cidr \<noteq> []" and "list_all (\<lambda>c. \<not> is_ws c) cidr"
  shows "rule_text (proto @ ''/'' @ show_nat port @ '' from '' @ cidr) = Some (proto, show_nat port, cidr)"
proof -
  let ?r = "show_nat port @ '' from '' @ cidr"
  have tw: "takeWhile is_digit ?r = show_nat port" "dropWhile is_digit ?r = '' from '' @ cidr"
    by (rule takeWhile_digits_append dropWhile_digits_append; simp add: show_nat_digits is_digit_def)+
  have "rule_text (proto @ ''/'' @ ?r) = Some (proto, takeWhile is_digit ?r, rule_source (dropWhile is_digit ?r))"
    using assms(1) tw(1) by (auto simp: rule_text_def Let_def char_eval)
  then show ?thesis using tw rule_source_from [OF assms(2,3)] by simp
qed



section \<open>Enumerations and fields the builders do not deliver\<close>

text \<open>The enumeration of \<^verbatim>\<open>ContainerSpec.desired_state\<close> in \<^verbatim>\<open>controller.proto\<close>.\<close>

definition WorkloadDesiredState :: "string list" where
  "WorkloadDesiredState =
     [''WORKLOAD_DESIRED_STATE_UNSPECIFIED'', ''WORKLOAD_DESIRED_STATE_RUNNING'', ''WORKLOAD_DESIRED_STATE_STOPPED'']"

text \<open>
  The desired state a container request carries is never a value of the enumeration its field
  has in \<^verbatim>\<open>controller.proto\<close>: the builder uses the names of the virtual machine enumeration.
\<close>

theorem container_desired_state_foreign:
  assumes "containerRequest spec = Inr r"
  shows "\<exists>d. oget (obj_of (oget r ''containerSpec'')) ''desiredState'' = JStr d \<and> d \<notin> set WorkloadDesiredState"
proof -
  have c: "container_spec spec = Inr (obj_of (oget r ''containerSpec''))"
    using assms unfolding containerRequest_def by (rule props_oget_obj) simp
  have "\<exists>d. desired (oget spec ''desiredState'') = Inr d \<and>
      oget (obj_of (oget r ''containerSpec'')) ''desiredState'' = JStr d"
    using c unfolding container_spec_def by (rule props_oget_str) simp
  then show ?thesis by (auto simp: desired_def WorkloadDesiredState_def split: if_splits)
qed

theorem container_desired_state_foreign_witness:
  "\<exists>r d. containerRequest [(''name'', JStr ''web''), (''image'', JStr ''nginx''), (''desiredState'', JStr ''stopped'')] = Inr r \<and>
    oget (obj_of (oget r ''containerSpec'')) ''desiredState'' = JStr d \<and> d \<notin> set WorkloadDesiredState"
proof -
  let ?spec = "[(''name'', JStr ''web''), (''image'', JStr ''nginx''), (''desiredState'', JStr ''stopped'')]"
  have "is_ok (containerRequest ?spec)" by code_simp
  then obtain r where "containerRequest ?spec = Inr r" by (auto simp: is_ok_iff)
  with container_desired_state_foreign show ?thesis by blast
qed

text \<open>
  A disk layout given only as \<^verbatim>\<open>diskLayout\<close> is accepted, and sent without any layout.
\<close>

theorem disk_layout_object_dropped:
  assumes "opt spec ''layoutNix'' = None" and "opt spec ''layoutNixFile'' = None"
    and "diskLayoutMessage pf spec = Inr m"
  shows "truthy (oget spec ''diskLayout'') \<and> map fst m = [''name'', ''nodeId'', ''layoutNix''] \<and> oget m ''layoutNix'' = JStr []"
  using assms by (auto simp: diskLayoutMessage_def readLayoutFile_def ebind_Inr_iff oget_def split: if_splits)

theorem disk_layout_object_dropped_witness:
  "\<exists>m. diskLayoutMessage bare_platform
      [(''name'', JStr ''root''), (''nodeId'', JStr ''n1''), (''diskLayout'', JObj [(''disks'', JArr [])])] = Inr m \<and>
    oget m ''layoutNix'' = JStr []"
proof -
  let ?spec = "[(''name'', JStr ''root''), (''nodeId'', JStr ''n1''), (''diskLayout'', JObj [(''disks'', JArr [])])]"
  have a: "opt ?spec ''layoutNix'' = None" "opt ?spec ''layoutNixFile'' = None" by code_simp+
  have "is_ok (diskLayoutMessage bare_platform ?spec)" by code_simp
  then obtain m where m: "diskLayoutMessage bare_platform ?spec = Inr m" by (auto simp: is_ok_iff)
  show ?thesis using disk_layout_object_dropped [OF a m] m by blast
qed

end
