(* ===== verification/Services.thy ===== *)
theory Services
  imports Prelude
begin

text \<open>
  The gRPC services of \<^verbatim>\<open>kcore-mcp/packages/server/proto\<close>: for each of the eleven services
  \<^verbatim>\<open>grpc.ts\<close> loads, its methods in the order of the file, with the name as the file writes it and
  whether the request or the response is a stream. \<^verbatim>\<open>rpc.ts\<close> reads exactly this of the loaded
  definitions.
\<close>

datatype rpc_desc = Rpc (rawName: string) (requestStream: bool) (responseStream: bool)

abbreviation unary :: "string \<Rightarrow> rpc_desc" where
  "unary n \<equiv> Rpc n False False"

definition service_Controller :: "rpc_desc list" where
  "service_Controller =
     [unary ''RegisterNode'', unary ''Heartbeat'', unary ''SyncVmState'',
      unary ''SyncWorkloadState'', unary ''CreateVm'', unary ''UpdateVm'', unary ''DeleteVm'',
      unary ''SetVmDesiredState'', unary ''GetVm'', unary ''ListVms'',
      Rpc ''AttachVmConsole'' True True, Rpc ''OpenVmConsole'' False True,
      unary ''SendVmConsoleInput'', unary ''CreateWorkload'', unary ''DeleteWorkload'',
      unary ''SetWorkloadDesiredState'', unary ''GetWorkload'', unary ''ListWorkloads'',
      unary ''CreateNetwork'', unary ''DeleteNetwork'', unary ''ListNetworks'',
      unary ''CreatePostgresql'', unary ''DeletePostgresql'', unary ''GetPostgresql'',
      unary ''ListPostgresqls'', unary ''CreateSecurityGroup'', unary ''GetSecurityGroup'',
      unary ''ListSecurityGroups'', unary ''DeleteSecurityGroup'', unary ''AttachSecurityGroup'',
      unary ''DetachSecurityGroup'', unary ''ListNodes'', unary ''GetNode'', unary ''ListGpus'',
      unary ''ListPciDevices'', unary ''ConfigureNodeVgpu'', unary ''GetNodeVgpu'',
      unary ''RebootNode'', unary ''CreateSshKey'', unary ''DeleteSshKey'', unary ''ListSshKeys'',
      unary ''GetSshKey'', unary ''DrainNode'', unary ''MigrateVm'',
      unary ''GetLiveMigrateReceiveStatus'', unary ''ResetLiveMigrateReceive'',
      unary ''ApproveNode'', unary ''RejectNode'', unary ''CordonNode'', unary ''UncordonNode'',
      unary ''DeleteNode'', unary ''GetClusterHealth'', unary ''GetHaStatus'',
      unary ''ListHaEvents'', unary ''BackupCluster'', unary ''RestoreCluster'',
      unary ''RenewNodeCert'', unary ''IssueNodeBootstrapCert'', unary ''RotateSubCa'',
      unary ''ReloadTls'', unary ''SignNodeCsr'', unary ''RotateNodeCerts'',
      unary ''ListCertificates'', unary ''RevokeCertificate'', unary ''GetCrl'',
      unary ''GetPkiStatus'', unary ''GetComplianceReport'', unary ''GetCryptoConfig'',
      unary ''ExportSbom'', unary ''ListAuditEvents'', unary ''GetNetworkOverview'',
      unary ''GetStorageOverview'', unary ''ListVolumes'', unary ''CreateVolume'',
      unary ''GetVolume'', unary ''AttachVolume'', unary ''DetachVolume'', unary ''DeleteVolume'',
      unary ''ListVmOperations'', unary ''GetVmOperation'', unary ''CancelVmOperation'',
      unary ''CreateVolumeSnapshot'', unary ''ListVolumeSnapshots'',
      unary ''DeleteVolumeSnapshot'', unary ''RestoreVolume'', unary ''FlattenVolume'',
      unary ''ResizeVolume'', unary ''ExposeVolumeSnapshot'', unary ''UnexposeVolumeSnapshot'',
      unary ''ListVolumeChangedExtents'', Rpc ''ReadVolumeBlocks'' False True,
      Rpc ''WriteVolumeBlocks'' True False, unary ''FreezeVmFilesystems'',
      unary ''PrepareInstantRecovery'', unary ''FinalizeInstantRecovery'', unary ''FormatVolume'',
      unary ''MountVolume'', unary ''UnmountVolume'', unary ''EncryptVolume'',
      unary ''CreateSnapshotPolicy'', unary ''GetSnapshotPolicy'', unary ''ListSnapshotPolicies'',
      unary ''DeleteSnapshotPolicy'', unary ''CreateDiskLayout'', unary ''GetDiskLayout'',
      unary ''ListDiskLayouts'', unary ''DeleteDiskLayout'', unary ''ClassifyDiskLayout'',
      unary ''CreateClusterUpdate'', unary ''GetClusterUpdate'', unary ''ListClusterUpdates'',
      unary ''PlanClusterUpdate'', unary ''ApproveClusterUpdate'', unary ''CancelClusterUpdate'',
      unary ''RollbackClusterUpdate'', unary ''RebootClusterUpdateNode'',
      unary ''PromoteClusterUpdate'', unary ''SetClusterVersion'', unary ''GetClusterVersion'',
      unary ''PlanCephCluster'', unary ''CreateCephCluster'', unary ''GetCephCluster'',
      unary ''ListCephClusters'', unary ''DeleteCephCluster'', unary ''GetCephClusterCapacity'',
      unary ''GetCephDashboardCredentials'', unary ''SetCephDashboardCredentials'',
      unary ''CreateSharedFilesystem'', unary ''GetSharedFilesystem'',
      unary ''ListSharedFilesystems'', unary ''DeleteSharedFilesystem'', unary ''PlanIngress'',
      unary ''CreateIngressGateway'', unary ''GetIngressGateway'', unary ''ListIngressGateways'',
      unary ''DeleteIngressGateway'', unary ''CreateIngressRoute'', unary ''GetIngressRoute'',
      unary ''ListIngressRoutes'', unary ''DeleteIngressRoute'', unary ''SetIngressRouteWafMode'',
      unary ''CreateWafPolicy'', unary ''GetWafPolicy'', unary ''ListWafPolicies'',
      unary ''DeleteWafPolicy'', unary ''ListWafEvents'', unary ''SetIngressSecret'',
      unary ''ReportWafEvents'', unary ''CreateObjectStore'', unary ''GetObjectStore'',
      unary ''ListObjectStores'', unary ''DeleteObjectStore'', unary ''CreateObjectUser'',
      unary ''DeleteObjectUser'', unary ''CreateOperator'', unary ''DeleteOperator'',
      unary ''ListOperators'', unary ''GetOperator'', unary ''GrantOperatorRole'',
      unary ''RevokeOperatorRole'', unary ''IssueOperatorCert'', unary ''PlanKubernetesCluster'',
      unary ''CreateKubernetesCluster'', unary ''UpdateKubernetesCluster'',
      unary ''GetKubernetesCluster'', unary ''ListKubernetesClusters'',
      unary ''DeleteKubernetesCluster'', unary ''ScaleKubernetesCluster'',
      unary ''GetKubernetesClusterHealth'', unary ''PlanSlurmCluster'',
      unary ''CreateSlurmCluster'', unary ''GetSlurmCluster'', unary ''ListSlurmClusters'',
      unary ''DeleteSlurmCluster'', unary ''RotateSlurmMungeKey'', unary ''DrainSlurmNode'',
      unary ''ResumeSlurmNode'']"

definition service_ControllerAdmin :: "rpc_desc list" where
  "service_ControllerAdmin =
     [unary ''ApplyNixConfig'', unary ''GetReplicationEvents'', unary ''AckReplicationEvents'',
      unary ''GetReplicationStatus'', unary ''ListReplicationConflicts'',
      unary ''ResolveReplicationConflict'']"

definition service_NodeCompute :: "rpc_desc list" where
  "service_NodeCompute =
     [unary ''CreateVm'', unary ''UpdateVm'', unary ''DeleteVm'', unary ''SetVmDesiredState'',
      unary ''RebootVm'', unary ''GetVm'', unary ''ListVms'', unary ''PullImage'',
      unary ''ListImages'', unary ''DeleteImage'', unary ''CreateWorkload'',
      unary ''DeleteWorkload'', unary ''SetWorkloadDesiredState'', unary ''GetWorkload'',
      unary ''ListWorkloads'']"

definition service_NodeContainer :: "rpc_desc list" where
  "service_NodeContainer =
     [unary ''CreateContainer'', unary ''StartContainer'', unary ''StopContainer'',
      unary ''DeleteContainer'', unary ''GetContainer'', unary ''ListContainers'']"

definition service_NodeStorage :: "rpc_desc list" where
  "service_NodeStorage =
     [unary ''CreateVolume'', unary ''DeleteVolume'', unary ''AttachVolume'',
      unary ''DetachVolume'', unary ''SnapshotVolume'', unary ''DeleteVolumeSnapshot'',
      unary ''CloneVolume'', unary ''RollbackVolume'', unary ''FlattenVolume'',
      unary ''ResizeVolume'', unary ''ExposeSnapshot'', unary ''UnexposeSnapshot'',
      unary ''ListChangedExtents'', Rpc ''ReadVolumeExtents'' False True,
      Rpc ''WriteVolumeExtents'' True False, unary ''PrepareInstantDisk'',
      unary ''FinalizeInstantDisk'', unary ''FormatVolume'', unary ''MountVolume'',
      unary ''UnmountVolume'', unary ''FenceVolume'', unary ''UnfenceHost'',
      unary ''ProbeHostStorage'', Rpc ''PullZfsSend'' False True, Rpc ''RecvZfsSend'' True False,
      unary ''FormatEncryptedVolume'', unary ''UnlockEncryptedVolume'',
      unary ''LockEncryptedVolume'']"

definition service_NodeInfo :: "rpc_desc list" where
  "service_NodeInfo =
     [unary ''GetNodeInfo'']"

definition service_NodeAdmin :: "rpc_desc list" where
  "service_NodeAdmin =
     [unary ''ApplyNixConfig'', unary ''ApplyIngressConfig'', unary ''GetIngressStatus'',
      unary ''WriteIngressSecret'', unary ''ExportIngressStore'', unary ''ImportIngressStore'',
      unary ''GetNixApplyStatus'', unary ''ApplyDiskLayout'', unary ''ApplyDiskoLayout'',
      unary ''EnsureImage'', unary ''UploadImage'', Rpc ''UploadImageStream'' True False,
      unary ''CheckVmSshReady'', unary ''EnsureGuestOpsKey'', unary ''GuestDiskProbe'',
      unary ''GuestGrowFilesystem'', unary ''GuestFsFreeze'', Rpc ''AttachVmConsole'' True True,
      unary ''ListDisks'', unary ''ListNetworkInterfaces'', unary ''GetLvmInfo'',
      unary ''InstallToDisk'', unary ''PrepareSystemUpdate'', unary ''ActivateSystemUpdate'',
      unary ''GetSystemUpdateStatus'', unary ''RollbackSystemUpdate'',
      unary ''RebootStagedSystemUpdate'', unary ''StageVgpuManager'', unary ''RebootNode'',
      unary ''CheckCephPreflight'', unary ''ApplyCephConfig'', unary ''CheckSlurmPreflight'',
      unary ''ApplySlurmConfig'', unary ''GetSlurmStatus'', unary ''SlurmControl'',
      unary ''BootstrapCephOsd'', unary ''ReconcileCephOsds'', unary ''GetCephHealth'',
      unary ''GetCephDf'', unary ''GetCephOsdLatency'', unary ''EnsureCephPool'',
      unary ''TeardownCephNode'', unary ''RemoveCephMon'', unary ''DrainCephHost'',
      unary ''GetHostCpuFlags'', unary ''PrepareLiveMigrateReceive'',
      unary ''WaitLiveMigrateReceive'', unary ''AbortLiveMigrateReceive'',
      unary ''GetLiveMigrateReceiveStatus'', unary ''GetLiveMigrateProgress'',
      unary ''SendLiveMigrate'', unary ''GetHostCpuInfo'', unary ''GetChVmModuleFeatures'',
      unary ''FinalizeLiveMigrateSource'', unary ''FinalizeLiveMigrateDest'',
      unary ''InspectLocalVmDisk'', unary ''PrepareVolumeMirrorTarget'',
      unary ''StartVolumeMirror'', unary ''GetVolumeMirrorStatus'', unary ''CopyLocalVolume'',
      unary ''CommitVolumeMirrorTarget'', unary ''AbortVolumeMirror'',
      unary ''ReleaseVolumeMirror'', unary ''SetLocalVmQuiesced'', unary ''HotAddDisk'',
      unary ''HotRemoveDisk'', unary ''RotateNodeCert'', unary ''ApplyKubernetesConfig'',
      unary ''ApplyRawKubernetesConfig'', unary ''GetKubernetesStatus'',
      unary ''DrainKubernetesNode'', unary ''KubernetesAdmin'']"

definition service_Provisioning :: "rpc_desc list" where
  "service_Provisioning =
     [unary ''CreateImage'', unary ''GetImage'', unary ''ListImages'', unary ''DeleteImage'',
      unary ''VerifyImage'', unary ''DownloadImage'', unary ''RegisterMachine'',
      unary ''GetMachine'', unary ''ListMachines'', unary ''UpdateMachine'',
      unary ''DeleteMachine'', unary ''SetBootTarget'', unary ''GetBootTarget'',
      unary ''ClearBootTarget'', unary ''DiscoverMachine'', unary ''ConfigureBmcBoot'',
      unary ''InstallCaCertificate'', unary ''PowerControl'', unary ''IssueServerCertificate'',
      unary ''IssueNodeCertificate'', unary ''GetCertificate'', unary ''ListCertificates'',
      unary ''RevokeCertificate'', unary ''RenewCertificate'', unary ''GetCaBundle'',
      unary ''ListIpmiCommands'', unary ''CallIpmi'', unary ''UpsertDhcpDns'',
      unary ''GetDhcpDns'', unary ''DeleteDhcpDns'', unary ''UpsertDhcpReservation'',
      unary ''ListDhcpReservations'', unary ''DeleteDhcpReservation'', unary ''UpsertDnsRecord'',
      unary ''ListDnsRecords'', unary ''DeleteDnsRecord'', unary ''ApplyDhcpDns'',
      unary ''ScanNetwork'', unary ''WakeOnLan'']"

definition service_Vault :: "rpc_desc list" where
  "service_Vault =
     [unary ''GetVaultStatus'', unary ''ApplyTarget'', unary ''GetTarget'', unary ''ListTargets'',
      unary ''DeleteTarget'', unary ''ApplyBackupPolicy'', unary ''GetBackupPolicy'',
      unary ''ListBackupPolicies'', unary ''DeleteBackupPolicy'', unary ''CreateBackupJob'',
      unary ''GetBackupJob'', unary ''ListBackupJobs'', unary ''CancelBackupJob'',
      unary ''CreateRestoreJob'', unary ''GetRestoreJob'', unary ''ListRestoreJobs'',
      unary ''FinalizeInstantRecovery'', unary ''CreateVerifyJob'', unary ''GetVerifyJob'',
      unary ''ListVerifyJobs'', unary ''ListBackups'', unary ''GetBackup'',
      unary ''ImportCatalog'', unary ''CreateReplicationJob'', unary ''GetReplicationJob'',
      unary ''ListReplicationJobs'', unary ''RunGarbageCollection'', unary ''InstallLicence'',
      unary ''GetLicence'', Rpc ''WatchEvents'' False True, unary ''ListEvents'',
      unary ''CancelRestoreJob'', unary ''CancelVerifyJob'', unary ''ListInventory'',
      unary ''GetDashboardSummary'', unary ''ListNotifications'', unary ''AckNotification'',
      unary ''OpenFileRestore'', unary ''ListDir'', unary ''GetFile'', unary ''DownloadArchive'',
      unary ''CloseFileRestore'', unary ''GetSettings'', unary ''ApplySettings'']"

definition service_VaultMover :: "rpc_desc list" where
  "service_VaultMover =
     [unary ''OpenLease'', unary ''CloseLease'', Rpc ''ReadChunks'' False True]"

definition service_VaultInstall :: "rpc_desc list" where
  "service_VaultInstall =
     [unary ''Install'', unary ''ListDisks'']"

end
