(* ===== verification/Rpc.thy ===== *)
theory Rpc
  imports Services Platform
begin

text \<open>
  \<^verbatim>\<open>kcore-mcp/packages/server/src/rpc.ts\<close> and the service table of \<^verbatim>\<open>grpc.ts\<close>: which RPCs the
  catalog lists, which of them count as reads, and what \<open>requireRpc\<close> admits. The service
  definitions are those of the proto files (\<open>Services\<close>); the collation behind the final sort is the
  platform's, and the lemmas hold for every collation.
\<close>

section \<open>Services and methods\<close>

definition SERVICE_NAMES :: "string list" where
  "SERVICE_NAMES =
     [''controller'', ''controller-admin'', ''node-compute'', ''node-container'', ''node-storage'',
      ''node-info'', ''node-admin'', ''provisioning'', ''vault'', ''vault-mover'', ''vault-install'']"

definition services :: "(string \<times> rpc_desc list) list" where
  "services =
     [(''controller'', service_Controller),
      (''controller-admin'', service_ControllerAdmin),
      (''node-compute'', service_NodeCompute),
      (''node-container'', service_NodeContainer),
      (''node-storage'', service_NodeStorage),
      (''node-info'', service_NodeInfo),
      (''node-admin'', service_NodeAdmin),
      (''provisioning'', service_Provisioning),
      (''vault'', service_Vault),
      (''vault-mover'', service_VaultMover),
      (''vault-install'', service_VaultInstall)]"

definition serviceClient :: "string \<Rightarrow> rpc_desc list" where
  "serviceClient name = (case map_of services name of Some ds \<Rightarrow> ds | None \<Rightarrow> [])"

definition UNIMPLEMENTED :: "string list" where
  "UNIMPLEMENTED =
     [''node-compute/createVm'', ''node-compute/updateVm'', ''node-compute/deleteVm'',
      ''node-compute/rebootVm'', ''node-compute/pullImage'', ''node-compute/createWorkload'',
      ''node-compute/deleteWorkload'', ''provisioning/issueServerCertificate'',
      ''provisioning/issueNodeCertificate'', ''provisioning/getCertificate'',
      ''provisioning/listCertificates'', ''provisioning/revokeCertificate'',
      ''provisioning/renewCertificate'', ''provisioning/getCaBundle'']"

record RpcMethod =
  rm_service :: string
  rm_method :: string
  rm_readOnly :: bool

definition isServiceName :: "string \<Rightarrow> bool" where
  "isServiceName v = (v \<in> set SERVICE_NAMES)"

definition READ_ONLY :: "string list" where
  "READ_ONLY = [''scanNetwork'']"

definition isReadOnlyMethod :: "string \<Rightarrow> bool" where
  "isReadOnlyMethod m \<longleftrightarrow>
     m \<in> set READ_ONLY \<or>
     list_ex (startsWith m) [''get'', ''list'', ''classify'', ''check'', ''plan'']"

section \<open>The catalog\<close>

definition method_order :: "platform \<Rightarrow> RpcMethod \<Rightarrow> RpcMethod \<Rightarrow> int" where
  "method_order pf a b =
     (let s = localeCompare pf (rm_service a) (rm_service b) in
      if s \<noteq> 0 then s else localeCompare pf (rm_method a) (rm_method b))"

definition method_name :: "string \<Rightarrow> string" where
  "method_name raw = (case raw of [] \<Rightarrow> [] | c # cs \<Rightarrow> lower_char c # cs)"

definition catalog_entry :: "string \<Rightarrow> rpc_desc \<Rightarrow> RpcMethod option" where
  "catalog_entry name desc =
     (let m = method_name (rawName desc) in
      if requestStream desc \<or> responseStream desc then None
      else if name @ ''/'' @ m \<in> set UNIMPLEMENTED then None
      else Some \<lparr>rm_service = name, rm_method = m, rm_readOnly = isReadOnlyMethod m\<rparr>)"

definition rpcCatalog :: "platform \<Rightarrow> string option \<Rightarrow> RpcMethod list" where
  "rpcCatalog pf service =
     (let names = (case service of Some s \<Rightarrow> if s = [] then SERVICE_NAMES else [s] | None \<Rightarrow> SERVICE_NAMES) in
      sort_by (method_order pf)
        (concat (map (\<lambda>name. List.map_filter (catalog_entry name) (serviceClient name)) names)))"

definition requireRpc :: "platform \<Rightarrow> string \<Rightarrow> string \<Rightarrow> RpcMethod res" where
  "requireRpc pf serviceName m =
     (if \<not> isServiceName serviceName
      then Inl (InputError (''unknown gRPC service '' @ [CHR 0x27] @ serviceName @ [CHR 0x27] @ ''. Use one of: '' @ join '', '' SERVICE_NAMES))
      else case find (\<lambda>item. rm_method item = m) (rpcCatalog pf (Some serviceName)) of
             Some found \<Rightarrow> Inr found
           | None \<Rightarrow> Inl (InputError (serviceName @ ''.'' @ m @
               '' is not an implemented unary RPC. Streaming methods and node stubs that always return UNIMPLEMENTED are omitted.'')))"

section \<open>What the catalog lists\<close>

definition implemented_unary :: "string \<Rightarrow> string \<Rightarrow> bool" where
  "implemented_unary service m \<longleftrightarrow>
     list_ex (\<lambda>desc. \<not> requestStream desc \<and> \<not> responseStream desc \<and> method_name (rawName desc) = m)
       (serviceClient service) \<and>
     service @ ''/'' @ m \<notin> set UNIMPLEMENTED"

lemma catalog_entry_Some:
  "catalog_entry name desc = Some r \<longleftrightarrow>
     \<not> requestStream desc \<and> \<not> responseStream desc \<and>
     name @ ''/'' @ method_name (rawName desc) \<notin> set UNIMPLEMENTED \<and>
     r = \<lparr>rm_service = name, rm_method = method_name (rawName desc),
          rm_readOnly = isReadOnlyMethod (method_name (rawName desc))\<rparr>"
  unfolding catalog_entry_def Let_def by auto

lemma set_map_filter: "y \<in> set (List.map_filter f xs) \<longleftrightarrow> (\<exists>x \<in> set xs. f x = Some y)"
  by (induction xs) (auto simp: List.map_filter_simps split: option.splits)

lemma rpcCatalog_service:
  assumes "s \<noteq> []"
  shows "r \<in> set (rpcCatalog pf (Some s)) \<longleftrightarrow>
    rm_service r = s \<and> rm_readOnly r = isReadOnlyMethod (rm_method r) \<and> implemented_unary s (rm_method r)"
proof -
  have "r \<in> set (rpcCatalog pf (Some s)) \<longleftrightarrow> (\<exists>desc \<in> set (serviceClient s). catalog_entry s desc = Some r)"
    unfolding rpcCatalog_def Let_def using assms by (simp add: set_map_filter)
  also have "\<dots> \<longleftrightarrow> rm_service r = s \<and> rm_readOnly r = isReadOnlyMethod (rm_method r) \<and>
      implemented_unary s (rm_method r)"
    unfolding catalog_entry_Some implemented_unary_def list_ex_iff
    by (cases r) auto
  finally show ?thesis .
qed

lemma SERVICE_NAMES_nonempty: "isServiceName s \<Longrightarrow> s \<noteq> []"
  by (auto simp: isServiceName_def SERVICE_NAMES_def)

lemma find_Some_iff_unique:
  assumes "\<And>x. x \<in> set xs \<Longrightarrow> P x \<Longrightarrow> x = r"
  shows "find P xs = Some y \<longleftrightarrow> r \<in> set xs \<and> P r \<and> y = r"
proof
  assume "find P xs = Some y"
  then have "y \<in> set xs" "P y" by (auto simp: find_Some_iff)
  with assms show "r \<in> set xs \<and> P r \<and> y = r" by blast
next
  assume r: "r \<in> set xs \<and> P r \<and> y = r"
  then obtain z where z: "find P xs = Some z" by (metis find_None_iff2 option.exhaust)
  then have "z \<in> set xs" "P z" by (auto simp: find_Some_iff)
  with assms r z show "find P xs = Some y" by blast
qed

lemma requireRpc_ok:
  "requireRpc pf s m = Inr r \<longleftrightarrow>
     isServiceName s \<and> implemented_unary s m \<and>
     r = \<lparr>rm_service = s, rm_method = m, rm_readOnly = isReadOnlyMethod m\<rparr>"
proof (cases "isServiceName s")
  case True
  note mem = rpcCatalog_service [OF SERVICE_NAMES_nonempty [OF True], of _ pf]
  let ?r = "\<lparr>rm_service = s, rm_method = m, rm_readOnly = isReadOnlyMethod m\<rparr>"
  have uniq: "x = ?r" if "x \<in> set (rpcCatalog pf (Some s))" "rm_method x = m" for x
  proof (rule RpcMethod.equality)
    have "rm_service x = s \<and> rm_readOnly x = isReadOnlyMethod (rm_method x)"
      using that(1) mem [of x] by blast
    then show "rm_service x = rm_service ?r" "rm_readOnly x = rm_readOnly ?r" using that(2) by simp_all
  qed (use that(2) in simp_all)
  have "find (\<lambda>item. rm_method item = m) (rpcCatalog pf (Some s)) = Some r \<longleftrightarrow>
      ?r \<in> set (rpcCatalog pf (Some s)) \<and> r = ?r"
    using find_Some_iff_unique [OF uniq, of "rpcCatalog pf (Some s)" "\<lambda>item. rm_method item = m" r]
    by simp
  also have "\<dots> \<longleftrightarrow> implemented_unary s m \<and> r = ?r" using mem [of ?r] by simp
  finally show ?thesis using True by (auto simp: requireRpc_def split: option.splits)
next
  case False
  then show ?thesis by (simp add: requireRpc_def)
qed

end
