(* ===== verification/Requests.thy ===== *)
theory Requests
  imports Requests_Msg Rpc
begin

text \<open>
  The request builders of \<^verbatim>\<open>kcore-mcp/packages/server/src/requests.ts\<close>: \<open>buildApply\<close>, \<open>buildRead\<close>,
  \<open>buildDelete\<close>, \<open>buildPlanCall\<close> and \<open>buildOperation\<close>, each with the branches of its \<^verbatim>\<open>switch\<close> in
  order. The lemmas relate them to the RPC classification of \<open>Rpc\<close> and to the service definitions:
  reads and plans call read-only methods of the controller, the other builders never do, and every
  method exists in the service it is sent to.
\<close>

section \<open>Applying and reading\<close>

definition one :: "string \<Rightarrow> obj res \<Rightarrow> RpcCall list res" where
  "one method request = ebind request (\<lambda>r. Inr [ctl method r])"

definition wrap :: "string \<Rightarrow> obj res \<Rightarrow> obj res" where
  "wrap key message = ebind message (\<lambda>m. Inr [(key, JObj m)])"

definition operatorCalls :: "obj \<Rightarrow> RpcCall list res" where
  "operatorCalls spec =
     ebind (props [(''name'', jstr (req_name spec ''name'' ''operator name''))]) (\<lambda>request.
     ebind (emap (\<lambda>role.
              ebind (props
                [(''operatorName'', jstr (req_name spec ''name'' ''operator name'')),
                 (''role'', operatorRole role)]) (\<lambda>r. Inr (ctl ''grantOperatorRole'' r)))
            (stringList (oget spec ''roles''))) (\<lambda>granted.
     Inr (ctl ''createOperator'' request # granted)))"

definition buildApply :: "platform \<Rightarrow> ResourceKind \<Rightarrow> obj \<Rightarrow> RpcCall list res" where
  "buildApply pf kind spec =
    (if kind_id kind = ''cluster'' then Inl (InputError ''cluster creation writes local certificates and is handled before any controller RPC'')
     else if kind_id kind = ''vm'' then one ''createVm'' (vmRequest pf spec)
     else if kind_id kind = ''network'' then one ''createNetwork'' (networkRequest spec)
     else if kind_id kind = ''ssh-key'' then one ''createSshKey'' (sshKeyRequest spec)
     else if kind_id kind = ''container'' then one ''createWorkload'' (containerRequest spec)
     else if kind_id kind = ''postgresql'' then one ''createPostgresql'' (postgresqlRequest spec)
     else if kind_id kind = ''slurm-cluster'' then one ''createSlurmCluster'' (slurmClusterRequest spec)
     else if kind_id kind = ''kubernetes-cluster''
       then one ''createKubernetesCluster'' (ebind (kubernetesRequest spec) (\<lambda>r. Inr (r @ [(''confirm'', JBool True)])))
     else if kind_id kind = ''object-user'' then Inl (InputError (''An object user's secret is returned once and this server redacts secrets, so it would be lost. Run kctl create object-user NAME --store STORE instead.''))
     else if kind_id kind = ''operator'' then operatorCalls spec
     else if kind_id kind = ''node'' then Inl (InputError ''node is read-only; use kcore_read, or the approve-node and delete-node operations'')
     else if kind_id kind = ''volume'' then one ''createVolume'' (volumeRequest spec)
     else if kind_id kind = ''volume-snapshot'' then one ''createVolumeSnapshot'' (snapshotRequest spec)
     else if kind_id kind = ''snapshot-policy'' then one ''createSnapshotPolicy'' (wrap ''policy'' (policyMessage spec))
     else if kind_id kind = ''security-group'' then securityGroupCalls spec
     else if kind_id kind = ''disk-layout'' then one ''createDiskLayout'' (wrap ''diskLayout'' (diskLayoutMessage pf spec))
     else if kind_id kind = ''ceph-cluster'' then one ''createCephCluster'' (wrap ''cephCluster'' (cephMessage spec))
     else if kind_id kind = ''shared-filesystem''
       then one ''createSharedFilesystem'' (wrap ''sharedFilesystem'' (filesystemMessage spec))
     else if kind_id kind = ''ingress-gateway'' then one ''createIngressGateway'' (ingress_obj spec)
     else if kind_id kind = ''ingress-route'' then one ''createIngressRoute'' (ingress_obj spec)
     else if kind_id kind = ''waf-policy'' then one ''createWafPolicy'' (ingress_obj spec)
     else if kind_id kind = ''object-store'' then one ''createObjectStore'' (wrap ''objectStore'' (objectStoreMessage spec))
     else if kind_id kind = ''cluster-update'' then one ''createClusterUpdate'' (wrap ''spec'' (clusterUpdateMessage spec))
     else if kind_id kind = ''gpus'' then Inl (InputError ''gpus is read-only; use kcore_read'')
     else if kind_id kind = ''node-vgpu'' then one ''configureNodeVgpu'' (nodeVgpuRequest spec True)
     else Inl (InputError (''unsupported kind '' @ kind_id kind)))"

definition named_read :: "string \<Rightarrow> string \<Rightarrow> obj \<Rightarrow> string \<Rightarrow> obj \<Rightarrow> RpcCall res" where
  "named_read named getter request lister listing =
     Inr (if named \<noteq> [] then ctl getter request else ctl lister listing)"

definition by_name :: "string \<Rightarrow> obj" where
  "by_name n = [(''name'', JStr n)]"

definition buildRead :: "ResourceKind \<Rightarrow> string option \<Rightarrow> RpcCall res" where
  "buildRead kind name =
   ebind (case name of Some n \<Rightarrow> if trim n \<noteq> [] then assertName n ''name'' else Inr [] | None \<Rightarrow> Inr []) (\<lambda>named.
    (if kind_id kind = ''cluster'' then Inr (ctl ''getClusterHealth'' [])
     else if kind_id kind = ''vm''
       then named_read named ''getVm'' [(''vmId'', JStr named)] ''listVms'' []
     else if kind_id kind = ''network'' then Inr (ctl ''listNetworks'' [])
     else if kind_id kind = ''ssh-key''
       then named_read named ''getSshKey'' (by_name named) ''listSshKeys'' []
     else if kind_id kind = ''container''
       then named_read named ''getWorkload'' [(''kind'', JStr ''WORKLOAD_KIND_CONTAINER''), (''workloadId'', JStr named)] ''listWorkloads'' [(''kind'', JStr ''WORKLOAD_KIND_CONTAINER'')]
     else if kind_id kind = ''postgresql''
       then named_read named ''getPostgresql'' (by_name named) ''listPostgresqls'' []
     else if kind_id kind = ''slurm-cluster''
       then named_read named ''getSlurmCluster'' (by_name named) ''listSlurmClusters'' []
     else if kind_id kind = ''kubernetes-cluster''
       then named_read named ''getKubernetesCluster'' (by_name named) ''listKubernetesClusters'' []
     else if kind_id kind = ''operator''
       then named_read named ''getOperator'' (by_name named) ''listOperators'' []
     else if kind_id kind = ''node''
       then named_read named ''getNode'' [(''nodeId'', JStr named)] ''listNodes'' []
     else if kind_id kind = ''object-user'' then Inl (InputError ''object users are not stored for readback; the secret is shown once at creation'')
     else if kind_id kind = ''volume''
       then named_read named ''getVolume'' (by_name named) ''listVolumes'' []
     else if kind_id kind = ''volume-snapshot'' then Inr (ctl ''listVolumeSnapshots'' (if named \<noteq> [] then [(''volume'', JStr named)] else []))
     else if kind_id kind = ''snapshot-policy''
       then named_read named ''getSnapshotPolicy'' (by_name named) ''listSnapshotPolicies'' []
     else if kind_id kind = ''security-group''
       then named_read named ''getSecurityGroup'' (by_name named) ''listSecurityGroups'' []
     else if kind_id kind = ''disk-layout''
       then named_read named ''getDiskLayout'' (by_name named) ''listDiskLayouts'' []
     else if kind_id kind = ''ceph-cluster''
       then named_read named ''getCephCluster'' (by_name named) ''listCephClusters'' []
     else if kind_id kind = ''shared-filesystem''
       then named_read named ''getSharedFilesystem'' (by_name named) ''listSharedFilesystems'' []
     else if kind_id kind = ''ingress-gateway''
       then named_read named ''getIngressGateway'' (by_name named) ''listIngressGateways'' []
     else if kind_id kind = ''ingress-route''
       then named_read named ''getIngressRoute'' (by_name named) ''listIngressRoutes'' [(''gateway'', JStr [])]
     else if kind_id kind = ''waf-policy''
       then named_read named ''getWafPolicy'' (by_name named) ''listWafPolicies'' []
     else if kind_id kind = ''object-store''
       then named_read named ''getObjectStore'' (by_name named) ''listObjectStores'' []
     else if kind_id kind = ''cluster-update''
       then named_read named ''getClusterUpdate'' (by_name named) ''listClusterUpdates'' []
     else if kind_id kind = ''image'' then Inl (InputError ''image reads are collected from each node'')
     else if kind_id kind = ''gpus'' then Inr (ctl ''listPciDevices'' [(''nodeId'', JStr named)])
     else if kind_id kind = ''node-vgpu''
       then if named = [] then Inl (InputError ''node id is required'') else Inr (ctl ''getNodeVgpu'' [(''nodeId'', JStr named)])
     else Inl (InputError (''unsupported kind '' @ kind_id kind))))"

section \<open>Deleting and planning\<close>

definition buildDelete :: "ResourceKind \<Rightarrow> string \<Rightarrow> RpcCall res" where
  "buildDelete kind name =
   ebind (assertName name ''name'') (\<lambda>id.
    (if kind_id kind = ''cluster'' then Inl (InputError ''This server does not delete local certificates. Remove the context from ~/.kcore/config by hand.'')
     else if kind_id kind = ''vm'' then Inr (ctl ''deleteVm'' [(''vmId'', JStr id)])
     else if kind_id kind = ''network'' then Inr (ctl ''deleteNetwork'' (by_name id))
     else if kind_id kind = ''ssh-key'' then Inr (ctl ''deleteSshKey'' (by_name id))
     else if kind_id kind = ''container'' then Inr (ctl ''deleteWorkload'' [(''kind'', JStr ''WORKLOAD_KIND_CONTAINER''), (''workloadId'', JStr id)])
     else if kind_id kind = ''postgresql'' then Inr (ctl ''deletePostgresql'' (by_name id))
     else if kind_id kind = ''kubernetes-cluster'' then Inr (ctl ''deleteKubernetesCluster'' [(''name'', JStr id), (''confirm'', JBool True), (''force'', JBool False)])
     else if kind_id kind = ''operator'' then Inr (ctl ''deleteOperator'' (by_name id))
     else if kind_id kind = ''node'' then Inr (ctl ''deleteNode'' [(''nodeId'', JStr id)])
     else if kind_id kind = ''object-user'' then Inl (InputError ''deleting an object user needs its store; use the delete-object-user operation'')
     else if kind_id kind = ''volume'' then Inr (ctl ''deleteVolume'' (by_name id))
     else if kind_id kind = ''volume-snapshot'' then Inr (ctl ''deleteVolumeSnapshot'' (by_name id))
     else if kind_id kind = ''snapshot-policy'' then Inr (ctl ''deleteSnapshotPolicy'' (by_name id))
     else if kind_id kind = ''security-group'' then Inr (ctl ''deleteSecurityGroup'' (by_name id))
     else if kind_id kind = ''disk-layout'' then Inr (ctl ''deleteDiskLayout'' (by_name id))
     else if kind_id kind = ''ceph-cluster'' then Inr (ctl ''deleteCephCluster'' (by_name id))
     else if kind_id kind = ''shared-filesystem'' then Inr (ctl ''deleteSharedFilesystem'' (by_name id))
     else if kind_id kind = ''ingress-gateway'' then Inr (ctl ''deleteIngressGateway'' (by_name id))
     else if kind_id kind = ''ingress-route'' then Inr (ctl ''deleteIngressRoute'' (by_name id))
     else if kind_id kind = ''waf-policy'' then Inr (ctl ''deleteWafPolicy'' (by_name id))
     else if kind_id kind = ''object-store'' then Inr (ctl ''deleteObjectStore'' (by_name id))
     else if kind_id kind = ''slurm-cluster'' then Inr (ctl ''deleteSlurmCluster'' [(''name'', JStr id), (''force'', JBool False)])
     else if kind_id kind = ''cluster-update'' then Inr (ctl ''cancelClusterUpdate'' (by_name id))
     else if kind_id kind = ''gpus'' then Inl (InputError ''gpus is read-only'')
     else if kind_id kind = ''node-vgpu''
       then ebind (nodeVgpuRequest [(''nodeId'', JStr id), (''enabled'', JBool False)] False) (\<lambda>r. Inr (ctl ''configureNodeVgpu'' r))
     else Inl (InputError (''unsupported kind '' @ kind_id kind))))"

definition buildPlanCall :: "platform \<Rightarrow> ResourceKind \<Rightarrow> obj \<Rightarrow> string option \<Rightarrow> RpcCall res" where
  "buildPlanCall pf kind spec name =
    (if kind_id kind = ''ingress-gateway'' \<or> kind_id kind = ''ingress-route'' \<or> kind_id kind = ''waf-policy''
     then ebind (ingressRequest spec) (\<lambda>(rname, specJson).
       let gateway = (if kind_id kind = ''ingress-gateway'' then rname
                      else case oget spec ''gateway'' of JStr g \<Rightarrow> g | _ \<Rightarrow> [])
       in if kind_id kind \<noteq> ''waf-policy'' \<and> gateway = []
          then Inl (InputError ''an ingress route needs a gateway to plan against'')
          else Inr (ctl ''planIngress''
            [(''gateway'', JStr gateway),
             (''documents'', JArr [JObj [(''kind'', JStr (yamlKind kind)), (''name'', JStr rname), (''specJson'', JStr specJson)]])]))
     else if kind_id kind = ''disk-layout''
     then ebind (wrap ''diskLayout'' (diskLayoutMessage pf spec)) (\<lambda>r. Inr (ctl ''classifyDiskLayout'' r))
     else if kind_id kind = ''cluster-update''
     then ebind (wrap ''spec'' (clusterUpdateMessage spec)) (\<lambda>r. Inr (ctl ''planClusterUpdate'' r))
     else if kind_id kind = ''kubernetes-cluster''
     then ebind (kubernetesRequest spec) (\<lambda>r. Inr (ctl ''planKubernetesCluster'' r))
     else if kind_id kind = ''slurm-cluster''
     then ebind (slurmClusterRequest spec) (\<lambda>r. Inr (ctl ''planSlurmCluster'' r))
     else buildRead kind
       (case name of Some n \<Rightarrow> Some n | None \<Rightarrow> (case oget spec ''name'' of JStr n \<Rightarrow> Some n | _ \<Rightarrow> None)))"

section \<open>Operations\<close>

definition OPERATION_ACTIONS_HINT :: string where
  "OPERATION_ACTIONS_HINT =
     ''action must be set-vm-state, migrate-vm, cancel-vm-operation, drain-node, cordon-node, uncordon-node, approve-node, reject-node, reboot-node, rotate-node-certs, approve-update, promote-update, cancel-update, rollback-update, reboot-update-node, set-version, slurm-drain-node, slurm-resume-node, slurm-rotate-munge-key, attach-volume, detach-volume, resize-volume, restore-volume, flatten-volume, format-volume, mount-volume, unmount-volume, encrypt-volume, set-route-waf-mode, delete-object-user, grant-operator-role, revoke-operator-role, or install-node''"

definition call :: "string \<Rightarrow> (string \<times> js res) list \<Rightarrow> RpcCall res option" where
  "call method ps = Some (ebind (props ps) (\<lambda>r. Inr (ctl method r)))"

definition guarded :: "bool \<Rightarrow> string \<Rightarrow> RpcCall res option \<Rightarrow> RpcCall res option" where
  "guarded bad msg r = (if bad then Some (Inl (InputError msg)) else r)"

definition nodeId_prop :: "obj \<Rightarrow> string \<times> js res" where
  "nodeId_prop spec = (''nodeId'', jstr (req_name spec ''nodeId'' ''node id''))"

definition name_prop :: "obj \<Rightarrow> string \<Rightarrow> string \<times> js res" where
  "name_prop spec label = (''name'', jstr (req_name spec ''name'' label))"

definition flag :: "obj \<Rightarrow> string \<Rightarrow> string \<times> js res" where
  "flag spec key = (key, Inr (JBool (boolish (oget spec key))))"

definition opt_text :: "obj \<Rightarrow> string \<Rightarrow> string \<times> js res" where
  "opt_text spec key = (key, Inr (JStr (opt_or spec key [])))"

definition set_vm_state :: "obj \<Rightarrow> RpcCall res" where
  "set_vm_state spec =
     ebind (required spec ''state'' ''state'') (\<lambda>state.
     if state \<noteq> ''running'' \<and> state \<noteq> ''stopped'' then Inl (InputError ''state must be running or stopped'')
     else ebind (props
       [(''vmId'', jstr (req_name spec ''name'' ''VM name'')),
        (''desiredState'', Inr (JStr (if state = ''running'' then ''VM_DESIRED_STATE_RUNNING'' else ''VM_DESIRED_STATE_STOPPED''))),
        opt_text spec ''targetNode'']) (\<lambda>r. Inr (ctl ''setVmDesiredState'' r)))"

definition set_version :: "obj \<Rightarrow> RpcCall res" where
  "set_version spec =
     (let noCanary = boolish (oget spec ''noCanary'');
          canaryNode = first_opt spec [''canaryNode'', ''canaryNodeId''];
          soak = coalesce (oget spec ''soak'') (oget spec ''canarySoakSeconds'')
      in
      if noCanary \<and> (canaryNode \<noteq> None \<or> soak \<noteq> JUndef)
      then Inl (InputError ''noCanary cannot be combined with canaryNode or soak'')
      else ebind (props
        [(''version'', ebind (req_arg spec ''version'' ''version'') (\<lambda>v. Inr (JStr (releaseTag v)))),
         opt_text spec ''flakeRef'',
         flag spec ''drainVms'',
         flag spec ''dryRun'',
         (''canarySoakSeconds'', if soak = JUndef then Inr (JInt 0) else ebind (soakSeconds soak) (\<lambda>n. Inr (JNum n))),
         (''noCanary'', Inr (JBool noCanary)),
         (''canaryNodeId'', jstr (case canaryNode of Some n \<Rightarrow> assertName n ''canary node'' | None \<Rightarrow> Inr []))])
        (\<lambda>r. Inr (ctl ''setClusterVersion'' r)))"

definition rotate_node_certs :: "obj \<Rightarrow> RpcCall res" where
  "rotate_node_certs spec =
     (let allNodes = boolish (oget spec ''allNodes''); nodeId = opt spec ''nodeId'' in
      if allNodes = (nodeId \<noteq> None) then Inl (InputError ''pass either nodeId or allNodes true'')
      else ebind (props
        [(''nodeId'', jstr (case nodeId of Some n \<Rightarrow> assertName n ''node id'' | None \<Rightarrow> Inr [])),
         (''allNodes'', Inr (JBool allNodes))]) (\<lambda>r. Inr (ctl ''rotateNodeCerts'' r)))"

text \<open>The virtual machine, node, update and Slurm actions of the \<^verbatim>\<open>switch\<close>, in its order.\<close>

definition cluster_operation :: "string \<Rightarrow> obj \<Rightarrow> RpcCall res option" where
  "cluster_operation action spec =
    (if action = ''set-vm-state'' then Some (set_vm_state spec)
     else if action = ''migrate-vm'' then call ''migrateVm''
       [(''vmId'', jstr (req_name spec ''name'' ''VM name'')),
        (''targetNode'', jstr (req_arg spec ''targetNode'' ''target node'')),
        flag spec ''allowColdFallback'',
        (''gpus'', Inr (jstrs (deviceList (oget spec ''gpus'')))),
        (''vgpus'', Inr (jstrs (deviceList (oget spec ''vgpus''))))]
     else if action = ''reboot-node'' then call ''rebootNode'' [nodeId_prop spec, flag spec ''force'']
     else if action = ''drain-node'' then call ''drainNode'' [nodeId_prop spec, opt_text spec ''targetNode'']
     else if action = ''cordon-node'' then call ''cordonNode'' [nodeId_prop spec]
     else if action = ''uncordon-node'' then call ''uncordonNode'' [nodeId_prop spec]
     else if action = ''approve-node'' then call ''approveNode'' [nodeId_prop spec]
     else if action = ''reject-node'' then call ''rejectNode'' [nodeId_prop spec]
     else if action = ''approve-update'' then call ''approveClusterUpdate'' [name_prop spec ''update name'']
     else if action = ''promote-update'' then call ''promoteClusterUpdate'' [name_prop spec ''update name'']
     else if action = ''cancel-update'' then call ''cancelClusterUpdate'' [name_prop spec ''update name'']
     else if action = ''set-version'' then Some (set_version spec)
     else if action = ''rollback-update'' then call ''rollbackClusterUpdate'' [name_prop spec ''update name'']
     else if action = ''slurm-drain-node'' then call ''drainSlurmNode''
       [name_prop spec ''Slurm cluster name'', nodeId_prop spec, opt_text spec ''reason'']
     else if action = ''slurm-resume-node'' then call ''resumeSlurmNode''
       [name_prop spec ''Slurm cluster name'', nodeId_prop spec]
     else if action = ''slurm-rotate-munge-key'' then call ''rotateSlurmMungeKey'' [name_prop spec ''Slurm cluster name'']
     else if action = ''cancel-vm-operation'' then call ''cancelVmOperation''
       [(''id'', jstr (req_name spec ''id'' ''operation id''))]
     else if action = ''rotate-node-certs'' then Some (rotate_node_certs spec)
     else if action = ''reboot-update-node'' then call ''rebootClusterUpdateNode''
       [name_prop spec ''update name'', nodeId_prop spec]
     else None)"

text \<open>\<^verbatim>\<open>/^\/(var\/lib|mnt)\/kcore(\/|$)/\<close> and no \<^verbatim>\<open>..\<close> anywhere.\<close>

definition mount_point_ok :: "string \<Rightarrow> bool" where
  "mount_point_ok p \<longleftrightarrow>
     list_ex (\<lambda>base. p = base \<or> startsWith p (base @ ''/'')) [''/var/lib/kcore'', ''/mnt/kcore''] \<and>
     \<not> includes_str p ''..''"

definition mount_volume :: "obj \<Rightarrow> RpcCall res" where
  "mount_volume spec =
     ebind (req_arg spec ''mountPoint'' ''mount point'') (\<lambda>mountPoint.
     if \<not> mount_point_ok mountPoint
     then Inl (InputError ''mount point must be under /var/lib/kcore or /mnt/kcore'')
     else ebind (props
       [name_prop spec ''volume name'', (''mountPoint'', Inr (JStr mountPoint)),
        opt_text spec ''fsType'', flag spec ''persistent'']) (\<lambda>r. Inr (ctl ''mountVolume'' r)))"

definition set_route_waf_mode :: "obj \<Rightarrow> RpcCall res" where
  "set_route_waf_mode spec =
     ebind (required spec ''mode'' ''mode'') (\<lambda>mode.
     if mode \<notin> set [''detect'', ''block'', ''off''] then Inl (InputError ''mode must be detect, block, or off'')
     else ebind (props [name_prop spec ''route name'', (''mode'', Inr (JStr mode))])
       (\<lambda>r. Inr (ctl ''setIngressRouteWafMode'' r)))"

text \<open>The volume, ingress, object user, operator and installation actions.\<close>

definition volume_operation :: "string \<Rightarrow> obj \<Rightarrow> RpcCall res option" where
  "volume_operation action spec =
    (if action = ''attach-volume'' then call ''attachVolume''
       [name_prop spec ''volume name'', (''vm'', jstr (req_name spec ''vm'' ''VM name''))]
     else if action = ''detach-volume'' then call ''detachVolume'' [name_prop spec ''volume name'']
     else if action = ''resize-volume'' then call ''resizeVolume''
       [name_prop spec ''volume name'', (''sizeBytes'', jstr (req_size spec ''sizeBytes'' ''size'')),
        flag spec ''growFilesystem'', flag spec ''allowShrink'']
     else if action = ''restore-volume'' then call ''restoreVolume''
       [(''volume'', jstr (req_name spec ''volume'' ''volume name'')),
        (''snapshot'', jstr (req_name spec ''snapshot'' ''snapshot name''))]
     else if action = ''flatten-volume'' then call ''flattenVolume'' [name_prop spec ''volume name'']
     else if action = ''format-volume'' then
       (let fsType = opt_or spec ''fsType'' ''ext4'' in
        guarded (fsType \<noteq> ''ext4'' \<and> fsType \<noteq> ''xfs'') ''fsType must be ext4 or xfs''
          (call ''formatVolume'' [name_prop spec ''volume name'', (''fsType'', Inr (JStr fsType)), flag spec ''force'']))
     else if action = ''mount-volume'' then Some (mount_volume spec)
     else if action = ''unmount-volume'' then call ''unmountVolume'' [name_prop spec ''volume name'', flag spec ''persistent'']
     else if action = ''encrypt-volume'' then
       guarded (\<not> boolish (oget spec ''destroyData''))
         ''encrypting formats LUKS2 on the device and destroys its data; set destroyData true to acknowledge''
         (call ''encryptVolume'' [name_prop spec ''volume name'', (''destroyData'', Inr (JBool True))])
     else if action = ''set-route-waf-mode'' then Some (set_route_waf_mode spec)
     else if action = ''delete-object-user'' then call ''deleteObjectUser''
       [name_prop spec ''user name'', (''store'', jstr (req_name spec ''store'' ''object store''))]
     else if action = ''grant-operator-role'' \<or> action = ''revoke-operator-role'' then
       call (if action = ''grant-operator-role'' then ''grantOperatorRole'' else ''revokeOperatorRole'')
         [(''operatorName'', jstr (req_name spec ''name'' ''operator name'')),
          (''role'', ebind (required spec ''role'' ''role'') operatorRole)]
     else if action = ''install-node'' then Some (installCall spec)
     else None)"

definition buildOperation :: "string \<Rightarrow> obj \<Rightarrow> RpcCall res" where
  "buildOperation action spec =
     (case cluster_operation action spec of
        Some r \<Rightarrow> r
      | None \<Rightarrow>
          (case volume_operation action spec of
             Some r \<Rightarrow> r
           | None \<Rightarrow> Inl (InputError OPERATION_ACTIONS_HINT)))"

section \<open>Which methods the builders call\<close>

definition read_methods :: "string list" where
  "read_methods =
     [''getVm'', ''listVms'', ''getWorkload'', ''listWorkloads'', ''listNetworks'',
      ''getPostgresql'', ''listPostgresqls'', ''getSecurityGroup'', ''listSecurityGroups'',
      ''listNodes'', ''getNode'', ''listPciDevices'', ''getNodeVgpu'', ''listSshKeys'',
      ''getSshKey'', ''getClusterHealth'', ''listVolumes'', ''getVolume'',
      ''listVolumeSnapshots'', ''getSnapshotPolicy'', ''listSnapshotPolicies'',
      ''getDiskLayout'', ''listDiskLayouts'', ''classifyDiskLayout'', ''getClusterUpdate'',
      ''listClusterUpdates'', ''planClusterUpdate'', ''getCephCluster'', ''listCephClusters'',
      ''getSharedFilesystem'', ''listSharedFilesystems'', ''planIngress'',
      ''getIngressGateway'', ''listIngressGateways'', ''getIngressRoute'',
      ''listIngressRoutes'', ''getWafPolicy'', ''listWafPolicies'', ''getObjectStore'',
      ''listObjectStores'', ''listOperators'', ''getOperator'', ''planKubernetesCluster'',
      ''getKubernetesCluster'', ''listKubernetesClusters'', ''planSlurmCluster'',
      ''getSlurmCluster'', ''listSlurmClusters'']"

definition write_methods :: "string list" where
  "write_methods =
     [''createVm'', ''deleteVm'', ''setVmDesiredState'', ''createWorkload'', ''deleteWorkload'',
      ''createNetwork'', ''deleteNetwork'', ''createPostgresql'', ''deletePostgresql'',
      ''createSecurityGroup'', ''deleteSecurityGroup'', ''attachSecurityGroup'',
      ''configureNodeVgpu'', ''rebootNode'', ''createSshKey'', ''deleteSshKey'', ''drainNode'',
      ''migrateVm'', ''approveNode'', ''rejectNode'', ''cordonNode'', ''uncordonNode'',
      ''deleteNode'', ''rotateNodeCerts'', ''createVolume'', ''attachVolume'', ''detachVolume'',
      ''deleteVolume'', ''cancelVmOperation'', ''createVolumeSnapshot'',
      ''deleteVolumeSnapshot'', ''restoreVolume'', ''flattenVolume'', ''resizeVolume'',
      ''formatVolume'', ''mountVolume'', ''unmountVolume'', ''encryptVolume'',
      ''createSnapshotPolicy'', ''deleteSnapshotPolicy'', ''createDiskLayout'',
      ''deleteDiskLayout'', ''createClusterUpdate'', ''approveClusterUpdate'',
      ''cancelClusterUpdate'', ''rollbackClusterUpdate'', ''rebootClusterUpdateNode'',
      ''promoteClusterUpdate'', ''setClusterVersion'', ''createCephCluster'',
      ''deleteCephCluster'', ''createSharedFilesystem'', ''deleteSharedFilesystem'',
      ''createIngressGateway'', ''deleteIngressGateway'', ''createIngressRoute'',
      ''deleteIngressRoute'', ''setIngressRouteWafMode'', ''createWafPolicy'',
      ''deleteWafPolicy'', ''createObjectStore'', ''deleteObjectStore'', ''deleteObjectUser'',
      ''createOperator'', ''deleteOperator'', ''grantOperatorRole'', ''revokeOperatorRole'',
      ''createKubernetesCluster'', ''deleteKubernetesCluster'', ''createSlurmCluster'',
      ''deleteSlurmCluster'', ''rotateSlurmMungeKey'', ''drainSlurmNode'', ''resumeSlurmNode'']"

definition target_service :: "RpcCall \<Rightarrow> string" where
  "target_service c = (case call_target c of Controller \<Rightarrow> ''controller'' | NodeAgent \<Rightarrow> ''node-admin'')"

definition reading :: "RpcCall \<Rightarrow> bool" where
  "reading c \<longleftrightarrow> call_target c = Controller \<and> call_address c = None \<and> call_method c \<in> set read_methods"

definition writing :: "RpcCall \<Rightarrow> bool" where
  "writing c \<longleftrightarrow>
     (call_target c = Controller \<and> call_address c = None \<and> call_method c \<in> set write_methods) \<or>
     (call_target c = NodeAgent \<and> call_address c \<noteq> None \<and> call_method c = ''installToDisk'')"

lemma methods_classified:
  "list_all isReadOnlyMethod read_methods" "list_all (\<lambda>m. \<not> isReadOnlyMethod m) write_methods"
  by code_simp+

text \<open>The two lists are in the order of the proto file, so one pass over it finds them all.\<close>

definition capital :: "string \<Rightarrow> string" where
  "capital m = (case m of [] \<Rightarrow> [] | c # cs \<Rightarrow> char_of (code c - 32) # cs)"

lemma methods_in_file:
  "subseq (map (\<lambda>m. unary (capital m)) read_methods) service_Controller"
  "subseq (map (\<lambda>m. unary (capital m)) write_methods) service_Controller"
  by code_simp+

lemma methods_lower:
  "list_all (\<lambda>m. m \<noteq> [] \<and> is_lower (hd m)) (read_methods @ write_methods)"
  by code_simp

lemma method_name_capital: "m \<noteq> [] \<Longrightarrow> is_lower (hd m) \<Longrightarrow> method_name (capital m) = m"
  by (cases m) (auto simp: method_name_def capital_def lower_char_def is_upper_def is_lower_def)

lemma controller_stub_free: "''controller/'' @ m \<notin> set UNIMPLEMENTED"
  by (simp add: UNIMPLEMENTED_def)

lemma serviceClient_controller: "serviceClient ''controller'' = service_Controller"
  by (simp add: serviceClient_def services_def)

lemma controller_implemented:
  assumes "subseq (map (\<lambda>m. unary (capital m)) ms) service_Controller"
    and "m \<in> set ms" and "m \<noteq> []" and "is_lower (hd m)"
  shows "implemented_unary ''controller'' m"
proof -
  have "unary (capital m) \<in> set service_Controller"
    using list_emb_set [OF assms(1), of "unary (capital m)"] assms(2) by auto
  moreover have "method_name (capital m) = m" using assms(3,4) by (rule method_name_capital)
  ultimately show ?thesis
    using controller_stub_free [of m]
    by (auto simp: implemented_unary_def serviceClient_controller list_ex_iff intro!: bexI)
qed

lemma methods_implemented:
  "m \<in> set read_methods \<Longrightarrow> implemented_unary ''controller'' m"
  "m \<in> set write_methods \<Longrightarrow> implemented_unary ''controller'' m"
  using methods_lower
  by (auto simp: list_all_iff intro: controller_implemented [OF methods_in_file(1)]
      controller_implemented [OF methods_in_file(2)])

lemma install_classified:
  "\<not> isReadOnlyMethod ''installToDisk''" "implemented_unary ''node-admin'' ''installToDisk''"
  by code_simp+

lemma reading_sound:
  "reading c \<Longrightarrow> isReadOnlyMethod (call_method c) \<and> implemented_unary (target_service c) (call_method c)"
  using methods_classified(1) methods_implemented(1)
  by (auto simp: reading_def target_service_def list_all_iff)

lemma writing_sound:
  "writing c \<Longrightarrow> \<not> isReadOnlyMethod (call_method c) \<and> implemented_unary (target_service c) (call_method c)"
  using methods_classified(2) methods_implemented(2) install_classified
  by (auto simp: writing_def target_service_def list_all_iff)

lemma reading_ctl: "m \<in> set read_methods \<Longrightarrow> reading (ctl m r)"
  by (simp add: reading_def)

lemma writing_ctl: "m \<in> set write_methods \<Longrightarrow> writing (ctl m r)"
  by (simp add: writing_def)

lemma one_writing: "m \<in> set write_methods \<Longrightarrow> on_ok (list_all writing) (one m r)"
  unfolding one_def by (intro ok_intros) (simp add: writing_ctl)

lemma named_read_reading:
  "g \<in> set read_methods \<Longrightarrow> l \<in> set read_methods \<Longrightarrow> on_ok reading (named_read n g r l s)"
  unfolding named_read_def by (simp add: reading_ctl)

lemma mem_step: "x \<in> set (x # xs)" "x \<in> set xs \<Longrightarrow> x \<in> set (y # xs)"
  by simp_all

lemma buildRead_reading: "on_ok reading (buildRead kind name)"
  unfolding buildRead_def
  by (intro ok_intros named_read_reading reading_ctl; unfold read_methods_def; (rule mem_step)+)

lemma buildDelete_writing: "on_ok writing (buildDelete kind name)"
  unfolding buildDelete_def
  by (intro ok_intros writing_ctl; unfold write_methods_def; (rule mem_step)+)

lemma buildPlanCall_reading: "on_ok reading (buildPlanCall pf kind spec name)"
  unfolding buildPlanCall_def case_prod_unfold Let_def
  by (intro ok_intros reading_ctl buildRead_reading; unfold read_methods_def; (rule mem_step)+)

lemma operatorCalls_writing: "on_ok (list_all writing) (operatorCalls spec)"
  unfolding operatorCalls_def
proof (intro ok_intros)
  fix request granted
  assume g: "emap (\<lambda>role. ebind (props
      [(''operatorName'', jstr (req_name spec ''name'' ''operator name'')), (''role'', operatorRole role)])
      (\<lambda>r. Inr (ctl ''grantOperatorRole'' r))) (stringList (oget spec ''roles'')) = Inr granted"
  have "list_all writing granted"
    by (rule on_okD [OF on_ok_emap g]) (intro ok_intros writing_ctl; simp add: write_methods_def)
  then show "list_all writing (ctl ''createOperator'' request # granted)"
    by (simp add: writing_ctl write_methods_def)
qed

lemma securityGroupCalls_writing: "on_ok (list_all writing) (securityGroupCalls spec)"
  unfolding securityGroupCalls_def
proof (intro ok_intros)
  fix name request attached
  assume a: "emap (attachment_call name) (filter is_object (arr_items (oget spec ''attachments''))) = Inr attached"
  have "list_all writing attached"
    by (rule on_okD [OF on_ok_emap a], unfold attachment_call_def Let_def)
       (intro ok_intros writing_ctl; simp add: write_methods_def)
  then show "list_all writing (ctl ''createSecurityGroup'' request # attached)"
    by (simp add: writing_ctl write_methods_def)
qed

lemma buildApply_writing: "on_ok (list_all writing) (buildApply pf kind spec)"
  unfolding buildApply_def
  by (intro ok_intros one_writing operatorCalls_writing securityGroupCalls_writing;
      unfold write_methods_def; (rule mem_step)+)

definition opt_writing :: "RpcCall res option \<Rightarrow> bool" where
  "opt_writing r = (case r of None \<Rightarrow> True | Some s \<Rightarrow> on_ok writing s)"

lemma opt_writing_rules:
  "opt_writing None"
  "on_ok writing s \<Longrightarrow> opt_writing (Some s)"
  "m \<in> set write_methods \<Longrightarrow> opt_writing (call m ps)"
  "(b \<Longrightarrow> opt_writing r) \<Longrightarrow> (\<not> b \<Longrightarrow> opt_writing t) \<Longrightarrow> opt_writing (if b then r else t)"
  "opt_writing r \<Longrightarrow> opt_writing (guarded b msg r)"
  by (auto simp: opt_writing_def guarded_def call_def intro!: ok_intros writing_ctl)

lemma installCall_writing: "on_ok writing (installCall spec)"
  unfolding installCall_def by (intro ok_intros) (simp add: writing_def)

lemma cluster_operation_writing: "opt_writing (cluster_operation action spec)"
  unfolding cluster_operation_def set_vm_state_def set_version_def rotate_node_certs_def Let_def
  by (intro opt_writing_rules ok_intros writing_ctl; unfold write_methods_def; (rule mem_step)+)

lemma volume_operation_writing: "opt_writing (volume_operation action spec)"
  unfolding volume_operation_def mount_volume_def set_route_waf_mode_def Let_def
  by (intro opt_writing_rules ok_intros writing_ctl installCall_writing; unfold write_methods_def;
      simp?; (rule mem_step)+)

lemma buildOperation_writing: "on_ok writing (buildOperation action spec)"
  using cluster_operation_writing [of action spec] volume_operation_writing [of action spec]
  by (simp add: buildOperation_def opt_writing_def split: option.splits)

section \<open>Correctness of the builders\<close>

text \<open>
  C22: reading and planning are harmless: every call they build is addressed to the controller,
  counts as read-only, and is an implemented unary RPC of the controller service.
\<close>

theorem reads_and_plans_only_read:
  assumes "buildRead kind name = Inr c \<or> buildPlanCall pf kind spec name = Inr c"
  shows "call_target c = Controller \<and> isReadOnlyMethod (call_method c) \<and>
    implemented_unary ''controller'' (call_method c)"
proof -
  have "reading c" using assms buildRead_reading buildPlanCall_reading by (blast dest: on_okD)
  then show ?thesis using reading_sound [of c] by (auto simp: reading_def target_service_def)
qed

theorem reads_and_plans_only_read_witness:
  "\<exists>c. buildRead kind_vm (Some ''web'') = Inr c \<and> isReadOnlyMethod (call_method c)"
proof -
  have "is_ok (buildRead kind_vm (Some ''web''))" by code_simp
  then obtain c where c: "buildRead kind_vm (Some ''web'') = Inr c" by (auto simp: is_ok_iff)
  with reads_and_plans_only_read [of kind_vm "Some ''web''" c bare_platform "[]"] show ?thesis by blast
qed

text \<open>
  C23: applying, deleting and operating never pass for a read: no call they build counts as
  read-only, and each exists in the service it is sent to.
\<close>

theorem writes_are_never_reads:
  assumes "(\<exists>cs. buildApply pf kind spec = Inr cs \<and> c \<in> set cs) \<or> buildDelete kind name = Inr c \<or>
    buildOperation action spec = Inr c"
  shows "\<not> isReadOnlyMethod (call_method c) \<and> implemented_unary (target_service c) (call_method c)"
proof -
  have "writing c"
    using assms buildApply_writing [of pf kind spec] buildDelete_writing [of kind name]
      buildOperation_writing [of action spec]
    by (auto simp: on_ok_def list_all_iff)
  then show ?thesis by (rule writing_sound)
qed

theorem writes_are_never_reads_witness:
  "\<exists>c. buildOperation ''cordon-node'' [(''nodeId'', JStr ''n1'')] = Inr c \<and> \<not> isReadOnlyMethod (call_method c)"
proof -
  let ?spec = "[(''nodeId'', JStr ''n1'')]"
  have "is_ok (buildOperation ''cordon-node'' ?spec)" by code_simp
  then obtain c where c: "buildOperation ''cordon-node'' ?spec = Inr c" by (auto simp: is_ok_iff)
  with writes_are_never_reads [of bare_platform kind_vm ?spec c "[]" "''cordon-node''"] show ?thesis by blast
qed

lemma vgpu_off_node:
  assumes "NAME n" and "nodeVgpuRequest [(''nodeId'', JStr n), (''enabled'', JBool False)] False = Inr r"
  shows "JStr n \<in> snd ` set r"
proof -
  have t: "trim n = n" using NAME_trim [OF assms(1)] .
  then have "opt [(''nodeId'', JStr n), (''enabled'', JBool False)] ''nodeId'' = Some n"
    using assms(1) by (auto simp: opt_def oget_def NAME_def)
  then show ?thesis
    using assms t by (auto simp: nodeVgpuRequest_def ebind_Inr_iff name_check.check_iff)
qed



definition OPERATION_ACTIONS :: "string list" where
  "OPERATION_ACTIONS =
     [''set-vm-state'', ''migrate-vm'', ''cancel-vm-operation'', ''drain-node'',
      ''cordon-node'', ''uncordon-node'', ''approve-node'', ''reject-node'', ''reboot-node'',
      ''rotate-node-certs'', ''approve-update'', ''promote-update'', ''cancel-update'',
      ''rollback-update'', ''reboot-update-node'', ''set-version'', ''slurm-drain-node'',
      ''slurm-resume-node'', ''slurm-rotate-munge-key'', ''attach-volume'', ''detach-volume'',
      ''resize-volume'', ''restore-volume'', ''flatten-volume'', ''format-volume'',
      ''mount-volume'', ''unmount-volume'', ''encrypt-volume'', ''set-route-waf-mode'',
      ''delete-object-user'', ''grant-operator-role'', ''revoke-operator-role'',
      ''install-node'']"

definition any_operation :: obj where
  "any_operation =
     [(''name'', JStr ''a''), (''nodeId'', JStr ''n1''), (''state'', JStr ''running''), (''targetNode'', JStr ''n2''),
      (''id'', JStr ''op1''), (''version'', JStr ''1.2.0''), (''vm'', JStr ''web''), (''sizeBytes'', JStr ''40''),
      (''volume'', JStr ''data''), (''snapshot'', JStr ''s1''), (''mountPoint'', JStr ''/mnt/kcore/data''),
      (''destroyData'', JBool True), (''mode'', JStr ''block''), (''store'', JStr ''s3''), (''role'', JStr ''vm-admin''),
      (''node'', JStr ''10.0.0.5:9091''), (''osDisk'', JStr ''/dev/sda''), (''joinController'', JStr ''10.0.0.1:9090'')]"

lemma any_operation_ok: "list_all (\<lambda>a. is_ok (buildOperation a any_operation)) OPERATION_ACTIONS"
  by code_simp

lemma cluster_operation_unknown: "action \<notin> set OPERATION_ACTIONS \<Longrightarrow> cluster_operation action spec = None"
  unfolding cluster_operation_def OPERATION_ACTIONS_def by simp

lemma volume_operation_unknown: "action \<notin> set OPERATION_ACTIONS \<Longrightarrow> volume_operation action spec = None"
  unfolding volume_operation_def OPERATION_ACTIONS_def by simp

text \<open>
  An action is answered with the hint, whatever the spec, exactly if it is not one of the
  actions the hint lists; each listed action can be built.
\<close>

theorem operation_hint_complete:
  "OPERATION_ACTIONS_HINT = ''action must be '' @ join '', '' (butlast OPERATION_ACTIONS) @ '', or '' @ last OPERATION_ACTIONS \<and>
   ((\<forall>spec. buildOperation action spec = Inl (InputError OPERATION_ACTIONS_HINT)) \<longleftrightarrow> action \<notin> set OPERATION_ACTIONS)"
proof
  show "OPERATION_ACTIONS_HINT = ''action must be '' @ join '', '' (butlast OPERATION_ACTIONS) @ '', or '' @ last OPERATION_ACTIONS"
    by code_simp
  show "(\<forall>spec. buildOperation action spec = Inl (InputError OPERATION_ACTIONS_HINT)) \<longleftrightarrow> action \<notin> set OPERATION_ACTIONS"
    using any_operation_ok cluster_operation_unknown volume_operation_unknown
    by (auto simp: list_all_iff is_ok_def buildOperation_def dest!: bspec split: sum.splits)
qed

lemma req_address_ok: "req_address spec key label = Inr a \<Longrightarrow> address_ok a"
  by (auto simp: req_address_def ebind_Inr_iff dest: address_check.check_InrD)

lemma disks_DISK: "disks spec = Inr ds \<Longrightarrow> list_all DISK ds"
  by (auto simp: disks_def Let_def ebind_Inr_iff dest: disk_check.check_InrD disk_check.check_all_safe
      split: js.splits if_splits)

lemma bootstrapCertRequest_ok: "bootstrapCertRequest spec = Inr b \<Longrightarrow> address_ok (boot_address b)"
  by (auto simp: bootstrapCertRequest_def ebind_Inr_iff Let_def dest: req_address_ok)

text \<open>
  C27: an installation goes to a validated node address, wipes only paths under \<^verbatim>\<open>/dev\<close>, and joins
  the one controller address it was given.
\<close>

theorem installCall_validated:
  assumes "installCall spec = Inr c"
  shows "\<exists>address os data controller.
    call_target c = NodeAgent \<and> call_method c = ''installToDisk'' \<and>
    call_address c = Some address \<and> address_ok address \<and>
    oget (call_request c) ''osDisk'' = JStr os \<and> DISK os \<and>
    oget (call_request c) ''dataDisks'' = jstrs data \<and> list_all DISK data \<and>
    oget (call_request c) ''controller'' = JStr controller \<and> address_ok controller \<and>
    oget (call_request c) ''controllers'' = jstrs [controller]"
proof -
  obtain b r where b: "bootstrapCertRequest spec = Inr b" and r: "install_request spec b = Inr r"
    and c: "c = \<lparr>call_target = NodeAgent, call_method = ''installToDisk'', call_request = r,
      call_address = Some (boot_address b)\<rparr>"
    using assms by (auto simp: installCall_def ebind_Inr_iff)
  note f = r [unfolded install_request_def]
  obtain os where "ebind (required spec ''osDisk'' ''OS disk'') (\<lambda>v. assertDisk v ''OS disk'') = Inr os"
      "oget r ''osDisk'' = JStr os"
    using props_oget_str [OF f, of "''osDisk''"] by auto
  moreover obtain ds where "disks spec = Inr ds" "oget r ''dataDisks'' = jstrs ds"
    using props_oget [OF f, of "''dataDisks''"] by (auto simp: ebind_Inr_iff dest!: sym [of "ebind _ _"])
  moreover obtain a where "req_address spec ''joinController'' ''join controller'' = Inr a"
      "oget r ''controller'' = JStr a"
    using props_oget_str [OF f, of "''controller''"] by auto
  moreover from this have "oget r ''controllers'' = jstrs [a]"
    using props_oget [OF f, of "''controllers''"] by simp
  ultimately show ?thesis
    using c bootstrapCertRequest_ok [OF b]
    by (auto simp: ebind_Inr_iff dest: req_address_ok disks_DISK disk_check.check_InrD)
qed

theorem installCall_validated_witness:
  "\<exists>c address. installCall any_operation = Inr c \<and> call_address c = Some address \<and> address_ok address"
proof -
  have "is_ok (installCall any_operation)" by code_simp
  then obtain c where c: "installCall any_operation = Inr c" by (auto simp: is_ok_iff)
  with installCall_validated [OF c] show ?thesis by blast
qed

text \<open>
  Planning a volume snapshot looks up the snapshots of a volume that has the snapshot's own
  name; the volume the spec names is not part of the call.
\<close>

theorem snapshot_plan_reads_wrong_volume:
  assumes "oget spec ''name'' = JStr n" and "NAME n"
  shows "buildPlanCall pf kind_volume_snapshot spec None = Inr (ctl ''listVolumeSnapshots'' [(''volume'', JStr n)])"
proof -
  have n: "assertName n ''name'' = Inr n" "n \<noteq> []"
    using assms(2) by (auto simp: name_check.check_iff NAME_trim NAME_def)
  have k: "kind_id kind_volume_snapshot = ''volume-snapshot''" by (simp add: kind_volume_snapshot_def)
  have "buildRead kind_volume_snapshot (Some n) = Inr (ctl ''listVolumeSnapshots'' [(''volume'', JStr n)])"
    unfolding buildRead_def k using n NAME_trim [OF assms(2)] by simp
  then show ?thesis unfolding buildPlanCall_def k using assms(1) by simp
qed

theorem snapshot_plan_reads_wrong_volume_witness:
  "buildPlanCall bare_platform kind_volume_snapshot [(''name'', JStr ''snap1''), (''volume'', JStr ''vol1'')] None =
    Inr (ctl ''listVolumeSnapshots'' [(''volume'', JStr ''snap1'')])"
  by (rule snapshot_plan_reads_wrong_volume) (simp add: oget_def, code_simp)

end
