(* ===== verification/Questions.thy ===== *)
theory Questions
  imports Requests
begin

text \<open>
  The interview of \<^verbatim>\<open>kcore-mcp/packages/server/src/advise.ts\<close>: which questions each kind of resource
  raises for a spec (\<open>questionsFor\<close>, one definition per branch of its \<^verbatim>\<open>switch\<close>, and \<open>vmQuestions\<close>) and
  which warnings go with it (\<open>warningsFor\<close>). A question is required where its answer is missing from
  the spec; each branch then keeps the required ones and those whose own field is missing.
\<close>

section \<open>Questions\<close>

record Question =
  q_id :: string
  q_prompt :: string
  q_why :: string
  q_required :: bool
  q_choices :: "string list option"
  q_example :: "string option"

definition str :: "obj \<Rightarrow> string \<Rightarrow> string" where
  "str spec key = (case oget spec key of JStr s \<Rightarrow> trim s | _ \<Rightarrow> [])"

definition question :: "string \<Rightarrow> string \<Rightarrow> string \<Rightarrow> bool \<Rightarrow> string list option \<Rightarrow> string option \<Rightarrow> Question" where
  "question i prompt why req choices example =
     \<lparr>q_id = i, q_prompt = prompt, q_why = why, q_required = req, q_choices = choices, q_example = example\<rparr>"

lemma question_simps [simp]:
  "q_id (question i p w r c e) = i"
  "q_required (question i p w r c e) = r"
  by (simp_all add: question_def)

definition missing :: "obj \<Rightarrow> string \<Rightarrow> bool" where
  "missing spec key = isBlank (oget spec key)"

definition everyCardHasCount :: "obj \<Rightarrow> bool" where
  "everyCardHasCount spec =
     (let cards = (case oget spec ''hostCards'' of JArr xs \<Rightarrow> xs | JStr s \<Rightarrow> [JStr s] | _ \<Rightarrow> []) in
      0 < length cards \<and> list_all (\<lambda>dev. has_count (js_string dev)) cards)"

text \<open>The operator \<^verbatim>\<open>in\<close>.\<close>

fun has_key :: "js \<Rightarrow> string \<Rightarrow> bool" where
  "has_key (JObj ps) k = (k \<in> fst ` set ps \<or> k \<in> set proto_keys)"
| "has_key _ k = (k \<in> set proto_keys)"

definition required_only :: "Question list \<Rightarrow> Question list" where
  "required_only = filter q_required"

definition required_or_missing :: "obj \<Rightarrow> Question list \<Rightarrow> Question list" where
  "required_or_missing spec = filter (\<lambda>item. q_required item \<or> missing spec (q_id item))"

section \<open>The questions of each kind\<close>

definition questions_cluster :: "obj \<Rightarrow> Question list" where
  "questions_cluster spec =
     required_or_missing spec
      [question ''controller''
         ''What is the controller address (host:port)?''
         ''The MCP generates a CA and a client certificate for this address, then dials it over mTLS.''
         (missing spec ''controller'') None (Some ''10.0.0.10:9090''),
       question ''name''
         ''What should the local context be called?''
         ''The context name selects this cluster in ~/.kcore/config. 'default' is fine for a single cluster.''
         False None (Some ''default''),
       question ''force''
         ''Overwrite existing certificates for this context?''
         ''Overwriting replaces the trust root. Existing controllers and nodes that use the current certificates will need new material.''
         False (Some [''no'', ''yes'']) None]"

definition questions_gpus :: "obj \<Rightarrow> Question list" where
  "questions_gpus spec =
     required_or_missing spec
      [question ''name''
         ''Which node should the GPU inventory come from?''
         ''Leave it empty to list every node. The rows include vGPU slices and the profiles each card can create.''
         False None (Some ''node-193'')]"

definition questions_node_vgpu :: "obj \<Rightarrow> Question list" where
  "questions_node_vgpu spec =
     (let vendor = toLowerCase (js_string (coalesce (oget spec ''vendor'') (JStr ''nvidia''))); nvidia = (vendor = ''nvidia'') in
      required_or_missing spec
      ([question ''nodeId''
         ''Which node should become the vGPU host?''
         (if nvidia then ''The node must already report the vgpuManagerRun feature.'' else ''The node must already report the vgpuVendor feature.'')
         (missing spec ''nodeId'' \<and> missing spec ''name'') None (Some ''node-193''),
       question ''vendor''
         ''Which card vendor: nvidia, intel, or amd?''
         ''nvidia uses the licensed Virtual GPU Manager. intel (xe driver, for example Arc Pro B50/B70) and amd (GIM driver, for example Radeon Pro V710) split the card with SR-IOV and hand each virtual function to a VM through vfio-pci.''
         False None (Some ''nvidia''),
       question ''hostCards''
         ''Which physical functions stay on the host driver?''
         ''Use the PCI address from kcore_read kind gpus, for example 0000:61:00.0.''
         (missing spec ''hostCards'') None (Some ''0000:61:00.0''),
       question ''numVfs''
         ''How many virtual functions should each card expose?''
         ''Every slice of a card gets an equal share. An Arc Pro B50 supports 2, a B70 supports 4, and a V710 supports 1 to 12. Give one card its own count as ADDRESS=N in hostCards. NVIDIA accepts 0 for every function the card supports.''
         (\<not> nvidia \<and> missing spec ''numVfs'' \<and> \<not> everyCardHasCount spec) None (Some (if nvidia then ''0'' else ''2''))] @
       (if nvidia then
      [question ''managerUrl''
         ''Where can the node download the Virtual GPU Manager .run file?''
         ''An http or https URL. The node checks the SHA256 before adding the file to the Nix store.''
         (missing spec ''managerUrl'') None None,
       question ''managerSha256''
         ''What is the SHA256 of that .run file?''
         ''A mismatch refuses the stage.''
         (missing spec ''managerSha256'') None None,
       question ''managerFile''
         ''What is the installer filename?''
         ''The filename must end in .run and must not contain a slash.''
         (missing spec ''managerFile'') None (Some ''NVIDIA-Linux-x86_64-595.91.04-vgpu-kvm-aie.run'')] else [])))"

definition questions_network :: "obj \<Rightarrow> Question list" where
  "questions_network spec =
     required_or_missing spec
      [question ''name''
         ''What should the network be called?''
         ''VMs attach to this name.''
         (missing spec ''name'') None (Some ''frontend''),
       question ''type''
         ''Which network type: nat, bridge, or vxlan?''
         ''nat hides guests behind one address. bridge puts them on a physical LAN. vxlan is the cross-host overlay.''
         (missing spec ''type'') (Some [''nat'', ''bridge'', ''vxlan'']) None,
       question ''externalIp''
         ''Which external IP should this network use?''
         ''NAT and DNAT use this address. Bridge networks use an address on the LAN.''
         (missing spec ''externalIp'') None (Some ''203.0.113.10''),
       question ''gatewayIp''
         ''Which gateway IP should the bridge use?''
         ''This is the address guests use as their default gateway.''
         (missing spec ''gatewayIp'') None (Some ''10.240.10.1''),
       question ''internalNetmask''
         ''What is the internal netmask?''
         ''Defaults to 255.255.255.0 when you accept defaults.''
         False None (Some ''255.255.255.0''),
       question ''eastWestFirewall''
         ''Drop VM-to-VM traffic on this bridge?''
         ''Leaves the gateway and DHCP reachable and drops the rest unless a security group allows it.''
         False (Some [''no'', ''yes'']) None]"

definition questions_ssh_key :: "obj \<Rightarrow> Question list" where
  "questions_ssh_key spec =
     required_or_missing spec
      [question ''name''
         ''What should this SSH key be called?''
         ''VMs refer to the key by this name.''
         (missing spec ''name'') None None,
       question ''publicKey''
         ''Paste the SSH public key.''
         ''The controller stores the public key and can inject it into cloud-init. The private key stays with the operator.''
         (missing spec ''publicKey'') None (Some ''ssh-ed25519 AAAA... operator@host'')]"

definition questions_slurm_cluster :: "obj \<Rightarrow> Question list" where
  "questions_slurm_cluster spec =
     required_or_missing spec
      [question ''controller''
         ''Which node runs slurmctld, and what are its management address and interface?''
         ''The controller host stays out of compute unless the operator explicitly opts in.''
         (\<not> truthy (oget spec ''controller'')) None (Some ''{ nodeId: node-101, address: 10.0.0.11, iface: enp6s0 }''),
       question ''compute''
         ''Which nodes become compute members?''
         ''Give each node id, management address, and interface. They will be cordoned and must not host guests.''
         (arr_items (oget spec ''compute'') = []) None (Some ''[{ nodeId: node-102, address: 10.0.0.12, iface: enp6s0, partitions: [batch] }]''),
       question ''cordon''
         ''May those compute nodes be cordoned and emptied of guests before apply?''
         ''Slurm owns the compute nodes; the VM scheduler must leave them alone.''
         (missing spec ''cordonConfirmed'') None None,
       question ''partitions''
         ''Which partitions should exist?''
         ''Example: batch (default), gpu. Every compute member must reference an existing partition.''
         (arr_items (oget spec ''partitions'') = []) None (Some ''[{ name: batch, default: true, maxTime: INFINITE, state: UP }]''),
       question ''users''
         ''Who are the first users?''
         ''Give name, fixed uid, and SSH public keys so uid/gid match on every member.''
         (arr_items (oget spec ''users'') = []) None None,
       question ''storage''
         ''Should /home and /scratch use nfs, shared-filesystem, or none?''
         ''nfs is the default and is a single point of failure on the controller.''
         (missing spec ''storage'') (Some [''nfs'', ''shared-filesystem'', ''none'']) None,
       question ''accounting''
         ''Turn Slurm accounting on or off?''
         ''Accounting runs MariaDB and slurmdbd on the dbd role.''
         (nullish (oget spec ''accounting'')) (Some [''off'', ''on'']) None,
       question ''gres''
         ''Is gres none or auto on compute?''
         ''auto requires gpuDriver: true and a reported GPU inventory.''
         (\<not> is_arr (oget spec ''compute'') \<or> list_ex (\<lambda>c. \<not> is_object c \<or> \<not> has_key c ''gres'') (arr_items (oget spec ''compute''))) (Some [''none'', ''auto'']) None]"

definition questions_postgresql :: "obj \<Rightarrow> Question list" where
  "questions_postgresql spec =
     required_or_missing spec
      [question ''name''
         ''What should this PostgreSQL instance be called?''
         ''The name identifies the resource. It is also the database name when you leave database empty and the name is a PostgreSQL identifier.''
         (missing spec ''name'') None (Some ''app''),
       question ''database''
         ''What is the single database name?''
         ''NixOS ensureDatabases creates this database. Use letters, digits, and underscores. Defaults to the instance name.''
         False None (Some ''app''),
       question ''package''
         ''Which NixOS PostgreSQL package should it use?''
         ''postgresql tracks the nixpkgs default. Pin postgresql_16 when the major version must stay put. This choice is immutable.''
         False (Some [''postgresql'', ''postgresql_14'', ''postgresql_15'', ''postgresql_16'', ''postgresql_17'']) None,
       question ''port''
         ''Which port should PostgreSQL use?''
         ''Defaults to 5432. v1 still serves clients on the local Unix socket.''
         False None (Some ''5432''),
       question ''targetNode''
         ''Pin it to a node, or let the scheduler choose a free one?''
         ''v1 runs one PostgreSQL database on a node. targetNode is immutable.''
         False None None]"

definition questions_container :: "obj \<Rightarrow> Question list" where
  "questions_container spec =
     required_or_missing spec
      [question ''name''
         ''What should the container be called?''
         ''This is the workload name.''
         (missing spec ''name'') None None,
       question ''image''
         ''Which OCI image should it run?''
         ''Example: nginx:alpine. The image reference is immutable after create.''
         (missing spec ''image'') None (Some ''nginx:alpine''),
       question ''network''
         ''Which kcore network should it join?''
         ''Optional. Leave empty only if the container should use the runtime default.''
         False None None]"

definition questions_volume :: "obj \<Rightarrow> Question list" where
  "questions_volume spec =
     required_or_missing spec
      [question ''name''
         ''What should the volume be called?''
         ''The name is how VMs and snapshots refer to it.''
         (missing spec ''name'') None None,
       question ''sizeBytes''
         ''How large should the volume be, in bytes?''
         ''Ceph data volume size. This size is fixed at create.''
         (missing spec ''sizeBytes'') None (Some ''10737418240''),
       question ''encrypt''
         ''Encrypt the volume with host-side LUKS?''
         ''Encryption at rest wraps the data key with the cluster master key. Say yes for data volumes.''
         False (Some [''yes'', ''no'']) None,
       question ''vm''
         ''Attach it to a stopped VM now, or leave it detached?''
         ''Attach only works while that VM is stopped.''
         False None None]"

definition questions_volume_snapshot :: "obj \<Rightarrow> Question list" where
  "questions_volume_snapshot spec =
     required_only
      [question ''volume''
         ''Which volume should be snapshotted?''
         ''Name or id of an existing volume.''
         (missing spec ''volume'') None None,
       question ''name''
         ''What should the snapshot be called?''
         ''A name makes later restore unambiguous.''
         (missing spec ''name'') None None]"

definition questions_snapshot_policy :: "obj \<Rightarrow> Question list" where
  "questions_snapshot_policy spec =
     required_only
      [question ''name''
         ''What should the snapshot policy be called?''
         ''Policies are reconciled by name.''
         (missing spec ''name'') None None,
       question ''target''
         ''Should this policy cover a VM or a single volume?''
         ''Provide vm or volume. One selector is enough.''
         (missing spec ''vm'' \<and> missing spec ''volume'') (Some [''vm'', ''volume'']) None,
       question ''schedule''
         ''How often should it snapshot?''
         ''@hourly, @daily, or every:<seconds>.''
         (missing spec ''schedule'') (Some [''@hourly'', ''@daily'']) (Some ''@daily''),
       question ''keep''
         ''How many snapshots should each volume retain?''
         ''Older snapshots beyond this count are removed.''
         (missing spec ''keep'') None (Some ''7'')]"

definition questions_security_group :: "obj \<Rightarrow> Question list" where
  "questions_security_group spec =
     required_only
      [question ''name''
         ''What should the security group be called?''
         ''Attachments refer to this name.''
         (missing spec ''name'') None None,
       question ''rules''
         ''Which ports and protocols should it allow?''
         ''Each rule needs protocol and hostPort. sourceCidr limits who can connect.''
         (missing spec ''rules'') None (Some ''tcp/443 from 0.0.0.0/0'')]"

definition questions_disk_layout :: "obj \<Rightarrow> Question list" where
  "questions_disk_layout spec =
     required_only
      [question ''name''
         ''What should the disk layout be called?''
         ''The controller stores the layout under this name.''
         (missing spec ''name'') None None,
       question ''nodeId''
         ''Which node id should receive this layout?''
         ''The reconciler pushes the layout only to that node.''
         (missing spec ''nodeId'') None None,
       question ''layout''
         ''Paste the layout: layoutNix, layoutNixFile, or diskLayout.''
         ''Exactly one of those three. Run plan first so the classifier can refuse a disk that still backs a VM.''
         (missing spec ''layoutNix'' \<and> missing spec ''layoutNixFile'' \<and> missing spec ''diskLayout'') None None]"

definition questions_ceph_cluster :: "obj \<Rightarrow> Question list" where
  "questions_ceph_cluster spec =
     required_only
      [question ''name''
         ''What should the Ceph cluster be called?''
         ''Volumes and filesystems refer to this name.''
         (missing spec ''name'') None None,
       question ''publicNetwork''
         ''What is the Ceph public network CIDR?''
         ''Clients and monitors use this network.''
         (missing spec ''publicNetwork'') None (Some ''10.0.0.0/24''),
       question ''clusterNetwork''
         ''What is the Ceph cluster network CIDR?''
         ''Replication traffic uses this network. It can match the public network on a small cluster.''
         (missing spec ''clusterNetwork'') None (Some ''10.0.0.0/24'')]"

definition questions_shared_filesystem :: "obj \<Rightarrow> Question list" where
  "questions_shared_filesystem spec =
     required_only
      [question ''name''
         ''What should the shared filesystem be called?''
         ''Clients mount it by this name.''
         (missing spec ''name'') None None,
       question ''cephCluster''
         ''Which Ceph cluster should back it?''
         ''The filesystem is created inside that cluster.''
         (missing spec ''cephCluster'') None None,
       question ''quotaBytes''
         ''What quota, in bytes, should the filesystem have?''
         ''0 means no quota. A positive quota caps the filesystem.''
         (missing spec ''quotaBytes'') None (Some ''0'')]"

definition questions_ingress_gateway :: "obj \<Rightarrow> Question list" where
  "questions_ingress_gateway spec =
     required_only
      [question ''name''
         ''What should the ingress gateway be called?''
         ''Routes refer to the gateway by this name.''
         (missing spec ''name'') None None,
       question ''nodes''
         ''Which node (or two nodes, for a shared VIP) should run it?''
         ''Applying the gateway rebuilds those nodes' NixOS configuration. Two nodes also need highAvailability.''
         (missing spec ''nodes'') None (Some ''node-105''),
       question ''listeners''
         ''Which public address and ports should it listen on?''
         ''The address must exist on the node (or be the VIP). HTTP-01 certificates need port 80 reachable from the internet.''
         (missing spec ''listeners'') None (Some ''203.0.113.10 ports 80 and 443''),
       question ''tls''
         ''What email should ACME use, and should it start on Let's Encrypt staging?''
         ''The email receives expiry notices. Staging has no rate limits while the setup is tested.''
         (missing spec ''tls'') None (Some ''ops@example.com, letsencrypt-staging'')]"

definition questions_ingress_route :: "obj \<Rightarrow> Question list" where
  "questions_ingress_route spec =
     (filter (\<lambda>item. q_required item \<or> q_id item = ''waf'' \<and> missing spec ''waf''))
      [question ''name''
         ''What should the route be called?''
         ''It is the handle for status, WAF events and changes.''
         (missing spec ''name'') None None,
       question ''gateway''
         ''Which ingress gateway serves it?''
         ''A route belongs to exactly one gateway.''
         (missing spec ''gateway'') None None,
       question ''hosts''
         ''Which hostnames should it serve?''
         ''Each hostname belongs to one route. A wildcard needs a DNS-01 provider on the gateway. DNS must point at the gateway address.''
         (missing spec ''hosts'' \<and> oget spec ''kind'' \<noteq> JStr ''tcp'') None (Some ''shop.example.com''),
       question ''backends''
         ''Where should traffic go (VM, external address, or a Kubernetes Service)?''
         ''A NAT VM must be on a gateway node. Otherwise use a vxlan network, an external address, or a Kubernetes Service.''
         (missing spec ''paths'' \<and> missing spec ''backends'') None (Some ''vm shop-web-1 port 8080''),
       question ''waf''
         ''Should the WAF start in detect mode?''
         ''detect logs what CRS would block and lets traffic through. Read kctl get waf-events, then switch to block.''
         False (Some [''detect'', ''block'', ''off'']) None]"

definition questions_waf_policy :: "obj \<Rightarrow> Question list" where
  "questions_waf_policy spec =
     (filter (\<lambda>item. q_required item \<or> q_id item \<noteq> ''name'' \<and> missing spec (q_id item)))
      [question ''name''
         ''What should the WAF policy be called?''
         ''Gateways and routes refer to it by name.''
         (missing spec ''name'') None None,
       question ''engine''
         ''Should it start in detect or block mode?''
         ''detect only logs. A new policy should start there so false positives show up before they block real traffic.''
         False (Some [''detect'', ''block'']) None,
       question ''crs''
         ''Which CRS paranoia level (1 to 4)?''
         ''Level 1 has the fewest false positives. Higher levels block more and need more exclusions.''
         False (Some [''1'', ''2'', ''3'', ''4'']) None]"

definition questions_object_store :: "obj \<Rightarrow> Question list" where
  "questions_object_store spec =
     required_only
      [question ''name''
         ''What should the object store be called?''
         ''The RGW service is reconciled under this name.''
         (missing spec ''name'') None None,
       question ''cephCluster''
         ''Which Ceph cluster should back it?''
         ''RGW stores buckets in that cluster.''
         (missing spec ''cephCluster'') None None,
       question ''members''
         ''Which node ids should run the gateway?''
         ''At least one node id.''
         (missing spec ''members'') None (Some ''node-a'')]"

definition questions_kubernetes_cluster :: "obj \<Rightarrow> Question list" where
  "questions_kubernetes_cluster spec =
     required_only
      [question ''name''
         ''What should the Kubernetes cluster be called?''
         ''Scale, health, and delete use this name.''
         (missing spec ''name'') None None,
       question ''clusterCidr''
         ''Which pod CIDR?''
         ''Must not overlap the node network or the service CIDR.''
         (missing spec ''clusterCidr'') None (Some ''10.244.0.0/16''),
       question ''serviceCidr''
         ''Which service CIDR?''
         ''Must not overlap the pod CIDR.''
         (missing spec ''serviceCidr'') None (Some ''10.96.0.0/12''),
       question ''apiServerEndpoint''
         ''Which address and port serves the Kubernetes API?''
         ''With highAvailability this is the virtual IP and port 6443.''
         (missing spec ''apiServerEndpoint'') None (Some ''192.168.40.200:6443''),
       question ''controlPlaneNodes''
         ''Which nodes run the control plane, with their advertise address and interface?''
         ''One entry must set initialCluster true. Use one or three entries.''
         (missing spec ''controlPlaneNodes'') None (Some ''node-105 192.168.40.105 enp6s0'')]"

definition questions_object_user :: "obj \<Rightarrow> Question list" where
  "questions_object_user spec =
     required_only
      [question ''name''
         ''What should the object user be called?''
         ''It becomes the RGW uid.''
         (missing spec ''name'') None None,
       question ''store''
         ''Which object store does it belong to?''
         ''Name of an existing ObjectStore.''
         (missing spec ''store'') None None]"

definition questions_operator :: "obj \<Rightarrow> Question list" where
  "questions_operator spec =
     required_only
      [question ''name''
         ''What is the operator called?''
         ''The client certificate CN is derived from this name.''
         (missing spec ''name'') None None,
       question ''roles''
         ''Which roles should the operator hold?''
         ''read-only, vm-admin, cluster-admin, or backup-operator.''
         (missing spec ''roles'') (Some [''read-only'', ''vm-admin'', ''cluster-admin'', ''backup-operator'']) (Some ''vm-admin'')]"

definition questions_cluster_update :: "obj \<Rightarrow> Question list" where
  "questions_cluster_update spec =
     required_or_missing spec
      [question ''name''
         ''What should the cluster update be called?''
         ''Approve, cancel, and rollback use this name.''
         (missing spec ''name'') None None,
       question ''version''
         ''Which kcore version is the target?''
         ''The rolling update converges nodes to this version.''
         (missing spec ''version'') None (Some ''0.3.0''),
       question ''flakeRef''
         ''Which Nix flake ref should nodes build?''
         ''Plan resolves this ref before any node reboots.''
         (missing spec ''flakeRef'') None None,
       question ''strategy''
         ''Soak a canary node first, or update one node at a time without one?''
         ''canary updates one worker first and soaks it while the controllers, still on the old version, compare it with the other nodes; the rest then follow one at a time.''
         (missing spec ''strategy'') (Some [''canary'', ''one-at-a-time'']) (Some ''canary'')]"

text \<open>Whether the operator can log in.\<close>

definition compliant :: "obj \<Rightarrow> bool" where
  "compliant spec \<longleftrightarrow> oget spec ''compliant'' \<noteq> JBool False \<and> oget spec ''compliant'' \<noteq> JStr ''false''"

definition authed :: "obj \<Rightarrow> bool" where
  "authed spec \<longleftrightarrow>
     \<not> missing spec ''sshKeys'' \<or> \<not> missing spec ''sshPublicKeys'' \<or> \<not> missing spec ''cloudInitUserData'' \<or>
     (str spec ''password'' \<noteq> [] \<and> \<not> compliant spec)"

definition vm_items :: "obj \<Rightarrow> Question list" where
  "vm_items spec =
      [question ''name''
         ''What should the VM be called?''
         ''The name is the resource id you will start, stop, and migrate.''
         (missing spec ''name'') None (Some ''web-01''),
       question ''image''
         ''Which boot image should it use: an https URL plus SHA256, or a qcow2/raw path already on the node?''
         ''kcore checks the SHA256 for URL images. ISO uploads are unsupported.''
         (missing spec ''imageUrl'' \<and> missing spec ''imagePath'') None (Some ''https://cloud.debian.org/.../debian-12-genericcloud-amd64.qcow2'')] @
      (if \<not> missing spec ''imageUrl'' \<and> missing spec ''imageSha256'' then
      [question ''imageSha256''
         ''What is the SHA256 of that image URL?''
         ''The controller refuses a URL image without a 64-character checksum.''
         True None None] else []) @
      (if \<not> missing spec ''imagePath'' \<and> missing spec ''imageFormat'' then
      [question ''imageFormat''
         ''Is the node-local image raw or qcow2?''
         ''The node boots the path with this format.''
         True (Some [''qcow2'', ''raw'']) None] else []) @
      [question ''network''
         ''Which network should the first NIC join?''
         ''Create the network first if it does not exist yet.''
         (missing spec ''network'') None (Some ''default''),
       question ''storageBackend''
         ''Which storage backend: filesystem, lvm, zfs, or ceph?''
         ''The backend is fixed for the life of the VM. ceph is what live migration uses.''
         (missing spec ''storageBackend'') (Some [''filesystem'', ''lvm'', ''zfs'', ''ceph'']) None,
       question ''storageSizeBytes''
         ''How large should the VM disk be?''
         ''Bytes, or a size such as 40G. The size is fixed after create.''
         (missing spec ''storageSizeBytes'') None (Some ''40G''),
       question ''auth''
         ''Which SSH public key should log in, or which stored ssh-key name should the VM use?''
         ''Key login is the compliant default. Password login requires an explicit acknowledgement that it is non-compliant.''
         (\<not> authed spec) None (Some ''ssh-ed25519 AAAA... operator@host''),
       question ''cpu''
         ''How many vCPUs?''
         ''Mutable later. 2 is a reasonable lab default if you accept defaults.''
         False None (Some ''2''),
       question ''memory''
         ''How much memory?''
         ''Mutable later. A size such as 4G.''
         False None (Some ''4G''),
       question ''desiredState''
         ''Should the VM be running or stopped after apply?''
         ''This is the desired power state. Omit it to leave an existing VM's power state alone.''
         False (Some [''running'', ''stopped'']) None,
       question ''placement''
         ''Pin it to a node or datacenter, or let the scheduler choose?''
         ''A vGPU slice can be placed automatically. A whole GPU still needs a node that owns that card.''
         False None None,
       question ''gpu''
         ''Does this VM need a whole GPU, a vGPU slice, or no accelerator?''
         ''Set gpus for a whole card, vgpus for a slice such as A2-4C, or pciDevices for a raw function. Leave them empty for no accelerator.''
         False None (Some ''vgpus: [A2-4C]''),
       question ''vgpuProfile''
         ''Which vGPU profile should the slice use?''
         ''A2-4C is one quarter of a 16 GB Tesla A2. The VM must be stopped before the slice can change.''
         False None (Some ''A2-4C'')]"

definition vm_keep :: "obj \<Rightarrow> Question \<Rightarrow> bool" where
  "vm_keep spec item =
     (if q_required item then True
      else if q_id item = ''cpu'' then missing spec ''cpu''
      else if q_id item = ''memory'' then missing spec ''memory'' \<and> missing spec ''memoryBytes''
      else if q_id item = ''desiredState'' then missing spec ''desiredState''
      else if q_id item = ''placement'' then missing spec ''targetNode'' \<and> missing spec ''dc''
      else if q_id item = ''gpu'' \<or> q_id item = ''vgpuProfile''
        then missing spec ''gpus'' \<and> missing spec ''vgpus'' \<and> missing spec ''pciDevices''
      else True)"

definition vmQuestions :: "obj \<Rightarrow> Question list" where
  "vmQuestions spec = filter (vm_keep spec) (vm_items spec)"

definition questionsFor :: "ResourceKind \<Rightarrow> obj \<Rightarrow> Question list" where
  "questionsFor kind spec =
    (if kind_id kind = ''cluster'' then questions_cluster spec
     else if kind_id kind = ''vm'' then vmQuestions spec
     else if kind_id kind = ''gpus'' then questions_gpus spec
     else if kind_id kind = ''node-vgpu'' then questions_node_vgpu spec
     else if kind_id kind = ''network'' then questions_network spec
     else if kind_id kind = ''ssh-key'' then questions_ssh_key spec
     else if kind_id kind = ''slurm-cluster'' then questions_slurm_cluster spec
     else if kind_id kind = ''postgresql'' then questions_postgresql spec
     else if kind_id kind = ''container'' then questions_container spec
     else if kind_id kind = ''volume'' then questions_volume spec
     else if kind_id kind = ''volume-snapshot'' then questions_volume_snapshot spec
     else if kind_id kind = ''snapshot-policy'' then questions_snapshot_policy spec
     else if kind_id kind = ''security-group'' then questions_security_group spec
     else if kind_id kind = ''disk-layout'' then questions_disk_layout spec
     else if kind_id kind = ''ceph-cluster'' then questions_ceph_cluster spec
     else if kind_id kind = ''shared-filesystem'' then questions_shared_filesystem spec
     else if kind_id kind = ''ingress-gateway'' then questions_ingress_gateway spec
     else if kind_id kind = ''ingress-route'' then questions_ingress_route spec
     else if kind_id kind = ''waf-policy'' then questions_waf_policy spec
     else if kind_id kind = ''object-store'' then questions_object_store spec
     else if kind_id kind = ''kubernetes-cluster'' then questions_kubernetes_cluster spec
     else if kind_id kind = ''object-user'' then questions_object_user spec
     else if kind_id kind = ''operator'' then questions_operator spec
     else if kind_id kind = ''cluster-update'' then questions_cluster_update spec
     else [])"

definition warningsFor :: "ResourceKind \<Rightarrow> obj \<Rightarrow> string list" where
  "warningsFor kind spec =
     (let password = str spec ''password'' in
      (if kind_id kind = ''vm'' then
         (if password \<noteq> [] \<and> compliant spec then [''Password login is non-compliant. Apply will be refused until compliant is false and the operator has accepted that risk.''] else []) @
         (if password \<noteq> [] \<and> \<not> compliant spec then [''This VM will allow password login. Prefer an SSH key for anything beyond a lab.''] else []) @
         (if str spec ''storageBackend'' = ''ceph'' then [''Ceph-backed VMs can live-migrate. Confirm the Ceph cluster is healthy before relying on that.''] else [])
       else []) @
      (if kind_id kind = ''cluster'' \<and> (oget spec ''force'' = JBool True \<or> oget spec ''force'' = JStr ''yes'')
       then [''force replaces the local trust root for this context.''] else []) @
      (if kind_id kind = ''disk-layout'' then [''Plan this layout before apply. The node refuses a disk that still backs a VM, an LVM PV, or a ZFS pool member.''] else []) @
      (if kind_id kind = ''slurm-cluster'' then [''Compute members are cordoned so the VM scheduler leaves them to slurmd. NFS exports live on the controller and are a single point of failure. Members of one Slurm cluster must be in the same cluster-update run because Slurm requires dbd >= ctld >= slurmd.''] else []) @
      (if kind_id kind = ''postgresql'' then [''v1 is one database per node, from the NixOS postgresql package, on the local Unix socket. Deleting the resource removes it from the node config and leaves /var/lib/postgresql on disk.''] else []) @
      (if kind_id kind = ''kubernetes-cluster'' then [''Applying a Kubernetes cluster rebuilds the member nodes through NixOS. Read the plan's blocking issues and preflight results first.''] else []) @
      (if kind_id kind = ''object-user'' then [''Creation runs through kctl create object-user, which prints the secret once. This server cannot show it.''] else []) @
      (if kind_id kind = ''cluster-update'' then
         [''A cluster update can reboot nodes. Plan it, read the blockers, and apply only after the operator agrees.'',
          ''To move every node to a release tag, prefer kcore_operation set-version (kctl update version set): it soaks a canary by default. A canary held in awaiting_promotion continues with kcore_operation promote-update.''] else []) @
      (if immutable kind \<noteq> [] then
         [''Immutable after create: '' @ join '', '' (immutable kind) @
          ''. Changing those later means delete and create, which the operator must agree to.''] else []))"

end
