(* ===== verification/Advise.thy ===== *)
theory Advise
  imports Questions
begin

text \<open>
  \<^verbatim>\<open>kcore-mcp/packages/server/src/advise.ts\<close> without its question tables: guessing a kind from the
  operator's words (\<open>inferKind\<close>), merging a manifest with the answers so far (\<open>normalizeDesired\<close>,
  \<open>flattenManifest\<close>, \<open>mergeAnswers\<close>) and the advice itself (\<open>advise\<close>). The YAML parser is a parameter;
  an error it throws is the error of \<open>advise\<close>.
\<close>

section \<open>Guessing the kind\<close>

text \<open>
  The patterns of \<^verbatim>\<open>INTENT\<close> are alternatives of literals between word boundaries, letter case
  ignored, each with its optional plural written out; one of them has no boundary at its end.
\<close>

type_synonym phrase = "string \<times> bool"

definition INTENT :: "(phrase list \<times> string) list" where
  "INTENT =
     [([(''virtual machine'', True), (''virtual machines'', True), (''vm'', True), (''vms'', True)], ''vm''),
      ([(''network'', True), (''networks'', True), (''vxlan'', True), (''bridge'', True)], ''network''),
      ([(''ssh key'', True), (''ssh keys'', True)], ''ssh-key''),
      ([(''postgres'', True), (''postgresql'', True)], ''postgresql''),
      ([(''slurm'', True), (''hpc'', True)], ''slurm-cluster''),
      ([(''kubernetes'', True), (''k8s'', True)], ''kubernetes-cluster''),
      ([(''object user'', True), (''object users'', True)], ''object-user''),
      ([(''operator'', True), (''operators'', True)], ''operator''),
      ([(''container'', True), (''containers'', True)], ''container''),
      ([(''volume'', True), (''volumes'', True)], ''volume''),
      ([(''snapshot polic'', False)], ''snapshot-policy''),
      ([(''snapshot'', True), (''snapshots'', True)], ''volume-snapshot''),
      ([(''security group'', True), (''security groups'', True), (''firewall'', True)], ''security-group''),
      ([(''disk layout'', True), (''disk layouts'', True), (''disko'', True)], ''disk-layout''),
      ([(''ceph'', True)], ''ceph-cluster''),
      ([(''cephfs'', True), (''shared filesystem'', True), (''shared filesystems'', True)], ''shared-filesystem''),
      ([(''object store'', True), (''object stores'', True), (''rgw'', True), (''s3'', True)], ''object-store''),
      ([(''waf policy'', True), (''waf policies'', True)], ''waf-policy''),
      ([(''ingress route'', True), (''ingress routes'', True)], ''ingress-route''),
      ([(''ingress gateway'', True), (''ingress gateways'', True), (''https load balancer'', True)], ''ingress-gateway''),
      ([(''cluster update'', True), (''cluster updates'', True), (''rolling update'', True)], ''cluster-update''),
      ([(''vgpu host'', True), (''vgpu hosts'', True), (''node vgpu'', True)], ''node-vgpu''),
      ([(''cluster'', True), (''clusters'', True), (''context'', True), (''bootstrap'', True)], ''cluster'')]"

definition phrase_at :: "phrase \<Rightarrow> string \<Rightarrow> bool" where
  "phrase_at p s \<longleftrightarrow>
     startsWith s (fst p) \<and>
     (snd p \<longrightarrow> (case drop (length (fst p)) s of [] \<Rightarrow> True | c # _ \<Rightarrow> \<not> is_word c))"

fun has_phrase :: "bool \<Rightarrow> phrase \<Rightarrow> string \<Rightarrow> bool" where
  "has_phrase inside p [] = False"
| "has_phrase inside p (c # cs) = ((\<not> inside \<and> phrase_at p (c # cs)) \<or> has_phrase (is_word c) p cs)"

definition intent_matches :: "phrase list \<Rightarrow> string \<Rightarrow> bool" where
  "intent_matches ps intent = list_ex (\<lambda>p. has_phrase False p (toLowerCase intent)) ps"

definition intent_hits :: "string \<Rightarrow> string list" where
  "intent_hits intent = map snd (filter (\<lambda>entry. intent_matches (fst entry) intent) INTENT)"

definition inferKind :: "string option \<Rightarrow> string option" where
  "inferKind intent =
     (case intent of
        None \<Rightarrow> None
      | Some i \<Rightarrow>
          if i = [] then None
          else let hits = intent_hits i;
                   left = (if 1 < length hits then filter (\<lambda>h. h \<noteq> ''cluster'') hits else hits)
               in if length left \<noteq> 1 then None else Some (hd left))"

section \<open>Manifests\<close>

record AdviseInput =
  ai_kind :: "string option"
  ai_intent :: "string option"
  ai_spec :: "obj option"
  ai_manifest :: "string option"
  ai_acceptDefaults :: "bool option"

record Desired =
  d_kind :: ResourceKind
  d_name :: "string option"
  d_spec :: obj
  d_manifest :: "string option"

text \<open>\<^verbatim>\<open>if (typeof v === "string" && isBlank(spec.key)) spec.key = v\<close>\<close>

definition fill :: "js \<Rightarrow> string \<Rightarrow> obj \<Rightarrow> obj" where
  "fill v key spec = (if is_str v \<and> isBlank (oget spec key) then oset spec key v else spec)"

definition nic_networks :: "js list \<Rightarrow> js list" where
  "nic_networks nics =
     filter (\<lambda>n. case n of JStr s \<Rightarrow> trim s \<noteq> [] | _ \<Rightarrow> False)
       (map (\<lambda>n. if is_object n then jget n ''network'' else JUndef) nics)"

definition flatten_disks :: "obj \<Rightarrow> obj" where
  "flatten_disks spec =
     (case oget spec ''disks'' of
        JArr (disk # _) \<Rightarrow>
          if is_object disk
          then fill (jget disk ''format'') ''imageFormat'' (fill (jget disk ''path'') ''imagePath''
                 (fill (jget disk ''sha256'') ''imageSha256'' (fill (jget disk ''image'') ''imageUrl'' spec)))
          else spec
      | _ \<Rightarrow> spec)"

definition flatten_nics :: "obj \<Rightarrow> obj" where
  "flatten_nics spec =
     (case oget spec ''nics'' of
        JArr nics \<Rightarrow>
          let networks = nic_networks nics;
              s1 = (case networks of n # _ \<Rightarrow> if isBlank (oget spec ''network'') then oset spec ''network'' n else spec | [] \<Rightarrow> spec)
          in if 1 < length networks \<and> isBlank (oget s1 ''extraNetworks'')
             then oset s1 ''extraNetworks'' (JArr (tl networks)) else s1
      | _ \<Rightarrow> spec)"

definition flattenManifest :: "string \<Rightarrow> obj \<Rightarrow> obj" where
  "flattenManifest kindId spec = (if kindId \<noteq> ''vm'' then spec else flatten_nics (flatten_disks spec))"

definition kind_question :: string where
  "kind_question = ''Which resource? One of: '' @ join '', '' kindIds @ ''.''"

definition manifest_doc :: "platform \<Rightarrow> string option \<Rightarrow> (string + obj option) res" where
  "manifest_doc pf manifest =
     (case manifest of
        None \<Rightarrow> Inr (Inr None)
      | Some t \<Rightarrow>
          if trim t = [] then Inr (Inr None)
          else case parse_yaml pf t of
                 Inl msg \<Rightarrow> Inl (OtherError msg)
               | Inr (JObj doc) \<Rightarrow> Inr (Inr (Some doc))
               | Inr _ \<Rightarrow> Inr (Inl ''manifest must be a YAML mapping''))"

definition kind_of :: "AdviseInput \<Rightarrow> obj \<Rightarrow> ResourceKind option" where
  "kind_of input doc =
     (case findKind (ai_kind input) of
        Some k \<Rightarrow> Some k
      | None \<Rightarrow>
          (case findKind (case oget doc ''kind'' of JStr s \<Rightarrow> Some s | _ \<Rightarrow> None) of
             Some k \<Rightarrow> Some k
           | None \<Rightarrow> findKind (inferKind (ai_intent input))))"

definition merged_spec :: "obj \<Rightarrow> obj option \<Rightarrow> obj" where
  "merged_spec doc given =
     (let metadata = obj_of (oget doc ''metadata'');
          base = spread (spread [] (obj_of (oget doc ''spec''))) (case given of Some s \<Rightarrow> s | None \<Rightarrow> []);
          named = fill (oget metadata ''name'') ''name'' base
      in if (is_object (oget doc ''metadata'') \<or> oget doc ''metadata'' = JNull) \<and> oget named ''name'' = JUndef \<and> is_str (oget metadata ''name'')
         then oset named ''name'' (oget metadata ''name'') else named)"

text \<open>The result is the text of \<^verbatim>\<open>kindError\<close> or the desired resource.\<close>

definition desired_from :: "AdviseInput \<Rightarrow> obj \<Rightarrow> string + Desired" where
  "desired_from input doc =
     (case kind_of input doc of
        None \<Rightarrow> Inl kind_question
      | Some kind \<Rightarrow>
          let spec = flattenManifest (kind_id kind) (merged_spec doc (ai_spec input)) in
          Inr \<lparr>d_kind = kind,
               d_name = (case oget spec ''name'' of JStr n \<Rightarrow> Some n | _ \<Rightarrow> None),
               d_spec = spec,
               d_manifest = ai_manifest input\<rparr>)"

definition normalizeDesired :: "platform \<Rightarrow> AdviseInput \<Rightarrow> (string + Desired) res" where
  "normalizeDesired pf input =
     ebind (manifest_doc pf (ai_manifest input)) (\<lambda>parsed.
     case parsed of
       Inl e \<Rightarrow> Inr (Inl e)
     | Inr found \<Rightarrow> Inr (desired_from input (case found of Some d \<Rightarrow> d | None \<Rightarrow> [])))"

section \<open>Advice\<close>

record Advice =
  ad_kind :: "string option"
  ad_ready :: bool
  ad_blocking :: "Question list"
  ad_recommended :: "Question list"
  ad_warnings :: "string list"
  ad_askTheUser :: string
  ad_nextTool :: string

definition ask_line :: "Question \<Rightarrow> string" where
  "ask_line item = ''- '' @ q_prompt item @ '' ('' @ q_why item @ '')''"

definition formatAsk :: "Question list \<Rightarrow> Question list \<Rightarrow> string" where
  "formatAsk blocking recommended =
     (if blocking = [] \<and> recommended = []
      then ''The required answers are present. Show the plan and wait for an explicit yes before apply.''
      else join [CHR 0x0A]
        ((if blocking \<noteq> []
          then ''Ask the operator these questions and wait for the answers before planning:'' # map ask_line blocking else []) @
         (if recommended \<noteq> []
          then ''Also ask these, unless the operator already said to use defaults:'' # map ask_line recommended else [])))"

definition kind_advice :: "string \<Rightarrow> Advice" where
  "kind_advice prompt =
     (let blocking = [question ''kind'' prompt ''Each resource has its own required questions and immutable fields.'' True (Some kindIds) None] in
      \<lparr>ad_kind = None, ad_ready = False, ad_blocking = blocking, ad_recommended = [], ad_warnings = [],
       ad_askTheUser = formatAsk blocking [], ad_nextTool = ''kcore_advise''\<rparr>)"

definition advice_for :: "ResourceKind \<Rightarrow> obj \<Rightarrow> bool option \<Rightarrow> Advice" where
  "advice_for kind spec acceptDefaults =
     (let asked = questionsFor kind spec;
          blocking = filter q_required asked;
          recommended = (if acceptDefaults = Some True then [] else filter (\<lambda>item. \<not> q_required item) asked);
          ready = (length blocking = 0)
      in \<lparr>ad_kind = Some (kind_id kind), ad_ready = ready, ad_blocking = blocking, ad_recommended = recommended,
          ad_warnings = warningsFor kind spec, ad_askTheUser = formatAsk blocking recommended,
          ad_nextTool = (if ready then ''kcore_plan'' else ''kcore_advise'')\<rparr>)"

definition advise :: "platform \<Rightarrow> AdviseInput \<Rightarrow> Advice res" where
  "advise pf input =
     ebind (normalizeDesired pf input) (\<lambda>normalized.
     case normalized of
       Inl kindError \<Rightarrow> Inr (kind_advice kindError)
     | Inr d \<Rightarrow> Inr (advice_for (d_kind d) (d_spec d) (ai_acceptDefaults input)))"

section \<open>Answers\<close>

definition skipped_answers :: "string list" where
  "skipped_answers = [''kind'', ''image'', ''auth'', ''placement'', ''target'', ''layout'']"

definition take_answers :: "obj \<Rightarrow> obj \<Rightarrow> obj" where
  "take_answers spec answers =
     foldl (\<lambda>s kv. if fst kv \<in> set skipped_answers \<or> isBlank (snd kv) then s else oset s (fst kv) (snd kv)) (spread [] spec) answers"

definition merge_image :: "js \<Rightarrow> obj \<Rightarrow> obj" where
  "merge_image img s =
     (case img of
        JStr i \<Rightarrow>
          let t = trim i;
              s1 = (if startsWith t ''https://'' \<and> isBlank (oget s ''imageUrl'') then oset s ''imageUrl'' (JStr t) else s)
          in if startsWith t ''/'' \<and> isBlank (oget s1 ''imagePath'') then oset s1 ''imagePath'' (JStr t) else s1
      | _ \<Rightarrow> s)"

definition merge_auth :: "js \<Rightarrow> obj \<Rightarrow> obj" where
  "merge_auth auth s =
     (case auth of
        JStr a \<Rightarrow>
          let t = trim a in
          if startsWith t ''ssh-'' \<and> isBlank (oget s ''sshPublicKeys'') then oset s ''sshPublicKeys'' (JArr [JStr t])
          else if t \<noteq> [] \<and> isBlank (oget s ''sshKeys'') \<and> \<not> startsWith t ''ssh-'' then oset s ''sshKeys'' (JArr [JStr t])
          else s
      | _ \<Rightarrow> s)"

definition merge_placement :: "js \<Rightarrow> obj \<Rightarrow> obj" where
  "merge_placement placement s =
     (case placement of
        JStr p \<Rightarrow> if includes_str p '':'' \<and> isBlank (oget s ''targetNode'') then oset s ''targetNode'' (JStr (trim p)) else s
      | _ \<Rightarrow> s)"

definition merge_memory :: "js \<Rightarrow> obj \<Rightarrow> obj" where
  "merge_memory memory s =
     (case memory of
        JStr m \<Rightarrow> if trim m \<noteq> [] \<and> isBlank (oget s ''memoryBytes'') then oset s ''memoryBytes'' (JStr (trim m)) else s
      | _ \<Rightarrow> s)"

definition merge_target :: "obj \<Rightarrow> obj \<Rightarrow> obj" where
  "merge_target answers s =
     (let s1 = (if oget answers ''target'' = JStr ''vm'' \<and> is_str (oget answers ''vm'') then oset s ''vm'' (oget answers ''vm'') else s)
      in if oget answers ''target'' = JStr ''volume'' \<and> is_str (oget answers ''volume'') then oset s1 ''volume'' (oget answers ''volume'') else s1)"

definition mergeAnswers :: "obj \<Rightarrow> obj \<Rightarrow> obj" where
  "mergeAnswers spec answers =
     merge_target answers
      (merge_memory (oget answers ''memory'')
       (merge_placement (oget answers ''placement'')
        (merge_auth (oget answers ''auth'')
         (merge_image (oget answers ''image'') (take_answers spec answers)))))"

section \<open>What merging keeps\<close>

lemma oget_spread_given:
  "distinct (map fst s) \<Longrightarrow> map_of s k = Some v \<Longrightarrow> oget (spread b s) k = v"
  by (simp add: oget_spread map_of_rev_distinct)

text \<open>A field that is answered stays as it is under every guarded store of this theory.\<close>

named_theorems keeps

lemma fill_keeps [keeps]: "\<not> isBlank (oget s k) \<Longrightarrow> oget (fill v key s) k = oget s k"
  by (auto simp: fill_def oget_oset)

lemma flatten_disks_keeps [keeps]:
  "\<not> isBlank (oget s k) \<Longrightarrow> oget (flatten_disks s) k = oget s k"
  by (auto simp: flatten_disks_def fill_keeps split: js.splits list.splits)

lemma flatten_nics_keeps [keeps]:
  "\<not> isBlank (oget s k) \<Longrightarrow> oget (flatten_nics s) k = oget s k"
  by (auto simp: flatten_nics_def Let_def oget_oset split: js.splits list.splits)

lemma flattenManifest_keeps [keeps]:
  "\<not> isBlank (oget s k) \<Longrightarrow> oget (flattenManifest i s) k = oget s k"
  by (simp add: flattenManifest_def keeps)

lemma merged_spec_keeps:
  assumes "\<not> isBlank (oget base k)"
    and "base = spread (spread [] (obj_of (oget doc ''spec''))) (case given of Some s \<Rightarrow> s | None \<Rightarrow> [])"
  shows "oget (merged_spec doc given) k = oget base k"
  using assms(1)
  by (auto simp: merged_spec_def Let_def oget_oset keeps assms(2) [symmetric])

lemma merge_image_keeps [keeps]: "\<not> isBlank (oget s k) \<Longrightarrow> oget (merge_image v s) k = oget s k"
  by (auto simp: merge_image_def Let_def oget_oset split: js.splits)

lemma merge_auth_keeps [keeps]: "\<not> isBlank (oget s k) \<Longrightarrow> oget (merge_auth v s) k = oget s k"
  by (auto simp: merge_auth_def Let_def oget_oset split: js.splits)

lemma merge_placement_keeps [keeps]: "\<not> isBlank (oget s k) \<Longrightarrow> oget (merge_placement v s) k = oget s k"
  by (auto simp: merge_placement_def oget_oset split: js.splits)

lemma merge_memory_keeps [keeps]: "\<not> isBlank (oget s k) \<Longrightarrow> oget (merge_memory v s) k = oget s k"
  by (auto simp: merge_memory_def oget_oset split: js.splits)

text \<open>The loop of \<open>mergeAnswers\<close> stores exactly the answers it does not skip.\<close>

definition answered :: "obj \<Rightarrow> string \<Rightarrow> bool" where
  "answered answers k \<longleftrightarrow>
     k \<notin> set skipped_answers \<and> (case map_of answers k of Some v \<Rightarrow> \<not> isBlank v | None \<Rightarrow> False)"

definition taken :: "obj \<Rightarrow> obj" where
  "taken = filter (\<lambda>kv. fst kv \<notin> set skipped_answers \<and> \<not> isBlank (snd kv))"

lemma take_answers_spread: "take_answers spec answers = spread (spread [] spec) (taken answers)"
proof -
  have "foldl (\<lambda>s kv. if fst kv \<in> set skipped_answers \<or> isBlank (snd kv) then s else oset s (fst kv) (snd kv)) s0 answers
      = spread s0 (taken answers)" for s0
    by (induction answers arbitrary: s0) (auto simp: spread_def taken_def)
  then show ?thesis by (simp add: take_answers_def)
qed

lemma map_of_taken:
  "distinct (map fst answers) \<Longrightarrow>
   map_of (taken answers) k = (if answered answers k then map_of answers k else None)"
proof (induction answers)
  case Nil
  then show ?case by (simp add: taken_def answered_def)
next
  case (Cons kv answers)
  then have "fst kv = k \<Longrightarrow> map_of answers k = None" by (auto simp: map_of_eq_None_iff)
  with Cons show ?case by (auto simp: taken_def answered_def)
qed

lemma distinct_taken: "distinct (map fst answers) \<Longrightarrow> distinct (map fst (taken answers))"
  by (simp add: taken_def distinct_map_filter)

lemma oget_copy: "distinct (map fst spec) \<Longrightarrow> oget (spread [] spec) k = oget spec k"
  unfolding oget_spread by (simp add: map_of_rev_distinct) (auto simp: oget_def split: option.splits)

lemma oget_take_answers:
  assumes "distinct (map fst spec)" "distinct (map fst answers)"
  shows "oget (take_answers spec answers) k = (if answered answers k then oget answers k else oget spec k)"
proof -
  have "map_of (rev (taken answers)) k = (if answered answers k then map_of answers k else None)"
    using assms(2) by (simp add: map_of_rev_distinct distinct_taken map_of_taken)
  moreover have "answered answers k \<Longrightarrow> map_of answers k = Some (oget answers k)"
    by (auto simp: answered_def oget_def split: option.splits)
  ultimately show ?thesis
    using assms(1) by (simp add: take_answers_spread oget_spread [of "spread [] spec"] oget_copy)
qed

lemma oget_merge_target:
  "k \<noteq> ''vm'' \<Longrightarrow> k \<noteq> ''volume'' \<Longrightarrow> oget (merge_target answers s) k = oget s k"
  by (simp add: merge_target_def Let_def oget_oset)

lemma oget_merge_image:
  "k \<noteq> ''imageUrl'' \<Longrightarrow> k \<noteq> ''imagePath'' \<Longrightarrow> oget (merge_image v s) k = oget s k"
  by (cases v) (simp_all add: merge_image_def Let_def oget_oset)

lemma oget_merge_auth:
  "k \<noteq> ''sshPublicKeys'' \<Longrightarrow> k \<noteq> ''sshKeys'' \<Longrightarrow> oget (merge_auth v s) k = oget s k"
  by (cases v) (simp_all add: merge_auth_def Let_def oget_oset)

lemma oget_merge_placement: "k \<noteq> ''targetNode'' \<Longrightarrow> oget (merge_placement v s) k = oget s k"
  by (cases v) (simp_all add: merge_placement_def oget_oset)

lemma oget_merge_memory: "k \<noteq> ''memoryBytes'' \<Longrightarrow> oget (merge_memory v s) k = oget s k"
  by (cases v) (simp_all add: merge_memory_def oget_oset)

lemmas oget_merges =
  oget_merge_target oget_merge_memory oget_merge_placement oget_merge_auth oget_merge_image

lemma merge_target_fills:
  assumes "list_all (\<lambda>kv. \<not> isBlank (snd kv)) answers" "\<not> isBlank (oget s k)"
  shows "\<not> isBlank (oget (merge_target answers s) k)"
proof -
  have "is_str (oget answers j) \<Longrightarrow> \<not> isBlank (oget answers j)" for j
    using assms(1) by (auto simp: oget_def list_all_iff split: option.splits if_splits dest!: map_of_SomeD)
  with assms(2) show ?thesis by (auto simp: merge_target_def Let_def oget_oset)
qed

text \<open>After the answers are merged, a field is missing only if it was missing and not answered.\<close>

lemma missing_mergeAnswers:
  assumes d: "distinct (map fst spec)" "distinct (map fst answers)"
    and given: "list_all (\<lambda>kv. \<not> isBlank (snd kv)) answers"
    and m: "missing (mergeAnswers spec answers) k"
  shows "missing spec k \<and> (k \<in> set skipped_answers \<or> k \<notin> fst ` set answers)"
proof (rule ccontr)
  assume c: "\<not> ?thesis"
  have "answered answers k" if "k \<notin> set skipped_answers" "k \<in> fst ` set answers"
  proof -
    from that(2) obtain v where v: "map_of answers k = Some v"
      by (metis map_of_eq_None_iff option.exhaust)
    then have "\<not> isBlank v" using given by (auto simp: list_all_iff dest!: map_of_SomeD)
    with v that(1) show ?thesis by (simp add: answered_def)
  qed
  moreover have "answered answers k \<Longrightarrow> \<not> isBlank (oget answers k)"
    by (auto simp: answered_def oget_def split: option.splits)
  ultimately have "\<not> isBlank (oget (take_answers spec answers) k)"
    using c by (auto simp: oget_take_answers [OF d] missing_def)
  then have "\<not> isBlank (oget (mergeAnswers spec answers) k)"
    unfolding mergeAnswers_def by (intro merge_target_fills [OF given]) (simp add: keeps)
  with m show False by (simp add: missing_def)
qed

text \<open>The fields the named answers (image, auth, placement, memory, target) may set.\<close>

definition derived_fields :: "string list" where
  "derived_fields = [''imageUrl'', ''imagePath'', ''sshPublicKeys'', ''sshKeys'', ''targetNode'', ''memoryBytes'', ''vm'', ''volume'']"

lemma mergeAnswers_other:
  assumes "distinct (map fst spec)" "distinct (map fst answers)"
    and "k \<notin> set derived_fields" "k \<in> set skipped_answers \<or> k \<notin> fst ` set answers"
  shows "oget (mergeAnswers spec answers) k = oget spec k"
proof -
  have "\<not> answered answers k"
    using assms(4) by (auto simp: answered_def map_of_eq_None_iff dest!: map_of_SomeD split: option.splits)
      (metis fst_conv image_eqI)
  then have "oget (take_answers spec answers) k = oget spec k"
    by (simp add: oget_take_answers [OF assms(1,2)])
  then show ?thesis
    using assms(3) by (simp add: mergeAnswers_def derived_fields_def oget_merges)
qed

section \<open>Advice against the request builders\<close>

text \<open>
  An accepted request has all its properties, so a spec that misses a required field is refused.
  The collection \<open>refusal\<close> rewrites acceptance of a request to acceptance of its parts.
\<close>

named_theorems refusal

lemma is_ok_props [refusal]: "is_ok (props ps) \<longleftrightarrow> list_all (\<lambda>p. is_ok (snd p)) ps"
  by (induction ps) (auto simp: is_ok_iff ebind_Inr_iff)

lemma is_ok_bind [refusal]: "is_ok (ebind m f) \<longleftrightarrow> is_ok m \<and> (\<exists>x. m = Inr x \<and> is_ok (f x))"
  by (auto simp: is_ok_iff ebind_Inr_iff)

lemma is_ok_wrapped [refusal]:
  "is_ok (jstr r) = is_ok r" "is_ok (jobj os) = is_ok os" "is_ok (jarr vs) = is_ok vs"
  by (auto simp: is_ok_iff jstr_def jobj_def jarr_def ebind_Inr_iff)

lemma is_ok_if [refusal]: "is_ok (if b then Inl e else r) \<longleftrightarrow> \<not> b \<and> is_ok r"
  by simp

lemma missing_refused [refusal]:
  assumes "missing spec key"
  shows "is_ok (required spec key label) = False"
    and "is_ok (req_name spec key label) = False"
    and "is_ok (req_arg spec key label) = False"
    and "is_ok (req_size spec key label) = False"
proof -
  have "isBlank (oget spec key)" using assms by (simp add: missing_def)
  from blank_required [OF this, of label] show "is_ok (required spec key label) = False" by auto
  then show "is_ok (req_name spec key label) = False"
    and "is_ok (req_arg spec key label) = False"
    and "is_ok (req_size spec key label) = False"
    by (simp_all add: req_name_def req_arg_def req_size_def is_ok_bind)
qed

lemma missing_not_Inr [refusal]:
  "missing spec key \<Longrightarrow> (required spec key label = Inr x) = False"
  "missing spec key \<Longrightarrow> (req_name spec key label = Inr x) = False"
  using missing_refused(1,2) [of spec key label] by (auto simp: is_ok_iff)

lemma networkRequest_needs:
  "missing spec ''name'' \<or> missing spec ''type'' \<or> missing spec ''externalIp'' \<or> missing spec ''gatewayIp'' \<Longrightarrow>
   \<not> is_ok (networkRequest spec)"
  unfolding networkRequest_def by (auto simp: refusal simp del: props.simps)

lemma sshKeyRequest_needs:
  "missing spec ''name'' \<or> missing spec ''publicKey'' \<Longrightarrow> \<not> is_ok (sshKeyRequest spec)"
  unfolding sshKeyRequest_def by (auto simp: refusal simp del: props.simps)

lemma containerRequest_needs:
  "missing spec ''name'' \<or> missing spec ''image'' \<Longrightarrow> \<not> is_ok (containerRequest spec)"
  unfolding containerRequest_def container_spec_def by (auto simp: refusal simp del: props.simps)

lemma volumeRequest_needs:
  "missing spec ''name'' \<or> missing spec ''sizeBytes'' \<Longrightarrow> \<not> is_ok (volumeRequest spec)"
  unfolding volumeRequest_def by (auto simp: refusal simp del: props.simps)

lemma snapshotRequest_needs:
  "missing spec ''name'' \<or> missing spec ''volume'' \<Longrightarrow> \<not> is_ok (snapshotRequest spec)"
  unfolding snapshotRequest_def by (auto simp: refusal simp del: props.simps)

lemma cephMessage_needs:
  "missing spec ''name'' \<or> missing spec ''publicNetwork'' \<or> missing spec ''clusterNetwork'' \<Longrightarrow>
   \<not> is_ok (cephMessage spec)"
  unfolding cephMessage_def by (auto simp: refusal simp del: props.simps)

lemma blank_stringList: "isBlank v \<Longrightarrow> stringList v = []"
  by (cases v) (auto simp: stringList_def List.map_filter_def)

lemma objectStoreMessage_needs:
  "missing spec ''name'' \<or> missing spec ''cephCluster'' \<or> missing spec ''members'' \<Longrightarrow>
   \<not> is_ok (objectStoreMessage spec)"
proof -
  have "missing spec ''members'' \<Longrightarrow> \<not> is_ok (objectStoreMessage spec)"
    by (simp add: objectStoreMessage_def missing_def blank_stringList)
  moreover have "missing spec ''name'' \<or> missing spec ''cephCluster'' \<Longrightarrow> \<not> is_ok (objectStoreMessage spec)"
    unfolding objectStoreMessage_def by (auto simp: refusal simp del: props.simps)
  ultimately show "missing spec ''name'' \<or> missing spec ''cephCluster'' \<or> missing spec ''members'' \<Longrightarrow> ?thesis" by blast
qed

lemma blank_rules: "isBlank v \<Longrightarrow> \<not> is_ok (rules v)"
  by (cases v) (auto simp: rules_def rule_message_def rule_text_def)

lemma securityGroupCalls_needs:
  "missing spec ''name'' \<or> missing spec ''rules'' \<Longrightarrow> \<not> is_ok (securityGroupCalls spec)"
proof -
  have "missing spec ''rules'' \<Longrightarrow> is_ok (rules (oget spec ''rules'')) = False"
    by (simp add: missing_def blank_rules)
  then show "missing spec ''name'' \<or> missing spec ''rules'' \<Longrightarrow> ?thesis"
    unfolding securityGroupCalls_def by (auto simp: refusal simp del: props.simps)
qed

lemma blank_kubernetesNodes: "isBlank v \<Longrightarrow> kubernetesNodes v role label = Inr ns \<Longrightarrow> ns = []"
  by (cases v) (auto simp: kubernetesNodes_def)

lemma ingress_obj_needs: "missing spec ''name'' \<Longrightarrow> \<not> is_ok (ingress_obj spec)"
  unfolding ingress_obj_def ingressRequest_def by (simp only: is_ok_bind missing_refused simp_thms)

lemma postgresqlRequest_needs: "missing spec ''name'' \<Longrightarrow> \<not> is_ok (postgresqlRequest spec)"
  unfolding postgresqlRequest_def by (simp only: is_ok_bind missing_refused simp_thms)

lemma imageFields_needs:
  "missing spec ''imageUrl'' \<Longrightarrow> missing spec ''imagePath'' \<Longrightarrow> (imageFields pf spec = Inr x) = False"
  unfolding imageFields_def by (simp add: missing_def blank_opt)

lemma kubernetesRequest_needs:
  assumes "missing spec ''name'' \<or> missing spec ''clusterCidr'' \<or> missing spec ''serviceCidr'' \<or>
    missing spec ''apiServerEndpoint'' \<or> missing spec ''controlPlaneNodes''"
  shows "\<not> is_ok (kubernetesRequest spec)"
proof
  assume "is_ok (kubernetesRequest spec)"
  then obtain name controlPlane where
      name: "req_name spec ''name'' ''cluster name'' = Inr name"
    and nodes: "kubernetesNodes (oget spec ''controlPlaneNodes'') ''control-plane'' ''controlPlaneNodes'' = Inr controlPlane"
    and some: "length controlPlane \<noteq> 0"
    and cidr: "is_ok (req_arg spec ''clusterCidr'' ''cluster CIDR'')"
    and svc: "is_ok (req_arg spec ''serviceCidr'' ''service CIDR'')"
    and api: "is_ok (req_arg spec ''apiServerEndpoint'' ''API server endpoint'')"
    unfolding kubernetesRequest_def Let_def is_ok_bind is_ok_if is_ok_props list.pred_inject snd_conv is_ok_wrapped
    by blast
  from nodes some have "\<not> missing spec ''controlPlaneNodes''"
    by (auto simp: missing_def dest: blank_kubernetesNodes)
  with name cidr svc api assms show False by (auto simp: missing_refused missing_not_Inr)
qed

lemma vmRequest_needs:
  "missing spec ''name'' \<or> missing spec ''network'' \<or> missing spec ''storageBackend'' \<or>
   missing spec ''storageSizeBytes'' \<or> (missing spec ''imageUrl'' \<and> missing spec ''imagePath'') \<Longrightarrow>
   \<not> is_ok (vmRequest pf spec)"
  unfolding vmRequest_def
  by (auto simp: refusal imageFields_needs simp del: props.simps)

lemmas request_needs =
  networkRequest_needs sshKeyRequest_needs containerRequest_needs volumeRequest_needs
  snapshotRequest_needs cephMessage_needs objectStoreMessage_needs securityGroupCalls_needs
  kubernetesRequest_needs ingress_obj_needs postgresqlRequest_needs vmRequest_needs

text \<open>
  The questions \<open>buildApply\<close> enforces: all required ones of these kinds, and of a virtual machine
  those for its name, image, network and storage.
\<close>

definition enforced_questions :: "(string \<times> string list) list" where
  "enforced_questions =
     [(''vm'', [''name'', ''image'', ''network'', ''storageBackend'', ''storageSizeBytes'']),
      (''network'', [''name'', ''type'', ''externalIp'', ''gatewayIp'']),
      (''ssh-key'', [''name'', ''publicKey'']),
      (''container'', [''name'', ''image'']),
      (''volume'', [''name'', ''sizeBytes'']),
      (''volume-snapshot'', [''name'', ''volume'']),
      (''security-group'', [''name'', ''rules'']),
      (''ceph-cluster'', [''name'', ''publicNetwork'', ''clusterNetwork'']),
      (''object-store'', [''name'', ''cephCluster'', ''members'']),
      (''kubernetes-cluster'', [''name'', ''clusterCidr'', ''serviceCidr'', ''apiServerEndpoint'', ''controlPlaneNodes'']),
      (''waf-policy'', [''name'']),
      (''postgresql'', [''name''])]"

definition enforced :: "string \<Rightarrow> string \<Rightarrow> bool" where
  "enforced kind i = (case map_of enforced_questions kind of Some ids \<Rightarrow> i \<in> set ids | None \<Rightarrow> False)"

lemma is_ok_one: "is_ok (one method request) = is_ok request"
  by (auto simp: one_def is_ok_iff ebind_Inr_iff)

lemma is_ok_wrap: "is_ok (wrap key message) = is_ok message"
  by (auto simp: wrap_def is_ok_iff ebind_Inr_iff)

lemma enforced_cases:
  assumes "enforced kind i"
  obtains ids where "(kind, ids) \<in> set enforced_questions" "i \<in> set ids"
  using assms by (auto simp: enforced_def split: option.splits dest: map_of_SomeD)

lemma required_filters [simp]:
  "q \<in> set (required_only qs) \<longleftrightarrow> q \<in> set qs \<and> q_required q"
  "q \<in> set (required_or_missing spec qs) \<longleftrightarrow> q \<in> set qs \<and> (q_required q \<or> missing spec (q_id q))"
  by (auto simp: required_only_def required_or_missing_def)

text \<open>The identifiers of the questions that block, free of the texts.\<close>

definition blocking_ids :: "Question list \<Rightarrow> string list" where
  "blocking_ids qs = map q_id (filter q_required qs)"

lemma blocking_ids_filter:
  "(\<And>q. q_required q \<Longrightarrow> P q) \<Longrightarrow> blocking_ids (filter P qs) = blocking_ids qs"
  by (induction qs) (auto simp: blocking_ids_def)

lemma blocking_ids_simps [simp]:
  "blocking_ids [] = []"
  "blocking_ids (question i p w r c e # qs) = (if r then i # blocking_ids qs else blocking_ids qs)"
  "blocking_ids (xs @ ys) = blocking_ids xs @ blocking_ids ys"
  "blocking_ids (required_only qs) = blocking_ids qs"
  "blocking_ids (required_or_missing spec qs) = blocking_ids qs"
  unfolding required_only_def required_or_missing_def
  by (simp_all add: blocking_ids_filter) (simp_all add: blocking_ids_def)

lemma blocking_ids_iff: "i \<in> set (blocking_ids qs) \<longleftrightarrow> (\<exists>q \<in> set qs. q_required q \<and> q_id q = i)"
  by (auto simp: blocking_ids_def)

lemma blocking_ids_vm: "blocking_ids (vmQuestions spec) = blocking_ids (vm_items spec)"
  unfolding vmQuestions_def by (rule blocking_ids_filter) (simp add: vm_keep_def)

lemma blocking_ids_kinds:
  "blocking_ids (questions_network spec) =
     filter (missing spec) [''name'', ''type'', ''externalIp'', ''gatewayIp'']"
  "blocking_ids (questions_ssh_key spec) = filter (missing spec) [''name'', ''publicKey'']"
  "blocking_ids (questions_container spec) = filter (missing spec) [''name'', ''image'']"
  "blocking_ids (questions_volume spec) = filter (missing spec) [''name'', ''sizeBytes'']"
  "blocking_ids (questions_volume_snapshot spec) = filter (missing spec) [''volume'', ''name'']"
  "blocking_ids (questions_security_group spec) = filter (missing spec) [''name'', ''rules'']"
  "blocking_ids (questions_ceph_cluster spec) =
     filter (missing spec) [''name'', ''publicNetwork'', ''clusterNetwork'']"
  "blocking_ids (questions_object_store spec) = filter (missing spec) [''name'', ''cephCluster'', ''members'']"
  "blocking_ids (questions_kubernetes_cluster spec) =
     filter (missing spec) [''name'', ''clusterCidr'', ''serviceCidr'', ''apiServerEndpoint'', ''controlPlaneNodes'']"
  "blocking_ids (questions_postgresql spec) = filter (missing spec) [''name'']"
  "blocking_ids (questions_cluster spec) = filter (missing spec) [''controller'']"
  "blocking_ids (questions_shared_filesystem spec) =
     filter (missing spec) [''name'', ''cephCluster'', ''quotaBytes'']"
  "blocking_ids (questions_ingress_gateway spec) =
     filter (missing spec) [''name'', ''nodes'', ''listeners'', ''tls'']"
  "blocking_ids (questions_object_user spec) = filter (missing spec) [''name'', ''store'']"
  "blocking_ids (questions_operator spec) = filter (missing spec) [''name'', ''roles'']"
  "blocking_ids (questions_cluster_update spec) =
     filter (missing spec) [''name'', ''version'', ''flakeRef'', ''strategy'']"
  by (simp_all only: questions_network_def questions_ssh_key_def questions_container_def questions_volume_def
        questions_volume_snapshot_def questions_security_group_def questions_ceph_cluster_def
        questions_object_store_def questions_kubernetes_cluster_def questions_postgresql_def questions_cluster_def
        questions_shared_filesystem_def questions_ingress_gateway_def questions_object_user_def
        questions_operator_def questions_cluster_update_def blocking_ids_simps filter.simps if_False)

lemma blocking_ids_waf: "blocking_ids (questions_waf_policy spec) = filter (missing spec) [''name'']"
  unfolding questions_waf_policy_def by (subst blocking_ids_filter) (simp_all only: blocking_ids_simps filter.simps simp_thms if_False)

lemma blocking_ids_vm_enforced:
  "i \<in> set (blocking_ids (vm_items spec)) \<Longrightarrow>
   i \<in> set [''name'', ''image'', ''network'', ''storageBackend'', ''storageSizeBytes''] \<Longrightarrow>
   missing spec ''name'' \<or> missing spec ''network'' \<or> missing spec ''storageBackend'' \<or>
   missing spec ''storageSizeBytes'' \<or> (missing spec ''imageUrl'' \<and> missing spec ''imagePath'')"
  unfolding vm_items_def blocking_ids_simps if_False
  by (cases "missing spec ''imageUrl''"; cases "missing spec ''imagePath''"; cases "missing spec ''imageSha256''";
      cases "missing spec ''imageFormat''") (auto split: if_splits)

text \<open>
  C20. A question that blocks is one \<open>buildApply\<close> would refuse to do without: for the kinds and
  questions of \<open>enforced_questions\<close>, as long as the interview asks a required question, applying
  the spec as it stands is an error. The advice is never stricter than the request it prepares.
\<close>

theorem blocking_question_refused:
  assumes "q \<in> set (questionsFor kind spec)" "q_required q" "enforced (kind_id kind) (q_id q)"
  shows "\<exists>e. buildApply pf kind spec = Inl e"
proof -
  have b: "q_id q \<in> set (blocking_ids (questionsFor kind spec))"
    using assms(1,2) by (auto simp: blocking_ids_iff)
  obtain ids where "(kind_id kind, ids) \<in> set enforced_questions" "q_id q \<in> set ids"
    using assms(3) by (rule enforced_cases)
  then have "\<not> is_ok (buildApply pf kind spec)"
    using b unfolding enforced_questions_def list.set insert_iff empty_iff prod.inject
  proof (elim disjE conjE FalseE, goal_cases)
    case 1
    then have "q_id q \<in> set (blocking_ids (vm_items spec))"
      by (simp add: questionsFor_def blocking_ids_vm)
    from blocking_ids_vm_enforced [OF this] 1 vmRequest_needs show ?case
      by (simp add: buildApply_def is_ok_one)
  qed (auto simp: questionsFor_def buildApply_def is_ok_one is_ok_wrap is_ok_bind blocking_ids_kinds
        blocking_ids_waf request_needs split: if_splits)
  then show ?thesis by (cases "buildApply pf kind spec") auto
qed

theorem blocking_question_refused_witness:
  "enforced ''network'' ''gatewayIp'' \<and>
   (\<exists>e. buildApply bare_platform kind_network
     [(''name'', JStr ''lan''), (''type'', JStr ''nat''), (''externalIp'', JStr ''192.0.2.1'')] = Inl e)"
proof -
  have e: "enforced ''network'' ''gatewayIp''" by code_simp
  have "''gatewayIp'' \<in> set (blocking_ids (questionsFor kind_network
     [(''name'', JStr ''lan''), (''type'', JStr ''nat''), (''externalIp'', JStr ''192.0.2.1'')]))"
    by (simp add: questionsFor_def kind_network_def blocking_ids_kinds missing_def oget_def proto_keys_def)
  then obtain q where "q \<in> set (questionsFor kind_network
     [(''name'', JStr ''lan''), (''type'', JStr ''nat''), (''externalIp'', JStr ''192.0.2.1'')])"
    "q_required q" "q_id q = ''gatewayIp''" by (auto simp: blocking_ids_iff)
  with blocking_question_refused [of q kind_network _ bare_platform] e show ?thesis
    by (simp add: kind_network_def)
qed

section \<open>The interview\<close>

text \<open>The kinds whose blocking questions are each named after the one field they ask for.\<close>

definition direct_questions :: "(string \<times> string list) list" where
  "direct_questions =
     [(''cluster'', [''controller'']),
      (''network'', [''name'', ''type'', ''externalIp'', ''gatewayIp'']),
      (''ssh-key'', [''name'', ''publicKey'']),
      (''postgresql'', [''name'']),
      (''volume'', [''name'', ''sizeBytes'']),
      (''volume-snapshot'', [''volume'', ''name'']),
      (''security-group'', [''name'', ''rules'']),
      (''ceph-cluster'', [''name'', ''publicNetwork'', ''clusterNetwork'']),
      (''shared-filesystem'', [''name'', ''cephCluster'', ''quotaBytes'']),
      (''ingress-gateway'', [''name'', ''nodes'', ''listeners'', ''tls'']),
      (''waf-policy'', [''name'']),
      (''object-store'', [''name'', ''cephCluster'', ''members'']),
      (''kubernetes-cluster'', [''name'', ''clusterCidr'', ''serviceCidr'', ''apiServerEndpoint'', ''controlPlaneNodes'']),
      (''object-user'', [''name'', ''store'']),
      (''operator'', [''name'', ''roles'']),
      (''cluster-update'', [''name'', ''version'', ''flakeRef'', ''strategy''])]"

lemma direct_blocking:
  "(kind_id kind, ids) \<in> set direct_questions \<Longrightarrow>
   blocking_ids (questionsFor kind spec) = filter (missing spec) ids"
  unfolding direct_questions_def list.set insert_iff empty_iff prod.inject
  by (elim disjE conjE FalseE)
     (simp_all add: questionsFor_def blocking_ids_kinds blocking_ids_waf del: filter.simps)

lemma direct_not_skipped:
  "(k, ids) \<in> set direct_questions \<Longrightarrow> i \<in> set ids \<Longrightarrow> i \<notin> set skipped_answers"
proof -
  have "list_all (\<lambda>p. list_all (\<lambda>i. i \<notin> set skipped_answers) (snd p)) direct_questions" by code_simp
  then show "(k, ids) \<in> set direct_questions \<Longrightarrow> i \<in> set ids \<Longrightarrow> ?thesis"
    by (fastforce simp: list_all_iff)
qed

lemma ready_iff: "ad_ready (advice_for kind spec d) \<longleftrightarrow> blocking_ids (questionsFor kind spec) = []"
  by (simp add: advice_for_def Let_def blocking_ids_def)

lemma blocking_ids_advice: "map q_id (ad_blocking (advice_for kind spec d)) = blocking_ids (questionsFor kind spec)"
  by (simp add: advice_for_def Let_def blocking_ids_def)

text \<open>
  C21. The interview ends after one round: for the kinds of \<open>direct_questions\<close>, merging any
  nonblank answers that cover the blocking questions gives a spec that is ready for a plan,
  whatever else is answered along with them.
\<close>

theorem interview_converges:
  assumes "kind_id kind \<in> fst ` set direct_questions"
    and "distinct (map fst spec)" "distinct (map fst answers)"
    and given: "list_all (\<lambda>kv. \<not> isBlank (snd kv)) answers"
    and cover: "\<forall>q \<in> set (ad_blocking (advice_for kind spec d)). q_id q \<in> fst ` set answers"
  shows "ad_ready (advice_for kind (mergeAnswers spec answers) d)"
proof -
  obtain ids where ids: "(kind_id kind, ids) \<in> set direct_questions" using assms(1) by auto
  have "\<not> missing (mergeAnswers spec answers) i" if i: "i \<in> set ids" for i
  proof
    assume "missing (mergeAnswers spec answers) i"
    from missing_mergeAnswers [OF assms(2,3) given this] direct_not_skipped [OF ids i]
    have "missing spec i" "i \<notin> fst ` set answers" by auto
    then have "i \<in> q_id ` set (ad_blocking (advice_for kind spec d))"
      using i by (simp add: blocking_ids_advice direct_blocking [OF ids] flip: set_map)
    with cover \<open>i \<notin> fst ` set answers\<close> show False by auto
  qed
  then show ?thesis by (simp add: ready_iff direct_blocking [OF ids] filter_empty_conv)
qed

theorem interview_converges_witness:
  "ad_ready (advice_for kind_volume
     (mergeAnswers [(''name'', JStr ''data'')] [(''sizeBytes'', JStr ''10G''), (''vm'', JStr ''web-01'')]) None)"
proof (rule interview_converges)
  have "kind_id kind_volume = ''volume''" by (simp add: kind_volume_def)
  then show "kind_id kind_volume \<in> fst ` set direct_questions" by (simp add: direct_questions_def)
  show "distinct (map fst [(''name'', JStr ''data'')])" by simp
  show "distinct (map fst [(''sizeBytes'', JStr ''10G''), (''vm'', JStr ''web-01'')])" by simp
  show "list_all (\<lambda>kv. \<not> isBlank (snd kv)) [(''sizeBytes'', JStr ''10G''), (''vm'', JStr ''web-01'')]" by code_simp
  have "blocking_ids (questionsFor kind_volume [(''name'', JStr ''data'')]) = [''sizeBytes'']" by code_simp
  then have "map q_id (ad_blocking (advice_for kind_volume [(''name'', JStr ''data'')] None)) = [''sizeBytes'']"
    by (simp only: blocking_ids_advice)
  then show "\<forall>q \<in> set (ad_blocking (advice_for kind_volume [(''name'', JStr ''data'')] None)).
      q_id q \<in> fst ` set [(''sizeBytes'', JStr ''10G''), (''vm'', JStr ''web-01'')]"
    by (auto simp: map_eq_Cons_conv)
qed

section \<open>Questions that cannot be answered\<close>

lemma blocking_layout:
  "''layout'' \<in> set (blocking_ids (questions_disk_layout spec)) \<longleftrightarrow>
     missing spec ''layoutNix'' \<and> missing spec ''layoutNixFile'' \<and> missing spec ''diskLayout''"
  unfolding questions_disk_layout_def by simp

lemma blocking_target:
  "''target'' \<in> set (blocking_ids (questions_snapshot_policy spec)) \<longleftrightarrow> missing spec ''vm'' \<and> missing spec ''volume''"
  unfolding questions_snapshot_policy_def by simp

lemma blocking_cordon:
  "''cordon'' \<in> set (blocking_ids (questions_slurm_cluster spec)) \<longleftrightarrow> missing spec ''cordonConfirmed''"
  unfolding questions_slurm_cluster_def by simp

lemma asked_id:
  "q \<in> set (required_only qs) \<Longrightarrow> q_id q \<in> set (map q_id qs)"
  "q \<in> set (required_or_missing spec qs) \<Longrightarrow> q_id q \<in> set (map q_id qs)"
  by auto

lemma question_ids:
  "q \<in> set (questions_disk_layout spec) \<Longrightarrow> q_id q \<in> set [''name'', ''nodeId'', ''layout'']"
  "q \<in> set (questions_snapshot_policy spec) \<Longrightarrow> q_id q \<in> set [''name'', ''target'', ''schedule'', ''keep'']"
  "q \<in> set (questions_slurm_cluster spec) \<Longrightarrow>
     q_id q \<in> set [''controller'', ''compute'', ''cordon'', ''partitions'', ''users'', ''storage'', ''accounting'', ''gres'']"
  unfolding questions_disk_layout_def questions_snapshot_policy_def questions_slurm_cluster_def
  by (drule asked_id, simp only: list.map question_simps)+

lemma mergeAnswers_selector:
  assumes "distinct (map fst spec)" "distinct (map fst answers)"
    and "k = ''vm'' \<or> k = ''volume''" "k \<notin> fst ` set answers"
  shows "oget (mergeAnswers spec answers) k = oget spec k"
proof -
  have u: "map_of answers k = None" using assms(4) by (simp add: map_of_eq_None_iff)
  then have "oget answers k = JUndef" using assms(3) by (auto simp: oget_def proto_keys_def)
  then have t: "oget (merge_target answers s) k = oget s k" for s
    using assms(3) by (auto simp: merge_target_def Let_def oget_oset)
  have "oget (take_answers spec answers) k = oget spec k"
    using u by (simp add: oget_take_answers [OF assms(1,2)] answered_def)
  then show ?thesis using assms(3) by (auto simp: mergeAnswers_def t oget_merges)
qed

text \<open>The kind and the identifier of four questions.\<close>

definition unanswerable :: "(string \<times> string) list" where
  "unanswerable =
     [(''container'', ''image''), (''disk-layout'', ''layout''), (''slurm-cluster'', ''cordon''), (''snapshot-policy'', ''target'')]"

text \<open>
  C35. Four blocking questions cannot be answered by answering them. The interview asks for the
  image of a container, the layout of a disk, the consent to cordon Slurm nodes and the target of a
  snapshot policy under a name that \<open>mergeAnswers\<close> skips or that is not the field the question
  checks. Whatever is answered to the questions asked, the same question blocks again.
\<close>

theorem unanswerable_blocks_again:
  assumes "(kind_id kind, q_id q) \<in> set unanswerable"
    and "q \<in> set (questionsFor kind spec)" "q_required q"
    and d: "distinct (map fst spec)" "distinct (map fst answers)"
    and "fst ` set answers \<subseteq> q_id ` set (questionsFor kind spec)"
  shows "\<exists>q' \<in> set (questionsFor kind (mergeAnswers spec answers)). q_required q' \<and> q_id q' = q_id q"
proof -
  have b: "q_id q \<in> set (blocking_ids (questionsFor kind spec))"
    using assms(2,3) by (auto simp: blocking_ids_iff)
  have same: "missing (mergeAnswers spec answers) k \<longleftrightarrow> missing spec k"
    if "k \<notin> set derived_fields" "k \<in> set skipped_answers \<or> k \<notin> q_id ` set (questionsFor kind spec)" for k
    unfolding missing_def using mergeAnswers_other [OF d that(1)] that(2) assms(6) by (metis subsetD)
  have sel: "missing (mergeAnswers spec answers) k \<longleftrightarrow> missing spec k"
    if "k = ''vm'' \<or> k = ''volume''" "k \<notin> q_id ` set (questionsFor kind spec)" for k
    unfolding missing_def using mergeAnswers_selector [OF d that(1)] that(2) assms(6) by (metis subsetD)
  consider "kind_id kind = ''container''" "q_id q = ''image''" | "kind_id kind = ''disk-layout''" "q_id q = ''layout''"
    | "kind_id kind = ''slurm-cluster''" "q_id q = ''cordon''" | "kind_id kind = ''snapshot-policy''" "q_id q = ''target''"
    using assms(1) by (auto simp: unanswerable_def)
  then have "q_id q \<in> set (blocking_ids (questionsFor kind (mergeAnswers spec answers)))"
  proof cases
    case 1
    with b same [of "''image''"] show ?thesis
      by (simp add: questionsFor_def blocking_ids_kinds derived_fields_def skipped_answers_def split: if_splits)
  next
    case 2
    then have qs: "questionsFor kind s = questions_disk_layout s" for s by (simp add: questionsFor_def)
    have "k \<notin> q_id ` set (questionsFor kind spec)" if "k \<in> set [''layoutNix'', ''layoutNixFile'', ''diskLayout'']" for k
      using that unfolding qs by (auto dest!: question_ids(1))
    with b 2 same show ?thesis unfolding qs by (simp add: blocking_layout derived_fields_def)
  next
    case 3
    then have qs: "questionsFor kind s = questions_slurm_cluster s" for s by (simp add: questionsFor_def)
    have "''cordonConfirmed'' \<notin> q_id ` set (questionsFor kind spec)"
      unfolding qs by (auto dest!: question_ids(3))
    with b 3 same show ?thesis unfolding qs by (simp add: blocking_cordon derived_fields_def)
  next
    case 4
    then have qs: "questionsFor kind s = questions_snapshot_policy s" for s by (simp add: questionsFor_def)
    have "k \<notin> q_id ` set (questionsFor kind spec)" if "k = ''vm'' \<or> k = ''volume''" for k
      using that unfolding qs by (auto dest!: question_ids(2))
    with b 4 sel show ?thesis unfolding qs by (simp add: blocking_target)
  qed
  then show ?thesis by (simp add: blocking_ids_iff)
qed

theorem unanswerable_blocks_again_witness:
  "\<exists>q' \<in> set (questionsFor kind_container (mergeAnswers [(''name'', JStr ''web'')] [(''image'', JStr ''nginx:alpine'')])).
     q_required q' \<and> q_id q' = ''image''"
proof -
  have "blocking_ids (questionsFor kind_container [(''name'', JStr ''web'')]) = [''image'']" by code_simp
  then have "''image'' \<in> set (blocking_ids (questionsFor kind_container [(''name'', JStr ''web'')]))"
    by (metis list.set_intros(1))
  then obtain q where q: "q \<in> set (questionsFor kind_container [(''name'', JStr ''web'')])" "q_required q" "q_id q = ''image''"
    unfolding blocking_ids_iff by blast
  moreover have "(kind_id kind_container, ''image'') \<in> set unanswerable"
    by (simp add: unanswerable_def kind_container_def)
  ultimately show ?thesis
    using unanswerable_blocks_again [of kind_container q "[(''name'', JStr ''web'')]" "[(''image'', JStr ''nginx:alpine'')]"]
    by force
qed

end
