(* ===== verification/Interview.thy ===== *)
theory Interview
  imports Advise
begin

text \<open>
  Properties of the interview of \<open>Advise\<close>: what the guess of a kind from the operator's words can
  be, that the caller's answers win over a manifest, when advice is an error, and an answer that
  is accepted and then has no effect.
\<close>

section \<open>Roles\<close>

text \<open>
  An answer in the interview is text, but the roles of an operator are read as a list: an
  interview that asks for the roles and gets one is ready, and the request then creates the
  operator without granting any role.
\<close>

theorem elicited_roles_dropped:
  assumes "distinct (map fst spec)" "req_name spec ''name'' ''operator name'' = Inr n" "trim r \<noteq> []"
  shows "ad_ready (advice_for kind_operator (mergeAnswers spec [(''roles'', JStr r)]) d) \<and>
         buildApply pf kind_operator (mergeAnswers spec [(''roles'', JStr r)]) =
           Inr [ctl ''createOperator'' [(''name'', JStr n)]]"
proof
  let ?s = "mergeAnswers spec [(''roles'', JStr r)]"
  have name: "oget ?s ''name'' = oget spec ''name''"
    using assms(1) by (intro mergeAnswers_other) (simp_all add: derived_fields_def)
  then have req: "req_name ?s ''name'' ''operator name'' = Inr n"
    using assms(2) by (simp add: req_name_def required_def opt_def)
  have roles: "oget ?s ''roles'' = JStr r"
    using assms(1,3) by (simp add: mergeAnswers_def oget_merges oget_take_answers answered_def skipped_answers_def)
      (simp add: oget_def)
  have "\<not> missing ?s ''name''" using req missing_not_Inr(2) by blast
  moreover have "\<not> missing ?s ''roles''" using roles assms(3) by (simp add: missing_def)
  ultimately show "ad_ready (advice_for kind_operator ?s d)"
    by (simp add: ready_iff questionsFor_def kind_operator_def blocking_ids_kinds)
  show "buildApply pf kind_operator ?s = Inr [ctl ''createOperator'' [(''name'', JStr n)]]"
    by (simp add: buildApply_def kind_operator_def operatorCalls_def req roles jstr_def stringList_def List.map_filter_def)
qed

theorem elicited_roles_dropped_witness:
  "buildApply bare_platform kind_operator (mergeAnswers [(''name'', JStr ''alice'')] [(''roles'', JStr ''vm-admin'')]) =
     Inr [ctl ''createOperator'' [(''name'', JStr ''alice'')]]"
proof -
  have "req_name [(''name'', JStr ''alice'')] ''name'' ''operator name'' = Inr ''alice''" by code_simp
  moreover have "trim ''vm-admin'' \<noteq> []" by code_simp
  ultimately show ?thesis
    using elicited_roles_dropped [of "[(''name'', JStr ''alice'')]" "''alice''" "''vm-admin''" _ bare_platform] by simp
qed

section \<open>Inference and merging\<close>

lemma length_one: "length xs = 1 \<Longrightarrow> xs = [hd xs]"
  by (cases xs) auto

lemma inferKind_hits:
  assumes "inferKind (Some i) = Some k"
  shows "k \<in> set (intent_hits i)" "\<forall>h \<in> set (intent_hits i). h = k \<or> h = ''cluster''"
proof -
  define hits where "hits = intent_hits i"
  define left where "left = (if 1 < length hits then filter (\<lambda>h. h \<noteq> ''cluster'') hits else hits)"
  have "inferKind (Some i) = (if i = [] then None else if length left \<noteq> 1 then None else Some (hd left))"
    by (simp only: inferKind_def Let_def option.case hits_def left_def)
  with assms have "length left = 1" "hd left = k" by (auto split: if_splits)
  then have "left = [k]" using length_one [of left] by simp
  then have "set left = {k}" by simp
  moreover have "set left \<subseteq> set hits" "\<forall>h \<in> set hits. h \<in> set left \<or> h = ''cluster''" by (auto simp: left_def)
  ultimately show "k \<in> set (intent_hits i)" "\<forall>h \<in> set (intent_hits i). h = k \<or> h = ''cluster''"
    unfolding hits_def by auto
qed

text \<open>
  C36. The kind guessed from the operator's words is a kind of the catalog, its words occur in the
  text, and no other kind's do, except those of the local cluster context; two matches are not
  resolved by guessing.
\<close>

theorem inferKind_unambiguous:
  assumes "inferKind (Some i) = Some k"
  shows "k \<in> set kindIds \<and> k \<in> set (intent_hits i) \<and> (\<forall>h \<in> set (intent_hits i). h = k \<or> h = ''cluster'')"
proof -
  have "list_all (\<lambda>p. snd p \<in> set kindIds) INTENT" by code_simp
  moreover have "set (intent_hits i) \<subseteq> snd ` set INTENT" unfolding intent_hits_def by auto
  ultimately have "set (intent_hits i) \<subseteq> set kindIds" unfolding list_all_iff by blast
  with inferKind_hits [OF assms] show ?thesis by auto
qed

theorem inferKind_unambiguous_witness:
  "inferKind (Some ''Create a Kubernetes cluster'') = Some ''kubernetes-cluster'' \<and>
   ''kubernetes-cluster'' \<in> set kindIds \<and> ''kubernetes-cluster'' \<in> set (intent_hits ''Create a Kubernetes cluster'')"
proof -
  have "inferKind (Some ''Create a Kubernetes cluster'') = Some ''kubernetes-cluster''" by code_simp
  with inferKind_unambiguous show ?thesis by blast
qed

lemma intent_hits_iff: "h \<in> set (intent_hits i) \<longleftrightarrow> (\<exists>ps. (ps, h) \<in> set INTENT \<and> intent_matches ps i)"
  by (force simp: intent_hits_def)

lemma snapshot_intents:
  "(ps, ''snapshot-policy'') \<in> set INTENT \<Longrightarrow> ps = [(''snapshot polic'', False)]"
  "([(''snapshot'', True), (''snapshots'', True)], ''volume-snapshot'') \<in> set INTENT"
  unfolding INTENT_def by simp_all

lemma snapshot_polic_at: "phrase_at (''snapshot polic'', False) s \<Longrightarrow> phrase_at (''snapshot'', True) s"
proof -
  assume "phrase_at (''snapshot polic'', False) s"
  then obtain r where "s = ''snapshot polic'' @ r" by (auto simp: phrase_at_def elim: prefixE)
  moreover have "\<not> is_word CHR '' ''" by code_simp
  ultimately show ?thesis by (simp add: phrase_at_def)
qed

lemma snapshot_polic_phrase:
  "has_phrase inside (''snapshot polic'', False) s \<Longrightarrow> has_phrase inside (''snapshot'', True) s"
  by (induction s arbitrary: inside) (auto simp: snapshot_polic_at)

text \<open>
  The kind \<^verbatim>\<open>snapshot-policy\<close> is never guessed: every text that names a snapshot policy also
  matches the pattern of a volume snapshot, so the guess is ambiguous and dropped.
\<close>

theorem snapshot_policy_never_inferred: "inferKind intent \<noteq> Some ''snapshot-policy''"
proof (cases intent)
  case None
  then show ?thesis by (simp add: inferKind_def)
next
  case (Some i)
  show ?thesis
  proof
    assume "inferKind intent = Some ''snapshot-policy''"
    then have k: "inferKind (Some i) = Some ''snapshot-policy''" by (simp only: Some)
    obtain ps where ps: "(ps, ''snapshot-policy'') \<in> set INTENT" "intent_matches ps i"
      using inferKind_hits(1) [OF k] unfolding intent_hits_iff by (elim exE conjE)
    have "has_phrase False (''snapshot polic'', False) (toLowerCase i)"
      using ps(2) unfolding snapshot_intents(1) [OF ps(1)] by (simp only: intent_matches_def list_ex_iff list.set) blast
    then have "has_phrase False (''snapshot'', True) (toLowerCase i)" by (rule snapshot_polic_phrase)
    then have "intent_matches [(''snapshot'', True), (''snapshots'', True)] i"
      by (simp only: intent_matches_def list_ex_iff list.set) blast
    then have "''volume-snapshot'' \<in> set (intent_hits i)"
      unfolding intent_hits_iff using snapshot_intents(2) by blast
    with inferKind_hits(2) [OF k] have "''volume-snapshot'' = ''snapshot-policy'' \<or> ''volume-snapshot'' = ''cluster''"
      by (rule bspec)
    then show False by simp
  qed
qed

lemma normalizeDesired_shape:
  assumes "normalizeDesired pf input = Inr (Inr d)"
  obtains doc where "kind_of input doc = Some (d_kind d)"
    and "d_spec d = flattenManifest (kind_id (d_kind d)) (merged_spec doc (ai_spec input))"
proof -
  from assms obtain found where "desired_from input (case found of Some d \<Rightarrow> d | None \<Rightarrow> []) = Inr d"
    unfolding normalizeDesired_def ebind_Inr_iff by (elim exE conjE) (auto split: sum.split_asm)
  then show thesis
    by (intro that [of "case found of Some d \<Rightarrow> d | None \<Rightarrow> []"])
       (auto simp: desired_from_def Let_def split: option.splits)
qed

lemma kind_of_KINDS: "kind_of input doc = Some k \<Longrightarrow> k \<in> set KINDS"
  by (auto simp: kind_of_def dest: findKind_KINDS split: option.splits)

text \<open>
  What the caller answered wins over the manifest: a nonblank field of the given spec arrives
  unchanged in the normalised resource, through merging, naming and flattening.
\<close>

theorem given_spec_wins:
  assumes "normalizeDesired pf input = Inr (Inr d)" "ai_spec input = Some s"
    and "distinct (map fst s)" "map_of s k = Some v" "\<not> isBlank v"
  shows "oget (d_spec d) k = v"
proof -
  obtain doc where "kind_of input doc = Some (d_kind d)"
    and d: "d_spec d = flattenManifest (kind_id (d_kind d)) (merged_spec doc (ai_spec input))"
    using assms(1) by (rule normalizeDesired_shape)
  define base where "base = spread (spread [] (obj_of (oget doc ''spec''))) s"
  have b: "oget base k = v" unfolding base_def using assms(3,4) by (rule oget_spread_given)
  have e: "base = spread (spread [] (obj_of (oget doc ''spec''))) (case ai_spec input of Some s \<Rightarrow> s | None \<Rightarrow> [])"
    by (simp add: base_def assms(2))
  have "\<not> isBlank (oget base k)" by (simp only: b assms(5) not_False_eq_True)
  then have "oget (merged_spec doc (ai_spec input)) k = oget base k" using e by (rule merged_spec_keeps)
  then have m: "oget (merged_spec doc (ai_spec input)) k = v" by (simp only: b)
  show ?thesis unfolding d
    by (subst flattenManifest_keeps) (simp_all only: m assms(5) not_False_eq_True)
qed

theorem given_spec_wins_witness:
  "\<exists>d. normalizeDesired bare_platform
        \<lparr>ai_kind = Some ''vm'', ai_intent = None, ai_spec = Some [(''name'', JStr ''web-01'')], ai_manifest = None, ai_acceptDefaults = None\<rparr>
      = Inr (Inr d) \<and> oget (d_spec d) ''name'' = JStr ''web-01''"
proof -
  let ?i = "\<lparr>ai_kind = Some ''vm'', ai_intent = None, ai_spec = Some [(''name'', JStr ''web-01'')], ai_manifest = None, ai_acceptDefaults = None\<rparr>"
  have "findKind (Some ''vm'') = Some kind_vm" by code_simp
  then obtain d where "normalizeDesired bare_platform ?i = Inr (Inr d)"
    by (simp add: normalizeDesired_def manifest_doc_def desired_from_def kind_of_def Let_def)
  moreover have "\<not> isBlank (JStr ''web-01'')" by code_simp
  ultimately show ?thesis using given_spec_wins [of bare_platform ?i d "[(''name'', JStr ''web-01'')]" "''name''" "JStr ''web-01''"] by simp
qed

text \<open>
  Advice is an error exactly when the manifest is not blank and the YAML parser rejects it,
  with the parser's message; every other input, whatever its kind or spec, gets advice.
\<close>

lemma advise_fails_iff:
  "advise pf input = Inl e \<longleftrightarrow>
     (\<exists>t msg. ai_manifest input = Some t \<and> trim t \<noteq> [] \<and> parse_yaml pf t = Inl msg \<and> e = OtherError msg)"
proof -
  have "advise pf input = Inl e \<longleftrightarrow> manifest_doc pf (ai_manifest input) = Inl e"
    by (cases "manifest_doc pf (ai_manifest input)")
       (simp_all add: advise_def normalizeDesired_def split: sum.split)
  also have "\<dots> \<longleftrightarrow> (\<exists>t msg. ai_manifest input = Some t \<and> trim t \<noteq> [] \<and> parse_yaml pf t = Inl msg \<and> e = OtherError msg)"
  proof (cases "ai_manifest input")
    case (Some t)
    then show ?thesis
      by (cases "parse_yaml pf t"; cases "projr (parse_yaml pf t)") (auto simp: manifest_doc_def)
  qed (simp add: manifest_doc_def)
  finally show ?thesis .
qed

end
