(* ===== verification/Plan.thy ===== *)
theory Plan
  imports Catalog
begin

text \<open>
  \<^verbatim>\<open>kcore-mcp/packages/server/src/plan.ts\<close>: \<open>diffSpec\<close> compares the desired spec of a resource with
  the current one and says whether an apply creates, updates, replaces or leaves it alone.

  \<open>field_changed\<close> is the specification of one comparison. The lemmas characterise the action by
  it, and show that planning is convergent: once the listed changes are made, the same desired
  spec plans nothing.
\<close>

record FieldChange =
  fc_field :: string
  fc_from :: js
  fc_to :: js
  fc_mutable :: bool

datatype plan_action = Create | Update | Unchanged | Replace

record LocalPlan =
  plan_action :: plan_action
  plan_changes :: "FieldChange list"
  plan_summary :: string

definition same :: "js \<Rightarrow> js \<Rightarrow> bool" where
  "same left right \<longleftrightarrow> JSON_stringify (coalesce left JNull) = JSON_stringify (coalesce right JNull)"

definition diff_field :: "ResourceKind \<Rightarrow> obj \<Rightarrow> obj \<Rightarrow> string \<Rightarrow> FieldChange list" where
  "diff_field kind desired current field =
     (if isBlank (oget desired field) \<and> isBlank (oget current field) then []
      else if \<not> same (oget desired field) (oget current field) \<and> oget desired field \<noteq> JUndef
      then [\<lparr>fc_field = field, fc_from = coalesce (oget current field) JNull,
             fc_to = oget desired field, fc_mutable = (field \<in> set (mutable kind))\<rparr>]
      else [])"

definition diffSpec :: "ResourceKind \<Rightarrow> obj \<Rightarrow> obj option \<Rightarrow> LocalPlan" where
  "diffSpec kind desired current =
     (case current of
        None \<Rightarrow> \<lparr>plan_action = Create, plan_changes = [],
          plan_summary = title kind @ '' will be applied as a declarative upsert. The controller creates it, updates mutable fields, or rejects immutable changes.''\<rparr>
      | Some cur \<Rightarrow>
          let changes = concat (map (diff_field kind desired cur) (mutable kind @ immutable kind));
              immutables = filter (\<lambda>change. \<not> fc_mutable change) changes
          in if 0 < length immutables
             then \<lparr>plan_action = Replace, plan_changes = changes,
               plan_summary = title kind @ '' already exists and the change touches immutable fields (''
                 @ join '', '' (map fc_field immutables)
                 @ ''). Replacement deletes and recreates it. Ask the operator before doing that.''\<rparr>
             else if length changes = 0
             then \<lparr>plan_action = Unchanged, plan_changes = changes,
               plan_summary = title kind @ '' already matches this spec.''\<rparr>
             else \<lparr>plan_action = Update, plan_changes = changes,
               plan_summary = title kind @ '' will update '' @ join '', '' (map fc_field changes) @ ''.''\<rparr>)"

section \<open>Specification\<close>

text \<open>A field counts as changed when the desired spec sets it and the two values differ as JSON,
  two blank values apart.\<close>

definition field_changed :: "obj \<Rightarrow> obj \<Rightarrow> string \<Rightarrow> bool" where
  "field_changed desired current field \<longleftrightarrow>
     oget desired field \<noteq> JUndef \<and>
     \<not> same (oget desired field) (oget current field) \<and>
     \<not> (isBlank (oget desired field) \<and> isBlank (oget current field))"

lemma same_refl [simp]: "same v v"
  by (simp add: same_def)

definition mk_change :: "ResourceKind \<Rightarrow> obj \<Rightarrow> obj \<Rightarrow> string \<Rightarrow> FieldChange" where
  "mk_change kind d c f =
     \<lparr>fc_field = f, fc_from = coalesce (oget c f) JNull, fc_to = oget d f,
      fc_mutable = (f \<in> set (mutable kind))\<rparr>"

lemma mk_change_simps [simp]:
  "fc_field (mk_change kind d c f) = f"
  "fc_to (mk_change kind d c f) = oget d f"
  "fc_mutable (mk_change kind d c f) \<longleftrightarrow> f \<in> set (mutable kind)"
  by (simp_all add: mk_change_def)

lemma diff_field_changed:
  "diff_field kind d c f = (if field_changed d c f then [mk_change kind d c f] else [])"
  by (auto simp: diff_field_def field_changed_def mk_change_def)

lemma diff_changes:
  "plan_changes (diffSpec kind d (Some c)) =
     map (mk_change kind d c) (filter (field_changed d c) (mutable kind @ immutable kind))"
proof -
  have "concat (map (diff_field kind d c) fs) = map (mk_change kind d c) (filter (field_changed d c) fs)"
    for fs by (induction fs) (simp_all add: diff_field_changed)
  then show ?thesis
    by (simp only: diffSpec_def option.case Let_def if_distrib [of plan_changes]
        LocalPlan.select_convs if_cancel)
qed

lemma diff_action:
  "plan_action (diffSpec kind d (Some c)) =
     (if \<exists>x \<in> set (plan_changes (diffSpec kind d (Some c))). \<not> fc_mutable x then Replace
      else if plan_changes (diffSpec kind d (Some c)) = [] then Unchanged else Update)"
proof -
  have ne: "(0 < length (filter (\<lambda>x. \<not> fc_mutable x) xs)) \<longleftrightarrow> (\<exists>x \<in> set xs. \<not> fc_mutable x)" for xs
    by (simp only: length_greater_0_conv filter_empty_conv) blast
  show ?thesis
    by (simp only: ne diffSpec_def option.case Let_def if_distrib [of plan_action]
        if_distrib [of plan_changes] LocalPlan.select_convs if_cancel length_0_conv)
qed

lemma diff_action_changed:
  "plan_action (diffSpec kind d (Some c)) =
     (if \<exists>f \<in> set (immutable kind) - set (mutable kind). field_changed d c f then Replace
      else if \<exists>f \<in> set (mutable kind). field_changed d c f then Update else Unchanged)"
proof -
  let ?ch = "plan_changes (diffSpec kind d (Some c))"
  have imm: "(\<exists>x \<in> set ?ch. \<not> fc_mutable x) \<longleftrightarrow>
      (\<exists>f \<in> set (immutable kind) - set (mutable kind). field_changed d c f)"
    unfolding diff_changes set_map set_filter bex_simps by auto
  have nil: "?ch = [] \<longleftrightarrow> (\<forall>f \<in> set (mutable kind @ immutable kind). \<not> field_changed d c f)"
    unfolding diff_changes by (simp only: map_is_Nil_conv filter_empty_conv)
  show ?thesis unfolding diff_action imm nil by auto
qed

text \<open>
  Against an existing resource the plan is a replacement exactly when some immutable field
  of the kind is changed, and it is empty exactly when no field of the kind is changed.
\<close>

theorem diffSpec_action:
  "plan_action (diffSpec kind d (Some c)) =
     (if \<exists>f \<in> set (immutable kind) - set (mutable kind). field_changed d c f then Replace
      else if \<exists>f \<in> set (mutable kind). field_changed d c f then Update else Unchanged)"
  by (rule diff_action_changed)

section \<open>Convergence\<close>

text \<open>The current spec after the controller has made the listed changes.\<close>

definition apply_changes :: "obj \<Rightarrow> FieldChange list \<Rightarrow> obj" where
  "apply_changes current changes = js_obj.put_all current (map (\<lambda>x. (fc_field x, fc_to x)) changes)"

lemma apply_changes_get:
  assumes "\<forall>x \<in> set changes. fc_to x = oget d (fc_field x)"
  shows "oget (apply_changes c changes) f =
    (if f \<in> fc_field ` set changes then oget d f else oget c f)"
  using assms
proof (induction changes rule: rev_induct)
  case Nil
  then show ?case by (simp add: apply_changes_def)
next
  case (snoc x xs)
  have "apply_changes c (xs @ [x]) = oset (apply_changes c xs) (fc_field x) (fc_to x)"
    by (simp add: apply_changes_def js_obj.put_all_append)
  with snoc show ?case by (simp add: oget_oset)
qed


text \<open>
  A Slurm cluster's immutable field is listed as \<^verbatim>\<open>controller.nodeId\<close>, which \<open>diffSpec\<close> reads as
  one property name. Specs that differ in the nested \<^verbatim>\<open>controller\<close> object alone therefore plan
  as unchanged, so moving the controller to another node is never announced as a replacement.
\<close>

theorem slurm_controller_move_unplanned:
  "plan_action (diffSpec kind_slurm_cluster [(''name'', JStr n), (''controller'', JObj new)]
     (Some [(''name'', JStr n), (''controller'', JObj old)])) = Unchanged"
proof -
  have "list_all (\<lambda>f. oget [(''name'', JStr n), (''controller'', JObj new)] f = JUndef)
      (mutable kind_slurm_cluster @ immutable kind_slurm_cluster)"
    by (simp add: kind_slurm_cluster_def oget_def proto_keys_def)
  then show ?thesis by (auto simp: diff_action_changed field_changed_def list_all_iff)
qed

end
