(* ===== verification/Base64.thy ===== *)
theory Base64
  imports JsPrim
begin

text \<open>
  \<^verbatim>\<open>Buffer.toString("base64")\<close> and \<^verbatim>\<open>Buffer.from(text, "base64")\<close>. A buffer is the list of its bytes, as
  characters. The decoder is the lenient one of the platform: it accepts the URL-safe alphabet as
  well, skips every character outside the alphabet and stops at the first padding character. The
  lemmas show that decoding inverts encoding.
\<close>

section \<open>Six bits\<close>

definition alphabet :: string where
  "alphabet = ''ABCDEFGHIJKLMNOPQRSTUVWXYZabcdefghijklmnopqrstuvwxyz0123456789+/''"

type_synonym sextet = "bool list"

fun bits_nat :: "bool list \<Rightarrow> nat" where
  "bits_nat [] = 0"
| "bits_nat (b # bs) = (if b then 1 else 0) + 2 * bits_nat bs"

text \<open>Sextets and bytes are lists of bits, most significant first.\<close>

definition sym6 :: "sextet \<Rightarrow> char" where
  "sym6 bs = alphabet ! bits_nat (rev bs)"

definition nat_bits6 :: "nat \<Rightarrow> sextet" where
  "nat_bits6 n = [odd (n div 32), odd (n div 16), odd (n div 8), odd (n div 4), odd (n div 2), odd n]"

definition val6 :: "char \<Rightarrow> sextet option" where
  "val6 c =
     (if c = CHR ''-'' then Some (nat_bits6 62)
      else if c = CHR ''_'' then Some (nat_bits6 63)
      else map_option nat_bits6 (indexOf c alphabet))"

fun byte_bits :: "char \<Rightarrow> bool list" where
  "byte_bits (Char b0 b1 b2 b3 b4 b5 b6 b7) = [b7, b6, b5, b4, b3, b2, b1, b0]"

fun bits_byte :: "bool list \<Rightarrow> char" where
  "bits_byte [b7, b6, b5, b4, b3, b2, b1, b0] = Char b0 b1 b2 b3 b4 b5 b6 b7"
| "bits_byte _ = CHR 0x00"

section \<open>Encoding and decoding\<close>

fun enc_bits :: "bool list \<Rightarrow> string" where
  "enc_bits (a # b # c # d # e # f # rest) = sym6 [a, b, c, d, e, f] # enc_bits rest"
| "enc_bits [] = []"
| "enc_bits [a, b] = sym6 [a, b, False, False, False, False] # ''==''"
| "enc_bits [a, b, c, d] = sym6 [a, b, c, d, False, False] # ''=''"
| "enc_bits _ = []"

definition base64_encode :: "string \<Rightarrow> string" where
  "base64_encode bytes = enc_bits (concat (map byte_bits bytes))"

fun dec_bits :: "bool list \<Rightarrow> string" where
  "dec_bits (a # b # c # d # e # f # g # h # rest) = bits_byte [a, b, c, d, e, f, g, h] # dec_bits rest"
| "dec_bits _ = []"

definition base64_decode :: "string \<Rightarrow> string" where
  "base64_decode text =
     dec_bits (concat (List.map_filter val6 (takeWhile (\<lambda>c. c \<noteq> CHR ''='') text)))"

section \<open>Round trip\<close>

lemma sym6_val6:
  "list_all (\<lambda>bs. val6 (sym6 bs) = Some bs \<and> sym6 bs \<noteq> CHR ''='' \<and> \<not> is_ws (sym6 bs)) (List.n_lists 6 [False, True])"
  by code_simp

lemma sym6_inverse:
  assumes "length bs = 6"
  shows "val6 (sym6 bs) = Some bs" "sym6 bs \<noteq> CHR ''=''" "\<not> is_ws (sym6 bs)"
proof -
  have "bs \<in> set (List.n_lists 6 [False, True])"
    using assms by (simp add: set_n_lists) (metis (full_types) insertI1 insertI2 subsetI)
  then show "val6 (sym6 bs) = Some bs" "sym6 bs \<noteq> CHR ''=''" "\<not> is_ws (sym6 bs)"
    using sym6_val6 by (auto simp: list_all_iff)
qed

lemma byte_bits_inverse: "bits_byte (byte_bits c) = c" "length (byte_bits c) = 8"
  by (cases c; simp)+

definition symbols :: "string \<Rightarrow> bool list" where
  "symbols s = concat (List.map_filter val6 (takeWhile (\<lambda>c. c \<noteq> CHR ''='') s))"

lemma symbols_Cons: "length bs = 6 \<Longrightarrow> symbols (sym6 bs # s) = bs @ symbols s"
  by (simp add: symbols_def sym6_inverse List.map_filter_simps)

lemma symbols_pad: "symbols (CHR ''='' # s) = []"
  by (simp add: symbols_def List.map_filter_simps)

lemma symbols_Nil: "symbols [] = []"
  by (simp add: symbols_def List.map_filter_simps)

lemma symbols_enc: "even (length bs) \<Longrightarrow> \<exists>pad. symbols (enc_bits bs) = bs @ pad \<and> length pad < 8"
proof (induction bs rule: enc_bits.induct)
  case (1 a b c d e f rest)
  then obtain pad where "symbols (enc_bits rest) = rest @ pad" "length pad < 8" by auto
  then show ?case by (auto simp: symbols_Cons)
qed (auto simp: symbols_Cons symbols_pad symbols_Nil)

lemma dec_bits_bytes: "length pad < 8 \<Longrightarrow> dec_bits (concat (map byte_bits bytes) @ pad) = bytes"
proof (induction bytes)
  case Nil
  then show ?case by (cases pad rule: dec_bits.cases) auto
next
  case (Cons c bytes)
  obtain b0 b1 b2 b3 b4 b5 b6 b7 where "c = Char b0 b1 b2 b3 b4 b5 b6 b7" by (cases c)
  with Cons show ?case by simp
qed

lemma length_concat_bytes: "length (concat (map byte_bits bytes)) = 8 * length bytes"
  by (induction bytes) (simp_all add: byte_bits_inverse)

lemma base64_roundtrip: "base64_decode (base64_encode bytes) = bytes"
proof -
  have "even (length (concat (map byte_bits bytes)))" by (simp add: length_concat_bytes)
  then obtain pad where "symbols (base64_encode bytes) = concat (map byte_bits bytes) @ pad" "length pad < 8"
    unfolding base64_encode_def using symbols_enc by blast
  then show ?thesis
    unfolding base64_decode_def symbols_def [symmetric] by (simp add: dec_bits_bytes)
qed

lemma pad_not_ws: "\<not> is_ws CHR ''=''"
  by (simp add: is_ws_def)

lemma enc_bits_no_ws: "c \<in> set (enc_bits bs) \<Longrightarrow> \<not> is_ws c"
  by (induction bs rule: enc_bits.induct) (auto simp: sym6_inverse pad_not_ws)

lemma trim_base64 [simp]: "trim (base64_encode bytes) = base64_encode bytes"
  by (rule trim_no_ws) (auto simp: base64_encode_def list_all_iff dest: enc_bits_no_ws)

lemma base64_encode_Nil_iff: "base64_encode bytes = [] \<longleftrightarrow> bytes = []"
proof
  assume "base64_encode bytes = []"
  then show "bytes = []" using base64_roundtrip [of bytes] by (simp add: base64_decode_def List.map_filter_simps)
qed (simp add: base64_encode_def)

end
