(* ===== verification/Connection.thy ===== *)
theory Connection
  imports Platform Base64
begin

text \<open>
  \<^verbatim>\<open>kcore-mcp/packages/server/src/connection.ts\<close>: how a tool call finds the address, the TLS
  material and the token of the controller, the provisioning service and the vault. The context
  file is whatever the YAML parser returns, so every value read from it is a \<open>js\<close>; the options come
  from a validated tool input and are typed.

  The lemmas state the order in which the sources are consulted, that every resolved address is a
  validated one, and that a connection with TLS carries material read from the context.
\<close>

section \<open>Data\<close>

record ConnectionOptions =
  co_config :: "string option"
  co_controller :: "string option"
  co_insecure :: "bool option"
  co_tlsServerName :: "string option"
  co_operator :: "string option"
  co_timeoutMs :: "jsnum option"
  co_provisioning :: "string option"
  co_provisioningInsecure :: "bool option"
  co_token :: "string option"
  co_vault :: "string option"
  co_vaultInsecure :: "bool option"

definition no_options :: ConnectionOptions where
  "no_options =
     \<lparr>co_config = None, co_controller = None, co_insecure = None, co_tlsServerName = None,
      co_operator = None, co_timeoutMs = None, co_provisioning = None, co_provisioningInsecure = None,
      co_token = None, co_vault = None, co_vaultInsecure = None\<rparr>"

record ResolvedConnection =
  rc_address :: string
  rc_insecure :: js
  rc_tlsServerName :: "string option"
  rc_ca :: "string option"
  rc_cert :: "string option"
  rc_key :: "string option"
  rc_timeoutMs :: jsnum
  rc_authorization :: "string option"

section \<open>Reading strings\<close>

text \<open>\<^verbatim>\<open>s?.trim() || \<dots>\<close> on an optional string: a blank string counts as absent.\<close>

definition trimmed :: "string option \<Rightarrow> string option" where
  "trimmed s = (case s of None \<Rightarrow> None | Some t \<Rightarrow> if trim t = [] then None else Some (trim t))"

fun first_of :: "string option list \<Rightarrow> string option" where
  "first_of [] = None"
| "first_of (None # xs) = first_of xs"
| "first_of (Some x # xs) = Some x"

text \<open>\<^verbatim>\<open>v?.trim()\<close> on a value of the context file; \<open>what\<close> is how the engine prints the callee.\<close>

definition js_trim :: "string \<Rightarrow> js \<Rightarrow> string option res" where
  "js_trim what v =
     (if nullish v then Inr None
      else case v of JStr s \<Rightarrow> Inr (trimmed (Some s)) | _ \<Rightarrow> Inl (OtherError (what @ ''.trim is not a function'')))"

text \<open>\<^verbatim>\<open>a?.trim() || b?.trim()\<close> where \<open>a\<close> is typed: \<open>b\<close> is looked at only when \<open>a\<close> is blank.\<close>

definition or_trim :: "string option list \<Rightarrow> string \<Rightarrow> js \<Rightarrow> string option res" where
  "or_trim typed what v =
     (case first_of (map trimmed typed) of Some s \<Rightarrow> Inr (Some s) | None \<Rightarrow> js_trim what v)"

text \<open>Indexing a value with a computed key: arrays and strings have their elements.\<close>

definition jindex :: "js \<Rightarrow> string \<Rightarrow> js" where
  "jindex v k =
     (case v of
        JArr xs \<Rightarrow> if is_index k \<and> read_nat k < length xs then xs ! read_nat k else JUndef
      | JStr s \<Rightarrow> if is_index k \<and> read_nat k < length s then JStr [s ! read_nat k] else JUndef
      | _ \<Rightarrow> jget v k)"

definition js_or :: "js \<Rightarrow> js \<Rightarrow> js" where
  "js_or a b = (if truthy a then a else b)"

section \<open>The context file\<close>

definition configPath :: "platform \<Rightarrow> ConnectionOptions \<Rightarrow> string" where
  "configPath pf options =
     (case first_of [trimmed (co_config options), trimmed (getenv pf ''KCORE_CONFIG'')] of
        Some p \<Rightarrow> p
      | None \<Rightarrow> path_join [homedir pf, ''.kcore'', ''config''])"

definition could_not_read :: "string \<Rightarrow> string \<Rightarrow> err" where
  "could_not_read path msg = InputError (''could not read '' @ path @ '': '' @ msg)"

definition readContext :: "platform \<Rightarrow> string \<Rightarrow> obj option res" where
  "readContext pf path =
     (case read_file pf path of
        Inl e \<Rightarrow> if fs_code e = ''ENOENT'' then Inr None else Inl (could_not_read path (fs_message e))
      | Inr t \<Rightarrow>
          (case parse_yaml pf t of
             Inl msg \<Rightarrow> Inl (could_not_read path msg)
           | Inr (JObj ps) \<Rightarrow> Inr (Some ps)
           | Inr _ \<Rightarrow> Inr None))"

definition context_entry :: "obj option \<Rightarrow> js" where
  "context_entry file =
     (case file of
        None \<Rightarrow> JUndef
      | Some ps \<Rightarrow>
          if truthy (oget ps ''current-context'') \<and> truthy (oget ps ''contexts'')
          then jindex (oget ps ''contexts'') (js_string (oget ps ''current-context''))
          else JUndef)"

section \<open>TLS material\<close>

definition readRequired :: "platform \<Rightarrow> string \<Rightarrow> string \<Rightarrow> string res" where
  "readRequired pf path label =
     (case read_file pf path of
        Inl e \<Rightarrow> Inl (InputError (''could not read '' @ label @ '' at '' @ path @ '': '' @ fs_message e))
      | Inr t \<Rightarrow> Inr t)"

text \<open>\<^verbatim>\<open>v && v.trim()\<close> as a condition: the trimmed string where it counts, else nothing.\<close>

definition and_trim :: "string \<Rightarrow> js \<Rightarrow> string option res" where
  "and_trim what v = (if truthy v then js_trim what v else Inr None)"

definition pemBuffer :: "platform \<Rightarrow> js \<Rightarrow> js \<Rightarrow> string \<Rightarrow> string option res" where
  "pemBuffer pf inlined path label =
     ebind (and_trim ''inline'' inlined) (\<lambda>i.
     ebind (case i of
              Some t \<Rightarrow> Inr (Some (base64_decode t))
            | None \<Rightarrow> ebind (and_trim ''path'' path) (\<lambda>p.
                case p of Some f \<Rightarrow> ebind (readRequired pf f label) (\<lambda>b. Inr (Some b)) | None \<Rightarrow> Inr None)) (\<lambda>material.
     case material of
       None \<Rightarrow> Inr None
     | Some m \<Rightarrow>
         if \<not> includes_str m ''-----BEGIN''
         then Inl (InputError (label @ '' in the kcore context is not a PEM. cert-data, key-data, and ca-data must be base64-encoded PEM, the same encoding kctl writes.''))
         else Inr (Some m)))"

record material =
  m_ca :: "string option"
  m_cert :: "string option"
  m_key :: "string option"

definition loadMaterial :: "platform \<Rightarrow> js \<Rightarrow> string option \<Rightarrow> string \<Rightarrow> material res" where
  "loadMaterial pf entry operator cfg =
     (if \<not> truthy entry \<and> operator = None
      then Inl (InputError (''No client certificate in '' @ cfg @ ''. The MCP dials the controller with the CA, client certificate, and key stored in that context.''))
      else
      ebind (if truthy entry then pemBuffer pf (jget entry ''ca-data'') (jget entry ''ca'') ''CA'' else Inr None) (\<lambda>ca.
      case operator of
        Some op \<Rightarrow>
          if truthy (jget entry ''cert-data'') \<or> truthy (jget entry ''key-data'')
          then Inl (InputError ''An operator identity cannot be combined with inline cert-data or key-data.'')
          else
          ebind (assertName op ''operator'') (\<lambda>name.
          let dir = path_join [homedir pf, ''.kcore'', ''operators'', name] in
          ebind (readRequired pf (path_join [dir, ''operator.crt'']) ''operator certificate'') (\<lambda>cert.
          ebind (readRequired pf (path_join [dir, ''operator.key'']) ''operator key'') (\<lambda>key.
          Inr \<lparr>m_ca = ca, m_cert = Some cert, m_key = Some key\<rparr>)))
      | None \<Rightarrow>
          ebind (pemBuffer pf (jget entry ''cert-data'') (jget entry ''cert'') ''client certificate'') (\<lambda>cert.
          ebind (pemBuffer pf (jget entry ''key-data'') (jget entry ''key'') ''client key'') (\<lambda>key.
          Inr \<lparr>m_ca = ca, m_cert = cert, m_key = key\<rparr>))))"

section \<open>Resolving a connection\<close>

definition DEFAULT_TIMEOUT :: jsnum where
  "DEFAULT_TIMEOUT = Fin 120000"

definition timeout_of :: "ConnectionOptions \<Rightarrow> jsnum" where
  "timeout_of options = (case co_timeoutMs options of Some t \<Rightarrow> t | None \<Rightarrow> DEFAULT_TIMEOUT)"

text \<open>\<^verbatim>\<open>assertAddress\<close> of a value that may not be a string.\<close>

definition js_address :: "js \<Rightarrow> string \<Rightarrow> string res" where
  "js_address v label =
     (case v of JStr s \<Rightarrow> assertAddress s label | _ \<Rightarrow> Inl (OtherError ''value.trim is not a function''))"

definition controller_address :: "ConnectionOptions \<Rightarrow> js \<Rightarrow> js" where
  "controller_address options entry =
     (case trimmed (co_controller options) of
        Some a \<Rightarrow> JStr a
      | None \<Rightarrow> js_or (js_or (jget entry ''controller'') (jindex (jget entry ''controllers'') ''0'')) (JStr []))"

definition insecure_of :: "ConnectionOptions \<Rightarrow> js \<Rightarrow> js" where
  "insecure_of options entry =
     (case co_insecure options of
        Some b \<Rightarrow> JBool b
      | None \<Rightarrow> coalesce (jget entry ''insecure'') (JBool False))"

definition resolveConnection :: "platform \<Rightarrow> ConnectionOptions \<Rightarrow> ResolvedConnection res" where
  "resolveConnection pf options =
     ebind (readContext pf (configPath pf options)) (\<lambda>file.
     let entry = context_entry file;
         address = controller_address options entry;
         insecure = insecure_of options entry
     in
     if \<not> truthy address
     then Inl (InputError (''No controller address. Set connection.controller or add a current context to '' @ configPath pf options @ ''.''))
     else
     ebind (or_trim [co_tlsServerName options] ''entry?.tls-server-name?'' (jget entry ''tls-server-name'')) (\<lambda>tlsServerName.
     ebind (or_trim [co_operator options] ''entry?.operator?'' (jget entry ''operator'')) (\<lambda>operator.
     ebind (if truthy insecure then Inr \<lparr>m_ca = None, m_cert = None, m_key = None\<rparr>
            else loadMaterial pf entry operator (configPath pf options)) (\<lambda>material.
     ebind (js_address address ''controller'') (\<lambda>checked.
     ebind (case tlsServerName of Some n \<Rightarrow> ebind (assertArg n ''tls server name'') (\<lambda>a. Inr (Some a)) | None \<Rightarrow> Inr None) (\<lambda>sni.
     Inr \<lparr>rc_address = checked, rc_insecure = insecure, rc_tlsServerName = sni,
          rc_ca = m_ca material, rc_cert = m_cert material, rc_key = m_key material,
          rc_timeoutMs = timeout_of options, rc_authorization = None\<rparr>))))))"

text \<open>\<^verbatim>\<open>/^bearer\s+/i\<close>\<close>

definition has_bearer :: "string \<Rightarrow> bool" where
  "has_bearer t \<longleftrightarrow> toLowerCase (take 6 t) = ''bearer'' \<and> (case drop 6 t of [] \<Rightarrow> False | c # _ \<Rightarrow> is_ws c)"

definition bearer :: "string option \<Rightarrow> string option" where
  "bearer token =
     (case token of
        None \<Rightarrow> None
      | Some t \<Rightarrow> if t = [] then None else Some (if has_bearer t then t else ''Bearer '' @ t))"

definition plain_connection :: "string \<Rightarrow> jsnum \<Rightarrow> string option \<Rightarrow> ResolvedConnection" where
  "plain_connection address timeout auth =
     \<lparr>rc_address = address, rc_insecure = JBool True, rc_tlsServerName = None, rc_ca = None, rc_cert = None,
      rc_key = None, rc_timeoutMs = timeout, rc_authorization = auth\<rparr>"

definition tls_connection :: "platform \<Rightarrow> ConnectionOptions \<Rightarrow> string \<Rightarrow> string option \<Rightarrow> ResolvedConnection res" where
  "tls_connection pf options checked auth =
     ebind (resolveConnection pf options) (\<lambda>base.
     Inr (base\<lparr>rc_address := checked, rc_insecure := JBool False, rc_timeoutMs := timeout_of options,
               rc_authorization := auth\<rparr>))"

definition resolveProvisioning :: "platform \<Rightarrow> ConnectionOptions \<Rightarrow> ResolvedConnection res" where
  "resolveProvisioning pf options =
     ebind (readContext pf (configPath pf options)) (\<lambda>file.
     let entry = context_entry file in
     ebind (or_trim [co_provisioning options, getenv pf ''KCORE_PROVISIONING''] ''entry?.provisioning?'' (jget entry ''provisioning'')) (\<lambda>address.
     case address of
       None \<Rightarrow> Inl (InputError ''No provisioning controller address. Set connection.provisioning or KCORE_PROVISIONING to host:port.'')
     | Some a \<Rightarrow>
         ebind (assertAddress a ''provisioning'') (\<lambda>checked.
         ebind (or_trim [co_token options, getenv pf ''KCORE_PROVISIONING_TOKEN''] ''entry?.token?'' (jget entry ''token'')) (\<lambda>token.
         if co_provisioningInsecure options = Some False then tls_connection pf options checked (bearer token)
         else Inr (plain_connection checked (timeout_of options) (bearer token))))))"

text \<open>\<^verbatim>\<open>raw.replace(/^https?:\/\//, "")\<close>\<close>

definition strip_scheme :: "string \<Rightarrow> string" where
  "strip_scheme s =
     (if startsWith s ''http://'' then drop 7 s else if startsWith s ''https://'' then drop 8 s else s)"

definition resolveVault :: "platform \<Rightarrow> ConnectionOptions \<Rightarrow> ResolvedConnection res" where
  "resolveVault pf options =
     ebind (readContext pf (configPath pf options)) (\<lambda>file.
     let entry = context_entry file in
     ebind (or_trim [co_vault options, getenv pf ''KCORE_VAULT_ENDPOINT''] ''entry?.vault?'' (jget entry ''vault'')) (\<lambda>found.
     let raw = (case found of Some r \<Rightarrow> r | None \<Rightarrow> ''127.0.0.1:9191'') in
     ebind (assertAddress (strip_scheme raw) ''vault'') (\<lambda>checked.
     ebind (or_trim [co_token options, getenv pf ''KCORE_VAULT_TOKEN''] ''entry?.token?'' (jget entry ''token'')) (\<lambda>token.
     let insecure = (case co_vaultInsecure options of Some b \<Rightarrow> b | None \<Rightarrow> getenv pf ''KCORE_VAULT_TLS'' \<noteq> Some ''1'') in
     if \<not> insecure then tls_connection pf options checked (bearer token)
     else Inr (plain_connection checked (timeout_of options) (bearer token))))))"

section \<open>What a resolved connection guarantees\<close>

lemma trimmed_Some: "trimmed s = Some t \<longleftrightarrow> (\<exists>r. s = Some r \<and> t = trim r \<and> t \<noteq> [])"
  by (auto simp: trimmed_def split: option.splits if_splits)

lemma js_address_ok: "js_address v l = Inr a \<Longrightarrow> address_ok a"
  by (auto simp: js_address_def split: js.splits dest: address_check.check_InrD)

lemma resolveConnection_parts:
  assumes "resolveConnection pf options = Inr c"
  obtains ctx operator m where "readContext pf (configPath pf options) = Inr ctx"
    and "or_trim [co_operator options] ''entry?.operator?'' (jget (context_entry ctx) ''operator'') = Inr operator"
    and "js_address (controller_address options (context_entry ctx)) ''controller'' = Inr (rc_address c)"
    and "rc_insecure c = insecure_of options (context_entry ctx)"
    and "(if truthy (rc_insecure c) then Inr \<lparr>m_ca = None, m_cert = None, m_key = None\<rparr>
          else loadMaterial pf (context_entry ctx) operator (configPath pf options)) = Inr m"
    and "rc_ca c = m_ca m" "rc_cert c = m_cert m" "rc_key c = m_key m"
    and "rc_timeoutMs c = timeout_of options" "rc_authorization c = None"
proof -
  obtain ctx operator m checked sni where r:
      "readContext pf (configPath pf options) = Inr ctx"
      "or_trim [co_operator options] ''entry?.operator?'' (jget (context_entry ctx) ''operator'') = Inr operator"
      "(if truthy (insecure_of options (context_entry ctx)) then Inr \<lparr>m_ca = None, m_cert = None, m_key = None\<rparr>
        else loadMaterial pf (context_entry ctx) operator (configPath pf options)) = Inr m"
      "js_address (controller_address options (context_entry ctx)) ''controller'' = Inr checked"
      "Inr \<lparr>rc_address = checked, rc_insecure = insecure_of options (context_entry ctx), rc_tlsServerName = sni,
          rc_ca = m_ca m, rc_cert = m_cert m, rc_key = m_key m,
          rc_timeoutMs = timeout_of options, rc_authorization = None\<rparr> = Inr c"
    using assms unfolding resolveConnection_def Let_def ebind_Inr_iff if_Inl_Inr_iff by blast
  from r(5) have c: "c = \<lparr>rc_address = checked, rc_insecure = insecure_of options (context_entry ctx),
      rc_tlsServerName = sni, rc_ca = m_ca m, rc_cert = m_cert m, rc_key = m_key m,
      rc_timeoutMs = timeout_of options, rc_authorization = None\<rparr>" by simp
  show thesis
    by (rule that [OF r(1,2)]) (simp_all add: c r(3,4) del: if_split)
qed

lemma tls_connection_parts:
  assumes "tls_connection pf options checked auth = Inr c"
  shows "rc_address c = checked" "rc_insecure c = JBool False" "rc_authorization c = auth"
  using assms by (auto simp: tls_connection_def ebind_Inr_iff)

lemma tls_connection_ok: "address_ok a \<Longrightarrow> on_ok (\<lambda>c. address_ok (rc_address c)) (tls_connection pf options a auth)"
  unfolding tls_connection_def by (intro ok_intros) simp

lemma plain_connection_address [simp]: "rc_address (plain_connection a t auth) = a"
  by (simp add: plain_connection_def)

lemma resolveProvisioning_address: "on_ok (\<lambda>c. address_ok (rc_address c)) (resolveProvisioning pf options)"
  unfolding resolveProvisioning_def Let_def
  by (intro ok_intros tls_connection_ok; simp add: address_check.check_iff)

lemma resolveVault_address: "on_ok (\<lambda>c. address_ok (rc_address c)) (resolveVault pf options)"
  unfolding resolveVault_def Let_def
  by (intro ok_intros tls_connection_ok; simp add: address_check.check_iff)

lemma resolveConnection_address: "resolveConnection pf options = Inr c \<Longrightarrow> address_ok (rc_address c)"
  by (erule resolveConnection_parts) (rule js_address_ok)

text \<open>
  C30: whatever is dialled, the controller, the provisioning service or the vault, its address has
  passed the validator, and a nonblank controller option is the address used.
\<close>

theorem resolved_address_valid:
  assumes "resolveConnection pf options = Inr c \<or> resolveProvisioning pf options = Inr c \<or> resolveVault pf options = Inr c"
  shows "address_ok (rc_address c) \<and>
    (resolveConnection pf options = Inr c \<and> trimmed (co_controller options) = Some a \<longrightarrow> rc_address c = a)"
proof
  show "address_ok (rc_address c)"
    using assms resolveConnection_address resolveProvisioning_address resolveVault_address by (blast dest: on_okD)
  show "resolveConnection pf options = Inr c \<and> trimmed (co_controller options) = Some a \<longrightarrow> rc_address c = a"
  proof (intro impI, elim conjE)
    assume "resolveConnection pf options = Inr c" and a: "trimmed (co_controller options) = Some a"
    then obtain ctx where "js_address (controller_address options (context_entry ctx)) ''controller'' = Inr (rc_address c)"
      by (blast elim: resolveConnection_parts)
    with a have "assertAddress a ''controller'' = Inr (rc_address c)"
      by (simp add: controller_address_def js_address_def)
    then have "rc_address c = trim a" using address_check.check_InrD by blast
    with a show "rc_address c = a" by (auto simp: trimmed_Some)
  qed
qed

definition dial_options :: ConnectionOptions where
  "dial_options = no_options\<lparr>co_controller := Some ''10.0.0.1:9090'', co_insecure := Some True\<rparr>"

theorem resolved_address_valid_witness:
  "\<exists>c. resolveConnection bare_platform dial_options = Inr c \<and> rc_address c = ''10.0.0.1:9090''"
proof -
  have "is_ok (resolveConnection bare_platform dial_options)" by code_simp
  then obtain c where c: "resolveConnection bare_platform dial_options = Inr c" by (auto simp: is_ok_iff)
  have t: "trimmed (co_controller dial_options) = Some ''10.0.0.1:9090''" by code_simp
  show ?thesis using resolved_address_valid [of bare_platform dial_options c "''10.0.0.1:9090''"] c t by blast
qed

definition is_pem :: "string \<Rightarrow> bool" where
  "is_pem m = includes_str m ''-----BEGIN''"

lemma pemBuffer_pem: "pemBuffer pf i p l = Inr (Some m) \<Longrightarrow> is_pem m"
  by (auto simp: pemBuffer_def ebind_Inr_iff is_pem_def split: option.splits if_splits)

lemma loadMaterial_pem:
  "on_ok (\<lambda>m. (\<forall>a. m_ca m = Some a \<longrightarrow> is_pem a) \<and>
     (operator = None \<longrightarrow> (\<forall>a. m_cert m = Some a \<or> m_key m = Some a \<longrightarrow> is_pem a)))
   (loadMaterial pf entry operator cfg)"
  unfolding loadMaterial_def Let_def
  by (intro ok_intros) (auto dest: pemBuffer_pem split: if_splits)



lemma has_bearer_Bearer: "has_bearer (''Bearer '' @ t)"
  by (simp add: has_bearer_def char_eval)

text \<open>
  The authorization header of a nonblank token carries the scheme exactly once: it is the token
  where that already has the scheme and the token behind the scheme otherwise, and building the
  header from a header changes nothing.
\<close>

lemma bearer_once:
  "bearer (bearer t) = bearer t \<and>
   (case bearer t of None \<Rightarrow> t = None \<or> t = Some [] | Some h \<Rightarrow> has_bearer h \<and> (h = the t \<or> h = ''Bearer '' @ the t))"
  using has_bearer_Bearer by (auto simp: bearer_def has_bearer_def split: option.splits)

end
