(* ===== verification/Grpc.thy ===== *)
theory Grpc
  imports Connection Rpc
begin

text \<open>
  \<^verbatim>\<open>kcore-mcp/packages/server/src/grpc.ts\<close>: dialling a service and redacting what comes back.

  An event is what the server does to the outside world: one RPC, one question to the operator, or
  one change of a file. The remote parties are the parameters of a \<open>world\<close>: what an RPC, an
  elicitation or a file operation answers may depend on everything that happened before. Keepalive
  and the deadline are options of the call; their effect in time is not modelled.

  The lemmas show that a call dials with the credentials of the resolved connection or not at
  all, and that redaction is idempotent and leaves no secret string behind.
\<close>

section \<open>Events and the outside world\<close>

datatype creds = Plaintext | MutualTls (tls_ca: string) (tls_key: string) (tls_cert: string)

record rpc_event =
  re_service :: string
  re_address :: string
  re_creds :: creds
  re_options :: obj
  re_authorization :: "string option"
  re_timeout :: jsnum
  re_method :: string
  re_request :: obj

datatype file_op =
    Mkdir string nat
  | WriteFile string string nat
  | Chmod string nat
  | Rename string string

datatype event = RpcEvent rpc_event | ElicitEvent string obj | FileEvent file_op

datatype rpc_reply = Reply js | Fault (fault_details: string) (fault_message: string)

text \<open>The client's answer to an elicitation: an action and, where accepted, the content; \<open>None\<close> where the
  request fails or its result does not have that shape.\<close>

type_synonym elicit_reply = "(string \<times> obj option) option"

record world =
  w_platform :: platform
  w_client_method :: "string \<Rightarrow> string \<Rightarrow> bool"
  w_rpc :: "event list \<Rightarrow> rpc_event \<Rightarrow> rpc_reply"
  w_elicit :: "event list \<Rightarrow> string \<Rightarrow> obj \<Rightarrow> elicit_reply"
  w_fs :: "event list \<Rightarrow> file_op \<Rightarrow> fs_error option"

section \<open>Calling a service\<close>

definition credentials :: "ResolvedConnection \<Rightarrow> creds res" where
  "credentials conn =
     (if truthy (rc_insecure conn) then Inr Plaintext
      else case (rc_ca conn, rc_cert conn, rc_key conn) of
             (Some ca, Some cert, Some key) \<Rightarrow> Inr (MutualTls ca key cert)
           | _ \<Rightarrow> Inl (InputError ''Controller mTLS needs a CA, client certificate, and client key in the kcore context.''))"

definition channelOptions :: "ResolvedConnection \<Rightarrow> obj" where
  "channelOptions conn =
     (''grpc.keepalive_time_ms'', JInt 30000) #
     (case rc_tlsServerName conn of
        Some n \<Rightarrow> if n = [] then [] else [(''grpc.ssl_target_name_override'', JStr n)]
      | None \<Rightarrow> [])"

text \<open>\<^verbatim>\<open>/authentication required|no authentication provided/i\<close>\<close>

definition wants_token :: "string \<Rightarrow> bool" where
  "wants_token detail \<longleftrightarrow>
     includes_str (toLowerCase detail) ''authentication required'' \<or>
     includes_str (toLowerCase detail) ''no authentication provided''"

definition reply_of :: "ResolvedConnection \<Rightarrow> rpc_reply \<Rightarrow> js res" where
  "reply_of conn r =
     (case r of
        Reply v \<Rightarrow> Inr v
      | Fault details message \<Rightarrow>
          let detail = (if details \<noteq> [] then details else message) in
          Inl (OtherError
            (if wants_token detail \<and> rc_authorization conn = None
             then detail @ ''. Set connection.token, or KCORE_PROVISIONING_TOKEN / KCORE_VAULT_TOKEN.''
             else detail)))"

definition io_rpc :: "world \<Rightarrow> ResolvedConnection \<Rightarrow> rpc_event \<Rightarrow> (event, js) io" where
  "io_rpc w conn e = io_event (\<lambda>tr _. reply_of conn (w_rpc w tr e)) (RpcEvent e)"

definition callService ::
  "world \<Rightarrow> string \<Rightarrow> ResolvedConnection \<Rightarrow> string \<Rightarrow> obj \<Rightarrow> (event, js) io" where
  "callService w service conn method request =
     io_bind (io_lift (credentials conn)) (\<lambda>c.
     if \<not> w_client_method w service method
     then io_throw (InputError (''The gRPC API has no '' @ method @ '' method.''))
     else io_rpc w conn
       \<lparr>re_service = service, re_address = rc_address conn, re_creds = c, re_options = channelOptions conn,
        re_authorization = (case rc_authorization conn of Some a \<Rightarrow> if a = [] then None else Some a | None \<Rightarrow> None),
        re_timeout = rc_timeoutMs conn, re_method = method, re_request = request\<rparr>)"

definition resolve_for :: "platform \<Rightarrow> string \<Rightarrow> string option \<Rightarrow> ConnectionOptions \<Rightarrow> ResolvedConnection res" where
  "resolve_for pf service address options =
     (if service = ''provisioning'' then resolveProvisioning pf options
      else if service = ''vault'' \<or> service = ''vault-mover'' \<or> service = ''vault-install'' then resolveVault pf options
      else resolveConnection pf
        (case address of Some a \<Rightarrow> if a = [] then options else options\<lparr>co_controller := Some a\<rparr> | None \<Rightarrow> options))"

definition callApi ::
  "world \<Rightarrow> string \<Rightarrow> string option \<Rightarrow> ConnectionOptions \<Rightarrow> string \<Rightarrow> obj \<Rightarrow> (event, js) io" where
  "callApi w service address options method request =
     io_bind (io_lift (resolve_for (w_platform w) service address options)) (\<lambda>conn.
     callService w service conn method request)"

definition callController :: "world \<Rightarrow> ConnectionOptions \<Rightarrow> string \<Rightarrow> obj \<Rightarrow> (event, js) io" where
  "callController w options method request = callApi w ''controller'' None options method request"

definition callNode :: "world \<Rightarrow> string \<Rightarrow> ConnectionOptions \<Rightarrow> string \<Rightarrow> obj \<Rightarrow> (event, js) io" where
  "callNode w address options method request = callApi w ''node-admin'' (Some address) options method request"

definition callNodeCompute :: "world \<Rightarrow> string \<Rightarrow> ConnectionOptions \<Rightarrow> string \<Rightarrow> obj \<Rightarrow> (event, js) io" where
  "callNodeCompute w address options method request = callApi w ''node-compute'' (Some address) options method request"

section \<open>Redaction\<close>

text \<open>\<^verbatim>\<open>a.?b\<close>: \<open>a\<close>, at most one character that is no line terminator, and \<open>b\<close>, anywhere in the string.\<close>

definition gap_at :: "string \<Rightarrow> string \<Rightarrow> string \<Rightarrow> bool" where
  "gap_at a b t \<longleftrightarrow>
     startsWith t a \<and>
     (let r = drop (length a) t in
      startsWith r b \<or> (case r of [] \<Rightarrow> False | c # cs \<Rightarrow> c \<noteq> CHR 0x0A \<and> c \<noteq> CHR 0x0D \<and> startsWith cs b))"

fun has_gap :: "string \<Rightarrow> string \<Rightarrow> string \<Rightarrow> bool" where
  "has_gap a b [] = gap_at a b []"
| "has_gap a b (c # cs) = (gap_at a b (c # cs) \<or> has_gap a b cs)"

definition secret_key :: "string \<Rightarrow> bool" where
  "secret_key key \<longleftrightarrow>
     (let k = toLowerCase key in
      has_gap ''key'' ''pem'' k \<or> has_gap ''private'' ''key'' k \<or>
      includes_str k ''password'' \<or> includes_str k ''secret'' \<or> includes_str k ''token'' \<or>
      includes_str k ''authorization'')"

fun nonempty_str :: "js \<Rightarrow> bool" where
  "nonempty_str (JStr s) = (s \<noteq> [])"
| "nonempty_str _ = False"

text \<open>Assigning the key \<^verbatim>\<open>__proto__\<close> of the fresh object sets its prototype and adds no property.\<close>

fun redact :: "js \<Rightarrow> js" where
  "redact (JArr xs) = JArr (map redact xs)"
| "redact (JObj ps) =
     JObj (map (\<lambda>p. (fst p, if nonempty_str (snd p) \<and> secret_key (fst p) then JStr ''[redacted]'' else redact (snd p)))
       (filter (\<lambda>p. fst p \<noteq> ''__proto__'') ps))"
| "redact v = v"

section \<open>What a call dials with\<close>

lemma credentials_cases:
  "credentials conn = Inr c \<Longrightarrow>
     (truthy (rc_insecure conn) \<and> c = Plaintext) \<or>
     (\<not> truthy (rc_insecure conn) \<and>
      (\<exists>ca cert key. rc_ca conn = Some ca \<and> rc_cert conn = Some cert \<and> rc_key conn = Some key \<and> c = MutualTls ca key cert))"
  by (auto simp: credentials_def split: if_splits option.splits)

definition is_rpc :: "(rpc_event \<Rightarrow> bool) \<Rightarrow> event \<Rightarrow> bool" where
  "is_rpc P e = (case e of RpcEvent r \<Rightarrow> P r | _ \<Rightarrow> False)"

lemma emits_rpc [emits_intros]: "P (RpcEvent e) \<Longrightarrow> emits P (io_rpc w conn e)"
  unfolding io_rpc_def by (rule emits_event)

lemma emits_lift_bind:
  assumes "\<And>x. r = Inr x \<Longrightarrow> emits P (f x)"
  shows "emits P (io_bind (io_lift r) f)"
  using assms by (cases r) (auto intro: emits_intros)

definition dials :: "platform \<Rightarrow> string \<Rightarrow> string option \<Rightarrow> ConnectionOptions \<Rightarrow> string \<Rightarrow> obj \<Rightarrow> rpc_event \<Rightarrow> bool" where
  "dials pf service address options method request e \<longleftrightarrow>
     re_service e = service \<and> re_method e = method \<and> re_request e = request \<and>
     (\<exists>conn. resolve_for pf service address options = Inr conn \<and> re_address e = rc_address conn \<and>
        credentials conn = Inr (re_creds e) \<and> re_timeout e = rc_timeoutMs conn)"

lemma emits_callApi:
  "emits (is_rpc (dials (w_platform w) service address options method request))
     (callApi w service address options method request)"
  unfolding callApi_def callService_def
  by (intro emits_lift_bind emits_intros) (auto simp: is_rpc_def dials_def intro: emits_intros)

lemma emits_callApi_if:
  "(\<And>e. dials (w_platform w) service address options method request e \<Longrightarrow> P (RpcEvent e)) \<Longrightarrow>
   emits P (callApi w service address options method request)"
  by (rule emits_mono [OF emits_callApi]) (auto simp: is_rpc_def split: event.splits)

section \<open>What redaction leaves\<close>

text \<open>A string under a secret key, in an object at any depth.\<close>

fun leaks :: "js \<Rightarrow> bool" where
  "leaks (JArr xs) = list_ex leaks xs"
| "leaks (JObj ps) =
     list_ex (\<lambda>p. (nonempty_str (snd p) \<and> secret_key (fst p) \<and> snd p \<noteq> JStr ''[redacted]'') \<or> leaks (snd p)) ps"
| "leaks _ = False"

lemma nonempty_redact [simp]: "nonempty_str (redact v) = nonempty_str v"
  by (cases v) simp_all

lemma leaks_redact: "\<not> leaks (redact v)"
  by (induction v rule: redact.induct) (auto simp: list_ex_iff)

lemma redact_redact: "redact (redact v) = redact v"
  by (induction v rule: redact.induct) auto

text \<open>Nothing else changes: a value without a leak and without the one special key is its own redaction.\<close>

fun plain_keys :: "js \<Rightarrow> bool" where
  "plain_keys (JArr xs) = list_all plain_keys xs"
| "plain_keys (JObj ps) = list_all (\<lambda>p. fst p \<noteq> ''__proto__'' \<and> plain_keys (snd p)) ps"
| "plain_keys _ = True"

lemma redact_id: "\<not> leaks v \<Longrightarrow> plain_keys v \<Longrightarrow> redact v = v"
proof (induction v rule: redact.induct)
  case (1 xs)
  then show ?case by (auto simp: list_ex_iff list_all_iff intro: map_idI)
next
  case (2 ps)
  have "filter (\<lambda>p. fst p \<noteq> ''__proto__'') ps = ps"
    using 2 by (auto simp: list_all_iff)
  then show ?case using 2 by (auto simp: list_ex_iff list_all_iff intro!: map_idI)
qed simp_all



text \<open>
  A list of strings under a secret key is printed as it is: only strings that are themselves
  the value of the key are hidden.
\<close>

theorem redact_keeps_secret_lists:
  "secret_key ''tokens'' \<and> redact (JObj [(''tokens'', JArr (map JStr ts))]) = JObj [(''tokens'', JArr (map JStr ts))]"
proof
  show "secret_key ''tokens''" by code_simp
  show "redact (JObj [(''tokens'', JArr (map JStr ts))]) = JObj [(''tokens'', JArr (map JStr ts))]"
    by (simp add: o_def)
qed

section \<open>One call, one dial\<close>

lemma resolve_for_address: "resolve_for pf service address options = Inr conn \<Longrightarrow> address_ok (rc_address conn)"
  using resolveConnection_address on_okD [OF resolveProvisioning_address] on_okD [OF resolveVault_address]
  by (auto simp: resolve_for_def split: if_splits option.splits)


definition silent_world :: world where
  "silent_world =
     \<lparr>w_platform = bare_platform, w_client_method = (\<lambda>_ _. True), w_rpc = (\<lambda>_ _. Reply (JObj [])),
      w_elicit = (\<lambda>_ _ _. None), w_fs = (\<lambda>_ _. None)\<rparr>"


end
