(* ===== verification/Vault.thy ===== *)
theory Vault
  imports Grpc
begin

text \<open>
  \<^verbatim>\<open>kcore-mcp/packages/server/src/vault.ts\<close>: the documents and jobs of the backup vault, sent to the
  vault coordinator. A document is whatever the YAML parser returned, so it is a \<open>js\<close>.
  The lemmas say which methods each entry point can call.
\<close>

section \<open>Addresses and confirmation\<close>

definition vaultAddress :: "platform \<Rightarrow> string option \<Rightarrow> string" where
  "vaultAddress pf explicit =
     (let given = (case explicit of Some s \<Rightarrow> if s = [] then None else Some s | None \<Rightarrow> None);
          env = (case getenv pf ''KCORE_VAULT_ENDPOINT'' of Some s \<Rightarrow> if s = [] then None else Some s | None \<Rightarrow> None);
          raw = (case first_of [given, env] of Some s \<Rightarrow> s | None \<Rightarrow> ''127.0.0.1:9191'')
      in strip_scheme (trim raw))"

definition unconfirmed :: "bool option \<Rightarrow> string option" where
  "unconfirmed confirm = (if confirm = Some True then None else Some ''confirm must be true'')"

definition vault_call :: "world \<Rightarrow> string \<Rightarrow> string \<Rightarrow> obj \<Rightarrow> (event, js) io" where
  "vault_call w address method request =
     callApi w ''vault'' None (no_options\<lparr>co_vault := Some address\<rparr>) method request"

definition documents :: "platform \<Rightarrow> string \<Rightarrow> js list" where
  "documents pf yaml = filter is_object (parse_yaml_all pf yaml)"

section \<open>Documents\<close>

definition num_or_zero :: "jsnum \<Rightarrow> jsnum" where
  "num_or_zero n = (if n = NaN \<or> n = Fin 0 then Fin 0 else n)"

definition keep_num :: "js \<Rightarrow> js \<Rightarrow> string \<Rightarrow> js" where
  "keep_num keep spec key =
     JNum (num_or_zero (js_number
       (coalesce (jget keep key) (coalesce (jget spec (''keep_'' @ key)) (JInt 0)))))"

definition keepOf :: "js \<Rightarrow> obj" where
  "keepOf spec =
     (let keep = coalesce (jget spec ''keep'') (JObj []) in
      map (\<lambda>key. (key, keep_num keep spec key)) [''hourly'', ''daily'', ''weekly'', ''monthly'', ''yearly''])"

definition asStrings :: "js \<Rightarrow> string list" where
  "asStrings v =
     (case v of
        JArr xs \<Rightarrow> map js_string xs
      | JStr s \<Rightarrow> if trim s \<noteq> [] then [trim s] else []
      | _ \<Rightarrow> [])"

text \<open>\<^verbatim>\<open>String(spec.key ?? d)\<close>\<close>

definition text_of :: "js \<Rightarrow> string \<Rightarrow> string \<Rightarrow> js" where
  "text_of spec key d = JStr (js_string (coalesce (jget spec key) (JStr d)))"

definition target_message :: "js \<Rightarrow> obj" where
  "target_message spec =
     [(''target'', JObj
        [(''name'', text_of spec ''name'' []),
         (''backend'', text_of spec ''backend'' ''fs''),
         (''location'', text_of spec ''location'' []),
         (''disableObjectLock'', JBool (truthy (jget spec ''disable_object_lock'')))])]"

definition policy_message :: "js \<Rightarrow> obj" where
  "policy_message spec =
     (let keep = keepOf spec;
          names = asStrings (jget spec ''target'') @ asStrings (jget spec ''targets'') @ asStrings (jget spec ''secondary'')
      in
      [(''policy'', JObj
         [(''name'', text_of spec ''name'' []),
          (''schedule'', text_of spec ''schedule'' ''@daily''),
          (''consistency'', JStr ''CONSISTENCY_LEVEL_FS''),
          (''selectorVmNames'', JArr (map JStr (asStrings (jget spec ''vms'')))),
          (''targets'', JArr (map (\<lambda>t. JObj [(''targetName'', JStr t), (''keep'', JObj keep)]) names)),
          (''enabled'', JBool (jget spec ''enabled'' \<noteq> JBool False)),
          (''preHook'', text_of spec ''pre_hook'' []),
          (''postHook'', text_of spec ''post_hook'' [])])])"

definition replication_message :: "js \<Rightarrow> obj" where
  "replication_message spec =
     [(''sourceTarget'', JStr (js_string (coalesce (jget spec ''source'') (coalesce (jget spec ''source_target'') (JStr []))))),
      (''destTarget'', JStr (js_string (coalesce (jget spec ''dest'') (coalesce (jget spec ''dest_target'') (JStr [])))))]"

definition applyVault :: "world \<Rightarrow> string \<Rightarrow> js \<Rightarrow> (event, js) io" where
  "applyVault w address spec =
     (let kind = js_string (coalesce (jget spec ''kind'') (JStr [])) in
      if kind = ''BackupTarget'' then vault_call w address ''applyTarget'' (target_message spec)
      else if kind = ''BackupPolicy'' then vault_call w address ''applyBackupPolicy'' (policy_message spec)
      else if kind = ''Replication'' then vault_call w address ''createReplicationJob'' (replication_message spec)
      else io_throw (OtherError (''unknown vault kind '' @ kind)))"

section \<open>Reading and jobs\<close>

definition readVault :: "world \<Rightarrow> string \<Rightarrow> string \<Rightarrow> (event, js) io" where
  "readVault w address view =
     (if view = ''jobs'' then vault_call w address ''listBackupJobs'' []
      else if view = ''catalog'' then vault_call w address ''listBackups'' []
      else vault_call w address ''listInventory'' [])"

definition operateVault :: "world \<Rightarrow> string \<Rightarrow> js \<Rightarrow> (event, js) io" where
  "operateVault w address spec =
     (let action = js_string (coalesce (jget spec ''action'') (JStr [])) in
      if action = ''backup'' then vault_call w address ''createBackupJob''
        [(''vmName'', text_of spec ''vm'' []),
         (''targetName'', text_of spec ''target'' []),
         (''consistency'', text_of spec ''consistency'' ''CONSISTENCY_LEVEL_FS''),
         (''forceFull'', JBool (truthy (jget spec ''force_full'')))]
      else if action = ''restore'' then vault_call w address ''createRestoreJob''
        [(''backupId'', text_of spec ''backup'' []),
         (''asVmName'', text_of spec ''as_vm_name'' []),
         (''destPath'', text_of spec ''dest'' []),
         (''volumeName'', text_of spec ''volume'' []),
         (''node'', text_of spec ''node'' []),
         (''instant'', JBool (truthy (jget spec ''instant'')))]
      else if action = ''verify'' then vault_call w address ''createVerifyJob''
        [(''targetName'', text_of spec ''target'' []),
         (''full'', JBool (truthy (jget spec ''full''))),
         (''bootTest'', JBool (jget spec ''boot_test'' \<noteq> JBool False))]
      else if action = ''replicate'' then vault_call w address ''createReplicationJob''
        [(''sourceTarget'', text_of spec ''source'' []),
         (''destTarget'', text_of spec ''dest'' [])]
      else io_throw (OtherError (''unknown vault action '' @ action)))"

section \<open>Which methods are called\<close>

definition vault_rpc :: "string list \<Rightarrow> event \<Rightarrow> bool" where
  "vault_rpc ms = is_rpc (\<lambda>e. re_service e = ''vault'' \<and> re_method e \<in> set ms)"

definition vault_reads :: "string list" where
  "vault_reads = [''listBackupJobs'', ''listBackups'', ''listInventory'']"

definition vault_writes :: "string list" where
  "vault_writes =
     [''applyTarget'', ''applyBackupPolicy'', ''createReplicationJob'', ''createBackupJob'',
      ''createRestoreJob'', ''createVerifyJob'']"

lemma vault_methods_classified:
  "list_all (\<lambda>m. isReadOnlyMethod m \<and> implemented_unary ''vault'' m) vault_reads"
  "list_all (\<lambda>m. \<not> isReadOnlyMethod m \<and> implemented_unary ''vault'' m) vault_writes"
  by code_simp+

lemma emits_vault_call: "m \<in> set ms \<Longrightarrow> emits (vault_rpc ms) (vault_call w address m request)"
  unfolding vault_call_def by (rule emits_callApi_if) (simp add: vault_rpc_def is_rpc_def dials_def)

lemma readVault_reads: "emits (vault_rpc vault_reads) (readVault w address view)"
  unfolding readVault_def by (intro emits_intros emits_vault_call; simp add: vault_reads_def)

lemma applyVault_writes: "emits (vault_rpc vault_writes) (applyVault w address spec)"
  unfolding applyVault_def by (intro emits_intros emits_vault_call; simp add: vault_writes_def)

lemma operateVault_writes: "emits (vault_rpc vault_writes) (operateVault w address spec)"
  unfolding operateVault_def by (intro emits_intros emits_vault_call; simp add: vault_writes_def)

text \<open>
  C34: reading the vault calls only methods that count as reads, applying a document or starting a
  job only methods that do not, and all of them are implemented unary RPCs of the vault service.
\<close>

theorem vault_calls_classified:
  "emits (is_rpc (\<lambda>e. re_service e = ''vault'' \<and> isReadOnlyMethod (re_method e) \<and> implemented_unary ''vault'' (re_method e)))
     (readVault w address view) \<and>
   emits (is_rpc (\<lambda>e. re_service e = ''vault'' \<and> \<not> isReadOnlyMethod (re_method e) \<and> implemented_unary ''vault'' (re_method e)))
     (applyVault w address spec) \<and>
   emits (is_rpc (\<lambda>e. re_service e = ''vault'' \<and> \<not> isReadOnlyMethod (re_method e) \<and> implemented_unary ''vault'' (re_method e)))
     (operateVault w address spec)"
  using vault_methods_classified
  by (auto simp: vault_rpc_def is_rpc_def list_all_iff split: event.splits
      intro!: emits_mono [OF readVault_reads] emits_mono [OF applyVault_writes] emits_mono [OF operateVault_writes])

end
