(* ===== verification/Pki.thy ===== *)
theory Pki
  imports Grpc
begin

text \<open>
  \<^verbatim>\<open>kcore-mcp/packages/server/src/pki.ts\<close>: creating the trust root and the context file of a new
  cluster. The X.509 library, the key generator, the random source and the YAML printer are the
  parameters of \<open>pki_env\<close>: the \<open>n\<close>-th certificate uses the \<open>n\<close>-th key pair and the \<open>n\<close>-th draw of
  random bytes. The validity of a certificate is its number of days; the clock is not modelled.

  The lemmas follow the files: which are written with which mode, in which order, and what a
  connection then reads back.
\<close>

section \<open>Constants and parameters\<close>

definition CA_DAYS :: nat where
  "CA_DAYS = 3650"

definition SUB_CA_DAYS :: nat where
  "SUB_CA_DAYS = 1825"

definition LEAF_DAYS :: nat where
  "LEAF_DAYS = 365"

definition CLIENT_AUTH :: string where
  "CLIENT_AUTH = ''1.3.6.1.5.5.7.3.2''"

definition SERVER_AUTH :: string where
  "SERVER_AUTH = ''1.3.6.1.5.5.7.3.1''"

datatype key_usage = KeyCertSign | CRLSign | DigitalSignature | KeyEncipherment

datatype extension =
    BasicConstraints bool "nat option" bool
  | KeyUsages "key_usage list" bool
  | ExtendedKeyUsage "string list" bool
  | SubjectAlternativeName string string bool

record cert_request =
  cr_serial :: string
  cr_subject :: string
  cr_issuer :: string
  cr_days :: nat
  cr_public :: nat
  cr_signer :: nat
  cr_extensions :: "extension list"

record pki_env =
  pe_random :: "nat \<Rightarrow> string"
  pe_pkcs8 :: "nat \<Rightarrow> string"
  pe_create :: "cert_request \<Rightarrow> string res"
  pe_checkIssued :: "string \<Rightarrow> string \<Rightarrow> bool res"
  pe_subject :: "string \<Rightarrow> string"
  pe_isIP :: "string \<Rightarrow> bool"
  pe_stringify :: "js \<Rightarrow> string"

record Material =
  mt_name :: string
  mt_cert :: string
  mt_key :: string
  mt_private :: nat

section \<open>Certificates\<close>

text \<open>\<^verbatim>\<open>Buffer.toString("hex")\<close>\<close>

definition hex_of :: "string \<Rightarrow> string" where
  "hex_of bytes = concat (map (\<lambda>c. [hex_digit (code c div 16), hex_digit (code c mod 16)]) bytes)"

definition serial :: "string \<Rightarrow> string" where
  "serial random =
     (let hex = dropWhile (\<lambda>c. c = CHR ''0'') (hex_of random) in if 0 < length hex then hex else ''01'')"

text \<open>\<^verbatim>\<open>/.{1,64}/g\<close> on text without line breaks.\<close>

function chunks :: "nat \<Rightarrow> 'a list \<Rightarrow> 'a list list" where
  "chunks n xs = (if xs = [] \<or> n = 0 then [] else take n xs # chunks n (drop n xs))"
  by pat_completeness auto
termination by (relation "measure (\<lambda>(n, xs). length xs)") auto

declare chunks.simps [simp del]

definition newline :: string where
  "newline = [CHR 0x0A]"

definition pem :: "string \<Rightarrow> string \<Rightarrow> string" where
  "pem label body =
     (let lines = chunks 64 (base64_encode body) in
      ''-----BEGIN '' @ label @ ''-----'' @ newline @ join newline lines @ newline @ ''-----END '' @ label @ ''-----'' @ newline)"

definition pack :: "pki_env \<Rightarrow> string \<Rightarrow> string \<Rightarrow> nat \<Rightarrow> Material" where
  "pack pe name certificate n =
     \<lparr>mt_name = name, mt_cert = certificate, mt_key = pem ''PRIVATE KEY'' (pe_pkcs8 pe n), mt_private = n\<rparr>"

definition selfSigned :: "pki_env \<Rightarrow> nat \<Rightarrow> string \<Rightarrow> nat \<Rightarrow> extension list \<Rightarrow> Material res" where
  "selfSigned pe n commonName days extensions =
     ebind (pe_create pe
       \<lparr>cr_serial = serial (pe_random pe n), cr_subject = ''CN='' @ commonName, cr_issuer = ''CN='' @ commonName,
        cr_days = days, cr_public = n, cr_signer = n, cr_extensions = extensions\<rparr>) (\<lambda>certificate.
     Inr (pack pe (''CN='' @ commonName) certificate n))"

definition signedBy :: "pki_env \<Rightarrow> nat \<Rightarrow> Material \<Rightarrow> string \<Rightarrow> nat \<Rightarrow> extension list \<Rightarrow> Material res" where
  "signedBy pe n issuer commonName days extensions =
     ebind (pe_create pe
       \<lparr>cr_serial = serial (pe_random pe n), cr_subject = ''CN='' @ commonName, cr_issuer = mt_name issuer,
        cr_days = days, cr_public = n, cr_signer = mt_private issuer, cr_extensions = extensions\<rparr>) (\<lambda>certificate.
     Inr (pack pe (''CN='' @ commonName) certificate n))"

definition san :: "pki_env \<Rightarrow> string \<Rightarrow> extension" where
  "san pe host = SubjectAlternativeName (if pe_isIP pe host then ''ip'' else ''dns'') host False"

definition pki_hostOf :: "string \<Rightarrow> string" where
  "pki_hostOf address =
     (let plain = (case lastIndexOf CHR '':'' address of Some i \<Rightarrow> if 0 < i then take i address else address | None \<Rightarrow> address)
      in if startsWith address ''['' then
           (case indexOf CHR '']'' address of
              Some e \<Rightarrow> if 1 < e then drop 1 (take e address) else plain
            | None \<Rightarrow> plain)
         else plain)"

section \<open>The context file\<close>

definition loadConfig :: "platform \<Rightarrow> string \<Rightarrow> obj res" where
  "loadConfig pf path =
     (case read_file pf path of
        Inl e \<Rightarrow>
          if fs_code e = ''ENOENT'' then Inr [(''contexts'', JObj [])]
          else Inl (InputError (''could not read '' @ path @ '': '' @ fs_message e @ ''. Refusing to replace it.''))
      | Inr t \<Rightarrow>
          (case parse_yaml pf t of
             Inl msg \<Rightarrow> Inl (InputError (''could not read '' @ path @ '': '' @ msg @ ''. Refusing to replace it.''))
           | Inr (JObj ps) \<Rightarrow> Inr ps
           | Inr _ \<Rightarrow> Inl (InputError (path @ '' is not a kcore config mapping. Refusing to replace it.''))))"

definition hasCredentials :: "js \<Rightarrow> bool" where
  "hasCredentials entry \<longleftrightarrow>
     truthy entry \<and>
     list_ex (\<lambda>key. case jget entry key of JStr s \<Rightarrow> 0 < length (trim s) | _ \<Rightarrow> False)
       [''ca-data'', ''cert-data'', ''key-data'', ''ca'', ''cert'', ''key'']"

definition required_text :: "js \<Rightarrow> string \<Rightarrow> string res" where
  "required_text v label =
     (case v of JStr s \<Rightarrow> if length (trim s) = 0 then Inl (InputError (label @ '' is required'')) else Inr (trim s)
      | _ \<Rightarrow> Inl (InputError (label @ '' is required'')))"

definition quoted :: "string \<Rightarrow> string" where
  "quoted s = [CHR 0x27] @ s @ [CHR 0x27]"

text \<open>How the engine names the type of a primitive in its error message.\<close>

fun type_name :: "js \<Rightarrow> string" where
  "type_name (JStr _) = ''string''"
| "type_name (JNum _) = ''number''"
| "type_name (JBool _) = ''boolean''"
| "type_name _ = ''object''"

text \<open>
  \<^verbatim>\<open>config.contexts ??= {}; config.contexts[context] = entry\<close>: a list takes the entry only at an
  index, and a string, number or boolean cannot take a property.
\<close>

definition set_index :: "js list \<Rightarrow> nat \<Rightarrow> js \<Rightarrow> js list" where
  "set_index xs i v = (if i < length xs then xs[i := v] else xs @ replicate (i - length xs) JUndef @ [v])"

definition set_context :: "obj \<Rightarrow> string \<Rightarrow> obj \<Rightarrow> obj res" where
  "set_context config context entry =
     (let contexts = coalesce (oget config ''contexts'') (JObj []) in
      case contexts of
        JObj ps \<Rightarrow> Inr (oset config ''contexts'' (JObj (oset ps context (JObj entry))))
      | JArr xs \<Rightarrow> Inr (oset config ''contexts''
          (JArr (if is_index context then set_index xs (read_nat context) (JObj entry) else xs)))
      | JFun \<Rightarrow> Inr config
      | _ \<Rightarrow> Inl (OtherError (''Cannot create property '' @ quoted context @ '' on '' @ type_name contexts @ '' '' @ quoted (js_string contexts))))"

section \<open>Creating a cluster context\<close>

record ClusterMaterial =
  cm_context :: string
  cm_controller :: string
  cm_configPath :: string
  cm_certsDir :: string
  cm_files :: "string list"

definition io_fs :: "world \<Rightarrow> file_op \<Rightarrow> (event, unit) io" where
  "io_fs w op = io_event (\<lambda>tr _. case w_fs w tr op of None \<Rightarrow> Inr () | Some e \<Rightarrow> Inl (OtherError (fs_message e))) (FileEvent op)"

definition forced :: "obj \<Rightarrow> bool" where
  "forced spec \<longleftrightarrow> oget spec ''force'' \<in> {JBool True, JStr ''yes'', JStr ''true''}"

record cluster_request =
  cq_controller :: string
  cq_context :: string
  cq_configPath :: string
  cq_certsDir :: string
  cq_config :: obj

definition cluster_request :: "platform \<Rightarrow> obj \<Rightarrow> ConnectionOptions \<Rightarrow> cluster_request res" where
  "cluster_request pf spec options =
     ebind (ebind (required_text (oget spec ''controller'') ''controller address'') (\<lambda>c. assertAddress c ''controller'')) (\<lambda>controller.
     ebind (assertName (case oget spec ''name'' of JStr n \<Rightarrow> if trim n \<noteq> [] then trim n else ''default'' | _ \<Rightarrow> ''default'') ''context name'') (\<lambda>context.
     let path = configPath pf options in
     ebind (if truthy (oget spec ''certsDir'') then assertArg (js_string (oget spec ''certsDir'')) ''certs directory''
            else Inr (path_join [homedir pf, ''.kcore'', context])) (\<lambda>certsDir.
     ebind (loadConfig pf path) (\<lambda>config.
     if \<not> forced spec \<and> hasCredentials (jindex (oget config ''contexts'') context)
     then Inl (InputError (''Context '' @ quoted context @ '' already has TLS credentials in '' @ path @
       ''. Generating a new CA would replace that trust root. Set force to yes only when that is intended.''))
     else Inr \<lparr>cq_controller = controller, cq_context = context, cq_configPath = path, cq_certsDir = certsDir, cq_config = config\<rparr>))))"

record cluster_keys =
  ck_ca :: Material
  ck_sub :: Material
  ck_controller :: Material
  ck_client :: Material

definition issue_all :: "pki_env \<Rightarrow> string \<Rightarrow> cluster_keys res" where
  "issue_all pe host =
     ebind (selfSigned pe 0 ''kcore-cluster-ca'' CA_DAYS
       [BasicConstraints True None True, KeyUsages [KeyCertSign, CRLSign] True]) (\<lambda>ca.
     ebind (signedBy pe 1 ca ''kcore-cluster-sub-ca'' SUB_CA_DAYS
       [BasicConstraints True (Some 0) True, KeyUsages [KeyCertSign, CRLSign] True]) (\<lambda>sub.
     ebind (signedBy pe 2 ca (''kcore-controller-'' @ host) LEAF_DAYS
       [BasicConstraints False None True, KeyUsages [DigitalSignature, KeyEncipherment] True,
        ExtendedKeyUsage [SERVER_AUTH, CLIENT_AUTH] True, san pe host]) (\<lambda>controllerCert.
     ebind (signedBy pe 3 ca ''kctl'' LEAF_DAYS
       [BasicConstraints False None True, KeyUsages [DigitalSignature] True, ExtendedKeyUsage [CLIENT_AUTH] True]) (\<lambda>client.
     Inr \<lparr>ck_ca = ca, ck_sub = sub, ck_controller = controllerCert, ck_client = client\<rparr>))))"

definition mode_644 :: nat where
  "mode_644 = 420"

definition mode_600 :: nat where
  "mode_600 = 384"

definition mode_700 :: nat where
  "mode_700 = 448"

definition cert_files :: "cluster_keys \<Rightarrow> (string \<times> string \<times> nat) list" where
  "cert_files ks =
     [(''ca.crt'', mt_cert (ck_ca ks), mode_644), (''ca.key'', mt_key (ck_ca ks), mode_600),
      (''sub-ca.crt'', mt_cert (ck_sub ks), mode_644), (''sub-ca.key'', mt_key (ck_sub ks), mode_600),
      (''controller.crt'', mt_cert (ck_controller ks), mode_644), (''controller.key'', mt_key (ck_controller ks), mode_600),
      (''kctl.crt'', mt_cert (ck_client ks), mode_644), (''kctl.key'', mt_key (ck_client ks), mode_600)]"

definition none_exists :: "platform \<Rightarrow> string \<Rightarrow> (string \<times> string \<times> nat) list \<Rightarrow> unit res" where
  "none_exists pf dir files =
     (if list_ex (\<lambda>f. case read_file pf (path_join [dir, fst f]) of Inr _ \<Rightarrow> True | Inl _ \<Rightarrow> False) files
      then Inl (InputError (''Certificates already exist in '' @ dir @ ''. Set force to yes to replace them.''))
      else Inr ())"

definition write_cert :: "world \<Rightarrow> string \<Rightarrow> string \<times> string \<times> nat \<Rightarrow> (event, unit) io" where
  "write_cert w dir f =
     (let path = path_join [dir, fst f] in
      io_bind (io_fs w (WriteFile path (fst (snd f)) (snd (snd f)))) (\<lambda>_.
      io_fs w (Chmod path (snd (snd f)))))"

definition new_entry :: "string \<Rightarrow> cluster_keys \<Rightarrow> obj" where
  "new_entry controller ks =
     [(''controller'', JStr controller),
      (''controllers'', JArr [JStr controller]),
      (''insecure'', JBool False),
      (''ca-data'', JStr (base64_encode (mt_cert (ck_ca ks)))),
      (''cert-data'', JStr (base64_encode (mt_cert (ck_client ks)))),
      (''key-data'', JStr (base64_encode (mt_key (ck_client ks))))]"

definition tmp_path :: "platform \<Rightarrow> string \<Rightarrow> string" where
  "tmp_path pf path = path @ ''.'' @ show_nat (pid pf) @ ''.tmp''"

definition save_config :: "world \<Rightarrow> pki_env \<Rightarrow> string \<Rightarrow> obj \<Rightarrow> (event, unit) io" where
  "save_config w pe path config =
     (let tmp = tmp_path (w_platform w) path in
      io_bind (io_fs w (Mkdir (dirname path) mode_700)) (\<lambda>_.
      io_bind (io_fs w (WriteFile tmp (pe_stringify pe (JObj config)) mode_600)) (\<lambda>_.
      io_bind (io_fs w (Chmod tmp mode_600)) (\<lambda>_.
      io_fs w (Rename tmp path)))))"

definition check_chain :: "pki_env \<Rightarrow> cluster_keys \<Rightarrow> unit res" where
  "check_chain pe ks =
     ebind (pe_checkIssued pe (mt_cert (ck_client ks)) (mt_cert (ck_ca ks))) (\<lambda>issued.
     if \<not> issued \<or> \<not> includes_str (pe_subject pe (mt_cert (ck_client ks))) ''kctl''
     then Inl (InputError ''generated client certificate does not chain to the new cluster CA'')
     else Inr ())"

definition createClusterContext ::
  "world \<Rightarrow> pki_env \<Rightarrow> obj \<Rightarrow> ConnectionOptions \<Rightarrow> (event, ClusterMaterial) io" where
  "createClusterContext w pe spec options =
     io_bind (io_lift (cluster_request (w_platform w) spec options)) (\<lambda>q.
     io_bind (io_lift (issue_all pe (pki_hostOf (cq_controller q)))) (\<lambda>ks.
     let files = cert_files ks; dir = cq_certsDir q in
     io_bind (io_fs w (Mkdir dir mode_700)) (\<lambda>_.
     io_bind (io_lift (if forced spec then Inr () else none_exists (w_platform w) dir files)) (\<lambda>_.
     io_bind (io_map (write_cert w dir) files) (\<lambda>_.
     io_bind (io_lift (set_context (cq_config q) (cq_context q) (new_entry (cq_controller q) ks))) (\<lambda>config.
     io_bind (save_config w pe (cq_configPath q) (oset config ''current-context'' (JStr (cq_context q)))) (\<lambda>_.
     io_bind (io_lift (check_chain pe ks)) (\<lambda>_.
     io_return \<lparr>cm_context = cq_context q, cm_controller = cq_controller q, cm_configPath = cq_configPath q,
                cm_certsDir = dir, cm_files = map fst files\<rparr>))))))))"

section \<open>Serial numbers and PEM text\<close>

lemma concat_chunks: "0 < n \<Longrightarrow> concat (chunks n xs) = xs"
proof (induction n xs rule: chunks.induct)
  case (1 n xs)
  then show ?case by (subst chunks.simps) (auto simp: chunks.simps)
qed

lemma chunks_bound: "c \<in> set (chunks n xs) \<Longrightarrow> c \<noteq> [] \<and> length c \<le> n"
proof (induction n xs rule: chunks.induct)
  case (1 n xs)
  show ?case
  proof (cases "xs = [] \<or> n = 0")
    case True
    with "1.prems" show ?thesis by (simp add: chunks.simps [of n xs] split: if_splits)
  next
    case False
    then have "chunks n xs = take n xs # chunks n (drop n xs)" by (subst chunks.simps) simp
    with "1.prems" False "1.IH" [OF False] show ?thesis by auto
  qed
qed

fun hex_val :: "char \<Rightarrow> nat" where
  "hex_val c = (if is_digit c then code c - 48 else code c - 87)"

definition read_hex :: "string \<Rightarrow> nat" where
  "read_hex s = foldl (\<lambda>n c. 16 * n + hex_val c) 0 s"

definition bytes_value :: "string \<Rightarrow> nat" where
  "bytes_value bs = foldl (\<lambda>n c. 256 * n + code c) 0 bs"

lemma hex_digit_range: "n < 16 \<Longrightarrow> hex_val (hex_digit n) = n \<and> is_hex (hex_digit n)"
proof -
  have "list_all (\<lambda>n. hex_val (hex_digit n) = n \<and> is_hex (hex_digit n)) [0..<16]" by code_simp
  then show "n < 16 \<Longrightarrow> ?thesis" by (simp add: list_all_iff)
qed

lemma code_bound: "code (c::char) < 256"
  by (metis mod_less_divisor of_char_mod_256 zero_less_numeral)

lemma read_hex_of: "read_hex (hex_of bs) = bytes_value bs"
proof -
  have step: "16 * (16 * n + hex_val (hex_digit (code c div 16))) + hex_val (hex_digit (code c mod 16)) = 256 * n + code c"
    for n and c :: char
  proof -
    have "code c div 16 < 16" using code_bound [of c] by (simp add: less_mult_imp_div_less)
    then have "hex_val (hex_digit (code c div 16)) = code c div 16"
      and "hex_val (hex_digit (code c mod 16)) = code c mod 16" by (simp_all add: hex_digit_range del: hex_val.simps)
    then show ?thesis by (simp only: distrib_left) simp
  qed
  have "foldl (\<lambda>n c. 16 * n + hex_val c) n (hex_of bs) = foldl (\<lambda>n c. 256 * n + code c) n bs" for n
  proof (induction bs arbitrary: n)
    case (Cons c bs)
    have "hex_of (c # bs) = hex_digit (code c div 16) # hex_digit (code c mod 16) # hex_of bs"
      by (simp add: hex_of_def)
    then show ?case by (simp only: foldl_Cons step Cons.IH)
  qed (simp add: hex_of_def)
  then show ?thesis by (simp add: read_hex_def bytes_value_def)
qed

lemma read_hex_zeros: "read_hex (dropWhile (\<lambda>c. c = CHR ''0'') s) = read_hex s"
proof (induction s)
  case (Cons c s)
  have "hex_val CHR ''0'' = 0" by code_simp
  with Cons show ?case by (simp add: read_hex_def)
qed simp

lemma hex_of_digits: "c \<in> set (hex_of bs) \<Longrightarrow> \<exists>n < 16. c = hex_digit n"
proof -
  assume "c \<in> set (hex_of bs)"
  then obtain b :: char where b: "c = hex_digit (code b div 16) \<or> c = hex_digit (code b mod 16)"
    by (auto simp: hex_of_def)
  moreover have "code b div 16 < 16" using code_bound [of b] by (simp add: less_mult_imp_div_less)
  moreover have "code b mod 16 < 16" by simp
  ultimately show ?thesis by blast
qed

lemma length_hex_of: "length (hex_of bs) = 2 * length bs"
  by (induction bs) (simp_all add: hex_of_def)

lemma foldl_hex_ge: "n \<le> foldl (\<lambda>n c. 16 * n + hex_val c) n s"
proof (induction s arbitrary: n)
  case (Cons c s)
  have "n \<le> 16 * n + hex_val c" by simp
  also have "\<dots> \<le> foldl (\<lambda>n c. 16 * n + hex_val c) (16 * n + hex_val c) s" by (rule Cons)
  finally show ?case by (simp del: hex_val.simps)
qed simp

lemma read_hex_pos:
  assumes "c \<in> set (hex_of bs)" "c \<noteq> CHR ''0''"
  shows "0 < read_hex (c # s)"
proof -
  obtain n where n: "n < 16" "c = hex_digit n" using hex_of_digits [OF assms(1)] by blast
  have "hex_digit 0 = CHR ''0''" by code_simp
  then have "n \<noteq> 0" using n(2) assms(2) by metis
  then have "0 < hex_val c" using n hex_digit_range by (simp del: hex_val.simps)
  with foldl_hex_ge [of "hex_val c" s] show ?thesis by (simp add: read_hex_def del: hex_val.simps)
qed


text \<open>
  C38. A private key is printed as PEM text whose body lines have between one and sixty-four
  characters and decode, put together, to exactly the bytes of the key.
\<close>

theorem pem_roundtrip:
  "\<exists>lines. pem label body = ''-----BEGIN '' @ label @ ''-----'' @ newline @ join newline lines @ newline @
       ''-----END '' @ label @ ''-----'' @ newline \<and>
     list_all (\<lambda>l. 1 \<le> length l \<and> length l \<le> 64) lines \<and> base64_decode (concat lines) = body"
proof (intro exI conjI)
  show "pem label body = ''-----BEGIN '' @ label @ ''-----'' @ newline @ join newline (chunks 64 (base64_encode body)) @ newline @
       ''-----END '' @ label @ ''-----'' @ newline"
    by (simp only: pem_def Let_def)
  show "list_all (\<lambda>l. 1 \<le> length l \<and> length l \<le> 64) (chunks 64 (base64_encode body))"
    using chunks_bound by (fastforce simp: list_all_iff Suc_le_eq)
  show "base64_decode (concat (chunks 64 (base64_encode body))) = body"
    by (simp add: concat_chunks base64_roundtrip)
qed

section \<open>The order of file operations\<close>

text \<open>
  A computation follows a list of file operations where it performs a prefix of it, and all of it
  if it returns.
\<close>

definition follows :: "file_op list \<Rightarrow> (event, 'a) io \<Rightarrow> bool" where
  "follows ops m =
     (\<forall>tr. \<exists>es. prefix es ops \<and> snd (m tr) = tr @ map FileEvent es \<and> (is_ok (fst (m tr)) \<longrightarrow> es = ops))"

lemma followsE:
  assumes "follows ops m" "m tr = (r, tr')"
  obtains es where "prefix es ops" "tr' = tr @ map FileEvent es" "is_ok r \<longrightarrow> es = ops"
  using assms unfolding follows_def by (metis fst_conv snd_conv)

lemma follows_lift: "follows [] (io_lift r)"
  by (simp add: follows_def)

lemma follows_fs: "follows [op] (io_fs w op)"
  by (auto simp: follows_def io_fs_def intro!: exI [of _ "[op]"])

lemma follows_bind:
  assumes "follows ops m" "\<And>x. follows ops' (f x)"
  shows "follows (ops @ ops') (io_bind m f)"
  unfolding follows_def
proof
  fix tr
  obtain r tr1 where m: "m tr = (r, tr1)" by fastforce
  from assms(1) m obtain es where es: "prefix es ops" "tr1 = tr @ map FileEvent es" "is_ok r \<longrightarrow> es = ops"
    by (rule followsE)
  show "\<exists>es. prefix es (ops @ ops') \<and> snd (io_bind m f tr) = tr @ map FileEvent es \<and>
      (is_ok (fst (io_bind m f tr)) \<longrightarrow> es = ops @ ops')"
  proof (cases r)
    case (Inl e)
    with m es show ?thesis by (intro exI [of _ es]) (simp add: io_bind_def)
  next
    case (Inr x)
    obtain r2 tr2 where f: "f x tr1 = (r2, tr2)" by fastforce
    from assms(2) f obtain es2 where es2: "prefix es2 ops'" "tr2 = tr1 @ map FileEvent es2" "is_ok r2 \<longrightarrow> es2 = ops'"
      by (rule followsE)
    from es Inr have "es = ops" by simp
    with m f es es2 Inr show ?thesis by (intro exI [of _ "es @ es2"]) (simp add: io_bind_def)
  qed
qed

lemma follows_seq: "follows [op] m \<Longrightarrow> (\<And>x. follows ops (f x)) \<Longrightarrow> follows (op # ops) (io_bind m f)"
  using follows_bind [of "[op]" m ops f] by simp

lemma follows_lift_bind: "(\<And>x. r = Inr x \<Longrightarrow> follows ops (f x)) \<Longrightarrow> follows ops (io_bind (io_lift r) f)"
  by (cases r) (auto simp: follows_def)

lemma follows_map: "(\<And>x. follows (g x) (f x)) \<Longrightarrow> follows (concat (map g xs)) (io_map f xs)"
proof (induction xs)
  case (Cons x xs)
  have "follows (concat (map g xs) @ []) (io_bind (io_map f xs) (\<lambda>ys. io_return (y # ys)))" for y
    by (rule follows_bind [OF Cons.IH follows_lift]) (rule Cons.prems)
  then show ?case using follows_bind [OF Cons.prems [of x]] by fastforce
qed (simp add: follows_lift)

definition cert_ops :: "string \<Rightarrow> string \<times> string \<times> nat \<Rightarrow> file_op list" where
  "cert_ops dir f =
     [WriteFile (path_join [dir, fst f]) (fst (snd f)) (snd (snd f)), Chmod (path_join [dir, fst f]) (snd (snd f))]"

definition save_ops :: "platform \<Rightarrow> string \<Rightarrow> string \<Rightarrow> file_op list" where
  "save_ops pf path contents =
     [Mkdir (dirname path) mode_700, WriteFile (tmp_path pf path) contents mode_600,
      Chmod (tmp_path pf path) mode_600, Rename (tmp_path pf path) path]"

definition saved_config :: "cluster_request \<Rightarrow> cluster_keys \<Rightarrow> obj res" where
  "saved_config q ks =
     ebind (set_context (cq_config q) (cq_context q) (new_entry (cq_controller q) ks)) (\<lambda>config.
     Inr (oset config ''current-context'' (JStr (cq_context q))))"

definition planned_ops :: "platform \<Rightarrow> pki_env \<Rightarrow> cluster_request \<Rightarrow> cluster_keys \<Rightarrow> file_op list" where
  "planned_ops pf pe q ks =
     Mkdir (cq_certsDir q) mode_700 # concat (map (cert_ops (cq_certsDir q)) (cert_files ks)) @
     (case saved_config q ks of Inl _ \<Rightarrow> [] | Inr config \<Rightarrow> save_ops pf (cq_configPath q) (pe_stringify pe (JObj config)))"

lemma follows_write_cert: "follows (cert_ops dir f) (write_cert w dir f)"
  unfolding write_cert_def cert_ops_def Let_def by (intro follows_seq follows_fs)

lemma follows_save_config:
  "follows (save_ops (w_platform w) path (pe_stringify pe (JObj config))) (save_config w pe path config)"
  unfolding save_config_def save_ops_def Let_def by (intro follows_seq follows_fs)

lemma createClusterContext_follows:
  assumes "cluster_request (w_platform w) spec options = Inr q"
    and "issue_all pe (pki_hostOf (cq_controller q)) = Inr ks"
  shows "follows (planned_ops (w_platform w) pe q ks) (createClusterContext w pe spec options)"
proof -
  let ?rest = "\<lambda>config. save_ops (w_platform w) (cq_configPath q) (pe_stringify pe (JObj config))"
  let ?ret = "\<lparr>cm_context = cq_context q, cm_controller = cq_controller q, cm_configPath = cq_configPath q,
                cm_certsDir = cq_certsDir q, cm_files = map fst (cert_files ks)\<rparr>"
  have last: "follows (case saved_config q ks of Inl _ \<Rightarrow> [] | Inr config \<Rightarrow> ?rest config)
     (io_bind (io_lift (set_context (cq_config q) (cq_context q) (new_entry (cq_controller q) ks))) (\<lambda>config.
      io_bind (save_config w pe (cq_configPath q) (oset config ''current-context'' (JStr (cq_context q)))) (\<lambda>_.
      io_bind (io_lift (check_chain pe ks)) (\<lambda>_. io_return ?ret))))"
  proof (rule follows_lift_bind)
    fix config
    assume "set_context (cq_config q) (cq_context q) (new_entry (cq_controller q) ks) = Inr config"
    then have "(case saved_config q ks of Inl _ \<Rightarrow> [] | Inr config \<Rightarrow> ?rest config) =
        ?rest (oset config ''current-context'' (JStr (cq_context q))) @ []"
      by (simp add: saved_config_def)
    then show "follows (case saved_config q ks of Inl _ \<Rightarrow> [] | Inr config \<Rightarrow> ?rest config)
      (io_bind (save_config w pe (cq_configPath q) (oset config ''current-context'' (JStr (cq_context q)))) (\<lambda>_.
      io_bind (io_lift (check_chain pe ks)) (\<lambda>_. io_return ?ret)))"
      by (simp only:) (intro follows_bind follows_save_config follows_lift_bind follows_lift)
  qed
  show ?thesis
    unfolding createClusterContext_def planned_ops_def Let_def assms io_bind_lift
    by (rule follows_seq [OF follows_fs], rule follows_lift_bind,
        rule follows_bind [OF follows_map [OF follows_write_cert]], rule last)
qed

lemma createClusterContext_cases:
  assumes "createClusterContext w pe spec options tr = (r, tr')"
  obtains (refused) "tr' = tr" "\<not> is_ok r"
  | (started) q ks es where "cluster_request (w_platform w) spec options = Inr q"
      "issue_all pe (pki_hostOf (cq_controller q)) = Inr ks"
      "prefix es (planned_ops (w_platform w) pe q ks)" "tr' = tr @ map FileEvent es"
      "is_ok r \<longrightarrow> es = planned_ops (w_platform w) pe q ks"
proof (cases "cluster_request (w_platform w) spec options")
  case (Inl e)
  with assms show thesis by (intro refused) (auto simp: createClusterContext_def)
next
  case q: (Inr q)
  show thesis
  proof (cases "issue_all pe (pki_hostOf (cq_controller q))")
    case (Inl e)
    with assms q show thesis by (intro refused) (auto simp: createClusterContext_def)
  next
    case (Inr ks)
    from followsE [OF createClusterContext_follows [OF q Inr] assms] q Inr show thesis by (metis started)
  qed
qed

definition issued :: "pki_env \<Rightarrow> string \<Rightarrow> bool" where
  "issued pe cert \<longleftrightarrow> (\<exists>req. pe_create pe req = Inr cert)"

lemma signed_certificates:
  "selfSigned pe n cn days ext = Inr m \<Longrightarrow> issued pe (mt_cert m)"
  "signedBy pe n issuer cn days ext = Inr m \<Longrightarrow> issued pe (mt_cert m)"
  by (auto simp: selfSigned_def signedBy_def ebind_Inr_iff pack_def issued_def)

lemma issue_all_issued:
  "on_ok (\<lambda>ks. issued pe (mt_cert (ck_ca ks)) \<and> issued pe (mt_cert (ck_sub ks)) \<and>
     issued pe (mt_cert (ck_controller ks)) \<and> issued pe (mt_cert (ck_client ks))) (issue_all pe host)"
  unfolding issue_all_def by (intro ok_intros) (simp add: signed_certificates)

lemma issue_all_certificates:
  assumes "issue_all pe host = Inr ks" "f \<in> set (cert_files ks)"
  shows "snd (snd f) = mode_600 \<or> (snd (snd f) = mode_644 \<and> issued pe (fst (snd f)))"
  using on_okD [OF issue_all_issued assms(1)] assms(2) by (auto simp: cert_files_def)


section \<open>No trust root is replaced unasked\<close>

definition cert_names :: "string list" where
  "cert_names = [''ca.crt'', ''ca.key'', ''sub-ca.crt'', ''sub-ca.key'', ''controller.crt'', ''controller.key'', ''kctl.crt'', ''kctl.key'']"

lemma none_exists_stops:
  assumes "cluster_request (w_platform w) spec options = Inr q"
    and "issue_all pe (pki_hostOf (cq_controller q)) = Inr ks"
    and "\<not> forced spec" "\<not> is_ok (none_exists (w_platform w) (cq_certsDir q) (cert_files ks))"
  shows "snd (createClusterContext w pe spec options tr) = tr @ [FileEvent (Mkdir (cq_certsDir q) mode_700)]"
proof -
  obtain e where e: "none_exists (w_platform w) (cq_certsDir q) (cert_files ks) = Inl e"
    using assms(4) by (cases "none_exists (w_platform w) (cq_certsDir q) (cert_files ks)") auto
  show ?thesis
    using assms(3) by (simp add: createClusterContext_def assms(1,2) Let_def e io_bind_def io_fs_def split: option.splits)
qed

text \<open>
  C6. Unless the operator asks to force it, creating a cluster writes or renames a file only if
  the context has no credentials yet and none of the eight certificate and key files can be read:
  an existing trust root is not replaced.
\<close>

theorem trust_root_not_replaced:
  assumes "createClusterContext w pe spec options tr = (r, tr @ map FileEvent ops)" "\<not> forced spec"
    and "op \<in> set ops" "\<not> (\<exists>d m. op = Mkdir d m)"
  shows "\<exists>q. cluster_request (w_platform w) spec options = Inr q \<and>
    \<not> hasCredentials (jindex (oget (cq_config q) ''contexts'') (cq_context q)) \<and>
    (\<forall>name \<in> set cert_names. \<exists>e. read_file (w_platform w) (path_join [cq_certsDir q, name]) = Inl e)"
  using assms(1)
proof (cases rule: createClusterContext_cases)
  case refused
  with assms(3) show ?thesis by simp
next
  case (started q ks es)
  have ops: "es = ops" using started(4) by (simp add: inj_map_eq_map inj_def)
  have cred: "\<not> hasCredentials (jindex (oget (cq_config q) ''contexts'') (cq_context q))"
    using started(1) assms(2) unfolding cluster_request_def Let_def ebind_Inr_iff if_Inl_Inr_iff by auto
  have "is_ok (none_exists (w_platform w) (cq_certsDir q) (cert_files ks))"
  proof (rule ccontr)
    assume "\<not> ?thesis"
    from none_exists_stops [OF started(1,2) assms(2) this, of tr] assms(1)
    have "map FileEvent ops = map FileEvent [Mkdir (cq_certsDir q) mode_700]" by simp
    then have "ops = [Mkdir (cq_certsDir q) mode_700]" by (simp only: inj_map_eq_map inj_def event.inject simp_thms)
    with assms(3,4) show False by simp
  qed
  then have "\<exists>e. read_file (w_platform w) (path_join [cq_certsDir q, name]) = Inl e" if "name \<in> set cert_names" for name
    using that by (auto simp: none_exists_def cert_files_def cert_names_def split: if_splits sum.splits)
  with started(1) cred show ?thesis by blast
qed

section \<open>What the file system holds\<close>

fun file_step :: "(string \<rightharpoonup> string) \<Rightarrow> file_op \<Rightarrow> (string \<rightharpoonup> string)" where
  "file_step fs (WriteFile p c m) = fs(p \<mapsto> c)"
| "file_step fs (Rename a b) = (case fs a of None \<Rightarrow> fs | Some c \<Rightarrow> (fs(a := None))(b \<mapsto> c))"
| "file_step fs _ = fs"

fun untouched :: "string \<Rightarrow> file_op \<Rightarrow> bool" where
  "untouched p (WriteFile q c m) = (q \<noteq> p)"
| "untouched p (Rename a b) = (a \<noteq> p \<and> b \<noteq> p)"
| "untouched p _ = True"

lemma file_step_untouched: "untouched p op \<Longrightarrow> file_step fs op p = fs p"
  by (cases op) (auto split: option.splits)

lemma files_untouched: "list_all (untouched p) ops \<Longrightarrow> foldl file_step fs ops p = fs p"
  by (induction ops arbitrary: fs) (simp_all add: file_step_untouched)

lemma tmp_path_differs [simp]: "tmp_path pf path \<noteq> path"
  by (simp add: tmp_path_def)

lemma planned_untouched:
  assumes "\<forall>name \<in> set cert_names. path_join [cq_certsDir q, name] \<noteq> p"
  shows "list_all (untouched p) (Mkdir (cq_certsDir q) mode_700 # concat (map (cert_ops (cq_certsDir q)) (cert_files ks)))"
  using assms by (simp add: cert_files_def cert_ops_def cert_names_def)


section \<open>Connecting with what was created\<close>

definition reading_files :: "(string \<rightharpoonup> string) \<Rightarrow> string \<Rightarrow> fs_error + string" where
  "reading_files fs p =
     (case fs p of Some c \<Rightarrow> Inr c | None \<Rightarrow> Inl (FsError ''ENOENT'' ''ENOENT: no such file or directory''))"

lemma is_pem_pem: "is_pem (pem label body)"
proof -
  have "pem label body = ''-----BEGIN'' @ '' '' @ label @ ''-----'' @ newline @
      join newline (chunks 64 (base64_encode body)) @ newline @ ''-----END '' @ label @ ''-----'' @ newline"
    by (simp add: pem_def Let_def)
  then show ?thesis unfolding is_pem_def by (metis sublist_appendI append_Nil)
qed

lemma pemBuffer_inline:
  assumes "is_pem m"
  shows "pemBuffer pf (JStr (base64_encode m)) path label = Inr (Some m)"
proof -
  have "m \<noteq> []" using assms by (auto simp: is_pem_def)
  then have "base64_encode m \<noteq> []" by (simp add: base64_encode_Nil_iff)
  with assms show ?thesis by (simp add: pemBuffer_def and_trim_def js_trim_def nullish_def trimmed_def base64_roundtrip is_pem_def)
qed

lemma new_entry_fields [simp]:
  "oget (new_entry c ks) ''controller'' = JStr c"
  "oget (new_entry c ks) ''insecure'' = JBool False"
  "oget (new_entry c ks) ''ca-data'' = JStr (base64_encode (mt_cert (ck_ca ks)))"
  "oget (new_entry c ks) ''cert-data'' = JStr (base64_encode (mt_cert (ck_client ks)))"
  "oget (new_entry c ks) ''key-data'' = JStr (base64_encode (mt_key (ck_client ks)))"
  "oget (new_entry c ks) ''operator'' = JUndef"
  "oget (new_entry c ks) ''tls-server-name'' = JUndef"
  by (simp_all add: new_entry_def oget_def proto_keys_def)

lemma saved_entry:
  assumes "saved_config q ks = Inr config"
    and "nullish (oget (cq_config q) ''contexts'') \<or> (\<exists>cs. oget (cq_config q) ''contexts'' = JObj cs)"
    and "cq_context q \<noteq> []"
  shows "context_entry (Some config) = JObj (new_entry (cq_controller q) ks)"
proof -
  obtain ps where ps: "coalesce (oget (cq_config q) ''contexts'') (JObj []) = JObj ps"
    using assms(2) by (auto simp: coalesce_def nullish_def)
  then have "config = oset (oset (cq_config q) ''contexts''
      (JObj (oset ps (cq_context q) (JObj (new_entry (cq_controller q) ks))))) ''current-context'' (JStr (cq_context q))"
    using assms(1) by (simp add: saved_config_def set_context_def)
  with assms(3) show ?thesis by (simp add: context_entry_def oget_oset jindex_def)
qed

lemma connect_entry:
  assumes "readContext pf (configPath pf options) = Inr (Some config)"
    and entry: "context_entry (Some config) = JObj (new_entry controller ks)"
    and "options = no_options\<lparr>co_config := path\<rparr>"
    and "assertAddress controller ''controller'' = Inr controller" "controller \<noteq> []"
    and "is_pem (mt_cert (ck_ca ks))" "is_pem (mt_cert (ck_client ks))" "is_pem (mt_key (ck_client ks))"
  shows "resolveConnection pf options =
    Inr \<lparr>rc_address = controller, rc_insecure = JBool False, rc_tlsServerName = None,
         rc_ca = Some (mt_cert (ck_ca ks)), rc_cert = Some (mt_cert (ck_client ks)), rc_key = Some (mt_key (ck_client ks)),
         rc_timeoutMs = DEFAULT_TIMEOUT, rc_authorization = None\<rparr>"
proof -
  have opt: "co_controller options = None" "co_insecure options = None" "co_tlsServerName options = None"
    "co_operator options = None" "co_timeoutMs options = None"
    by (simp_all add: assms(3) no_options_def)
  let ?e = "JObj (new_entry controller ks)"
  have addr: "controller_address options ?e = JStr controller"
    using assms(5) by (simp add: controller_address_def opt trimmed_def js_or_def)
  have insec: "insecure_of options ?e = JBool False"
    by (simp add: insecure_of_def opt coalesce_def nullish_def)
  have none: "or_trim [None] what (jget ?e k) = Inr None" if "oget (new_entry controller ks) k = JUndef" for what k
    using that by (simp add: or_trim_def trimmed_def js_trim_def nullish_def)
  have mat: "loadMaterial pf ?e None cfg =
      Inr \<lparr>m_ca = Some (mt_cert (ck_ca ks)), m_cert = Some (mt_cert (ck_client ks)), m_key = Some (mt_key (ck_client ks))\<rparr>" for cfg
    using assms(6-8) by (simp add: loadMaterial_def pemBuffer_inline)
  show ?thesis
    unfolding resolveConnection_def assms(1) ebind_simps entry Let_def addr insec opt
    using assms(5) by (simp add: none mat js_address_def assms(4) timeout_of_def opt del: jget.simps)
qed

definition connect_options :: "ConnectionOptions \<Rightarrow> ConnectionOptions" where
  "connect_options options = no_options\<lparr>co_config := co_config options\<rparr>"

lemma cluster_request_parts:
  assumes "cluster_request pf spec options = Inr q"
  shows "assertAddress (cq_controller q) ''controller'' = Inr (cq_controller q)" "cq_controller q \<noteq> []"
    and "cq_context q \<noteq> []" "cq_configPath q = configPath pf options"
proof -
  obtain c n where c: "assertAddress c ''controller'' = Inr (cq_controller q)"
    and n: "assertName n ''context name'' = Inr (cq_context q)" and p: "cq_configPath q = configPath pf options"
    using assms unfolding cluster_request_def Let_def ebind_Inr_iff if_Inl_Inr_iff by auto
  from c have ok: "address_ok (cq_controller q)" "cq_controller q = trim c" using address_check.check_InrD by blast+
  from ok c show "assertAddress (cq_controller q) ''controller'' = Inr (cq_controller q)" by (simp add: assertAddress_def)
  from ok show "cq_controller q \<noteq> []" by (auto simp: address_ok_def)
  from n have "NAME (cq_context q)" using name_check.check_InrD by blast
  then show "cq_context q \<noteq> []" by (auto simp: NAME_def)
  from p show "cq_configPath q = configPath pf options" .
qed

text \<open>
  C4. What creation stores, a connection finds: after a successful creation, a client with the
  same context file that gives no address resolves the new controller over mutual TLS, with the
  new CA and the new client certificate and key. It relies on the YAML library reading the saved
  context back, on the X.509 library printing PEM, and on the \<^verbatim>\<open>contexts\<close> of the old file being a mapping.
\<close>

theorem create_then_connect:
  assumes created: "createClusterContext w pe spec options tr = (Inr cm, tr @ map FileEvent ops)"
    and q: "cluster_request (w_platform w) spec options = Inr q"
    and ks: "issue_all pe (pki_hostOf (cq_controller q)) = Inr ks"
    and cfg: "saved_config q ks = Inr config"
    and old: "nullish (oget (cq_config q) ''contexts'') \<or> (\<exists>cs. oget (cq_config q) ''contexts'' = JObj cs)"
    and yaml: "parse_yaml (w_platform w) (pe_stringify pe (JObj config)) = Inr (JObj config)"
    and pems: "is_pem (mt_cert (ck_ca ks))" "is_pem (mt_cert (ck_client ks))"
  shows "\<exists>c. resolveConnection ((w_platform w)\<lparr>read_file := reading_files (foldl file_step fs ops)\<rparr>) (connect_options options) = Inr c \<and>
    rc_address c = cq_controller q \<and> rc_insecure c = JBool False \<and>
    rc_ca c = Some (mt_cert (ck_ca ks)) \<and> rc_cert c = Some (mt_cert (ck_client ks)) \<and> rc_key c = Some (mt_key (ck_client ks))"
proof -
  let ?pf = "(w_platform w)\<lparr>read_file := reading_files (foldl file_step fs ops)\<rparr>"
  obtain es where es: "tr @ map FileEvent ops = tr @ map FileEvent es" "is_ok (Inr cm) \<longrightarrow> es = planned_ops (w_platform w) pe q ks"
    using followsE [OF createClusterContext_follows [OF q ks] created] by metis
  then have ops: "ops = planned_ops (w_platform w) pe q ks" by (simp add: inj_map_eq_map inj_def)
  have held: "foldl file_step fs ops (cq_configPath q) = Some (pe_stringify pe (JObj config))"
    by (simp add: ops planned_ops_def cfg save_ops_def)
  note parts = cluster_request_parts [OF q]
  have path: "configPath ?pf (connect_options options) = cq_configPath q"
    by (simp add: parts(4) configPath_def connect_options_def split: option.split)
  have "readContext ?pf (configPath ?pf (connect_options options)) = Inr (Some config)"
    unfolding path by (simp add: readContext_def reading_files_def held yaml)
  moreover have "is_pem (mt_key (ck_client ks))"
    using ks by (auto simp: issue_all_def signedBy_def pack_def ebind_Inr_iff is_pem_pem)
  ultimately show ?thesis
    using connect_entry [OF _ saved_entry [OF cfg old parts(3)] connect_options_def parts(1,2)] pems by auto
qed

section \<open>A concrete cluster\<close>

definition demo_pki :: pki_env where
  "demo_pki =
     \<lparr>pe_random = (\<lambda>n. ''*''), pe_pkcs8 = (\<lambda>n. ''k''),
      pe_create = (\<lambda>req. Inr ''-----BEGIN''),
      pe_checkIssued = (\<lambda>_ _. Inr True), pe_subject = (\<lambda>_. ''CN=kctl''), pe_isIP = (\<lambda>_. False),
      pe_stringify = (\<lambda>_. ''context'')\<rparr>"

definition demo_spec :: obj where
  "demo_spec = [(''controller'', JStr ''10.0.0.10:9090'')]"

definition demo_keys :: cluster_keys where
  "demo_keys = projr (issue_all demo_pki ''10.0.0.10'')"

definition demo_request :: cluster_request where
  "demo_request = projr (cluster_request bare_platform demo_spec no_options)"

definition demo_config :: obj where
  "demo_config = projr (saved_config demo_request demo_keys)"

text \<open>A machine whose YAML parser reads that context.\<close>

definition demo_world :: world where
  "demo_world = silent_world\<lparr>w_platform := bare_platform\<lparr>parse_yaml := (\<lambda>_. Inr (JObj demo_config))\<rparr>\<rparr>"

lemma demo_issued: "issue_all demo_pki (pki_hostOf (cq_controller demo_request)) = Inr demo_keys"
proof -
  have "is_ok (issue_all demo_pki ''10.0.0.10'')" by code_simp
  moreover have "pki_hostOf (cq_controller demo_request) = ''10.0.0.10''" by code_simp
  ultimately show ?thesis by (auto simp: demo_keys_def is_ok_iff)
qed

lemma demo_requested: "cluster_request (w_platform demo_world) demo_spec no_options = Inr demo_request"
proof -
  have "is_ok (cluster_request bare_platform demo_spec no_options)" by code_simp
  then have "cluster_request bare_platform demo_spec no_options = Inr demo_request"
    by (auto simp: demo_request_def is_ok_iff)
  moreover have "homedir (w_platform demo_world) = homedir bare_platform"
    "configPath (w_platform demo_world) opts = configPath bare_platform opts"
    "loadConfig (w_platform demo_world) p = loadConfig bare_platform p" for opts p
    by (simp_all add: demo_world_def configPath_def loadConfig_def bare_platform_def split: option.split)
  then have "cluster_request (w_platform demo_world) demo_spec no_options = cluster_request bare_platform demo_spec no_options"
    by (simp only: cluster_request_def)
  ultimately show ?thesis by simp
qed

lemma demo_saved: "saved_config demo_request demo_keys = Inr demo_config"
proof -
  have "is_ok (saved_config demo_request demo_keys)" by code_simp
  then show ?thesis by (auto simp: demo_config_def is_ok_iff)
qed

definition demo_ops :: "file_op list" where
  "demo_ops = planned_ops (w_platform demo_world) demo_pki demo_request demo_keys"

lemma demo_created:
  obtains cm where "createClusterContext demo_world demo_pki demo_spec no_options [] = (Inr cm, [] @ map FileEvent demo_ops)"
proof -
  obtain r tr where run: "createClusterContext demo_world demo_pki demo_spec no_options [] = (r, tr)" by fastforce
  have "is_ok (fst (createClusterContext demo_world demo_pki demo_spec no_options []))" by code_simp
  with run have "is_ok r" by simp
  with followsE [OF createClusterContext_follows [OF demo_requested demo_issued] run] have "tr = [] @ map FileEvent demo_ops"
    unfolding demo_ops_def by metis
  with run \<open>is_ok r\<close> that show thesis by (auto simp: is_ok_iff)
qed

lemma demo_ops_head: "demo_ops = Mkdir (cq_certsDir demo_request) mode_700 # tl demo_ops" "length demo_ops = 21"
  by (simp_all add: demo_ops_def planned_ops_def cert_files_def cert_ops_def demo_saved save_ops_def)


theorem trust_root_not_replaced_witness:
  "\<exists>q. cluster_request (w_platform demo_world) demo_spec no_options = Inr q \<and>
     \<not> hasCredentials (jindex (oget (cq_config q) ''contexts'') (cq_context q))"
proof -
  obtain cm where run: "createClusterContext demo_world demo_pki demo_spec no_options [] = (Inr cm, [] @ map FileEvent demo_ops)"
    by (rule demo_created)
  have "\<not> forced demo_spec" by code_simp
  moreover have "Rename (tmp_path (w_platform demo_world) (cq_configPath demo_request)) (cq_configPath demo_request) \<in> set demo_ops"
    by (simp add: demo_ops_def planned_ops_def demo_saved save_ops_def)
  ultimately show ?thesis using trust_root_not_replaced [OF run] by blast
qed


theorem create_then_connect_witness:
  "\<exists>c. resolveConnection ((w_platform demo_world)\<lparr>read_file := reading_files (foldl file_step (\<lambda>_. None) demo_ops)\<rparr>)
        (connect_options no_options) = Inr c \<and> rc_address c = ''10.0.0.10:9090''"
proof -
  obtain cm where run: "createClusterContext demo_world demo_pki demo_spec no_options [] = (Inr cm, [] @ map FileEvent demo_ops)"
    by (rule demo_created)
  have pems: "is_pem (mt_cert (ck_ca demo_keys))" "is_pem (mt_cert (ck_client demo_keys))" by code_simp+
  have yaml: "parse_yaml (w_platform demo_world) (pe_stringify demo_pki (JObj demo_config)) = Inr (JObj demo_config)"
    by (simp add: demo_world_def)
  have old: "oget (cq_config demo_request) ''contexts'' = JObj []" by code_simp
  have "cq_controller demo_request = ''10.0.0.10:9090''" by code_simp
  with create_then_connect [OF run demo_requested demo_issued demo_saved _ yaml pems, of "\<lambda>_. None"] old show ?thesis by auto
qed

end
