(* ===== verification/Tools.thy ===== *)
theory Tools
  imports Plan Vault Pki Advise
begin

text \<open>
  \<^verbatim>\<open>kcore-mcp/packages/server/src/server.ts\<close>: the helpers of the server and one definition per tool
  handler, over the outside \<open>world\<close> of \<open>Grpc\<close>. A handler is a computation with events: the RPCs,
  elicitations and file operations it performs, in order. Inputs have passed the tool's schema, so
  their fields are typed; a spec, a request and an answer are objects of arbitrary values.
\<close>

section \<open>Connections\<close>

record ConnectionInput = ConnectionOptions +
  ci_node :: "string option"

definition field_of :: "ConnectionInput option \<Rightarrow> (ConnectionInput \<Rightarrow> 'a option) \<Rightarrow> 'a option" where
  "field_of input f = (case input of Some i \<Rightarrow> f i | None \<Rightarrow> None)"

definition connectionOf :: "ConnectionInput option \<Rightarrow> string option \<Rightarrow> ConnectionOptions" where
  "connectionOf input controller =
     \<lparr>co_config = field_of input co_config,
      co_controller = (case controller of Some c \<Rightarrow> if c \<noteq> [] then Some c else field_of input co_controller
        | None \<Rightarrow> field_of input co_controller),
      co_insecure = field_of input co_insecure,
      co_tlsServerName = field_of input co_tlsServerName,
      co_operator = field_of input co_operator,
      co_timeoutMs = field_of input co_timeoutMs,
      co_provisioning = field_of input co_provisioning,
      co_provisioningInsecure = field_of input co_provisioningInsecure,
      co_token = field_of input co_token,
      co_vault = field_of input co_vault,
      co_vaultInsecure = field_of input co_vaultInsecure\<rparr>"

definition dial :: "ConnectionInput option \<Rightarrow> obj \<Rightarrow> ConnectionOptions" where
  "dial input spec =
     connectionOf input (case oget spec ''controller'' of JStr c \<Rightarrow> if trim c \<noteq> [] then Some (trim c) else None | _ \<Rightarrow> None)"

section \<open>Results\<close>

definition text_result :: "js \<Rightarrow> js" where
  "text_result payload =
     JObj [(''content'', JArr [JObj [(''type'', JStr ''text''),
       (''text'', case JSON_pretty (redact payload) of Some t \<Rightarrow> JStr t | None \<Rightarrow> JUndef)]])]"

definition failure :: "err \<Rightarrow> js" where
  "failure e = text_result (JObj [(''ok'', JBool False), (''error'', JStr (err_message e))])"

definition opt_js :: "('a \<Rightarrow> js) \<Rightarrow> 'a option \<Rightarrow> js" where
  "opt_js f x = (case x of Some v \<Rightarrow> f v | None \<Rightarrow> JUndef)"

definition question_js :: "Question \<Rightarrow> js" where
  "question_js item =
     JObj [(''id'', JStr (q_id item)), (''prompt'', JStr (q_prompt item)), (''why'', JStr (q_why item)),
           (''required'', JBool (q_required item)), (''choices'', opt_js jstrs (q_choices item)),
           (''example'', opt_js JStr (q_example item))]"

definition advice_fields :: "Advice \<Rightarrow> obj" where
  "advice_fields a =
     [(''kind'', case ad_kind a of Some k \<Rightarrow> JStr k | None \<Rightarrow> JNull),
      (''ready'', JBool (ad_ready a)),
      (''blocking'', JArr (map question_js (ad_blocking a))),
      (''recommended'', JArr (map question_js (ad_recommended a))),
      (''warnings'', jstrs (ad_warnings a)),
      (''askTheUser'', JStr (ad_askTheUser a)),
      (''nextTool'', JStr (ad_nextTool a))]"

definition action_js :: "plan_action \<Rightarrow> js" where
  "action_js a = JStr (case a of Create \<Rightarrow> ''create'' | Update \<Rightarrow> ''update'' | Unchanged \<Rightarrow> ''unchanged'' | Replace \<Rightarrow> ''replace'')"

definition change_js :: "FieldChange \<Rightarrow> js" where
  "change_js c =
     JObj [(''field'', JStr (fc_field c)), (''from'', fc_from c), (''to'', fc_to c), (''mutable'', JBool (fc_mutable c))]"

definition plan_js :: "LocalPlan \<Rightarrow> js" where
  "plan_js p =
     JObj [(''action'', action_js (LocalPlan.plan_action p)), (''changes'', JArr (map change_js (plan_changes p))),
           (''summary'', JStr (plan_summary p))]"

definition method_js :: "RpcMethod \<Rightarrow> js" where
  "method_js m =
     JObj [(''service'', JStr (rm_service m)), (''method'', JStr (rm_method m)), (''readOnly'', JBool (rm_readOnly m))]"

section \<open>Nodes\<close>

definition nodeAgentAddress :: "string \<Rightarrow> string" where
  "nodeAgentAddress address =
     (if startsWith address ''['' then
        (let e = (case indexOf CHR '']'' address of Some i \<Rightarrow> i | None \<Rightarrow> 0);
             host = (if 1 < e then drop 1 (take e address) else address);
             port = (if 1 < e then drop (e + 1) address else [])
         in if port = [] \<or> port = '':9090'' then ''['' @ host @ '']:9091'' else address)
      else case lastIndexOf CHR '':'' address of
             None \<Rightarrow> address @ '':9091''
           | Some split \<Rightarrow>
               if split = 0 then address @ '':9091''
               else if drop (split + 1) address = ''9090'' then take split address @ '':9091''
               else address)"

record node_target =
  nt_nodeId :: js
  nt_hostname :: js
  nt_address :: string

text \<open>\<^verbatim>\<open>v.key\<close>, which throws on \<^verbatim>\<open>null\<close> and \<^verbatim>\<open>undefined\<close>.\<close>

definition member :: "js \<Rightarrow> string \<Rightarrow> js res" where
  "member v key =
     (if nullish v
      then Inl (OtherError (''Cannot read properties of '' @ js_string v @ '' (reading '' @ quoted key @ '')''))
      else Inr (jget v key))"

definition node_entry :: "js \<Rightarrow> node_target res" where
  "node_entry node =
     (case coalesce (jget node ''address'') (JStr []) of
        JStr a \<Rightarrow> Inr \<lparr>nt_nodeId = coalesce (jget node ''nodeId'') (JStr []),
                       nt_hostname = coalesce (jget node ''hostname'') (JStr []),
                       nt_address = nodeAgentAddress a\<rparr>
      | _ \<Rightarrow> Inl (OtherError ''address.startsWith is not a function''))"

text \<open>\<^verbatim>\<open>(response.field ?? [])\<close>, on which the code calls an array method.\<close>

definition items_of :: "js \<Rightarrow> string \<Rightarrow> js list res" where
  "items_of response field =
     ebind (member response field) (\<lambda>v.
     case coalesce v (JArr []) of
       JArr xs \<Rightarrow> Inr xs
     | _ \<Rightarrow> Inl (OtherError (''(response.'' @ field @ '' ?? []).filter is not a function'')))"

definition clusterNodes :: "world \<Rightarrow> ConnectionOptions \<Rightarrow> (event, node_target list) io" where
  "clusterNodes w options =
     io_bind (callController w options ''listNodes'' []) (\<lambda>response.
     io_lift
      (ebind (items_of response ''nodes'') (\<lambda>nodes.
       ebind (emap (\<lambda>node. ebind (member node ''address'') (\<lambda>a. Inr (node, a))) nodes) (\<lambda>addressed.
       emap node_entry (map fst (filter (truthy \<circ> snd) addressed))))))"

text \<open>\<^verbatim>\<open>!wanted || image.name === wanted || image.path === wanted\<close>\<close>

definition image_wanted :: "string option \<Rightarrow> js \<Rightarrow> bool res" where
  "image_wanted wanted img =
     (case wanted of
        None \<Rightarrow> Inr True
      | Some n \<Rightarrow> ebind (member img ''name'') (\<lambda>v. Inr (v = JStr n \<or> jget img ''path'' = JStr n)))"

definition target_fields :: "node_target \<Rightarrow> obj" where
  "target_fields t = [(''nodeId'', nt_nodeId t), (''hostname'', nt_hostname t), (''address'', JStr (nt_address t))]"

definition node_images :: "world \<Rightarrow> ConnectionOptions \<Rightarrow> string option \<Rightarrow> node_target \<Rightarrow> (event, js) io" where
  "node_images w options wanted t =
     io_try
      (io_bind (callNodeCompute w (nt_address t) options ''listImages'' []) (\<lambda>response.
       io_bind (io_lift (items_of response ''images'')) (\<lambda>all_images.
       io_bind (io_lift (emap (\<lambda>img. ebind (image_wanted wanted img) (\<lambda>b. Inr (img, b))) all_images)) (\<lambda>judged.
       io_return (JObj (spread (target_fields t) [(''images'', JArr (map fst (filter snd judged)))]))))))
      (\<lambda>e. io_return (JObj (spread (target_fields t) [(''error'', JStr (err_message e))])))"

definition readImages :: "world \<Rightarrow> ConnectionOptions \<Rightarrow> string option \<Rightarrow> string option \<Rightarrow> (event, js) io" where
  "readImages w options node name =
     io_bind
      (case trimmed node of
         Some n \<Rightarrow> io_return [\<lparr>nt_nodeId = JStr [], nt_hostname = JStr [], nt_address = nodeAgentAddress n\<rparr>]
       | None \<Rightarrow> clusterNodes w options) (\<lambda>targets.
     io_bind (io_map (node_images w options (trimmed name)) targets) (\<lambda>listed.
     io_return (JObj [(''nodes'', JArr listed)])))"

section \<open>Executing calls\<close>

definition execute :: "world \<Rightarrow> RpcCall \<Rightarrow> ConnectionOptions \<Rightarrow> (event, js) io" where
  "execute w rpc_call options =
     (case call_target rpc_call of
        NodeAgent \<Rightarrow>
          (case call_address rpc_call of
             Some a \<Rightarrow> if a = [] then io_throw (InputError ''node address is required'')
                        else callNode w a options (call_method rpc_call) (call_request rpc_call)
           | None \<Rightarrow> io_throw (InputError ''node address is required''))
      | Controller \<Rightarrow> callController w options (call_method rpc_call) (call_request rpc_call))"

definition upsert_probes :: "(string \<times> string \<times> string option) list" where
  "upsert_probes =
     [(''createKubernetesCluster'', ''getKubernetesCluster'', Some ''updateKubernetesCluster''),
      (''createOperator'', ''getOperator'', None)]"

text \<open>\<^verbatim>\<open>/not found|not_found/i\<close>\<close>

definition not_found :: "string \<Rightarrow> bool" where
  "not_found message \<longleftrightarrow>
     includes_str (toLowerCase message) ''not found'' \<or> includes_str (toLowerCase message) ''not_found''"

definition resolveUpsert :: "world \<Rightarrow> RpcCall \<Rightarrow> ConnectionOptions \<Rightarrow> (event, RpcCall option) io" where
  "resolveUpsert w rpc_call options =
     (case map_of upsert_probes (call_method rpc_call) of
        None \<Rightarrow> io_return (Some rpc_call)
      | Some (probe, swap) \<Rightarrow>
          io_try
           (io_bind (execute w (ctl probe [(''name'', oget (call_request rpc_call) ''name'')]) options) (\<lambda>_.
            io_return (case swap of Some m \<Rightarrow> Some (rpc_call\<lparr>call_method := m\<rparr>) | None \<Rightarrow> None)))
           (\<lambda>e. if not_found (err_message e) then io_return (Some rpc_call) else io_throw e))"

section \<open>Asking the operator\<close>

definition question_schema :: "Question \<Rightarrow> js" where
  "question_schema item =
     JObj ([(''type'', JStr ''string''), (''title'', JStr (q_prompt item)), (''description'', JStr (q_why item))] @
       (case q_choices item of Some cs \<Rightarrow> [(''enum'', jstrs cs)] | None \<Rightarrow> []))"

definition requested_schema :: "Question list \<Rightarrow> obj" where
  "requested_schema questions =
     [(''type'', JStr ''object''),
      (''properties'', JObj (foldl (\<lambda>ps item. oset ps (q_id item) (question_schema item)) [] questions)),
      (''required'', jstrs (map q_id (filter q_required questions)))]"

definition accepted_content :: "elicit_reply \<Rightarrow> obj option" where
  "accepted_content reply =
     (case reply of Some (action, content) \<Rightarrow> if action \<noteq> ''accept'' then None else content | None \<Rightarrow> None)"

definition elicit :: "world \<Rightarrow> string \<Rightarrow> Question list \<Rightarrow> (event, obj option) io" where
  "elicit w message questions =
     (if length questions = 0 then io_return None
      else io_event (\<lambda>tr _. Inr (accepted_content (w_elicit w tr message (requested_schema questions))))
             (ElicitEvent message (requested_schema questions)))"

definition confirm_question :: "string \<Rightarrow> string \<Rightarrow> Question" where
  "confirm_question prompt why = question ''confirm'' prompt why True (Some [''yes'', ''no'']) None"

text \<open>The guard of the changing tools: go on if \<^verbatim>\<open>confirm\<close> is true or the operator answers yes.\<close>

definition says_yes :: "obj option \<Rightarrow> bool" where
  "says_yes answer = (case answer of Some c \<Rightarrow> oget c ''confirm'' = JStr ''yes'' | None \<Rightarrow> False)"

definition confirm_then :: "world \<Rightarrow> bool \<Rightarrow> string \<Rightarrow> Question \<Rightarrow> js \<Rightarrow> (event, js) io \<Rightarrow> (event, js) io" where
  "confirm_then w confirm message q refused go =
     (if confirm then go
      else io_bind (elicit w message [q]) (\<lambda>accepted. if says_yes accepted then go else io_return refused))"

record prepared =
  pr_ready :: bool
  pr_desired :: "Desired option"
  pr_advice :: Advice

definition prepare :: "world \<Rightarrow> AdviseInput \<Rightarrow> (event, prepared) io" where
  "prepare w input =
     (let spec = spread [] (case ai_spec input of Some s \<Rightarrow> s | None \<Rightarrow> []) in
      io_bind (io_lift (advise (w_platform w) (input\<lparr>ai_spec := Some spec\<rparr>))) (\<lambda>advice.
      io_bind
       (if \<not> ad_ready advice \<and> 0 < length (ad_blocking advice)
        then io_bind (elicit w ''kcore needs a few answers before it will plan or apply this change.'' (ad_blocking advice)) (\<lambda>answers.
             case answers of
               None \<Rightarrow> io_return (spec, advice)
             | Some a \<Rightarrow>
                 let merged = mergeAnswers spec a in
                 io_bind (io_lift (advise (w_platform w) (input\<lparr>ai_spec := Some merged\<rparr>))) (\<lambda>advice'.
                 io_return (merged, advice')))
        else io_return (spec, advice)) (\<lambda>(final, adviceResult).
      io_bind (io_lift (normalizeDesired (w_platform w) (input\<lparr>ai_spec := Some final\<rparr>))) (\<lambda>normalized.
      io_return
       (case normalized of
          Inl kindError \<Rightarrow> \<lparr>pr_ready = False, pr_desired = None, pr_advice = adviceResult\<rparr>
        | Inr d \<Rightarrow> \<lparr>pr_ready = ad_ready adviceResult, pr_desired = Some d, pr_advice = adviceResult\<rparr>)))))"

end
