(* ===== verification/Server.thy ===== *)
theory Server
  imports Tools
begin

text \<open>
  \<^verbatim>\<open>createServer\<close> of \<^verbatim>\<open>kcore-mcp/packages/server/src/server.ts\<close>: one definition per registered tool, prompt
  and resource, and \<open>handle_tool\<close>, which runs the handler of a tool rpc_call. The input records have the
  fields of the tools' schemas; a boolean the schema requires is a \<open>bool\<close>, an optional field an
  \<open>option\<close>, \<^verbatim>\<open>nullable().optional()\<close> an \<open>option\<close> too since the code tests it for truth only.
\<close>

section \<open>Catalog, RPC and advice\<close>

definition kind_fields :: "ResourceKind \<Rightarrow> obj" where
  "kind_fields kind =
     [(''id'', JStr (kind_id kind)), (''yamlKind'', JStr (yamlKind kind)), (''summary'', JStr (summary kind)),
      (''mutable'', jstrs (mutable kind)), (''immutable'', jstrs (immutable kind))]"

definition kcore_catalog :: "(event, js) io" where
  "kcore_catalog =
     io_return (text_result (JObj
      [(''resources'', JArr (map (\<lambda>kind. JObj (kind_fields kind)) KINDS)),
       (''rpc'', JStr ''Call kcore_rpc with no method to list every implemented unary gRPC method.'')]))"

record rpc_input =
  ri_service :: "string option"
  ri_method :: "string option"
  ri_request :: "obj option"
  ri_confirm :: "bool option"
  ri_connection :: "ConnectionInput option"

definition reports :: "(event, js) io \<Rightarrow> (event, js) io" where
  "reports body = io_try body (\<lambda>e. io_return (failure e))"

definition nonempty :: "string option \<Rightarrow> string option" where
  "nonempty s = (case s of Some t \<Rightarrow> if t = [] then None else Some t | None \<Rightarrow> None)"

definition kcore_rpc :: "world \<Rightarrow> rpc_input \<Rightarrow> (event, js) io" where
  "kcore_rpc w input =
     reports
      (case nonempty (ri_method input) of
         None \<Rightarrow> io_return (text_result (JObj [(''ok'', JBool True),
           (''methods'', JArr (map method_js (rpcCatalog (w_platform w) (ri_service input))))]))
       | Some m \<Rightarrow>
           (case nonempty (ri_service input) of
              None \<Rightarrow> io_throw (InputError ''service is required when method is set'')
            | Some s \<Rightarrow>
                io_bind (io_lift (requireRpc (w_platform w) s m)) (\<lambda>rpc.
                if \<not> rm_readOnly rpc \<and> ri_confirm input \<noteq> Some True
                then io_return (text_result (JObj
                  [(''ok'', JBool False), (''applied'', JBool False),
                   (''service'', JStr (rm_service rpc)), (''method'', JStr (rm_method rpc)),
                   (''askTheUser'', JStr (''Show '' @ rm_service rpc @ ''.'' @ rm_method rpc @
                     '' to the operator. Call kcore_rpc again with confirm true only after they agree.''))]))
                else
                  let nodeService = startsWith (rm_service rpc) ''node-'';
                      address = field_of (ri_connection input) ci_node
                  in if nodeService \<and> nonempty address = None
                     then io_throw (InputError ''connection.node is required for a node RPC (host:port, usually :9091)'')
                     else io_bind
                       (callApi w (rm_service rpc) (if nodeService then address else None)
                         (connectionOf (ri_connection input) None) (rm_method rpc)
                         (case ri_request input of Some r \<Rightarrow> r | None \<Rightarrow> [])) (\<lambda>response.
                       io_return (text_result (JObj
                         [(''ok'', JBool True), (''service'', JStr (rm_service rpc)),
                          (''method'', JStr (rm_method rpc)), (''response'', response)]))))))"

definition kcore_advise :: "world \<Rightarrow> AdviseInput \<Rightarrow> (event, js) io" where
  "kcore_advise w input =
     io_bind (io_lift (advise (w_platform w) input)) (\<lambda>a. io_return (text_result (JObj (advice_fields a))))"

section \<open>Plan and apply\<close>

record plan_input = AdviseInput +
  pi_current :: "obj option"
  pi_checkCluster :: "bool option"
  pi_connection :: "ConnectionInput option"

definition plan_next :: string where
  "plan_next = ''Show this plan to the operator. Call kcore_apply with confirm true only after they agree.''"

definition cluster_plan :: "Advice \<Rightarrow> js" where
  "cluster_plan advice =
     JObj [(''ok'', JBool True), (''kind'', JStr ''cluster''),
       (''plan'', JObj [(''action'', JStr ''create''),
         (''summary'', JStr ''Generate a cluster CA, a controller certificate for this address, and a client certificate. The context is saved for later gRPC calls. Private keys stay on disk.'')]),
       (''files'', jstrs [''ca.crt'', ''ca.key'', ''sub-ca.crt'', ''sub-ca.key'', ''controller.crt'', ''controller.key'', ''kctl.crt'', ''kctl.key'']),
       (''warnings'', jstrs (ad_warnings advice)),
       (''next'', JStr plan_next)]"

definition check_cluster :: "world \<Rightarrow> ConnectionInput option \<Rightarrow> Desired \<Rightarrow> (event, js) io" where
  "check_cluster w connection d =
     io_bind (io_lift (buildPlanCall (w_platform w) (d_kind d) (d_spec d) None)) (\<lambda>rpc_call.
     io_try (execute w rpc_call (dial connection (d_spec d)))
      (\<lambda>e. if includes_str (toLowerCase (err_message e)) ''not found''
           then io_return (JObj [(''found'', JBool False), (''message'', JStr (err_message e))])
           else io_throw e))"

definition kcore_plan :: "world \<Rightarrow> plan_input \<Rightarrow> (event, js) io" where
  "kcore_plan w input =
     reports
      (io_bind (prepare w (AdviseInput.truncate input)) (\<lambda>prepared.
       case (if pr_ready prepared then pr_desired prepared else None) of
         None \<Rightarrow> io_return (text_result (JObj (advice_fields (pr_advice prepared))))
       | Some d \<Rightarrow>
           if kind_id (d_kind d) = ''cluster'' then io_return (text_result (cluster_plan (pr_advice prepared)))
           else
             let local = diffSpec (d_kind d) (d_spec d) (pi_current input) in
             io_bind (if pi_checkCluster input = Some True then check_cluster w (pi_connection input) d else io_return JUndef) (\<lambda>cluster.
             io_bind (io_lift (buildApply (w_platform w) (d_kind d) (d_spec d))) (\<lambda>calls.
             io_return (text_result (JObj
              [(''ok'', JBool True), (''kind'', JStr (kind_id (d_kind d))), (''plan'', plan_js local),
               (''rpc'', jstrs (map call_method calls)),
               (''warnings'', jstrs (ad_warnings (pr_advice prepared))),
               (''recommendedQuestions'', JArr (map question_js (ad_recommended (pr_advice prepared)))),
               (''cluster'', cluster), (''next'', JStr plan_next)]))))))"

record apply_input = AdviseInput +
  ap_confirm :: bool
  ap_confirmReplace :: "bool option"
  ap_current :: "obj option"
  ap_connection :: "ConnectionInput option"

definition material_fields :: "ClusterMaterial \<Rightarrow> obj" where
  "material_fields m =
     [(''context'', JStr (cm_context m)), (''controller'', JStr (cm_controller m)), (''configPath'', JStr (cm_configPath m)),
      (''certsDir'', JStr (cm_certsDir m)), (''files'', jstrs (cm_files m))]"

text \<open>One round of the loop of \<^verbatim>\<open>kcore_apply\<close>: the responses it pushes, none where the resource is already there.\<close>

definition run_planned :: "world \<Rightarrow> ConnectionOptions \<Rightarrow> RpcCall \<Rightarrow> (event, js list) io" where
  "run_planned w options planned =
     io_bind (resolveUpsert w planned options) (\<lambda>resolved.
     case resolved of
       None \<Rightarrow> io_return []
     | Some rpc_call \<Rightarrow>
         io_bind (execute w rpc_call options) (\<lambda>response.
         io_return [JObj [(''method'', JStr (call_method rpc_call)), (''response'', response)]]))"

definition apply_desired :: "world \<Rightarrow> pki_env \<Rightarrow> ConnectionInput option \<Rightarrow> LocalPlan \<Rightarrow> Desired \<Rightarrow> (event, js) io" where
  "apply_desired w pe connection local d =
     (if kind_id (d_kind d) = ''cluster''
      then io_bind (createClusterContext w pe (d_spec d) (connectionOf connection None)) (\<lambda>created.
        io_return (text_result (JObj (spread [(''applied'', JBool True), (''plan'', plan_js local)] (material_fields created)))))
      else
        let options = dial connection (d_spec d) in
        io_bind (io_lift (buildApply (w_platform w) (d_kind d) (d_spec d))) (\<lambda>calls.
        io_bind (io_map (run_planned w options) calls) (\<lambda>responses.
        io_return (text_result (JObj
         [(''applied'', JBool True), (''plan'', plan_js local), (''responses'', JArr (concat responses))])))))"

definition kcore_apply :: "world \<Rightarrow> pki_env \<Rightarrow> apply_input \<Rightarrow> (event, js) io" where
  "kcore_apply w pe input =
     reports
      (io_bind (prepare w (AdviseInput.truncate input)) (\<lambda>prepared.
       case (if pr_ready prepared then pr_desired prepared else None) of
         None \<Rightarrow> io_return (text_result (JObj (spread [(''applied'', JBool False)] (advice_fields (pr_advice prepared)))))
       | Some d \<Rightarrow>
           let local = diffSpec (d_kind d) (d_spec d) (ap_current input) in
           if LocalPlan.plan_action local = Replace \<and> ap_confirmReplace input \<noteq> Some True
           then io_return (text_result (JObj
             [(''applied'', JBool False), (''plan'', plan_js local),
              (''askTheUser'', JStr ''This change replaces the resource. Ask the operator, then rpc_call kcore_apply again with confirmReplace true.'')]))
           else confirm_then w (ap_confirm input) ''Apply this kcore change now?''
             (confirm_question ''Apply this change now?'' (plan_summary local))
             (text_result (JObj
               [(''applied'', JBool False), (''plan'', plan_js local), (''warnings'', jstrs (ad_warnings (pr_advice prepared))),
                (''askTheUser'', JStr ''Show the plan and ask the operator to agree. Call kcore_apply again with confirm true after they do.'')]))
             (apply_desired w pe (ap_connection input) local d)))"

section \<open>Read and delete\<close>

record read_input =
  rd_kind :: string
  rd_name :: "string option"
  rd_connection :: "ConnectionInput option"

definition unknown_kind :: "string \<Rightarrow> err" where
  "unknown_kind k = InputError (''unknown kind '' @ k)"

definition done_with :: "string \<Rightarrow> string \<Rightarrow> js \<Rightarrow> js" where
  "done_with key method response =
     text_result (JObj [(key, JBool True), (''method'', JStr method), (''response'', response)])"

definition kcore_read :: "world \<Rightarrow> read_input \<Rightarrow> (event, js) io" where
  "kcore_read w input =
     reports
      (case findKind (Some (rd_kind input)) of
         None \<Rightarrow> io_throw (unknown_kind (rd_kind input))
       | Some kind \<Rightarrow>
           let options = connectionOf (rd_connection input) None in
           if kind_id kind = ''image''
           then io_bind (readImages w options (field_of (rd_connection input) ci_node) (rd_name input)) (\<lambda>response.
                io_return (done_with ''ok'' ''listImages'' response))
           else io_bind (io_lift (buildRead kind (rd_name input))) (\<lambda>rpc_call.
                io_bind (execute w rpc_call options) (\<lambda>response.
                io_return (done_with ''ok'' (call_method rpc_call) response))))"

record delete_input =
  de_kind :: string
  de_name :: string
  de_confirm :: bool
  de_connection :: "ConnectionInput option"

definition kcore_delete :: "world \<Rightarrow> delete_input \<Rightarrow> (event, js) io" where
  "kcore_delete w input =
     reports
      (case findKind (Some (de_kind input)) of
         None \<Rightarrow> io_throw (unknown_kind (de_kind input))
       | Some kind \<Rightarrow>
           if kind_id kind = ''cluster''
           then io_return (text_result (JObj [(''deleted'', JBool False),
             (''askTheUser'', JStr ''Cluster delete removes local trust material. Ask the operator to edit ~/.kcore/config themselves. This tool will not delete certificates.'')]))
           else confirm_then w (de_confirm input) (''Delete '' @ title kind @ '' '' @ de_name input @ ''?'')
             (confirm_question (''Delete '' @ title kind @ '' '' @ quoted (de_name input) @ ''?'')
               (if kind_id kind = ''cluster-update'' then ''This cancels a non-terminal update and keeps history.''
                else ''The controller deletes the resource.''))
             (text_result (JObj [(''deleted'', JBool False),
               (''askTheUser'', JStr (''Ask the operator before deleting '' @ title kind @ '' '' @ quoted (de_name input)
                 @ ''. Call kcore_delete with confirm true after they agree.''))]))
             (io_bind (io_lift (buildDelete kind (de_name input))) (\<lambda>rpc_call.
              io_bind (execute w rpc_call (connectionOf (de_connection input) None)) (\<lambda>response.
              io_return (done_with ''deleted'' (call_method rpc_call) response)))))"

section \<open>Operations\<close>

record operation_input =
  op_action :: string
  op_spec :: obj
  op_confirm :: bool
  op_connection :: "ConnectionInput option"

definition install_questions :: "obj \<Rightarrow> Question list" where
  "install_questions spec =
     (if \<not> truthy (oget spec ''node'')
      then [question ''node'' ''What is the node-agent address (host:port)?'' ''Install talks to the node directly.''
              True None (Some ''10.0.0.21:9091'')] else []) @
     (if \<not> truthy (oget spec ''osDisk'')
      then [question ''osDisk'' ''Which disk should KcoreOS install onto?''
              ''This disk is partitioned for the OS. Confirm the device with the operator.'' True None (Some ''/dev/sda'')] else []) @
     (if \<not> truthy (oget spec ''joinController'')
      then [question ''joinController'' ''Which controller should the node join (host:port)?''
              ''The node registers with this controller after install.'' True None (Some ''10.0.0.10:9090'')] else [])"

definition ACKNOWLEDGE :: string where
  "ACKNOWLEDGE = ''wipe the selected disks''"

text \<open>The first block of the handler: what it returns to the caller (\<open>Inl\<close>), or the spec with which it goes on.\<close>

definition install_interview :: "world \<Rightarrow> obj \<Rightarrow> (event, js + obj) io" where
  "install_interview w spec =
     (let questions = install_questions spec in
      io_bind
       (if 0 < length questions
        then io_bind (elicit w ''A few answers before installing a node.'' questions) (\<lambda>answers.
             io_return (case answers of
               None \<Rightarrow> Inl (text_result (JObj [(''applied'', JBool False), (''blocking'', JArr (map question_js questions)),
                 (''askTheUser'', JStr ''Ask the operator these questions before installing a node.'')]))
             | Some a \<Rightarrow> Inr (spread spec a)))
        else io_return (Inr spec)) (\<lambda>step.
      io_return
       (case step of
          Inl refused \<Rightarrow> Inl refused
        | Inr filled \<Rightarrow>
            if oget filled ''acknowledge'' \<noteq> JStr ACKNOWLEDGE
            then Inl (text_result (JObj [(''applied'', JBool False),
              (''askTheUser'', JStr (''Node install partitions the selected disks. Ask the operator to confirm the exact devices, then call again with spec.acknowledge set to ''
                @ quoted ACKNOWLEDGE @ '' and confirm true.''))]))
            else Inr filled)))"

definition install_node :: "world \<Rightarrow> ConnectionInput option \<Rightarrow> obj \<Rightarrow> (event, js) io" where
  "install_node w connection spec =
     (let options = connectionOf connection None in
      io_bind (io_lift (bootstrapCertRequest spec)) (\<lambda>boot.
      io_bind (callController w options ''issueNodeBootstrapCert''
        [(''nodeId'', JStr (boot_nodeId boot)), (''nodeHost'', JStr (boot_nodeHost boot))]) (\<lambda>issued.
      io_bind (io_lift (member issued ''success'')) (\<lambda>success.
      if success = JBool False
      then io_return (text_result (JObj [(''applied'', JBool False),
        (''error'', js_or (jget issued ''message'') (JStr ''the controller refused the node bootstrap certificate''))]))
      else
        io_bind (io_lift (buildOperation ''install-node'' spec)) (\<lambda>rpc_call.
        io_bind (io_lift (resolveConnection (w_platform w) options)) (\<lambda>conn.
        let request = oset (oset (oset (call_request rpc_call)
              ''caCertPem'' (JStr (case rc_ca conn of Some ca \<Rightarrow> ca | None \<Rightarrow> [])))
              ''nodeCertPem'' (coalesce (jget issued ''certPem'') (JStr [])))
              ''nodeKeyPem'' (coalesce (jget issued ''keyPem'') (JStr []))
        in io_bind (execute w (rpc_call\<lparr>call_request := request\<rparr>) (options\<lparr>co_timeoutMs := Some (Fin 600000)\<rparr>)) (\<lambda>response.
           io_return (done_with ''applied'' (call_method rpc_call) response))))))))"

definition run_operation :: "world \<Rightarrow> operation_input \<Rightarrow> obj \<Rightarrow> (event, js) io" where
  "run_operation w input spec =
     (if op_action input = ''install-node'' then install_node w (op_connection input) spec
      else io_bind (io_lift (buildOperation (op_action input) spec)) (\<lambda>rpc_call.
           io_bind (execute w rpc_call (connectionOf (op_connection input) None)) (\<lambda>response.
           io_return (done_with ''applied'' (call_method rpc_call) response))))"

definition kcore_operation :: "world \<Rightarrow> operation_input \<Rightarrow> (event, js) io" where
  "kcore_operation w input =
     reports
      (io_bind (if op_action input = ''install-node'' then install_interview w (op_spec input) else io_return (Inr (op_spec input))) (\<lambda>step.
       case step of
         Inl refused \<Rightarrow> io_return refused
       | Inr spec \<Rightarrow>
           confirm_then w (op_confirm input) (''Run '' @ op_action input @ ''?'')
             (confirm_question (''Run '' @ op_action input @ '' now?'') ''This changes the cluster.'')
             (text_result (JObj [(''applied'', JBool False),
               (''askTheUser'', JStr (''Ask the operator before running '' @ op_action input @ ''. Call kcore_operation with confirm true after they agree.''))]))
             (run_operation w input spec)))"

section \<open>Prompts and the catalog resource\<close>

definition prompt_message :: "string \<Rightarrow> js" where
  "prompt_message t =
     JObj [(''messages'', JArr [JObj [(''role'', JStr ''user''),
       (''content'', JObj [(''type'', JStr ''text''), (''text'', JStr t)])]])]"

definition prompt_create_vm :: js where
  "prompt_create_vm = prompt_message ''Help me create a kcore VM. Call kcore_advise for kind vm, ask me every question it returns, then kcore_plan, and wait for my yes before kcore_apply.''"

definition prompt_bootstrap_cluster :: js where
  "prompt_bootstrap_cluster = prompt_message ''Help me bootstrap a kcore cluster. Start with kcore_advise for kind cluster, ask for the controller address, plan, and apply the context only after I agree. Then ask whether I want a network and a first VM.''"

definition resource_catalog :: "string \<Rightarrow> js" where
  "resource_catalog href =
     JObj [(''contents'', JArr [JObj [(''uri'', JStr href), (''mimeType'', JStr ''application/json''),
       (''text'', JStr (json_text (JArr (map (\<lambda>kind. JObj (without [''yamlKind''] (kind_fields kind))) KINDS))))]])]"

section \<open>The vault tools\<close>

record vault_read_input =
  vr_view :: string
  vr_vault :: "string option"

definition kcore_vault_read :: "world \<Rightarrow> vault_read_input \<Rightarrow> (event, js) io" where
  "kcore_vault_read w input =
     reports (io_bind (readVault w (vaultAddress (w_platform w) (vr_vault input)) (vr_view input)) (\<lambda>v. io_return (text_result v)))"

record vault_apply_input =
  va_manifest :: "string option"
  va_kind :: "string option"
  va_spec :: "obj option"
  va_confirm :: "bool option"
  va_vault :: "string option"

definition refused_result :: "string \<Rightarrow> js" where
  "refused_result refused = text_result (JObj [(''ok'', JBool False), (''error'', JStr refused)])"

definition kcore_vault_apply :: "world \<Rightarrow> vault_apply_input \<Rightarrow> (event, js) io" where
  "kcore_vault_apply w input =
     (case unconfirmed (va_confirm input) of
        Some refused \<Rightarrow> io_return (refused_result refused)
      | None \<Rightarrow>
          reports
           (let docs = (case nonempty (va_manifest input) of
                  Some m \<Rightarrow> documents (w_platform w) m
                | None \<Rightarrow> [JObj (spread [(''kind'', opt_js JStr (va_kind input))] (case va_spec input of Some s \<Rightarrow> s | None \<Rightarrow> []))])
            in io_bind (io_map (applyVault w (vaultAddress (w_platform w) (va_vault input))) docs) (\<lambda>applied.
               io_return (text_result (JObj [(''ok'', JBool True), (''applied'', JArr applied)])))))"

record vault_operate_input =
  vo_action :: string
  vo_spec :: "obj option"
  vo_confirm :: "bool option"
  vo_vault :: "string option"

definition kcore_vault_operate :: "world \<Rightarrow> vault_operate_input \<Rightarrow> (event, js) io" where
  "kcore_vault_operate w input =
     (case unconfirmed (vo_confirm input) of
        Some refused \<Rightarrow> io_return (refused_result refused)
      | None \<Rightarrow>
          reports
           (io_bind (operateVault w (vaultAddress (w_platform w) (vo_vault input))
              (JObj (spread [(''action'', JStr (vo_action input))] (case vo_spec input of Some s \<Rightarrow> s | None \<Rightarrow> [])))) (\<lambda>v.
            io_return (text_result v))))"

section \<open>Tool calls\<close>

datatype tool_call =
    Kcore_catalog
  | Kcore_rpc rpc_input
  | Kcore_advise AdviseInput
  | Kcore_plan plan_input
  | Kcore_apply apply_input
  | Kcore_read read_input
  | Kcore_delete delete_input
  | Kcore_operation operation_input
  | Kcore_vault_read vault_read_input
  | Kcore_vault_apply vault_apply_input
  | Kcore_vault_operate vault_operate_input

fun handle_tool :: "world \<Rightarrow> pki_env \<Rightarrow> tool_call \<Rightarrow> (event, js) io" where
  "handle_tool w pe Kcore_catalog = kcore_catalog"
| "handle_tool w pe (Kcore_rpc i) = kcore_rpc w i"
| "handle_tool w pe (Kcore_advise i) = kcore_advise w i"
| "handle_tool w pe (Kcore_plan i) = kcore_plan w i"
| "handle_tool w pe (Kcore_apply i) = kcore_apply w pe i"
| "handle_tool w pe (Kcore_read i) = kcore_read w i"
| "handle_tool w pe (Kcore_delete i) = kcore_delete w i"
| "handle_tool w pe (Kcore_operation i) = kcore_operation w i"
| "handle_tool w pe (Kcore_vault_read i) = kcore_vault_read w i"
| "handle_tool w pe (Kcore_vault_apply i) = kcore_vault_apply w i"
| "handle_tool w pe (Kcore_vault_operate i) = kcore_vault_operate w i"

end
