(* ===== verification/Session.thy ===== *)
theory Session
  imports Server
begin

text \<open>
  What the tools of the server may do to the outside world. A change is a file operation or an RPC
  that the server does not classify as a read. \<open>gate_ok\<close> is a monitor over the events of a tool
  call: it accepts a change only once the call is approved, by its \<^verbatim>\<open>confirm\<close> flag or by an operator who
  answered yes to the confirmation question in the same call. The rules below carry the monitor
  through the combinators of a computation, the locale \<open>monitored\<close> lifts it from the handlers of a
  server to a session of calls, and the server's own handlers are its instance.
\<close>

section \<open>The monitor\<close>

fun mutates :: "event \<Rightarrow> bool" where
  "mutates (RpcEvent e) = (\<not> isReadOnlyMethod (re_method e))"
| "mutates (ElicitEvent m s) = False"
| "mutates (FileEvent op) = True"

text \<open>The one question asked is the confirmation, and the answer to it is yes.\<close>

definition asks_confirm :: "obj \<Rightarrow> bool" where
  "asks_confirm s \<longleftrightarrow>
     map fst (obj_of (oget s ''properties'')) = [''confirm''] \<and>
     jget (oget (obj_of (oget s ''properties'')) ''confirm'') ''enum'' = jstrs [''yes'', ''no''] \<and>
     oget s ''required'' = jstrs [''confirm'']"

fun approves :: "world \<Rightarrow> event list \<Rightarrow> event \<Rightarrow> bool" where
  "approves w tr (ElicitEvent m s) = (asks_confirm s \<and> says_yes (accepted_content (w_elicit w tr m s)))"
| "approves w tr _ = False"

fun gate_ok :: "world \<Rightarrow> event list \<Rightarrow> bool \<Rightarrow> event list \<Rightarrow> bool" where
  "gate_ok w tr ok [] = True"
| "gate_ok w tr ok (e # es) = ((\<not> mutates e \<or> ok) \<and> gate_ok w (tr @ [e]) (ok \<or> approves w tr e) es)"

lemma gate_ok_True [simp]: "gate_ok w tr True es"
  by (induction es arbitrary: tr) simp_all

lemma gate_ok_mono: "gate_ok w tr ok es \<Longrightarrow> (ok \<Longrightarrow> ok') \<Longrightarrow> gate_ok w tr ok' es"
  by (cases ok'; cases ok) simp_all

lemma gate_ok_quiet: "list_all (\<lambda>e. \<not> mutates e) es \<Longrightarrow> gate_ok w tr ok es"
  by (induction es arbitrary: tr ok) simp_all

lemma gate_ok_append:
  "gate_ok w tr ok xs \<Longrightarrow> gate_ok w (tr @ xs) ok ys \<Longrightarrow> gate_ok w tr ok (xs @ ys)"
proof (induction xs arbitrary: tr ok)
  case (Cons x xs)
  have "gate_ok w ((tr @ [x]) @ xs) (ok \<or> approves w tr x) ys"
    using Cons.prems(2) by (auto elim: gate_ok_mono)
  with Cons.IH [of "tr @ [x]"] Cons.prems(1) show ?case by simp
qed simp

lemma gate_ok_explained:
  assumes "gate_ok w tr ok (pre @ e # post)" and "mutates e"
  shows "ok \<or> (\<exists>before q between. pre = before @ q # between \<and> approves w (tr @ before) q)"
  using assms
proof (induction pre arbitrary: tr ok)
  case (Cons x pre)
  from Cons.prems have "gate_ok w (tr @ [x]) (ok \<or> approves w tr x) (pre @ e # post)" by simp
  from Cons.IH [OF this Cons.prems(2)] show ?case
  proof (elim disjE exE conjE)
    assume "approves w tr x"
    then have "x # pre = [] @ x # pre \<and> approves w (tr @ []) x" by simp
    then show ?thesis by blast
  next
    fix before q between
    assume "pre = before @ q # between" "approves w ((tr @ [x]) @ before) q"
    then have "x # pre = (x # before) @ q # between \<and> approves w (tr @ x # before) q" by simp
    then show ?thesis by blast
  qed simp
qed simp

section \<open>Monitored computations\<close>

definition gated :: "world \<Rightarrow> bool \<Rightarrow> (event, 'a) io \<Rightarrow> bool" where
  "gated w ok m = (\<forall>tr. \<exists>es. snd (m tr) = tr @ es \<and> gate_ok w tr ok es)"

named_theorems gated_intros \<open>rules that show a computation passes the monitor\<close>

lemma gatedD:
  assumes "gated w ok m" and "m tr = (r, tr')"
  shows "\<exists>es. tr' = tr @ es \<and> gate_ok w tr ok es"
  using assms unfolding gated_def by (metis snd_conv)

lemma gated_quiet: "emits (\<lambda>e. \<not> mutates e) m \<Longrightarrow> gated w ok m"
  unfolding gated_def emits_def using gate_ok_quiet by blast

lemma gated_approved: "emits (\<lambda>e. True) m \<Longrightarrow> gated w True m"
  by (auto simp: gated_def emits_def)

lemma gated_lift [gated_intros]: "gated w ok (io_lift r)"
  by (simp add: gated_def)

lemma gated_bind [gated_intros]:
  assumes "gated w ok m" and "\<And>x. gated w ok (f x)"
  shows "gated w ok (io_bind m f)"
  unfolding gated_def
proof
  fix tr
  obtain r tr' where m: "m tr = (r, tr')" by fastforce
  from gatedD [OF assms(1) m] obtain es where es: "tr' = tr @ es" "gate_ok w tr ok es" by blast
  show "\<exists>es. snd (io_bind m f tr) = tr @ es \<and> gate_ok w tr ok es"
  proof (cases r)
    case (Inl e)
    with m es show ?thesis by (simp add: io_bind_def)
  next
    case (Inr x)
    obtain r2 tr2 where f: "f x tr' = (r2, tr2)" by fastforce
    from gatedD [OF assms(2) f] obtain es2 where es2: "tr2 = tr' @ es2" "gate_ok w tr' ok es2" by blast
    with es have "gate_ok w tr ok (es @ es2)" by (simp add: gate_ok_append)
    with m es es2 f Inr show ?thesis by (simp add: io_bind_def)
  qed
qed

lemma gated_lift_bind:
  assumes "\<And>x. r = Inr x \<Longrightarrow> gated w ok (f x)"
  shows "gated w ok (io_bind (io_lift r) f)"
  using assms by (cases r) (auto intro: gated_intros)

lemma gated_if [gated_intros]:
  "(b \<Longrightarrow> gated w ok m) \<Longrightarrow> (\<not> b \<Longrightarrow> gated w ok n) \<Longrightarrow> gated w ok (if b then m else n)"
  by simp

lemma gated_option [gated_intros]:
  "(x = None \<Longrightarrow> gated w ok m) \<Longrightarrow> (\<And>y. x = Some y \<Longrightarrow> gated w ok (f y)) \<Longrightarrow>
   gated w ok (case x of None \<Rightarrow> m | Some y \<Rightarrow> f y)"
  by (cases x) simp_all

lemma gated_sum [gated_intros]:
  "(\<And>y. x = Inl y \<Longrightarrow> gated w ok (g y)) \<Longrightarrow> (\<And>y. x = Inr y \<Longrightarrow> gated w ok (f y)) \<Longrightarrow>
   gated w ok (case x of Inl y \<Rightarrow> g y | Inr y \<Rightarrow> f y)"
  by (cases x) simp_all

lemma gated_let [gated_intros]: "gated w ok (f x) \<Longrightarrow> gated w ok (let y = x in f y)"
  by simp

lemma snd_reports: "snd (reports m tr) = snd (m tr)"
  by (simp add: reports_def io_try_def split: prod.split sum.split)

lemma gated_reports [gated_intros]: "gated w ok m \<Longrightarrow> gated w ok (reports m)"
  by (simp add: gated_def snd_reports)

lemma emits_reports [emits_intros]: "emits P m \<Longrightarrow> emits P (reports m)"
  by (simp add: emits_def snd_reports)

section \<open>Asking for confirmation\<close>

lemma asks_confirm_question: "asks_confirm (requested_schema [confirm_question prompt why])"
  by (simp add: asks_confirm_def requested_schema_def confirm_question_def question_def question_schema_def
      oset_def oget_def is_index_def)

lemma elicit_quiet: "emits (\<lambda>e. \<not> mutates e) (elicit w message qs)"
  unfolding elicit_def by (auto intro: emits_intros)

lemma gated_confirm_then [gated_intros]:
  assumes "emits (\<lambda>e. True) go"
  shows "gated w ok (confirm_then w ok message (confirm_question prompt why) refused go)"
proof (cases ok)
  case True
  with assms show ?thesis by (simp add: confirm_then_def gated_approved)
next
  case False
  let ?s = "requested_schema [confirm_question prompt why]"
  show ?thesis unfolding gated_def
  proof
    fix tr
    let ?a = "accepted_content (w_elicit w tr message ?s)"
    let ?e = "ElicitEvent message ?s"
    obtain r tr' where go: "go (tr @ [?e]) = (r, tr')" by fastforce
    from emitsD [OF assms go] obtain es where es: "tr' = (tr @ [?e]) @ es" by blast
    have "snd (confirm_then w ok message (confirm_question prompt why) refused go tr)
        = (if says_yes ?a then tr' else tr @ [?e])"
      using False go by (simp add: confirm_then_def elicit_def io_bind_def)
    moreover have "approves w tr ?e" if "says_yes ?a"
      using that asks_confirm_question by simp
    ultimately show "\<exists>es. snd (confirm_then w ok message (confirm_question prompt why) refused go tr) = tr @ es \<and> gate_ok w tr ok es"
      using es by (cases "says_yes ?a") auto
  qed
qed

section \<open>What the handlers emit\<close>

lemma callApi_extends: "emits (\<lambda>e. True) (callApi w service address options method request)"
  by (rule emits_callApi_if) simp

lemma callApi_quiet:
  "isReadOnlyMethod method \<Longrightarrow> emits (\<lambda>e. \<not> mutates e) (callApi w service address options method request)"
  by (rule emits_callApi_if) (simp add: dials_def)

lemmas call_defs = callController_def callNode_def callNodeCompute_def vault_call_def

lemma execute_extends: "emits (\<lambda>e. True) (execute w c options)"
  unfolding execute_def call_defs by (auto intro!: emits_intros callApi_extends split: target.split)

lemma execute_quiet: "isReadOnlyMethod (call_method c) \<Longrightarrow> emits (\<lambda>e. \<not> mutates e) (execute w c options)"
  unfolding execute_def call_defs by (auto intro!: emits_intros callApi_quiet split: target.split)

lemma probes_read: "list_all (\<lambda>p. isReadOnlyMethod (fst (snd p))) upsert_probes"
  by code_simp

lemma resolveUpsert_quiet: "emits (\<lambda>e. \<not> mutates e) (resolveUpsert w c options)"
proof -
  have "isReadOnlyMethod probe" if "map_of upsert_probes m = Some (probe, swap)" for m probe swap
    using map_of_SomeD [OF that] probes_read by (force simp: list_all_iff)
  then show ?thesis
    unfolding resolveUpsert_def by (auto intro!: emits_intros execute_quiet split: option.split)
qed

lemma run_planned_extends: "emits (\<lambda>e. True) (run_planned w options planned)"
  unfolding run_planned_def
  by (intro emits_intros execute_extends emits_mono [OF resolveUpsert_quiet]) simp

lemma io_fs_extends: "emits (\<lambda>e. True) (io_fs w op)"
  unfolding io_fs_def by (rule emits_event) simp

lemma createClusterContext_extends: "emits (\<lambda>e. True) (createClusterContext w pe spec options)"
  unfolding createClusterContext_def write_cert_def save_config_def Let_def
  by (intro emits_intros io_fs_extends)

lemma prepare_quiet: "emits (\<lambda>e. \<not> mutates e) (prepare w input)"
  unfolding prepare_def Let_def
  by (auto intro!: emits_intros elicit_quiet split: prod.split)

lemma apply_desired_extends: "emits (\<lambda>e. True) (apply_desired w pe connection local d)"
  unfolding apply_desired_def
  by (intro emits_intros createClusterContext_extends run_planned_extends)

lemma install_interview_quiet: "emits (\<lambda>e. \<not> mutates e) (install_interview w spec)"
  unfolding install_interview_def by (intro emits_intros elicit_quiet)

lemma install_node_extends: "emits (\<lambda>e. True) (install_node w connection spec)"
  unfolding install_node_def call_defs by (intro emits_intros callApi_extends execute_extends)

lemma run_operation_extends: "emits (\<lambda>e. True) (run_operation w input spec)"
  unfolding run_operation_def by (intro emits_intros install_node_extends execute_extends)

lemma readImages_quiet: "emits (\<lambda>e. \<not> mutates e) (readImages w options node name)"
proof -
  have "isReadOnlyMethod ''listNodes''" "isReadOnlyMethod ''listImages''" by code_simp+
  then show ?thesis
    unfolding readImages_def clusterNodes_def node_images_def call_defs by (intro emits_intros callApi_quiet)
qed

lemma vault_reads_quiet: "emits (\<lambda>e. \<not> mutates e) (readVault w address view)"
  using vault_methods_classified(1)
  by (auto simp: vault_rpc_def is_rpc_def list_all_iff split: event.splits intro!: emits_mono [OF readVault_reads])

lemma vault_writes_extend:
  "emits (\<lambda>e. True) (applyVault w address doc)" "emits (\<lambda>e. True) (operateVault w address doc)"
  by (rule emits_mono [OF applyVault_writes] emits_mono [OF operateVault_writes], simp)+

section \<open>Every tool passes the monitor\<close>

primrec tool_confirmed :: "tool_call \<Rightarrow> bool" where
  "tool_confirmed Kcore_catalog = False"
| "tool_confirmed (Kcore_rpc i) = (ri_confirm i = Some True)"
| "tool_confirmed (Kcore_advise i) = False"
| "tool_confirmed (Kcore_plan i) = False"
| "tool_confirmed (Kcore_apply i) = ap_confirm i"
| "tool_confirmed (Kcore_read i) = False"
| "tool_confirmed (Kcore_delete i) = de_confirm i"
| "tool_confirmed (Kcore_operation i) = op_confirm i"
| "tool_confirmed (Kcore_vault_read i) = False"
| "tool_confirmed (Kcore_vault_apply i) = (va_confirm i = Some True)"
| "tool_confirmed (Kcore_vault_operate i) = (vo_confirm i = Some True)"

lemma kcore_advise_quiet: "emits (\<lambda>e. \<not> mutates e) (kcore_advise w input)"
  unfolding kcore_advise_def by (intro emits_intros)

lemma check_cluster_quiet: "emits (\<lambda>e. \<not> mutates e) (check_cluster w connection d)"
  unfolding check_cluster_def
  by (rule emits_lift_bind, intro emits_intros execute_quiet)
     (use on_okD [OF buildPlanCall_reading] reading_sound in blast)

lemma kcore_plan_quiet: "emits (\<lambda>e. \<not> mutates e) (kcore_plan w input)"
  unfolding kcore_plan_def by (intro emits_intros prepare_quiet check_cluster_quiet)

lemma kcore_read_quiet: "emits (\<lambda>e. \<not> mutates e) (kcore_read w input)"
proof -
  have read: "emits (\<lambda>e. \<not> mutates e) (io_bind (io_lift (buildRead kind name)) (\<lambda>c.
      io_bind (execute w c options) (f c)))" if "\<And>c x. emits (\<lambda>e. \<not> mutates e) (f c x)" for kind name options f
    by (rule emits_lift_bind, intro emits_bind execute_quiet that)
       (use on_okD [OF buildRead_reading] reading_sound in blast)
  show ?thesis
    unfolding kcore_read_def Let_def
    by (intro emits_reports emits_option emits_if emits_lift emits_bind [OF readImages_quiet])
       (rule read, rule emits_lift)
qed

lemma kcore_vault_read_quiet: "emits (\<lambda>e. \<not> mutates e) (kcore_vault_read w input)"
  unfolding kcore_vault_read_def by (intro emits_intros vault_reads_quiet)

lemma kcore_rpc_gated: "gated w (ri_confirm input = Some True) (kcore_rpc w input)"
proof -
  have checked: "gated w (ri_confirm input = Some True)
      (if \<not> rm_readOnly rpc \<and> ri_confirm input \<noteq> Some True then io_return x
       else let n = startsWith (rm_service rpc) ''node-''; a = address in
         if n \<and> nonempty a = None then io_throw e
         else io_bind (callApi w (rm_service rpc) (if n then a else None) options (rm_method rpc) request) (\<lambda>v. io_return (g v)))"
    if "requireRpc (w_platform w) s m = Inr rpc" for s m rpc address options request g x e
  proof (cases "rm_readOnly rpc")
    case True
    with that have "isReadOnlyMethod (rm_method rpc)" by (auto simp: requireRpc_ok)
    with True show ?thesis
      by (auto simp: Let_def intro!: gated_quiet emits_intros callApi_quiet)
  next
    case False
    then show ?thesis
      by (cases "ri_confirm input = Some True")
         (auto simp: Let_def intro!: gated_approved emits_intros callApi_extends gated_lift)
  qed
  show ?thesis
    unfolding kcore_rpc_def by (intro gated_reports gated_option gated_lift gated_lift_bind) (rule checked)
qed

lemma kcore_apply_gated: "gated w (ap_confirm input) (kcore_apply w pe input)"
  unfolding kcore_apply_def
  by (intro gated_intros gated_quiet [OF prepare_quiet] apply_desired_extends)

lemma kcore_delete_gated: "gated w (de_confirm input) (kcore_delete w input)"
  unfolding kcore_delete_def by (intro gated_intros emits_intros execute_extends)

lemma kcore_operation_gated: "gated w (op_confirm input) (kcore_operation w input)"
  unfolding kcore_operation_def
  by (intro gated_intros gated_quiet [OF install_interview_quiet] run_operation_extends)

lemma kcore_vault_apply_gated: "gated w (va_confirm input = Some True) (kcore_vault_apply w input)"
  unfolding kcore_vault_apply_def unconfirmed_def
  by (auto intro!: gated_lift gated_approved emits_intros vault_writes_extend)

lemma kcore_vault_operate_gated: "gated w (vo_confirm input = Some True) (kcore_vault_operate w input)"
  unfolding kcore_vault_operate_def unconfirmed_def
  by (auto intro!: gated_lift gated_approved emits_intros vault_writes_extend)

lemma handle_tool_gated: "gated w (tool_confirmed c) (handle_tool w pe c)"
  by (cases c)
     (simp_all add: kcore_rpc_gated kcore_apply_gated kcore_delete_gated kcore_operation_gated
       kcore_vault_apply_gated kcore_vault_operate_gated gated_quiet kcore_advise_quiet kcore_plan_quiet
       kcore_read_quiet kcore_vault_read_quiet kcore_catalog_def gated_lift)

section \<open>Sessions\<close>

text \<open>
  A session is a sequence of tool calls, each run to its end on the world the earlier ones left.
  The log has the calls with the events of each.
\<close>

inductive session :: "('c \<Rightarrow> (event, 'a) io) \<Rightarrow> ('c \<times> event list) list \<Rightarrow> event list \<Rightarrow> bool" for handle where
  start: "session handle [] []"
| step: "session handle calls tr \<Longrightarrow> handle c tr = (r, tr @ es) \<Longrightarrow> session handle (calls @ [(c, es)]) (tr @ es)"

definition log_events :: "('c \<times> event list) list \<Rightarrow> event list" where
  "log_events calls = concat (map snd calls)"

lemma log_events_simps [simp]:
  "log_events [] = []" "log_events (calls @ [(c, es)]) = log_events calls @ es"
  by (simp_all add: log_events_def)

lemma session_events: "session handle calls tr \<Longrightarrow> tr = log_events calls"
  by (induction rule: session.induct) simp_all

lemma session_entry:
  assumes "session handle calls tr" and "calls = before @ (c, es) # rest"
  shows "\<exists>r. handle c (log_events before) = (r, log_events before @ es)"
  using assms
proof (induction arbitrary: rest rule: session.induct)
  case (step calls tr c' r es')
  show ?case
  proof (cases rest rule: rev_cases)
    case Nil
    with step.prems have "calls = before" "c' = c" "es' = es" by auto
    with step.hyps session_events [OF step.hyps(1)] show ?thesis by auto
  next
    case (snoc init last)
    with step.prems have "calls = before @ (c, es) # init" by auto
    with step.IH show ?thesis by blast
  qed
qed simp

lemma concat_position:
  assumes "concat (map snd calls) = pre @ e # post"
  shows "\<exists>before c es rest a b. calls = before @ (c, es) # rest \<and> es = a @ e # b \<and> pre = concat (map snd before) @ a"
  using assms
proof (induction calls arbitrary: pre)
  case (Cons x calls)
  obtain c es where x: "x = (c, es)" by fastforce
  with Cons.prems have eq: "es @ concat (map snd calls) = pre @ e # post" by simp
  then consider us where "es = pre @ us" "us @ concat (map snd calls) = e # post"
    | us where "pre = es @ us" "concat (map snd calls) = us @ e # post"
    by (auto simp: append_eq_append_conv2)
  then show ?case
  proof cases
    case (1 us)
    show ?thesis
    proof (cases us)
      case Nil
      with 1 have "concat (map snd calls) = [] @ e # post" by simp
      from Cons.IH [OF this] obtain before c' es' rest a b
        where "calls = before @ (c', es') # rest" "es' = a @ e # b" "[] = concat (map snd before) @ a" by blast
      with x 1 Nil have "x # calls = (x # before) @ (c', es') # rest \<and> es' = a @ e # b \<and> pre = concat (map snd (x # before)) @ a"
        by simp
      then show ?thesis by blast
    next
      case (Cons u us')
      with 1 x have "x # calls = [] @ (c, es) # calls \<and> es = pre @ e # us' \<and> pre = concat (map snd []) @ pre" by simp
      then show ?thesis by blast
    qed
  next
    case (2 us)
    from Cons.IH [OF 2(2)] obtain before c' es' rest a b
      where "calls = before @ (c', es') # rest" "es' = a @ e # b" "us = concat (map snd before) @ a" by blast
    with x 2 have "x # calls = (x # before) @ (c', es') # rest \<and> es' = a @ e # b \<and> pre = concat (map snd (x # before)) @ a"
      by simp
    then show ?thesis by blast
  qed
qed simp

text \<open>A server whose handlers all pass the monitor.\<close>

locale monitored =
  fixes w :: world
    and handle :: "'c \<Rightarrow> (event, 'a) io"
    and confirmed :: "'c \<Rightarrow> bool"
  assumes handle_gated: "gated w (confirmed c) (handle c)"
begin

lemma handle_extends: "\<exists>r es. handle c tr = (r, tr @ es) \<and> gate_ok w tr (confirmed c) es"
  using gatedD [OF handle_gated] by (metis surj_pair)

lemma session_continues: "session handle calls tr \<Longrightarrow> \<exists>es. session handle (calls @ [(c, es)]) (tr @ es)"
  using handle_extends by (meson session.step)

lemma session_changes_owned:
  assumes "session handle calls tr" and "tr = pre @ e # post" and "mutates e"
  shows "\<exists>before c es rest a b. calls = before @ (c, es) # rest \<and> es = a @ e # b \<and> pre = log_events before @ a \<and>
    (confirmed c \<or> (\<exists>a1 q a2. a = a1 @ q # a2 \<and> approves w (log_events before @ a1) q))"
proof -
  have "concat (map snd calls) = pre @ e # post"
    using session_events [OF assms(1)] assms(2) by (simp add: log_events_def)
  from concat_position [OF this] obtain before c es rest a b
    where calls: "calls = before @ (c, es) # rest" and es: "es = a @ e # b" and pre: "pre = log_events before @ a"
    by (auto simp: log_events_def)
  from session_entry [OF assms(1) calls] obtain r where "handle c (log_events before) = (r, log_events before @ es)" by blast
  with handle_extends [of c "log_events before"] es have "gate_ok w (log_events before) (confirmed c) (a @ e # b)" by auto
  from gate_ok_explained [OF this assms(3)] calls es pre show ?thesis by blast
qed

end

interpretation server: monitored w "handle_tool w pe" tool_confirmed for w pe
  by unfold_locales (rule handle_tool_gated)

text \<open>
  C1: in every session of tool calls, each file operation and each RPC that is not a read belongs to
  one call of the log, and that call was confirmed by its flag, or earlier in the same call the
  operator was asked for confirmation and answered yes.
\<close>

theorem session_changes_authorised:
  assumes "session (handle_tool w pe) calls tr" and "tr = pre @ e # post" and "mutates e"
  shows "\<exists>before c es rest a b. calls = before @ (c, es) # rest \<and> es = a @ e # b \<and> pre = log_events before @ a \<and>
    (tool_confirmed c \<or> (\<exists>a1 q a2. a = a1 @ q # a2 \<and> approves w (log_events before @ a1) q))"
  using assms by (rule server.session_changes_owned)

definition yes_world :: world where
  "yes_world = silent_world\<lparr>w_elicit := (\<lambda>_ _ _. Some (''accept'', Some [(''confirm'', JStr ''yes'')]))\<rparr>"

definition demo_connection :: ConnectionInput where
  "demo_connection = ConnectionOptions.extend dial_options \<lparr>ci_node = None\<rparr>"

definition demo_delete :: tool_call where
  "demo_delete = Kcore_delete \<lparr>de_kind = ''vm'', de_name = ''web'', de_confirm = False, de_connection = Some demo_connection\<rparr>"

definition demo_events :: "event list" where
  "demo_events = snd (handle_tool yes_world demo_pki demo_delete [])"

theorem session_changes_authorised_witness:
  "\<exists>a1 q a2. [hd demo_events] = a1 @ q # a2 \<and> approves yes_world a1 q"
proof -
  have run: "session (handle_tool yes_world demo_pki) ([] @ [(demo_delete, demo_events)]) ([] @ demo_events)"
    by (rule session.step [OF session.start]) (simp add: demo_events_def prod_eq_iff)
  have two: "length demo_events = 2" "mutates (demo_events ! 1)" by code_simp+
  have "xs = [hd xs] @ xs ! 1 # []" if "length xs = 2" for xs :: "event list"
    using that by (cases xs; cases "tl xs") auto
  from this [OF two(1)] have split: "demo_events = [hd demo_events] @ demo_events ! 1 # []" .
  have "\<not> tool_confirmed demo_delete" by code_simp
  with session_changes_authorised [OF run [simplified] split two(2)] show ?thesis
    by (auto simp: Cons_eq_append_conv)
qed

section \<open>The tools marked read-only\<close>

text \<open>The annotation \<^verbatim>\<open>readOnlyHint\<close> a tool is registered with.\<close>

primrec readOnlyHint :: "tool_call \<Rightarrow> bool" where
  "readOnlyHint Kcore_catalog = True"
| "readOnlyHint (Kcore_rpc i) = False"
| "readOnlyHint (Kcore_advise i) = True"
| "readOnlyHint (Kcore_plan i) = True"
| "readOnlyHint (Kcore_apply i) = False"
| "readOnlyHint (Kcore_read i) = True"
| "readOnlyHint (Kcore_delete i) = False"
| "readOnlyHint (Kcore_operation i) = False"
| "readOnlyHint (Kcore_vault_read i) = True"
| "readOnlyHint (Kcore_vault_apply i) = False"
| "readOnlyHint (Kcore_vault_operate i) = False"

text \<open>
  C2: a tool registered as read-only performs no file operation and no RPC but reads, whatever the
  controller, the nodes and the operator answer.
\<close>

theorem read_only_tools_only_read:
  assumes "readOnlyHint c" and "handle_tool w pe c tr = (r, tr')"
  shows "\<exists>es. tr' = tr @ es \<and> list_all (\<lambda>e. \<not> mutates e) es"
proof -
  have "emits (\<lambda>e. \<not> mutates e) (handle_tool w pe c)"
    using assms(1)
    by (cases c) (simp_all add: kcore_advise_quiet kcore_plan_quiet kcore_read_quiet kcore_vault_read_quiet
        kcore_catalog_def emits_lift)
  then show ?thesis using assms(2) by (rule emitsD)
qed

definition demo_read :: tool_call where
  "demo_read = Kcore_read \<lparr>rd_kind = ''image'', rd_name = None,
     rd_connection = Some (demo_connection\<lparr>ci_node := Some ''10.0.0.21''\<rparr>)\<rparr>"

theorem read_only_tools_only_read_witness:
  "snd (handle_tool silent_world demo_pki demo_read []) \<noteq> [] \<and>
   list_all (\<lambda>e. \<not> mutates e) (snd (handle_tool silent_world demo_pki demo_read []))"
proof
  show "snd (handle_tool silent_world demo_pki demo_read []) \<noteq> []" by code_simp
  have "readOnlyHint demo_read" by code_simp
  from read_only_tools_only_read [OF this surjective_pairing, of silent_world demo_pki "[]"]
  show "list_all (\<lambda>e. \<not> mutates e) (snd (handle_tool silent_world demo_pki demo_read []))" by simp
qed

section \<open>What a tool answers\<close>

lemma returns_iff: "returns Q m \<longleftrightarrow> (\<forall>tr x tr'. m tr = (Inr x, tr') \<longrightarrow> Q x)"
proof
  assume "returns Q m"
  then show "\<forall>tr x tr'. m tr = (Inr x, tr') \<longrightarrow> Q x"
    unfolding returns_def by (metis fst_conv sum.simps(6))
next
  assume "\<forall>tr x tr'. m tr = (Inr x, tr') \<longrightarrow> Q x"
  then show "returns Q m" unfolding returns_def by (metis (no_types) old.sum.exhaust prod.collapse sum.simps(5,6))
qed

lemma returns_bind:
  assumes "returns Q m" and "\<And>x. Q x \<Longrightarrow> returns R (f x)"
  shows "returns R (io_bind m f)"
proof -
  have "R y" if "m tr = (Inr x, tr1)" "f x tr1 = (Inr y, tr2)" for tr x tr1 y tr2
    using assms that unfolding returns_iff by blast
  then show ?thesis unfolding returns_iff io_bind_def by (auto split: prod.splits sum.splits)
qed

lemma returns_True [simp]: "returns (\<lambda>x. True) m"
  by (simp add: returns_iff)

lemma returns_if: "(b \<Longrightarrow> returns Q m) \<Longrightarrow> (\<not> b \<Longrightarrow> returns Q n) \<Longrightarrow> returns Q (if b then m else n)"
  by simp

lemma returns_option:
  "(x = None \<Longrightarrow> returns Q m) \<Longrightarrow> (\<And>y. x = Some y \<Longrightarrow> returns Q (f y)) \<Longrightarrow>
   returns Q (case x of None \<Rightarrow> m | Some y \<Rightarrow> f y)"
  by (cases x) simp_all

text \<open>A computation that returns the text of a payload, or throws.\<close>

definition tells :: "(event, js) io \<Rightarrow> bool" where
  "tells = returns (\<lambda>r. \<exists>payload. r = text_result payload)"

named_theorems tells_intros \<open>computations that return a text\<close>

lemma tells_rules [tells_intros]:
  "tells (io_return (text_result payload))" "tells (io_throw e)"
  "tells (io_return (done_with key m response))"
  "(\<And>x. tells (f x)) \<Longrightarrow> tells (io_bind n f)"
  "(b \<Longrightarrow> tells p) \<Longrightarrow> (\<not> b \<Longrightarrow> tells q) \<Longrightarrow> tells (if b then p else q)"
  "(x = None \<Longrightarrow> tells p) \<Longrightarrow> (\<And>y. x = Some y \<Longrightarrow> tells (g y)) \<Longrightarrow> tells (case x of None \<Rightarrow> p | Some y \<Rightarrow> g y)"
  "tells (h y) \<Longrightarrow> tells (let z = y in h z)"
  by (auto simp: tells_def done_with_def intro: returns_bind [of "\<lambda>x. True"] returns_option)

lemma tells_confirm_then [tells_intros]: "tells go \<Longrightarrow> tells (confirm_then w ok message q (text_result p) go)"
  unfolding confirm_then_def by (intro tells_intros)

lemma reports_tells:
  assumes "tells m"
  shows "\<exists>payload. fst (reports m tr) = Inr (text_result payload)"
proof (cases "m tr")
  case (Pair r tr')
  with assms show ?thesis
    unfolding tells_def returns_def reports_def io_try_def failure_def
    by (cases r) (force dest: spec [of _ tr])+
qed

lemma apply_desired_tells: "tells (apply_desired w pe connection local d)"
  unfolding apply_desired_def by (intro tells_intros)

lemma run_operation_tells: "tells (run_operation w input spec)"
  unfolding run_operation_def install_node_def by (intro tells_intros)

lemma install_interview_text:
  "returns (\<lambda>step. case step of Inl r \<Rightarrow> \<exists>payload. r = text_result payload | Inr spec \<Rightarrow> True) (install_interview w spec)"
  unfolding install_interview_def Let_def
  by (auto simp: returns_def io_bind_def split: prod.split sum.split option.split)

lemma kcore_operation_answers: "\<exists>payload. fst (kcore_operation w input tr) = Inr (text_result payload)"
proof -
  have "tells (case step of Inl refused \<Rightarrow> io_return refused | Inr spec \<Rightarrow> confirm_then w ok message q (text_result p) (run_operation w input spec))"
    if "case step of Inl r \<Rightarrow> \<exists>payload. r = text_result payload | Inr spec \<Rightarrow> True" for step ok message q p
    using that by (cases step) (auto intro!: tells_intros run_operation_tells)
  moreover have "returns (\<lambda>step. case step of Inl r \<Rightarrow> \<exists>payload. r = text_result payload | Inr spec \<Rightarrow> True)
      (if op_action input = ''install-node'' then install_interview w (op_spec input) else io_return (Inr (op_spec input)))"
    by (simp add: install_interview_text)
  ultimately show ?thesis
    unfolding kcore_operation_def tells_def by (intro reports_tells [unfolded tells_def] returns_bind)
qed

lemma quiet_tools_answer:
  "\<exists>payload. fst (kcore_plan w i1 tr) = Inr (text_result payload)"
  "\<exists>payload. fst (kcore_read w i2 tr) = Inr (text_result payload)"
  "\<exists>payload. fst (kcore_vault_read w i3 tr) = Inr (text_result payload)"
  unfolding kcore_plan_def kcore_read_def kcore_vault_read_def
  by (intro reports_tells tells_intros)+

lemma changing_tools_answer:
  "\<exists>payload. fst (kcore_rpc w i1 tr) = Inr (text_result payload)"
  "\<exists>payload. fst (kcore_apply w pe i2 tr) = Inr (text_result payload)"
  "\<exists>payload. fst (kcore_delete w i3 tr) = Inr (text_result payload)"
  unfolding kcore_rpc_def kcore_apply_def kcore_delete_def
  by (intro reports_tells tells_intros apply_desired_tells)+

lemma vault_tools_answer:
  "\<exists>payload. fst (kcore_vault_apply w i1 tr) = Inr (text_result payload)"
  "\<exists>payload. fst (kcore_vault_operate w i2 tr) = Inr (text_result payload)"
  unfolding kcore_vault_apply_def kcore_vault_operate_def refused_result_def
  by (auto split: option.split intro!: reports_tells tells_intros)

lemma catalog_answers: "\<exists>payload. fst (kcore_catalog tr) = Inr (text_result payload)"
  unfolding kcore_catalog_def by (rule exI, simp)

lemma advise_answers:
  "(\<exists>payload. fst (kcore_advise w i tr) = Inr (text_result payload)) \<or> (\<exists>e. advise (w_platform w) i = Inl e)"
  by (cases "advise (w_platform w) i") (auto simp: kcore_advise_def)

text \<open>
  C3: every tool answers with the redacted text of a payload, errors included, so that no string
  under a secret key is in it; the one exception is \<^verbatim>\<open>kcore_advise\<close> on a manifest the YAML parser
  rejects, whose error leaves the handler.
\<close>

theorem tools_answer_redacted:
  "(\<exists>shown. fst (handle_tool w pe c tr) = Inr (JObj [(''content'', JArr [JObj [(''type'', JStr ''text''),
        (''text'', case JSON_pretty shown of Some t \<Rightarrow> JStr t | None \<Rightarrow> JUndef)]])]) \<and> \<not> leaks shown) \<or>
   (\<exists>i e. c = Kcore_advise i \<and> advise (w_platform w) i = Inl e \<and> handle_tool w pe c tr = (Inl e, tr))"
proof (cases "\<exists>i e. c = Kcore_advise i \<and> advise (w_platform w) i = Inl e")
  case True
  then show ?thesis by (auto simp: kcore_advise_def)
next
  case False
  then have "\<exists>payload. fst (handle_tool w pe c tr) = Inr (text_result payload)"
    by (cases c; simp add: quiet_tools_answer changing_tools_answer vault_tools_answer kcore_operation_answers catalog_answers;
        use advise_answers in blast)
  then show ?thesis unfolding text_result_def using leaks_redact by blast
qed

end
