(* ===== verification/Flows.thy ===== *)
theory Flows
  imports Session
begin

text \<open>
  The two places where a tool makes more than one dependent call: an apply that looks a resource up
  before it creates it, and a node installation that first obtains the node's certificate. The
  lemmas say which sequences of RPCs can occur and what the later ones take from the earlier replies.
\<close>

section \<open>A call to the controller\<close>

text \<open>What a call does depends on the connection, found once, and on the one reply.\<close>

definition rpc_of :: "string \<Rightarrow> ResolvedConnection \<Rightarrow> creds \<Rightarrow> string \<Rightarrow> obj \<Rightarrow> rpc_event" where
  "rpc_of service conn c method request =
     \<lparr>re_service = service, re_address = rc_address conn, re_creds = c, re_options = channelOptions conn,
      re_authorization = (case rc_authorization conn of Some a \<Rightarrow> if a = [] then None else Some a | None \<Rightarrow> None),
      re_timeout = rc_timeoutMs conn, re_method = method, re_request = request\<rparr>"

lemma rpc_of_simps [simp]:
  "re_service (rpc_of service conn c method request) = service"
  "re_method (rpc_of service conn c method request) = method"
  "re_request (rpc_of service conn c method request) = request"
  by (simp_all add: rpc_of_def)

lemma callApi_cases:
  obtains (unresolved) e where "resolve_for (w_platform w) service address options = Inl e"
      "\<And>method request. callApi w service address options method request = io_throw e"
  | (refused) conn e where "resolve_for (w_platform w) service address options = Inr conn"
      "\<And>method request. callApi w service address options method request = io_throw e"
  | (dialled) conn c where "resolve_for (w_platform w) service address options = Inr conn"
      "\<And>method request. callApi w service address options method request =
        (if w_client_method w service method then io_rpc w conn (rpc_of service conn c method request)
         else io_throw (InputError (''The gRPC API has no '' @ method @ '' method.'')))"
proof (cases "resolve_for (w_platform w) service address options")
  case (Inl e)
  then show ?thesis using unresolved by (simp add: callApi_def)
next
  case (Inr conn)
  show ?thesis
  proof (cases "credentials conn")
    case (Inl e)
    show ?thesis by (rule refused [OF Inr, of e]) (simp add: Inr Inl callApi_def callService_def fun_eq_iff)
  next
    case c: (Inr c)
    show ?thesis by (rule dialled [OF Inr, of c]) (simp add: Inr c callApi_def callService_def rpc_of_def fun_eq_iff)
  qed
qed

lemma io_rpc_apply: "io_rpc w conn e tr = (reply_of conn (w_rpc w tr e), tr @ [RpcEvent e])"
  by (simp add: io_rpc_def)

lemma callApi_one:
  assumes "callApi w service address options method request tr = (r, tr')"
  shows "tr' = tr \<or> (\<exists>e. tr' = tr @ [RpcEvent e] \<and> re_service e = service \<and> re_method e = method \<and> re_request e = request)"
proof (cases rule: callApi_cases [of w service address options])
  case (dialled conn c)
  then show ?thesis
    using assms by (cases "w_client_method w service method") (auto simp: io_rpc_apply)
qed (use assms in simp_all)

lemma execute_controller:
  "call_target c = Controller \<Longrightarrow> execute w c options = callApi w ''controller'' None options (call_method c) (call_request c)"
  by (simp add: execute_def callController_def)

lemma bind_snd:
  "snd (io_bind m (\<lambda>x. io_return (f x)) tr) = snd (m tr)"
  by (simp add: io_bind_def split: prod.split sum.split)

section \<open>Looking up before creating\<close>

lemma no_method_found: "list_all (\<lambda>p. \<not> not_found (''The gRPC API has no '' @ fst (snd p) @ '' method.'')) upsert_probes"
  by code_simp

text \<open>What the second call of a resolved apply is, by the reply to the lookup.\<close>

definition upsert_after :: "string \<Rightarrow> string option \<Rightarrow> js res \<Rightarrow> string option" where
  "upsert_after create swap reply =
     (case reply of Inr v \<Rightarrow> swap | Inl e \<Rightarrow> if not_found (err_message e) then Some create else None)"

lemma resolveUpsert_throws:
  assumes "map_of upsert_probes (call_method planned) = Some (probe, swap)"
    and "\<And>request. callApi w ''controller'' None options probe request = io_throw e"
  shows "resolveUpsert w planned options = (if not_found (err_message e) then io_return (Some planned) else io_throw e)"
  using assms by (simp add: resolveUpsert_def execute_controller)

text \<open>
  C10: applying a resource that has separate create and update calls looks it up first. The create
  call is sent only after the lookup was answered with not found, the update call (or nothing, where
  there is none) only after it was answered, and nothing after any other fault.
\<close>

theorem upsert_never_creates_blindly:
  assumes "map_of upsert_probes (call_method planned) = Some (probe, swap)" and "call_target planned = Controller"
    and "run_planned w options planned tr = (r, tr @ es)"
  shows "es = [] \<or> (\<exists>conn p rest. es = RpcEvent p # rest \<and> re_method p = probe \<and>
     resolve_for (w_platform w) ''controller'' None options = Inr conn \<and>
     oget (re_request p) ''name'' = oget (call_request planned) ''name'' \<and>
     (rest = [] \<or> (\<exists>q. rest = [RpcEvent q] \<and> re_request q = call_request planned \<and>
        upsert_after (call_method planned) swap (reply_of conn (w_rpc w tr p)) = Some (re_method q))))"
proof -
  have target: "call_target (planned\<lparr>call_method := m\<rparr>) = Controller" for m using assms(2) by simp
  have none: "\<not> not_found (''The gRPC API has no '' @ probe @ '' method.'')"
    using map_of_SomeD [OF assms(1)] no_method_found by (force simp: list_all_iff)
  show ?thesis
  proof (cases rule: callApi_cases [of w "''controller''" None options])
    case (unresolved e)
    with resolveUpsert_throws [OF assms(1) unresolved(2)] show ?thesis
      using assms(2,3) by (simp add: run_planned_def execute_controller unresolved(2) split: if_splits)
  next
    case (refused conn e)
    with resolveUpsert_throws [OF assms(1) refused(2)] show ?thesis
      using assms(2,3) by (simp add: run_planned_def execute_controller refused(2) split: if_splits)
  next
    case (dialled conn c)
    show ?thesis
    proof (cases "w_client_method w ''controller'' probe")
      case False
      with resolveUpsert_throws [OF assms(1)] dialled(2) [of probe] none show ?thesis
        using assms(3) by (simp add: run_planned_def)
    next
      case True
      let ?p = "rpc_of ''controller'' conn c probe [(''name'', oget (call_request planned) ''name'')]"
      let ?reply = "reply_of conn (w_rpc w tr ?p)"
      have name: "oget (re_request ?p) ''name'' = oget (call_request planned) ''name''" by (simp add: oget_def)
      have step: "resolveUpsert w planned options tr = (case ?reply of
          Inr v \<Rightarrow> Inr (map_option (\<lambda>m. planned\<lparr>call_method := m\<rparr>) swap)
        | Inl e \<Rightarrow> if not_found (err_message e) then Inr (Some planned) else Inl e, tr @ [RpcEvent ?p])"
        using assms(1) True dialled(2)
        by (simp add: resolveUpsert_def execute_controller io_try_def io_bind_def io_rpc_apply map_option_case split: sum.split)
      have "\<exists>rest. es = RpcEvent ?p # rest \<and> (rest = [] \<or> (\<exists>q. rest = [RpcEvent q] \<and> re_request q = call_request planned \<and>
          upsert_after (call_method planned) swap ?reply = Some (re_method q)))"
      proof (cases "fst (resolveUpsert w planned options tr)")
        case (Inl e)
        with step assms(3) show ?thesis by (auto simp: run_planned_def io_bind_def)
      next
        case (Inr resolved)
        show ?thesis
        proof (cases resolved)
          case None
          with Inr step assms(3) show ?thesis by (auto simp: run_planned_def io_bind_def)
        next
          case (Some q)
          with Inr step target have q: "call_target q = Controller" "call_request q = call_request planned"
            "upsert_after (call_method planned) swap ?reply = Some (call_method q)"
            using assms(2) by (auto simp: upsert_after_def split: sum.splits if_splits)
          have "tr @ es = snd (callApi w ''controller'' None options (call_method q) (call_request q) (tr @ [RpcEvent ?p]))"
            using Inr Some step assms(3) q(1)
            by (auto simp: run_planned_def io_bind_def [of "resolveUpsert _ _ _"] execute_controller bind_snd dest: arg_cong [of _ _ snd])
          with callApi_one [OF surjective_pairing, of w "''controller''" None options "call_method q" "call_request q" "tr @ [RpcEvent ?p]"] q(2,3)
          show ?thesis by auto
        qed
      qed
      with name dialled(1) show ?thesis by fastforce
    qed
  qed
qed

text \<open>Two concrete lookups: the operator is there already, or the controller does not know it.\<close>

definition create_operator :: RpcCall where
  "create_operator = ctl ''createOperator'' [(''name'', JStr ''ana'')]"

definition missing_world :: world where
  "missing_world = silent_world\<lparr>w_rpc := (\<lambda>_ e. if isReadOnlyMethod (re_method e) then Fault ''operator not found'' [] else Reply (JObj []))\<rparr>"

theorem upsert_never_creates_blindly_witness:
  "\<exists>conn p q. snd (run_planned missing_world dial_options create_operator []) = [RpcEvent p, RpcEvent q] \<and>
     re_method p = ''getOperator'' \<and>
     upsert_after ''createOperator'' None (reply_of conn (w_rpc missing_world [] p)) = Some (re_method q)"
proof -
  let ?run = "run_planned missing_world dial_options create_operator []"
  have "map_of upsert_probes (call_method create_operator) = Some (''getOperator'', None)"
    "call_target create_operator = Controller" "length (snd ?run) = 2" by code_simp+
  moreover have "?run = (fst ?run, [] @ snd ?run)" by simp
  ultimately show ?thesis
    using upsert_never_creates_blindly [of create_operator "''getOperator''" None missing_world dial_options "[]" "fst ?run" "snd ?run"]
    by (fastforce simp: create_operator_def)
qed

section \<open>Installing a node\<close>

lemma installCall_parts:
  assumes "buildOperation ''install-node'' spec = Inr c" and "bootstrapCertRequest spec = Inr boot"
  shows "call_target c = NodeAgent" "call_method c = ''installToDisk''" "call_address c = Some (boot_address boot)"
    "oget (call_request c) ''nodeId'' = JStr (boot_nodeId boot)"
proof -
  have "buildOperation ''install-node'' spec = installCall spec"
    by (simp add: buildOperation_def cluster_operation_def volume_operation_def)
  with assms obtain m where m: "install_request spec boot = Inr m"
    and c: "c = \<lparr>call_target = NodeAgent, call_method = ''installToDisk'', call_request = m, call_address = Some (boot_address boot)\<rparr>"
    by (auto simp: installCall_def ebind_Inr_iff)
  show "call_target c = NodeAgent" "call_method c = ''installToDisk''" "call_address c = Some (boot_address boot)"
    using c by simp_all
  show "oget (call_request c) ''nodeId'' = JStr (boot_nodeId boot)"
    using props_oget [OF m [unfolded install_request_def], of "''nodeId''"] c by simp
qed

lemma execute_node_one:
  assumes "execute w c options tr = (r, tr')" and "call_target c = NodeAgent"
  shows "tr' = tr \<or> (\<exists>e. tr' = tr @ [RpcEvent e] \<and> re_service e = ''node-admin'' \<and> re_method e = call_method c \<and> re_request e = call_request c)"
  using assms by (auto simp: execute_def callNode_def split: option.splits if_splits dest: callApi_one)

text \<open>What follows once the controller has answered.\<close>

definition install_with :: "world \<Rightarrow> ConnectionOptions \<Rightarrow> obj \<Rightarrow> js \<Rightarrow> (event, js) io" where
  "install_with w options spec answer =
     io_bind (io_lift (buildOperation ''install-node'' spec)) (\<lambda>rpc_call.
     io_bind (io_lift (resolveConnection (w_platform w) options)) (\<lambda>conn.
     let request = oset (oset (oset (call_request rpc_call)
           ''caCertPem'' (JStr (case rc_ca conn of Some ca \<Rightarrow> ca | None \<Rightarrow> [])))
           ''nodeCertPem'' (coalesce (jget answer ''certPem'') (JStr [])))
           ''nodeKeyPem'' (coalesce (jget answer ''keyPem'') (JStr []))
     in io_bind (execute w (rpc_call\<lparr>call_request := request\<rparr>) (options\<lparr>co_timeoutMs := Some (Fin 600000)\<rparr>)) (\<lambda>response.
        io_return (done_with ''applied'' (call_method rpc_call) response))))"

lemma install_with_sends:
  assumes "install_with w options spec answer tr = (r, tr')" and boot: "bootstrapCertRequest spec = Inr boot"
  shows "tr' = tr \<or> (\<exists>i. tr' = tr @ [RpcEvent i] \<and> re_service i = ''node-admin'' \<and> re_method i = ''installToDisk'' \<and>
    oget (re_request i) ''nodeId'' = JStr (boot_nodeId boot) \<and>
    oget (re_request i) ''nodeCertPem'' = coalesce (jget answer ''certPem'') (JStr []) \<and>
    oget (re_request i) ''nodeKeyPem'' = coalesce (jget answer ''keyPem'') (JStr []))"
proof (cases "buildOperation ''install-node'' spec")
  case (Inl e)
  then show ?thesis using assms by (simp add: install_with_def)
next
  case c: (Inr c)
  show ?thesis
  proof (cases "resolveConnection (w_platform w) options")
    case (Inl e)
    then show ?thesis using assms c by (simp add: install_with_def)
  next
    case (Inr conn)
    let ?request = "oset (oset (oset (call_request c)
        ''caCertPem'' (JStr (case rc_ca conn of Some ca \<Rightarrow> ca | None \<Rightarrow> [])))
        ''nodeCertPem'' (coalesce (jget answer ''certPem'') (JStr [])))
        ''nodeKeyPem'' (coalesce (jget answer ''keyPem'') (JStr []))"
    let ?run = "execute w (c\<lparr>call_request := ?request\<rparr>) (options\<lparr>co_timeoutMs := Some (Fin 600000)\<rparr>)"
    obtain r2 tr2 where run: "?run tr = (r2, tr2)" by fastforce
    have "io_bind ?run (\<lambda>response. io_return (done_with ''applied'' (call_method c) response)) tr = (r, tr')"
      using assms(1) by (simp add: install_with_def c Inr Let_def)
    from arg_cong [OF this, of snd] run have tr': "tr' = tr2" by (simp only: bind_snd snd_conv)
    from execute_node_one [OF run] installCall_parts(1,2) [OF c boot]
    have "tr2 = tr \<or> (\<exists>e. tr2 = tr @ [RpcEvent e] \<and> re_service e = ''node-admin'' \<and>
        re_method e = ''installToDisk'' \<and> re_request e = ?request)" by simp
    with tr' show ?thesis
      using installCall_parts(4) [OF c boot] by (auto simp: oget_oset)
  qed
qed

text \<open>
  C9: a node installation sends nothing but the request for the node's bootstrap certificate and
  then, unless the controller refused it, the installation itself, to the node agent. The
  installation carries the certificate and the key of that reply, for the same node id.
\<close>

theorem install_carries_issued_certificate:
  assumes "install_node w connection spec tr = (r, tr @ es)"
  shows "es = [] \<or> (\<exists>c rest. es = RpcEvent c # rest \<and> re_service c = ''controller'' \<and> re_method c = ''issueNodeBootstrapCert'' \<and>
     (rest = [] \<or> (\<exists>i answer. rest = [RpcEvent i] \<and> w_rpc w tr c = Reply answer \<and> jget answer ''success'' \<noteq> JBool False \<and>
        re_service i = ''node-admin'' \<and> re_method i = ''installToDisk'' \<and>
        oget (re_request i) ''nodeId'' = oget (re_request c) ''nodeId'' \<and>
        oget (re_request i) ''nodeCertPem'' = coalesce (jget answer ''certPem'') (JStr []) \<and>
        oget (re_request i) ''nodeKeyPem'' = coalesce (jget answer ''keyPem'') (JStr []))))"
proof (cases "bootstrapCertRequest spec")
  case (Inl e)
  then show ?thesis using assms by (simp add: install_node_def)
next
  case boot: (Inr boot)
  let ?o = "connectionOf connection None"
  let ?ask = "[(''nodeId'', JStr (boot_nodeId boot)), (''nodeHost'', JStr (boot_nodeHost boot))]"
  have def: "install_node w connection spec =
     io_bind (callApi w ''controller'' None ?o ''issueNodeBootstrapCert'' ?ask) (\<lambda>answer.
     io_bind (io_lift (member answer ''success'')) (\<lambda>success.
     if success = JBool False then io_return (text_result (JObj [(''applied'', JBool False),
        (''error'', js_or (jget answer ''message'') (JStr ''the controller refused the node bootstrap certificate''))]))
     else install_with w ?o spec answer))"
    unfolding install_node_def install_with_def callController_def Let_def boot io_bind_lift by (rule refl)
  show ?thesis
  proof (cases rule: callApi_cases [of w "''controller''" None ?o])
    case (dialled conn cr)
    show ?thesis
    proof (cases "w_client_method w ''controller'' ''issueNodeBootstrapCert''")
      case True
      let ?c = "rpc_of ''controller'' conn cr ''issueNodeBootstrapCert'' ?ask"
      show ?thesis
      proof (cases "w_rpc w tr ?c")
        case (Fault d m)
        then have "es = [RpcEvent ?c]"
          using assms True by (simp add: def dialled io_bind_def io_rpc_apply reply_of_def Let_def)
        then show ?thesis by auto
      next
        case (Reply answer)
        let ?then = "io_bind (io_lift (member answer ''success'')) (\<lambda>success.
           if success = JBool False then io_return (text_result (JObj [(''applied'', JBool False),
              (''error'', js_or (jget answer ''message'') (JStr ''the controller refused the node bootstrap certificate''))]))
           else install_with w ?o spec answer)"
        have run: "?then (tr @ [RpcEvent ?c]) = (r, tr @ es)"
          using assms True Reply by (simp add: def dialled io_bind_def [of "io_rpc _ _ _"] io_rpc_apply reply_of_def)
        show ?thesis
        proof (cases "nullish answer \<or> jget answer ''success'' = JBool False")
          case True
          with run have "es = [RpcEvent ?c]" by (cases "nullish answer") (auto simp: member_def)
          then show ?thesis by auto
        next
          case False
          with run have "install_with w ?o spec answer (tr @ [RpcEvent ?c]) = (r, tr @ es)" by (simp add: member_def)
          from install_with_sends [OF this boot] show ?thesis
          proof (elim disjE exE conjE)
            fix i
            assume "tr @ es = (tr @ [RpcEvent ?c]) @ [RpcEvent i]"
              and i: "re_service i = ''node-admin''" "re_method i = ''installToDisk''"
                "oget (re_request i) ''nodeId'' = JStr (boot_nodeId boot)"
                "oget (re_request i) ''nodeCertPem'' = coalesce (jget answer ''certPem'') (JStr [])"
                "oget (re_request i) ''nodeKeyPem'' = coalesce (jget answer ''keyPem'') (JStr [])"
            then have es: "es = [RpcEvent ?c, RpcEvent i]" by simp
            have "oget (re_request ?c) ''nodeId'' = JStr (boot_nodeId boot)" by (simp add: oget_def)
            with i es False Reply show ?thesis
              by (intro disjI2 exI [of _ ?c] exI [of _ "[RpcEvent i]"] conjI exI [of _ i] exI [of _ answer]) simp_all
          qed simp
        qed
      qed
    qed (use assms dialled in \<open>simp add: def\<close>)
  qed (use assms in \<open>simp_all add: def\<close>)
qed

definition issuing_world :: world where
  "issuing_world = silent_world\<lparr>w_rpc := (\<lambda>_ _. Reply (JObj [(''certPem'', JStr ''cert''), (''keyPem'', JStr ''key'')]))\<rparr>"

theorem install_carries_issued_certificate_witness:
  "\<exists>c i. snd (install_node issuing_world (Some demo_connection) any_operation []) = [RpcEvent c, RpcEvent i] \<and>
     re_method i = ''installToDisk'' \<and> oget (re_request i) ''nodeCertPem'' = JStr ''cert''"
proof -
  let ?run = "install_node issuing_world (Some demo_connection) any_operation []"
  have "length (snd ?run) = 2" by code_simp
  moreover have "?run = (fst ?run, [] @ snd ?run)" by simp
  moreover have "coalesce (jget v ''certPem'') (JStr []) = JStr ''cert''"
    if "w_rpc issuing_world tr c = Reply v" for tr c v
    using that by (auto simp: issuing_world_def silent_world_def oget_def coalesce_def nullish_def)
  ultimately show ?thesis
    using install_carries_issued_certificate [of issuing_world "Some demo_connection" any_operation "[]" "fst ?run" "snd ?run"]
    by fastforce
qed

section \<open>Acknowledging the disk wipe\<close>

lemma install_interview_outcome:
  assumes "install_interview w spec tr = (r, tr')"
  shows "(\<exists>x. r = Inr (Inl x) \<and> list_all (\<lambda>e. \<not> mutates e) (drop (length tr) tr')) \<or>
    (\<exists>filled. r = Inr (Inr filled) \<and> oget filled ''acknowledge'' = JStr ACKNOWLEDGE \<and>
      (tr' = tr \<and> filled = spec \<or>
       (\<exists>m s a. tr' = tr @ [ElicitEvent m s] \<and> accepted_content (w_elicit w tr m s) = Some a \<and> filled = spread spec a)))"
proof (cases "install_questions spec = []")
  case True
  with assms show ?thesis by (auto simp: install_interview_def Let_def split: if_splits)
next
  case False
  let ?m = "''A few answers before installing a node.''"
  let ?s = "requested_schema (install_questions spec)"
  have "elicit w ?m (install_questions spec) tr = (Inr (accepted_content (w_elicit w tr ?m ?s)), tr @ [ElicitEvent ?m ?s])"
    using False by (simp add: elicit_def)
  with False assms show ?thesis
    by (cases "accepted_content (w_elicit w tr ?m ?s)")
       (auto simp: install_interview_def Let_def io_bind_def split: if_splits)
qed

lemma spread_source: "oget (spread spec a) k = v \<Longrightarrow> oget spec k = v \<or> (k, v) \<in> set a"
  by (auto simp: oget_spread split: option.splits dest: map_of_SomeD)

text \<open>
  C8: whatever \<^verbatim>\<open>confirm\<close> says, \<^verbatim>\<open>kcore_operation\<close> changes nothing for a node installation unless the wipe of
  the selected disks is acknowledged word for word, in the spec or in the answers the operator has
  accepted as the first event of this call.
\<close>

theorem install_needs_acknowledgement:
  assumes "kcore_operation w input tr = (r, tr @ es)" and "op_action input = ''install-node''"
    and "e \<in> set es" and "mutates e"
  shows "oget (op_spec input) ''acknowledge'' = JStr ACKNOWLEDGE \<or>
    (\<exists>m s rest answers. es = ElicitEvent m s # rest \<and> accepted_content (w_elicit w tr m s) = Some answers \<and>
       (''acknowledge'', JStr ACKNOWLEDGE) \<in> set answers)"
proof -
  let ?i = "install_interview w (op_spec input)"
  obtain x tr1 where i: "?i tr = (x, tr1)" by fastforce
  from install_interview_outcome [OF i] show ?thesis
  proof (elim disjE exE conjE)
    fix y
    assume x: "x = Inr (Inl y)" and quiet: "list_all (\<lambda>e. \<not> mutates e) (drop (length tr) tr1)"
    have "snd (kcore_operation w input tr) = tr1"
      by (simp add: kcore_operation_def snd_reports io_bind_def assms(2) i x)
    with assms quiet show ?thesis by (auto simp: list_all_iff)
  next
    fix filled
    assume "oget filled ''acknowledge'' = JStr ACKNOWLEDGE" "filled = op_spec input"
    then show ?thesis by simp
  next
    fix filled m s a
    assume x: "x = Inr (Inr filled)" and ack: "oget filled ''acknowledge'' = JStr ACKNOWLEDGE"
      and tr1: "tr1 = tr @ [ElicitEvent m s]" and a: "accepted_content (w_elicit w tr m s) = Some a"
      and filled: "filled = spread (op_spec input) a"
    have goes_on: "\<exists>es'. snd (confirm_then w ok msg (confirm_question p why) refused (run_operation w input filled) tr1) = tr1 @ es'"
      for ok msg p why refused
      using gated_confirm_then [OF run_operation_extends, of w ok msg p why refused w input filled] unfolding gated_def by blast
    have "\<exists>es'. snd (kcore_operation w input tr) = tr1 @ es'"
      by (simp add: kcore_operation_def snd_reports io_bind_def [of "install_interview _ _"] assms(2) i x goes_on)
    with assms(1) tr1 obtain rest where "es = ElicitEvent m s # rest" by auto
    with a spread_source [OF ack [unfolded filled]] show ?thesis by blast
  qed
qed

definition demo_install :: operation_input where
  "demo_install = \<lparr>op_action = ''install-node'', op_spec = oset any_operation ''acknowledge'' (JStr ACKNOWLEDGE), op_confirm = True,
     op_connection = Some demo_connection\<rparr>"

theorem install_needs_acknowledgement_witness:
  "oget (op_spec demo_install) ''acknowledge'' = JStr ACKNOWLEDGE \<or>
   (\<exists>m s rest answers. snd (kcore_operation issuing_world demo_install []) = ElicitEvent m s # rest \<and>
     accepted_content (w_elicit issuing_world [] m s) = Some answers \<and> (''acknowledge'', JStr ACKNOWLEDGE) \<in> set answers)"
proof -
  let ?run = "kcore_operation issuing_world demo_install []"
  have "list_ex mutates (snd ?run)" by code_simp
  then obtain e where "e \<in> set (snd ?run)" "mutates e" by (auto simp: list_ex_iff)
  moreover have "?run = (fst ?run, [] @ snd ?run)" by simp
  moreover have "op_action demo_install = ''install-node''" by (simp add: demo_install_def)
  ultimately show ?thesis
    using install_needs_acknowledgement [of issuing_world demo_install "[]" "fst ?run" "snd ?run" e] by simp
qed

end
