(* ===== verification/Json.thy ===== *)
theory Json
  imports Requests_Core
begin

text \<open>
  \<^verbatim>\<open>JSON.parse\<close>, which the dashboard uses for the structured fields of its forms, as a recursive descent
  parser. The recursion runs on fuel; \<open>JSON_parse\<close> gives it twice the length of the text, and
  \<open>jval_mono\<close> shows that more fuel never changes a result. A text has code units below 256, so an escape of a higher one
  is outside the modelled texts. The lemmas lead to the round trip: parsing inverts
  \<^verbatim>\<open>JSON.stringify\<close> on every value that JSON can express.
\<close>

section \<open>Tokens\<close>

definition json_ws :: "char \<Rightarrow> bool" where
  "json_ws c \<longleftrightarrow> code c = 32 \<or> code c = 9 \<or> code c = 10 \<or> code c = 13"

abbreviation skip_ws :: "string \<Rightarrow> string" where
  "skip_ws s \<equiv> dropWhile json_ws s"

definition simple_escapes :: "(char \<times> char) list" where
  "simple_escapes =
     [(CHR 0x22, CHR 0x22), (CHR 0x5C, CHR 0x5C), (CHR ''/'', CHR ''/''), (CHR ''b'', CHR 0x08), (CHR ''f'', CHR 0x0C),
      (CHR ''n'', CHR 0x0A), (CHR ''r'', CHR 0x0D), (CHR ''t'', CHR 0x09)]"

definition hex4 :: "char \<Rightarrow> char \<Rightarrow> char \<Rightarrow> char \<Rightarrow> char option" where
  "hex4 a b c d =
     (if list_all is_hex [a, b, c, d] \<and> hex_value a = 0 \<and> hex_value b = 0
      then Some (char_of (16 * hex_value c + hex_value d)) else None)"

text \<open>The characters of a string literal after its opening quote, and the text behind the closing one.\<close>

fun jstring :: "string \<Rightarrow> (string \<times> string) option" where
  "jstring [] = None"
| "jstring (c # cs) =
     (if c = CHR 0x22 then Some ([], cs)
      else if c = CHR 0x5C then
        (case cs of
           [] \<Rightarrow> None
         | e # r \<Rightarrow>
             (case map_of simple_escapes e of
                Some x \<Rightarrow> map_option (apfst ((#) x)) (jstring r)
              | None \<Rightarrow>
                  if e = CHR ''u'' then
                    (case r of
                       h1 # h2 # h3 # h4 # r' \<Rightarrow>
                         (case hex4 h1 h2 h3 h4 of
                            Some x \<Rightarrow> map_option (apfst ((#) x)) (jstring r')
                          | None \<Rightarrow> None)
                     | _ \<Rightarrow> None)
                  else None))
      else if code c < 32 then None
      else map_option (apfst ((#) c)) (jstring cs))"

text \<open>A number literal: \<^verbatim>\<open>-?(0|[1-9]\d*)(\.\d+)?([eE][+-]?\d+)?\<close>.\<close>

definition number_char :: "char \<Rightarrow> bool" where
  "number_char c \<longleftrightarrow> is_digit c \<or> c \<in> {CHR ''-'', CHR ''+'', CHR ''.'', CHR ''e'', CHR ''E''}"

definition json_number :: "string \<Rightarrow> bool" where
  "json_number t =
     (let u = (if t \<noteq> [] \<and> hd t = CHR ''-'' then tl t else t);
          ip = takeWhile is_digit u; r1 = dropWhile is_digit u;
          frac = (r1 \<noteq> [] \<and> hd r1 = CHR ''.'');
          fp = takeWhile is_digit (tl r1);
          r2 = (if frac then dropWhile is_digit (tl r1) else r1);
          expo = (r2 \<noteq> [] \<and> (hd r2 = CHR ''e'' \<or> hd r2 = CHR ''E''))
      in ip \<noteq> [] \<and> (hd ip = CHR ''0'' \<longrightarrow> ip = ''0'') \<and> (frac \<longrightarrow> fp \<noteq> []) \<and>
         (if expo then exponent_part (tl r2) \<noteq> None else r2 = []))"

definition jnumber :: "string \<Rightarrow> (js \<times> string) option" where
  "jnumber s =
     (let t = takeWhile number_char s in
      if json_number t then Some (JNum (str_to_number t), dropWhile number_char s) else None)"

definition literals :: "(string \<times> js) list" where
  "literals = [(''true'', JBool True), (''false'', JBool False), (''null'', JNull)]"

fun jliteral :: "(string \<times> js) list \<Rightarrow> string \<Rightarrow> (js \<times> string) option" where
  "jliteral [] s = None"
| "jliteral ((w, v) # ls) s = (if startsWith s w then Some (v, drop (length w) s) else jliteral ls s)"

section \<open>Values\<close>

fun jval :: "nat \<Rightarrow> string \<Rightarrow> (js \<times> string) option"
  and jelems :: "nat \<Rightarrow> string \<Rightarrow> (js list \<times> string) option"
  and jmembers :: "nat \<Rightarrow> string \<Rightarrow> (obj \<times> string) option" where
  "jval 0 s = None"
| "jval (Suc n) s =
     (case skip_ws s of
        [] \<Rightarrow> None
      | c # cs \<Rightarrow>
          if c = CHR 0x22 then map_option (apfst JStr) (jstring cs)
          else if c = CHR ''['' then
            (if skip_ws cs \<noteq> [] \<and> hd (skip_ws cs) = CHR '']'' then Some (JArr [], tl (skip_ws cs))
             else map_option (apfst JArr) (jelems n cs))
          else if c = CHR ''{'' then
            (if skip_ws cs \<noteq> [] \<and> hd (skip_ws cs) = CHR ''}'' then Some (JObj [], tl (skip_ws cs))
             else map_option (apfst (\<lambda>ps. JObj (spread [] ps))) (jmembers n cs))
          else if is_digit c \<or> c = CHR ''-'' then jnumber (c # cs)
          else jliteral literals (c # cs))"
| "jelems 0 s = None"
| "jelems (Suc n) s =
     (case jval n s of
        None \<Rightarrow> None
      | Some (v, r) \<Rightarrow>
          (case skip_ws r of
             [] \<Rightarrow> None
           | c # r' \<Rightarrow>
               if c = CHR '','' then map_option (apfst ((#) v)) (jelems n r')
               else if c = CHR '']'' then Some ([v], r')
               else None))"
| "jmembers 0 s = None"
| "jmembers (Suc n) s =
     (case skip_ws s of
        [] \<Rightarrow> None
      | q # qs \<Rightarrow>
          if q \<noteq> CHR 0x22 then None
          else
            (case jstring qs of
               None \<Rightarrow> None
             | Some (k, r) \<Rightarrow>
                 (case skip_ws r of
                    [] \<Rightarrow> None
                  | d # r1 \<Rightarrow>
                      if d \<noteq> CHR '':'' then None
                      else
                        (case jval n r1 of
                           None \<Rightarrow> None
                         | Some (v, r2) \<Rightarrow>
                             (case skip_ws r2 of
                                [] \<Rightarrow> None
                              | c # r3 \<Rightarrow>
                                  if c = CHR '','' then map_option (apfst ((#) (k, v))) (jmembers n r3)
                                  else if c = CHR ''}'' then Some ([(k, v)], r3)
                                  else None)))))"

definition JSON_parse :: "string \<Rightarrow> js option" where
  "JSON_parse s =
     (case jval (2 * length s + 2) s of
        Some (v, r) \<Rightarrow> if skip_ws r = [] then Some v else None
      | None \<Rightarrow> None)"

section \<open>Fuel\<close>

text \<open>\<open>below a b\<close>: whatever \<open>a\<close> produces, \<open>b\<close> produces too.\<close>

definition below :: "'a option \<Rightarrow> 'a option \<Rightarrow> bool" where
  "below a b \<longleftrightarrow> a = None \<or> a = b"

lemma below_refl: "below a a"
  by (simp add: below_def)

lemma below_map: "below a b \<Longrightarrow> below (map_option f a) (map_option f b)"
  by (auto simp: below_def)

lemma below_bind:
  "below a b \<Longrightarrow> (\<And>v r. below (f v r) (g v r)) \<Longrightarrow>
   below (case a of None \<Rightarrow> None | Some (v, r) \<Rightarrow> f v r) (case b of None \<Rightarrow> None | Some (v, r) \<Rightarrow> g v r)"
  by (auto simp: below_def split: option.splits)

lemma below_list:
  "(\<And>c cs. below (f c cs) (g c cs)) \<Longrightarrow>
   below (case s of [] \<Rightarrow> None | c # cs \<Rightarrow> f c cs) (case s of [] \<Rightarrow> None | c # cs \<Rightarrow> g c cs)"
  by (cases s) (simp_all add: below_refl)

lemma below_if: "below a a' \<Longrightarrow> below b b' \<Longrightarrow> below (if c then a else b) (if c then a' else b')"
  by simp

lemma jval_mono_step:
  "below (jval n s) (jval (Suc n) s)" "below (jelems n s) (jelems (Suc n) s)" "below (jmembers n s) (jmembers (Suc n) s)"
proof (induction n arbitrary: s)
  case 0
  { case 1 show ?case by (simp add: below_def) }
  { case 2 show ?case by (simp add: below_def) }
  { case 3 show ?case by (simp add: below_def) }
next
  case (Suc n)
  { case 1 show ?case by (subst (1 2) jval.simps(2)) (intro below_list below_if below_map Suc.IH below_refl) }
  { case 2 show ?case by (subst (1 2) jelems.simps(2)) (intro below_list below_if below_map below_bind Suc.IH below_refl) }
  { case 3 show ?case by (subst (1 2) jmembers.simps(2)) (intro below_list below_if below_map below_bind Suc.IH below_refl) }
qed

lemma jval_mono: "jval n s = Some x \<Longrightarrow> n \<le> m \<Longrightarrow> jval m s = Some x"
proof (induction m)
  case (Suc m)
  then show ?case using jval_mono_step(1) [of m s] by (cases "n = Suc m") (auto simp: below_def simp del: jval.simps(2))
qed simp

lemma jelems_mono: "jelems n s = Some x \<Longrightarrow> n \<le> m \<Longrightarrow> jelems m s = Some x"
proof (induction m)
  case (Suc m)
  then show ?case using jval_mono_step(2) [of m s] by (cases "n = Suc m") (auto simp: below_def simp del: jelems.simps(2))
qed simp

lemma jmembers_mono: "jmembers n s = Some x \<Longrightarrow> n \<le> m \<Longrightarrow> jmembers m s = Some x"
proof (induction m)
  case (Suc m)
  then show ?case using jval_mono_step(3) [of m s] by (cases "n = Suc m") (auto simp: below_def simp del: jmembers.simps(2))
qed simp

lemmas parser_simps = jval.simps jelems.simps jmembers.simps

declare parser_simps [simp del]

section \<open>Reading what was printed\<close>

text \<open>The values JSON expresses: no \<^verbatim>\<open>undefined\<close> and no function, numbers that are naturals below \<open>2^53\<close>, and
  objects whose properties are in the order the engine keeps them.\<close>

fun safe_nat :: "jsnum \<Rightarrow> bool" where
  "safe_nat (Fin q) = (of_int \<lfloor>q\<rfloor> = q \<and> 0 \<le> q \<and> q < 2 ^ 53)"
| "safe_nat _ = False"

fun jsonable :: "js \<Rightarrow> bool" where
  "jsonable JNull = True"
| "jsonable (JBool b) = True"
| "jsonable (JNum n) = safe_nat n"
| "jsonable (JStr s) = True"
| "jsonable (JArr xs) = list_all jsonable xs"
| "jsonable (JObj ps) = (spread [] ps = ps \<and> list_all (\<lambda>p. jsonable (snd p)) ps)"
| "jsonable _ = False"

lemma hex_value_digit: "n < 16 \<Longrightarrow> is_hex (hex_digit n) \<and> hex_value (hex_digit n) = n"
  by (auto simp: is_hex_def hex_value_def hex_digit_def is_digit_def is_upper_def code_digit of_char_of)

lemma hex4_control:
  assumes "n < 256"
  shows "hex4 CHR ''0'' CHR ''0'' (hex_digit (n div 16)) (hex_digit (n mod 16)) = Some (char_of n)"
proof -
  have "is_hex CHR ''0'' \<and> hex_value CHR ''0'' = 0" by code_simp
  moreover have "16 * (n div 16) + n mod 16 = n" by simp
  ultimately show ?thesis
    using assms hex_value_digit [of "n div 16"] hex_value_digit [of "n mod 16"] by (simp add: hex4_def)
qed

lemma control_chars:
  "code c = 8 \<longleftrightarrow> c = CHR 0x08" "code c = 9 \<longleftrightarrow> c = CHR 0x09" "code c = 10 \<longleftrightarrow> c = CHR 0x0A"
  "code c = 12 \<longleftrightarrow> c = CHR 0x0C" "code c = 13 \<longleftrightarrow> c = CHR 0x0D"
  using of_char_eq_iff [of c "CHR 0x08", where 'a = nat] of_char_eq_iff [of c "CHR 0x09", where 'a = nat]
    of_char_eq_iff [of c "CHR 0x0A", where 'a = nat] of_char_eq_iff [of c "CHR 0x0C", where 'a = nat]
    of_char_eq_iff [of c "CHR 0x0D", where 'a = nat] by simp_all

lemma jstring_escape: "jstring (json_escape c @ t) = map_option (apfst ((#) c)) (jstring t)"
proof -
  consider "c = CHR 0x22" | "c = CHR 0x5C" | "c = CHR 0x08" | "c = CHR 0x09" | "c = CHR 0x0A"
    | "c = CHR 0x0C" | "c = CHR 0x0D"
    | "c \<noteq> CHR 0x22" "c \<noteq> CHR 0x5C" "code c < 32" "code c \<notin> {8, 9, 10, 12, 13}"
    | "c \<noteq> CHR 0x22" "c \<noteq> CHR 0x5C" "\<not> code c < 32" by (cases "code c < 32") (auto simp: control_chars)
  then show ?thesis
  proof cases
    case 8
    then have "hex4 CHR ''0'' CHR ''0'' (hex_digit (code c div 16)) (hex_digit (code c mod 16)) = Some c"
      using hex4_control [of "code c"] by simp
    with 8 show ?thesis by (simp add: json_escape_def simple_escapes_def)
  next
    case 9
    then show ?thesis by (simp add: json_escape_def)
  qed (simp_all add: json_escape_def simple_escapes_def)
qed

lemma jstring_quoted: "jstring (concat (map json_escape s) @ CHR 0x22 # t) = Some (s, t)"
  by (induction s) (simp_all add: jstring_escape)


lemma punctuation [simp]:
  "\<not> json_ws CHR '']''" "\<not> json_ws CHR ''}''" "\<not> json_ws CHR '',''" "\<not> json_ws CHR '':''" "\<not> json_ws CHR 0x22"
  "\<not> json_ws CHR ''[''" "\<not> json_ws CHR ''{''"
  "\<not> number_char CHR '']''" "\<not> number_char CHR ''}''" "\<not> number_char CHR '',''"
  by (simp_all add: json_ws_def number_char_def is_digit_def)

definition ends :: "string \<Rightarrow> bool" where
  "ends r \<longleftrightarrow> r = [] \<or> \<not> number_char (hd r)"

lemma skip_ws_append: "list_all json_ws w \<Longrightarrow> skip_ws (w @ t) = skip_ws t"
  by (induction w) simp_all

lemma ws_not_number: "json_ws c \<Longrightarrow> \<not> number_char c"
  by (auto simp: json_ws_def number_char_def is_digit_def)

lemma ends_ws: "list_all json_ws w \<Longrightarrow> \<not> number_char c \<Longrightarrow> ends (w @ c # r)"
  by (cases w) (simp_all add: ends_def ws_not_number)

lemma digit_number: "list_all is_digit ds \<Longrightarrow> list_all number_char ds"
  by (auto simp: list_all_iff number_char_def)

lemma number_chars_append:
  "list_all number_char ds \<Longrightarrow> ends r \<Longrightarrow> takeWhile number_char (ds @ r) = ds \<and> dropWhile number_char (ds @ r) = r"
  by (induction ds) (cases r; simp add: ends_def)+

lemma json_number_nat: "json_number (show_nat n)"
proof -
  have d: "list_all is_digit (show_nat n)" by (rule show_nat_digits)
  have t: "takeWhile is_digit (show_nat n) = show_nat n" and r: "dropWhile is_digit (show_nat n) = []"
    using d by (simp_all add: list_all_iff)
  have m: "hd (show_nat n) \<noteq> CHR ''-''" using hd_show_nat_digit [of n] by (auto simp: is_digit_def)
  have z: "hd (show_nat n) = CHR ''0'' \<longrightarrow> show_nat n = ''0''"
    using show_nat_hd [of n] by (cases n) (simp_all add: show_nat_small char_of_def bit_0 del: show_nat.simps)
  have u: "(if show_nat n \<noteq> [] \<and> hd (show_nat n) = CHR ''-'' then tl (show_nat n) else show_nat n) = show_nat n"
    using m by simp
  show ?thesis by (simp only: json_number_def Let_def u t r) (use z in simp)
qed

lemma jnumber_nat:
  assumes "n < 2 ^ 53" and "ends r"
  shows "jnumber (show_nat n @ r) = Some (JNum (Fin (of_nat n)), r)"
proof -
  have "str_to_number (show_nat n) = to_double (of_nat n)"
    using str_to_number_digits [OF show_nat_digits show_nat_nonempty] by simp
  moreover have "to_double (of_nat n) = Fin (of_nat n)"
    using to_double_safe [of "int n"] assms(1) by simp
  ultimately show ?thesis
    using number_chars_append [OF digit_number [OF show_nat_digits] assms(2)] json_number_nat
    by (simp add: jnumber_def Let_def)
qed

text \<open>\<open>reads t v\<close>: the text is read as the value with fuel no more than its length, whatever white space stands
  before it and whatever follows.\<close>

definition reads :: "string \<Rightarrow> js \<Rightarrow> bool" where
  "reads t v \<longleftrightarrow> t \<noteq> [] \<and> \<not> json_ws (hd t) \<and> hd t \<noteq> CHR '']'' \<and> (\<forall>w r. list_all json_ws w \<longrightarrow> ends r \<longrightarrow> jval (length (w @ t)) (w @ t @ r) = Some (v, r))"

lemma readsI:
  assumes "t \<noteq> []" and "\<not> json_ws (hd t)" "hd t \<noteq> CHR '']''" and "\<And>r. ends r \<Longrightarrow> jval (length t) (t @ r) = Some (v, r)"
  shows "reads t v"
proof (unfold reads_def, intro conjI allI impI)
  fix w r assume w: "list_all json_ws w" and r: "ends r"
  have "jval (Suc n) (w @ t @ r) = jval (Suc n) (t @ r)" for n
    using skip_ws_append [OF w] by (simp only: jval.simps(2))
  then have "jval (length t) (w @ t @ r) = Some (v, r)" using assms(1) assms(4) [OF r] by (cases t) simp_all
  then show "jval (length (w @ t)) (w @ t @ r) = Some (v, r)" by (rule jval_mono) simp
qed (rule assms)+

lemma readsD:
  "reads t v \<Longrightarrow> list_all json_ws w \<Longrightarrow> ends r \<Longrightarrow> length (w @ t) \<le> n \<Longrightarrow> jval n (w @ t @ r) = Some (v, r)"
  unfolding reads_def by (blast intro: jval_mono)

lemma reads_nat: "n < 2 ^ 53 \<Longrightarrow> reads (show_nat n) (JNum (Fin (of_nat n)))"
proof (rule readsI)
  fix r assume n: "n < 2 ^ 53" and r: "ends r"
  obtain c cs where s: "show_nat n = c # cs" by (cases "show_nat n") simp_all
  then have c: "is_digit c" using hd_show_nat_digit [of n] by simp
  then have "\<not> json_ws c" "c \<noteq> CHR 0x22" "c \<noteq> CHR ''[''" "c \<noteq> CHR ''{''" by (auto simp: is_digit_def json_ws_def)
  then show "jval (length (show_nat n)) (show_nat n @ r) = Some (JNum (Fin (of_nat n)), r)"
    using jnumber_nat [OF n r] c by (simp add: s parser_simps)
qed (use hd_show_nat_digit [of n] in \<open>auto simp: is_digit_def json_ws_def\<close>)

lemma reads_quote: "reads (json_quote s) (JStr s)"
proof (rule readsI)
  fix r show "jval (length (json_quote s)) (json_quote s @ r) = Some (JStr s, r)"
    using jstring_quoted [of s r] by (simp add: json_quote_def parser_simps)
qed (simp_all add: json_quote_def)

lemma reads_literal:
  "reads ''null'' JNull" "reads ''true'' (JBool True)" "reads ''false'' (JBool False)"
  by (rule readsI; simp add: literals_def json_ws_def is_digit_def numeral_eq_Suc parser_simps)+


lemma join_Cons: "xs \<noteq> [] \<Longrightarrow> join sep (x # xs) = x @ sep @ join sep xs"
  by (cases xs) simp_all

lemma jelems_join:
  assumes "xs \<noteq> []" and "\<forall>x\<in>set xs. reads (T x) x" and "list_all json_ws w" "list_all json_ws w1" "list_all json_ws w2"
  shows "jelems (Suc (length (w @ join ('','' @ w1) (map T xs) @ w2))) (w @ join ('','' @ w1) (map T xs) @ w2 @ CHR '']'' # r)
         = Some (xs, r)"
  using assms
proof (induction xs arbitrary: w)
  case (Cons x xs)
  have x: "reads (T x) x" using Cons.prems by simp
  have skip: "skip_ws (w2 @ CHR '']'' # r) = CHR '']'' # r" and e: "ends (w2 @ CHR '']'' # r)" "ends (CHR '','' # u)" for u
    using Cons.prems by (simp_all add: skip_ws_append ends_ws) (simp_all add: ends_def)
  show ?case
  proof (cases "xs = []")
    case True
    have "jval (length (w @ T x @ w2)) (w @ T x @ w2 @ CHR '']'' # r) = Some (x, w2 @ CHR '']'' # r)"
      by (rule readsD [OF x Cons.prems(3) e(1)]) simp
    then show ?thesis using True skip by (simp add: parser_simps)
  next
    case False
    let ?u = "w1 @ join ('','' @ w1) (map T xs) @ w2"
    have v: "jval (length (w @ T x @ '','' @ ?u)) (w @ T x @ '','' @ ?u @ CHR '']'' # r) = Some (x, '','' @ ?u @ CHR '']'' # r)"
      using readsD [OF x Cons.prems(3) e(2)] by simp
    have "jelems (Suc (length ?u)) (?u @ CHR '']'' # r) = Some (xs, r)"
      using Cons.IH [OF False _ Cons.prems(4)] Cons.prems by simp
    then have "jelems (length (w @ T x @ '','' @ ?u)) (?u @ CHR '']'' # r) = Some (xs, r)" by (rule jelems_mono) simp
    with v False show ?thesis by (simp add: join_Cons parser_simps)
  qed
qed simp

lemma jmembers_join:
  assumes "ps \<noteq> []" and "\<forall>p\<in>set ps. reads (T (snd p)) (snd p)"
    and "list_all json_ws w" "list_all json_ws w1" "list_all json_ws w2" "list_all json_ws w3"
  shows "jmembers (Suc (length (w @ join ('','' @ w1) (map (\<lambda>p. json_quote (fst p) @ '':'' @ w3 @ T (snd p)) ps) @ w2)))
           (w @ join ('','' @ w1) (map (\<lambda>p. json_quote (fst p) @ '':'' @ w3 @ T (snd p)) ps) @ w2 @ CHR ''}'' # r)
         = Some (ps, r)"
  using assms
proof (induction ps arbitrary: w)
  case (Cons p ps)
  let ?T = "\<lambda>p. json_quote (fst p) @ '':'' @ w3 @ T (snd p)"
  have x: "reads (T (snd p)) (snd p)" using Cons.prems by simp
  have skip: "skip_ws (w2 @ CHR ''}'' # r) = CHR ''}'' # r" and e: "ends (w2 @ CHR ''}'' # r)" "ends (CHR '','' # u)" for u
    using Cons.prems by (simp_all add: skip_ws_append ends_ws) (simp_all add: ends_def)
  have q: "skip_ws (w @ json_quote k @ u) = CHR 0x22 # concat (map json_escape k) @ CHR 0x22 # u" for k u
    using Cons.prems by (simp add: skip_ws_append json_quote_def)
  show ?case
  proof (cases "ps = []")
    case True
    have "jval (length (w @ ?T p @ w2)) (w3 @ T (snd p) @ w2 @ CHR ''}'' # r) = Some (snd p, w2 @ CHR ''}'' # r)"
      by (rule readsD [OF x Cons.prems(6) e(1)]) simp
    then show ?thesis using True skip q [of "fst p"] by (simp add: jstring_quoted parser_simps)
  next
    case False
    let ?u = "w1 @ join ('','' @ w1) (map ?T ps) @ w2"
    have v: "jval (length (w @ ?T p @ '','' @ ?u)) (w3 @ T (snd p) @ '','' @ ?u @ CHR ''}'' # r)
             = Some (snd p, '','' @ ?u @ CHR ''}'' # r)"
      using readsD [OF x Cons.prems(6) e(2)] by simp
    have "jmembers (Suc (length ?u)) (?u @ CHR ''}'' # r) = Some (ps, r)"
      using Cons.IH [OF False _ Cons.prems(4)] Cons.prems by simp
    then have "jmembers (length (w @ ?T p @ '','' @ ?u)) (?u @ CHR ''}'' # r) = Some (ps, r)" by (rule jmembers_mono) simp
    with v False show ?thesis using q [of "fst p"]
      by (simp add: join_Cons jstring_quoted parser_simps)
  qed
qed simp


lemma json_some: "jsonable v \<Longrightarrow> json gap ind v \<noteq> None"
  by (cases v) simp_all

lemma json_block_layout:
  assumes "parts \<noteq> []" and "list_all json_ws gap" and "list_all json_ws ind"
  obtains w w1 w2 where "list_all json_ws w" "list_all json_ws w1" "list_all json_ws w2"
    "json_block gap ind a b parts = a # w @ join ('','' @ w1) parts @ w2 @ [b]"
proof (cases "gap = []")
  case True
  show thesis by (rule that [of "[]" "[]" "[]"]) (simp_all add: json_block_def True assms(1))
next
  case False
  show thesis
    by (rule that [of "[CHR 0x0A] @ ind @ gap" "[CHR 0x0A] @ ind @ gap" "[CHR 0x0A] @ ind"])
      (use assms False in \<open>simp_all add: json_block_def json_ws_def [of "CHR 0x0A"]\<close>)
qed

lemma reads_array:
  assumes "\<forall>x\<in>set xs. reads (T x) x" and "list_all json_ws gap" "list_all json_ws ind"
  shows "reads (json_block gap ind CHR ''['' CHR '']'' (map T xs)) (JArr xs)"
proof (rule readsI)
  fix r
  show "jval (length (json_block gap ind CHR ''['' CHR '']'' (map T xs))) (json_block gap ind CHR ''['' CHR '']'' (map T xs) @ r)
        = Some (JArr xs, r)"
  proof (cases "xs = []")
    case False
    then have ne: "map T xs \<noteq> []" by simp
    obtain x ys where xs: "xs = x # ys" using False by (cases xs) auto
    obtain w w1 w2 where ws: "list_all json_ws w" "list_all json_ws w1" "list_all json_ws w2"
      and b: "json_block gap ind CHR ''['' CHR '']'' (map T xs) = CHR ''['' # w @ join ('','' @ w1) (map T xs) @ w2 @ '']''"
      by (rule json_block_layout [OF ne assms(2,3)])
    let ?b = "w @ join ('','' @ w1) (map T xs) @ w2"
    have "reads (T x) x" using assms(1) xs by simp
    then have h: "skip_ws (?b @ CHR '']'' # r) \<noteq> [] \<and> hd (skip_ws (?b @ CHR '']'' # r)) \<noteq> CHR '']''"
      using ws(1) by (cases "T x"; cases ys) (auto simp: xs reads_def skip_ws_append)
    show ?thesis unfolding b using jelems_join [OF False assms(1) ws, of r] h by (simp add: jval.simps)
  qed (simp add: json_block_def parser_simps)
qed (simp_all add: json_block_def)

lemma reads_object:
  assumes "\<forall>p\<in>set ps. reads (T (snd p)) (snd p)" and "list_all json_ws gap" "list_all json_ws ind" "list_all json_ws w3"
    and "spread [] ps = ps"
  shows "reads (json_block gap ind CHR ''{'' CHR ''}'' (map (\<lambda>p. json_quote (fst p) @ '':'' @ w3 @ T (snd p)) ps)) (JObj ps)"
    (is "reads (json_block _ _ _ _ (map ?T ps)) _")
proof (rule readsI)
  fix r
  show "jval (length (json_block gap ind CHR ''{'' CHR ''}'' (map ?T ps))) (json_block gap ind CHR ''{'' CHR ''}'' (map ?T ps) @ r)
        = Some (JObj ps, r)"
  proof (cases "ps = []")
    case False
    then have ne: "map ?T ps \<noteq> []" by simp
    obtain p qs where ps: "ps = p # qs" using False by (cases ps) auto
    obtain w w1 w2 where ws: "list_all json_ws w" "list_all json_ws w1" "list_all json_ws w2"
      and b: "json_block gap ind CHR ''{'' CHR ''}'' (map ?T ps) = CHR ''{'' # w @ join ('','' @ w1) (map ?T ps) @ w2 @ ''}''"
      by (rule json_block_layout [OF ne assms(2,3)])
    let ?b = "w @ join ('','' @ w1) (map ?T ps) @ w2"
    have h: "skip_ws (?b @ CHR ''}'' # r) \<noteq> [] \<and> hd (skip_ws (?b @ CHR ''}'' # r)) \<noteq> CHR ''}''"
      using ws(1) by (cases qs) (simp_all add: ps json_quote_def skip_ws_append)
    show ?thesis unfolding b using jmembers_join [OF False assms(1) ws assms(4), of r] h assms(5)
      by (simp add: jval.simps)
  qed (simp add: json_block_def parser_simps)
qed (simp_all add: json_block_def)

lemma concat_members:
  "list_all (\<lambda>p. f (snd p) \<noteq> None) ps \<Longrightarrow>
   concat (map (\<lambda>p. case f (snd p) of None \<Rightarrow> [] | Some t \<Rightarrow> [g p t]) ps) = map (\<lambda>p. g p (the (f (snd p)))) ps"
  by (induction ps) (auto split: option.split)

lemma reads_json:
  "jsonable v \<Longrightarrow> list_all json_ws gap \<Longrightarrow> list_all json_ws ind \<Longrightarrow> reads (the (json gap ind v)) v"
proof (induction v arbitrary: ind rule: jsonable.induct)
  case (3 n)
  then obtain q where n: "n = Fin q" "of_int \<lfloor>q\<rfloor> = q" "0 \<le> q" "q < 2 ^ 53" by (cases n) simp_all
  have q: "of_nat (nat \<lfloor>q\<rfloor>) = q" using n by simp
  have "nat \<lfloor>q\<rfloor> < 2 ^ 53" using n(3,4) by (simp add: nat_less_iff floor_less_iff)
  with reads_nat [of "nat \<lfloor>q\<rfloor>"] show ?case using n by (simp add: pos_to_string_def q)
next
  case (5 xs)
  have "list_all json_ws (ind @ gap)" using 5 by simp
  with 5 have "\<forall>x\<in>set xs. reads (the (json gap (ind @ gap) x)) x" unfolding jsonable.simps list.pred_set by blast
  moreover have "map (\<lambda>x. case json gap (ind @ gap) x of None \<Rightarrow> ''null'' | Some t \<Rightarrow> t) xs = map (\<lambda>x. the (json gap (ind @ gap) x)) xs"
    using 5(2) by (auto simp: list_all_iff split: option.split dest!: json_some [of _ gap "ind @ gap"])
  ultimately show ?case using reads_array 5 by simp
next
  case (6 ps)
  let ?w = "if gap = [] then [] else '' ''"
  have "list_all json_ws (ind @ gap)" using 6 by simp
  with 6 have r: "\<forall>p\<in>set ps. reads (the (json gap (ind @ gap) (snd p))) (snd p)" unfolding jsonable.simps list.pred_set by blast
  have c: "concat (map (\<lambda>p. case json gap (ind @ gap) (snd p) of None \<Rightarrow> []
            | Some t \<Rightarrow> [json_quote (fst p) @ (if gap = [] then '':'' else '': '') @ t]) ps)
          = map (\<lambda>p. json_quote (fst p) @ '':'' @ ?w @ the (json gap (ind @ gap) (snd p))) ps"
  proof -
    have "list_all (\<lambda>p. json gap (ind @ gap) (snd p) \<noteq> None) ps"
      using 6(2) by (simp add: list.pred_set json_some del: not_None_eq)
    then show ?thesis by (subst concat_members) simp_all
  qed
  have w: "list_all json_ws ?w" by (simp add: json_ws_def)
  have s: "spread [] ps = ps" using 6(2) by simp
  show ?case using reads_object [OF r 6(3,4) w s] by (simp only: json.simps option.sel c)
qed (simp_all add: reads_literal reads_quote)

lemma JSON_parse_json:
  assumes "jsonable v" and "list_all json_ws gap"
  shows "\<exists>t. json gap [] v = Some t \<and> JSON_parse t = Some v"
proof -
  obtain t where t: "json gap [] v = Some t" using json_some [OF assms(1)] by blast
  have "jval (2 * length t + 2) t = Some (v, [])"
    using readsD [OF reads_json [OF assms, of "[]"], of "[]" "[]" "2 * length t + 2"] t by (simp add: ends_def)
  with t show ?thesis by (simp add: JSON_parse_def)
qed

end
