(* ===== verification/Forms.thy ===== *)
theory Forms
  imports Json Base64
begin

text \<open>
  The readers of \<^verbatim>\<open>dashboard/src/forms.ts\<close>: every action of the dashboard reads its values, the form merged over
  the clicked row, through them. A value is a string, a boolean, a number or a structure of them; no form and
  no row holds a \<^verbatim>\<open>bigint\<close>, so that branch of \<^verbatim>\<open>text\<close> has no counterpart. A reader that raises a
  \<^verbatim>\<open>FormError\<close> returns an \<open>InputError\<close>. \<^verbatim>\<open>bigint\<close> results are integers and a \<^verbatim>\<open>Uint8Array\<close> is
  the list of its bytes.

  The lemmas compare the readers with the ones the MCP server has for the same texts (\<open>Requests_Core\<close>): a
  soak is read alike, sizes agree where both accept, and a file survives its journey through base64.
\<close>

section \<open>Scalars\<close>

type_synonym form_values = obj

abbreviation FormError :: "string \<Rightarrow> err" where
  "FormError \<equiv> InputError"

fun text_value :: "js \<Rightarrow> string" where
  "text_value (JStr s) = trim s"
| "text_value (JNum n) = num_to_string n"
| "text_value (JBool b) = (if b then ''true'' else ''false'')"
| "text_value _ = []"

definition form_text :: "form_values \<Rightarrow> string \<Rightarrow> string" where
  "form_text v key = text_value (oget v key)"

fun form_first :: "form_values \<Rightarrow> string list \<Rightarrow> string" where
  "form_first v [] = []"
| "form_first v (key # keys) = (let t = form_text v key in if t \<noteq> [] then t else form_first v keys)"

fun flag_value :: "js \<Rightarrow> bool" where
  "flag_value (JBool b) = b"
| "flag_value (JNum n) = (n = Fin 1)"
| "flag_value (JStr s) = (toLowerCase (trim s) \<in> set [''1'', ''true'', ''yes'', ''on''])"
| "flag_value _ = False"

definition form_flag :: "form_values \<Rightarrow> string \<Rightarrow> bool" where
  "form_flag v key = flag_value (oget v key)"

definition form_int :: "form_values \<Rightarrow> string \<Rightarrow> jsnum res" where
  "form_int v key =
     (let raw = form_text v key in
      if raw = [] then Inr (Fin 0)
      else let parsed = str_to_number raw in
        if \<not> isFinite parsed \<or> \<not> isInteger parsed then Inl (FormError (key @ '' must be a whole number''))
        else Inr parsed)"

definition FORM_MAX_SOAK_SECONDS :: nat where
  "FORM_MAX_SOAK_SECONDS = 7 * 86400"

text \<open>The pattern \<^verbatim>\<open>/^(\d+)\s*([smhd]?)$/i\<close>: digits, white space, at most one unit letter.\<close>

definition form_soak :: "form_values \<Rightarrow> string \<Rightarrow> jsnum res" where
  "form_soak v key =
     (let raw = form_text v key; ds = takeWhile is_digit raw;
          unit = toLowerCase (dropWhile is_ws (dropWhile is_digit raw));
          units = [([], 1), (''s'', 1), (''m'', 60), (''h'', 3600), (''d'', 86400)] in
      if raw = [] then Inr (Fin 0)
      else if ds = [] then Inl (FormError (key @ '' must be seconds or a duration such as 90s, 45m, 2h, or 1d''))
      else case map_of units unit of
        None \<Rightarrow> Inl (FormError (key @ '' must be seconds or a duration such as 90s, 45m, 2h, or 1d''))
      | Some k \<Rightarrow>
          let seconds = num_scale (str_to_number ds) k in
          if num_less seconds (Fin 1) \<or> num_less (Fin (of_nat FORM_MAX_SOAK_SECONDS)) seconds
          then Inl (FormError (key @ '' must be between 1 second and 7 days''))
          else Inr seconds)"

text \<open>\<^verbatim>\<open>BigInt(text)\<close>: a signed decimal or an unsigned literal with a radix prefix; the empty text is zero.\<close>

definition digits_int :: "string \<Rightarrow> int option" where
  "digits_int s = (if s \<noteq> [] \<and> list_all is_digit s then Some (int (read_nat s)) else None)"

definition BigInt_text :: "string \<Rightarrow> int option" where
  "BigInt_text s =
     (let t = trim s in
      if t = [] then Some 0
      else if take 2 t = ''0x'' \<or> take 2 t = ''0X'' then map_option floor (radix_literal 16 (drop 2 t))
      else if take 2 t = ''0o'' \<or> take 2 t = ''0O'' then map_option floor (radix_literal 8 (drop 2 t))
      else if take 2 t = ''0b'' \<or> take 2 t = ''0B'' then map_option floor (radix_literal 2 (drop 2 t))
      else if hd t = CHR ''-'' then map_option uminus (digits_int (tl t))
      else if hd t = CHR ''+'' then digits_int (tl t)
      else digits_int t)"

definition form_i64 :: "form_values \<Rightarrow> string \<Rightarrow> int res" where
  "form_i64 v key =
     (let raw = form_text v key in
      if raw = [] then Inr 0
      else case BigInt_text raw of
        Some n \<Rightarrow> Inr n
      | None \<Rightarrow> Inl (FormError (key @ '' must be a whole number'')))"

section \<open>Sizes\<close>

definition UNITS :: "(string \<times> nat) list" where
  "UNITS = [([], 1), (''k'', 2 ^ 10), (''m'', 2 ^ 20), (''g'', 2 ^ 30), (''t'', 2 ^ 40), (''p'', 2 ^ 50)]"

text \<open>The tail \<^verbatim>\<open>([kmgtp]?)(?:i?b)?$\<close>: the unit letter, if the whole tail has that form.\<close>

definition size_suffix :: "string \<Rightarrow> string option" where
  "size_suffix t =
     (let u = (if t \<noteq> [] \<and> hd t \<in> set ''kmgtp'' then [hd t] else []); r = drop (length u) t in
      if r = [] \<or> r = ''b'' \<or> r = ''ib'' then Some u else None)"

text \<open>The whole pattern \<^verbatim>\<open>/^(\d+)(?:\.(\d+))?\s*([kmgtp]?)(?:i?b)?$/\<close>: whole part, fraction, unit.\<close>

definition size_match :: "string \<Rightarrow> (string \<times> string \<times> string) option" where
  "size_match s =
     (let whole = takeWhile is_digit s; r = dropWhile is_digit s;
          fp = (if r \<noteq> [] \<and> hd r = CHR ''.'' then takeWhile is_digit (tl r) else []);
          r' = (if r \<noteq> [] \<and> hd r = CHR ''.'' then dropWhile is_digit (tl r) else r) in
      if whole = [] \<or> (r \<noteq> [] \<and> hd r = CHR ''.'' \<and> fp = []) then None
      else map_option (\<lambda>u. (whole, fp, u)) (size_suffix (dropWhile is_ws r')))"

definition form_bytes :: "form_values \<Rightarrow> string \<Rightarrow> int res" where
  "form_bytes v key =
     (let raw = form_text v key in
      if raw = [] then Inr 0
      else case size_match (toLowerCase raw) of
        None \<Rightarrow> Inl (FormError (key @ '' must be a size such as 4 GiB or 512 MiB''))
      | Some (whole, fp, unit) \<Rightarrow>
          let scale = 10 ^ length fp;
              n = (read_nat whole * scale + read_nat (if fp = [] then ''0'' else fp)) * the (map_of UNITS unit) in
          if n mod scale \<noteq> 0 then Inl (FormError (key @ '' must be a whole number of bytes''))
          else Inr (int (n div scale)))"

section \<open>Lists and structures\<close>

fun split_by :: "(char \<Rightarrow> bool) \<Rightarrow> string \<Rightarrow> string list" where
  "split_by P [] = [[]]"
| "split_by P (c # cs) = (if P c then [] # split_by P cs else (case split_by P cs of [] \<Rightarrow> [[c]] | p # ps \<Rightarrow> (c # p) # ps))"

definition form_strings :: "form_values \<Rightarrow> string \<Rightarrow> string list" where
  "form_strings v key =
     (case oget v key of
        JArr items \<Rightarrow> filter (\<lambda>s. s \<noteq> []) (map (\<lambda>item. trim (js_string item)) items)
      | _ \<Rightarrow> filter (\<lambda>s. s \<noteq> []) (map trim (split_by (\<lambda>c. c = CHR '','' \<or> c = CHR 0x0A) (form_text v key))))"

definition form_ints :: "form_values \<Rightarrow> string \<Rightarrow> jsnum list res" where
  "form_ints v key =
     emap (\<lambda>part. let parsed = str_to_number part in
        if \<not> isInteger parsed then Inl (FormError (key @ '' must be a list of whole numbers'')) else Inr parsed)
      (form_strings v key)"

definition form_required :: "form_values \<Rightarrow> string \<Rightarrow> string res" where
  "form_required v key =
     (let t = form_text v key in if t = [] then Inl (FormError (key @ '' is required'')) else Inr t)"

definition form_positive :: "form_values \<Rightarrow> string \<Rightarrow> int res" where
  "form_positive v key =
     ebind (form_i64 v key) (\<lambda>n. if n \<le> 0 then Inl (FormError (key @ '' must be greater than 0'')) else Inr n)"

definition form_positiveBytes :: "form_values \<Rightarrow> string \<Rightarrow> int res" where
  "form_positiveBytes v key =
     ebind (form_bytes v key) (\<lambda>n. if n \<le> 0 then Inl (FormError (key @ '' must be greater than 0'')) else Inr n)"

definition form_ident :: "form_values \<Rightarrow> string" where
  "form_ident v = form_first v [''name'', ''id'']"

definition form_fromRow :: "form_values \<Rightarrow> bool" where
  "form_fromRow v = is_record (oget v ''spec'')"

definition form_records :: "form_values \<Rightarrow> string \<Rightarrow> form_values list res" where
  "form_records v key =
     (let pick = (\<lambda>items. map obj_of (filter is_record (arr_items items))) in
      case oget v key of
        JStr s \<Rightarrow>
          if trim s = [] then Inr []
          else (case JSON_parse s of
                  None \<Rightarrow> Inl (FormError (key @ '' must be a JSON list''))
                | Some items \<Rightarrow> Inr (pick items))
      | items \<Rightarrow> Inr (pick items))"

text \<open>\<^verbatim>\<open>out[name] = item\<close> for a string: assigning one to \<^verbatim>\<open>__proto__\<close> does nothing.\<close>

definition assign_str :: "obj \<Rightarrow> string \<Rightarrow> string \<Rightarrow> obj" where
  "assign_str out name item = (if name = ''__proto__'' then out else oset out name (JStr item))"

definition label_pair :: "obj \<Rightarrow> string \<Rightarrow> obj" where
  "label_pair out pair =
     (case indexOf CHR ''='' pair of
        Some i \<Rightarrow> if 0 < i then assign_str out (trim (take i pair)) (trim (drop (i + 1) pair)) else out
      | None \<Rightarrow> out)"

definition form_labels :: "form_values \<Rightarrow> string \<Rightarrow> obj" where
  "form_labels v key =
     (case oget v key of
        JObj ps \<Rightarrow> foldl (\<lambda>out p. case snd p of JStr item \<Rightarrow> assign_str out (fst p) item | _ \<Rightarrow> out) [] ps
      | _ \<Rightarrow> foldl label_pair [] (form_strings v key))"

section \<open>Files\<close>

text \<open>\<^verbatim>\<open>atob\<close>: unlike \<open>base64_decode\<close> it refuses a character outside the alphabet and a stray length.\<close>

definition atob :: "string \<Rightarrow> string res" where
  "atob s =
     (let n = length s;
          t = (if n mod 4 = 0 \<and> 2 \<le> n \<and> drop (n - 2) s = ''=='' then take (n - 2) s
               else if n mod 4 = 0 \<and> 1 \<le> n \<and> last s = CHR ''='' then take (n - 1) s else s) in
      if length t mod 4 = 1 \<or> \<not> list_all (\<lambda>c. c \<in> set alphabet) t then Inl (OtherError ''InvalidCharacterError'')
      else Inr (dec_bits (concat (map (\<lambda>c. the (val6 c)) t))))"

definition base64ToBytes :: "string \<Rightarrow> string res" where
  "base64ToBytes raw = atob (filter (\<lambda>c. \<not> is_ws c) raw)"

function byte_chunks :: "nat \<Rightarrow> string \<Rightarrow> string" where
  "byte_chunks chunk bs = (if bs = [] \<or> chunk = 0 then [] else take chunk bs @ byte_chunks chunk (drop chunk bs))"
  by auto
termination
  by (relation "measure (\<lambda>(chunk, bs). length bs)") auto

definition bytesToBase64 :: "string \<Rightarrow> string" where
  "bytesToBase64 bs = base64_encode (byte_chunks 32768 bs)"

section \<open>Durations: the dashboard and the server agree\<close>

text \<open>
  C11: A canary soak typed into the dashboard means what it means to the MCP server: for every value whose text is
  not empty the two readers return the same number of seconds or the same error.
\<close>

theorem soak_read_alike:
  "form_text v ''soak'' \<noteq> [] \<Longrightarrow> form_soak v ''soak'' = soakSeconds (oget v ''soak'')"
proof -
  assume t: "form_text v ''soak'' \<noteq> []"
  have days: "show_nat (MAX_SOAK_SECONDS div 86400) = ''7''"
    by (simp add: MAX_SOAK_SECONDS_def show_nat_small char_of_def bit_0)
  have raw: "form_text v ''soak'' = (case oget v ''soak'' of JNum n \<Rightarrow> num_to_string n | JStr s \<Rightarrow> trim s | _ \<Rightarrow> [])
      \<or> (\<exists>b. oget v ''soak'' = JBool b)"
    by (cases "oget v ''soak''") (simp_all add: form_text_def)
  then show ?thesis
  proof
    assume "form_text v ''soak'' = (case oget v ''soak'' of JNum n \<Rightarrow> num_to_string n | JStr s \<Rightarrow> trim s | _ \<Rightarrow> [])"
    from this [symmetric] show ?thesis
      using t unfolding form_soak_def soakSeconds_def Let_def days
      by (auto simp: soak_unit_def FORM_MAX_SOAK_SECONDS_def MAX_SOAK_SECONDS_def)
  next
    assume "\<exists>b. oget v ''soak'' = JBool b"
    then show ?thesis by (auto simp: form_soak_def soakSeconds_def form_text_def is_digit_def)
  qed
qed

theorem soak_read_alike_witness:
  "form_text [(''soak'', JStr '' 90m '')] ''soak'' \<noteq> [] \<and>
   form_soak [(''soak'', JStr '' 90m '')] ''soak'' = soakSeconds (JStr '' 90m '')"
proof -
  have "form_text [(''soak'', JStr '' 90m '')] ''soak'' \<noteq> []" by code_simp
  moreover from soak_read_alike [OF this]
  have "form_soak [(''soak'', JStr '' 90m '')] ''soak'' = soakSeconds (JStr '' 90m '')" by (simp add: oget_def)
  ultimately show ?thesis by blast
qed

section \<open>Sizes: where both accept, they agree\<close>

lemma is_digit_lower: "is_digit (lower_char c) = is_digit c"
  by (auto simp: is_digit_def lower_char_def of_char_of)

lemma lower_digit: "is_digit c \<Longrightarrow> lower_char c = c"
  by (auto simp: is_digit_def lower_char_def)

lemma lower_digits: "list_all is_digit s \<Longrightarrow> toLowerCase s = s"
  by (induction s) (simp_all add: lower_digit)

lemma takeWhile_digit_lower: "takeWhile is_digit (toLowerCase s) = takeWhile is_digit s"
  by (induction s) (simp_all add: is_digit_lower lower_digit)

lemma dropWhile_digit_lower: "dropWhile is_digit (toLowerCase s) = toLowerCase (dropWhile is_digit s)"
  by (induction s) (simp_all add: is_digit_lower)

lemma dropWhile_ws_lower: "dropWhile is_ws (toLowerCase s) = toLowerCase (dropWhile is_ws s)"
  by (induction s) (simp_all add: is_ws_lower)

lemma suffix_units:
  assumes "size_unit u = Some k" and "size_suffix u = Some x"
  shows "map_of UNITS x = Some (1024 ^ k)"
  using assms unfolding size_unit_def
  by (auto simp: size_suffix_def UNITS_def split: if_splits)

lemma size_unit_dot: "size_unit u = Some k \<Longrightarrow> u \<noteq> [] \<and> hd u \<noteq> CHR ''.'' \<and> \<not> is_ws (hd u)"
  by (auto simp: size_unit_def is_ws_def split: if_splits)


lemma size_match_plain:
  assumes "list_all is_digit t" and "t \<noteq> []"
  shows "size_match (toLowerCase t) = Some (t, [], [])"
proof -
  have p: "takeWhile is_digit t = t" "dropWhile is_digit t = []" using assms(1) by (simp_all add: list_all_iff)
  show ?thesis unfolding lower_digits [OF assms(1)] size_match_def p Let_def using assms(2) by (simp add: size_suffix_def)
qed

lemma size_match_unit:
  assumes "size_unit (toLowerCase (dropWhile is_ws (dropWhile is_digit t))) = Some k" and "size_match (toLowerCase t) = Some (w, f, x)"
  shows "w = takeWhile is_digit t \<and> f = [] \<and> map_of UNITS x = Some (1024 ^ k)"
proof -
  let ?r = "toLowerCase (dropWhile is_digit t)"
  have u: "size_unit (dropWhile is_ws ?r) = Some k" using assms(1) by (simp add: dropWhile_ws_lower)
  have dot: "\<not> (?r \<noteq> [] \<and> hd ?r = CHR ''.'')"
    using size_unit_dot [OF u] by (cases ?r) (auto simp: is_ws_def split: if_splits)
  have "w = takeWhile is_digit t \<and> f = [] \<and> size_suffix (dropWhile is_ws ?r) = Some x"
    using assms(2) unfolding size_match_def Let_def takeWhile_digit_lower dropWhile_digit_lower
    using dot by (auto split: if_splits)
  with suffix_units [OF u] show ?thesis by blast
qed

lemma read_nat_zero [simp]: "read_nat ''0'' = 0"
  by (simp add: read_nat_def)

text \<open>
  C16: Where the dashboard and the MCP server both accept a size they mean the same number of bytes.
\<close>

theorem sizes_read_alike:
  assumes "oget v key = JStr s" and "sizeBytes (JStr s) label = Inr t" and "form_bytes v key = Inr n" and "trim s \<noteq> []"
  shows "n = int (read_nat t)"
proof (cases "list_all is_digit (trim s)")
  case True
  then have t: "t = trim s" using assms(2,4) by (simp add: size_text_def)
  show ?thesis
    using assms(1,3,4) size_match_plain [OF True assms(4)]
    by (simp add: form_bytes_def form_text_def Let_def t UNITS_def split: if_splits)
next
  case False
  let ?t = "trim s"
  obtain k where k: "size_unit (toLowerCase (dropWhile is_ws (dropWhile is_digit ?t))) = Some k"
    and t: "t = show_nat (read_nat (takeWhile is_digit ?t) * 1024 ^ k)"
    using assms(2) False by (auto simp: size_text_def Let_def split: if_splits option.splits)
  obtain w f x where m: "size_match (toLowerCase ?t) = Some (w, f, x)"
    using assms(1,3,4) by (auto simp: form_bytes_def form_text_def Let_def split: option.splits)
  note parts = size_match_unit [OF k m]
  show ?thesis
    using assms(1,3,4) m parts by (simp add: form_bytes_def form_text_def Let_def t split: if_splits)
qed

theorem sizes_read_alike_witness:
  "sizeBytes (JStr ''40 GiB'') ''size'' = Inr (show_nat (40 * 1024 ^ 3)) \<and>
   form_bytes [(''size_bytes'', JStr ''40 GiB'')] ''size_bytes'' = Inr (40 * 1024 ^ 3)"
proof -
  have f: "show_nat 40 = ''40''" "list_all is_ws '' ''" "size_unit (toLowerCase ''GiB'') = Some 3" by code_simp+
  have a: "sizeBytes (JStr ''40 GiB'') ''size'' = Inr (show_nat (40 * 1024 ^ 3))"
    using sizeBytes_unit [OF _ f(2,3), of 40 "''size''"] by (simp add: f(1) del: sizeBytes.simps)
  have t: "form_text [(''size_bytes'', JStr ''40 GiB'')] ''size_bytes'' = ''40 GiB''"
    "size_match (toLowerCase ''40 GiB'') = Some (''40'', [], ''g'')" "read_nat ''40'' = 40" by code_simp+
  have b: "form_bytes [(''size_bytes'', JStr ''40 GiB'')] ''size_bytes'' = Inr (40 * 1024 ^ 3)"
    unfolding form_bytes_def t Let_def by (simp add: t(2,3) UNITS_def)
  have "(40 * 1024 ^ 3 :: int) = int (read_nat (show_nat (40 * 1024 ^ 3)))"
    by (rule sizes_read_alike [OF _ a b]) (simp add: oget_def, code_simp)
  with a b show ?thesis by blast
qed

section \<open>Files\<close>

lemma byte_chunks_id: "0 < chunk \<Longrightarrow> byte_chunks chunk bs = bs"
proof (induction chunk bs rule: byte_chunks.induct)
  case (1 chunk bs)
  then show ?case by (subst byte_chunks.simps) auto
qed

lemma enc_bits_sextets:
  "even (length bs) \<Longrightarrow> \<exists>ss z p. enc_bits bs = map sym6 ss @ replicate p CHR ''='' \<and> (\<forall>s\<in>set ss. length s = 6) \<and>
     concat ss = bs @ replicate z False \<and> (p = 0 \<and> z = 0 \<or> p = 2 \<and> z = 4 \<or> p = 1 \<and> z = 2)"
proof (induction bs rule: enc_bits.induct)
  case (1 a b c d e f rest)
  then obtain ss z p where "enc_bits rest = map sym6 ss @ replicate p CHR ''=''" "\<forall>s\<in>set ss. length s = 6"
    "concat ss = rest @ replicate z False" "p = 0 \<and> z = 0 \<or> p = 2 \<and> z = 4 \<or> p = 1 \<and> z = 2" by auto
  then show ?case by (intro exI [of _ "[a, b, c, d, e, f] # ss"] exI [of _ z] exI [of _ p]) simp
next
  case 2
  show ?case by (rule exI [of _ "[]"]) simp
next
  case (3 a b)
  show ?case by (intro exI [of _ "[[a, b, False, False, False, False]]"] exI [of _ 4] exI [of _ 2]) (simp add: numeral_eq_Suc)
next
  case (4 a b c d)
  show ?case by (intro exI [of _ "[[a, b, c, d, False, False]]"] exI [of _ 2] exI [of _ 1]) (simp add: numeral_eq_Suc)
qed simp_all

lemma bits_nat_bound: "bits_nat bs < 2 ^ length bs"
  by (induction bs) auto

lemma sym6_alphabet: "length bs = 6 \<Longrightarrow> sym6 bs \<in> set alphabet"
proof -
  assume "length bs = 6"
  then have "bits_nat (rev bs) < length alphabet" using bits_nat_bound [of "rev bs"] by (simp add: alphabet_def)
  then show ?thesis by (simp add: sym6_def)
qed

lemma sextets_length: "\<forall>s\<in>set ss. length s = 6 \<Longrightarrow> length (concat ss) = 6 * length ss"
  by (induction ss) simp_all

lemma vals_syms: "\<forall>s\<in>set ss. length s = 6 \<Longrightarrow> map (\<lambda>c. the (val6 c)) (map sym6 ss) = ss"
  by (induction ss) (simp_all add: sym6_inverse)

lemma pad_not_alphabet: "CHR ''='' \<notin> set alphabet"
  by code_simp

text \<open>\<^verbatim>\<open>atob\<close> on a text whose symbols and padding fill whole groups of four.\<close>

lemma last_alphabet:
  assumes "list_all (\<lambda>c. c \<in> set alphabet) t" and "t \<noteq> []"
  shows "last t \<noteq> CHR ''=''" and "drop (length t - 2) t \<noteq> ''==''"
proof -
  have "last t \<in> set alphabet" using assms last_in_set [OF assms(2)] by (simp only: list_all_iff)
  then show l: "last t \<noteq> CHR ''=''" using pad_not_alphabet by metis
  show "drop (length t - 2) t \<noteq> ''==''"
  proof
    assume "drop (length t - 2) t = ''==''"
    then have "last (drop (length t - 2) t) = CHR ''=''" by simp
    then show False using l assms(2) by (cases "length t - 2 < length t") simp_all
  qed
qed

lemma atob_bare:
  assumes "list_all (\<lambda>c. c \<in> set alphabet) t" and "length t mod 4 \<noteq> 1"
  shows "atob t = Inr (dec_bits (concat (map (\<lambda>c. the (val6 c)) t)))"
proof -
  have "\<not> (length t mod 4 = 0 \<and> 2 \<le> length t \<and> drop (length t - 2) t = ''=='')"
    using last_alphabet(2) [OF assms(1)] by (cases "t = []") simp_all
  moreover have "\<not> (length t mod 4 = 0 \<and> 1 \<le> length t \<and> last t = CHR ''='')"
    using last_alphabet(1) [OF assms(1)] by (cases "t = []") simp_all
  ultimately show ?thesis unfolding atob_def Let_def using assms by (simp only: if_False simp_thms)
qed

lemma atob_pad1:
  assumes "list_all (\<lambda>c. c \<in> set alphabet) t" and "length (t @ ''='') mod 4 = 0"
  shows "atob (t @ ''='') = Inr (dec_bits (concat (map (\<lambda>c. the (val6 c)) t)))"
proof -
  have "t \<noteq> []" using assms(2) by auto
  then have "drop (length (t @ ''='') - 2) (t @ ''='') \<noteq> ''==''"
    using last_alphabet(1) [OF assms(1)] by (cases t rule: rev_cases) auto
  moreover have "last (t @ ''='') = CHR ''=''" "1 \<le> length (t @ ''='')" "take (length (t @ ''='') - 1) (t @ ''='') = t" by simp_all
  moreover have "length t mod 4 \<noteq> 1" using assms(2) by simp presburger
  ultimately show ?thesis unfolding atob_def Let_def using assms by (simp only: if_False if_True simp_thms)
qed

lemma atob_pad2:
  assumes "list_all (\<lambda>c. c \<in> set alphabet) t" and "length (t @ ''=='') mod 4 = 0"
  shows "atob (t @ ''=='') = Inr (dec_bits (concat (map (\<lambda>c. the (val6 c)) t)))"
proof -
  have "drop (length (t @ ''=='') - 2) (t @ ''=='') = ''==''" "2 \<le> length (t @ ''=='')"
    "take (length (t @ ''=='') - 2) (t @ ''=='') = t" by simp_all
  moreover have "length t mod 4 \<noteq> 1" using assms(2) by simp presburger
  ultimately show ?thesis unfolding atob_def Let_def using assms by (simp only: if_False if_True simp_thms)
qed

lemma atob_encode: "atob (base64_encode bs) = Inr bs"
proof -
  let ?b = "concat (map byte_bits bs)"
  have len: "length ?b = 8 * length bs" by (rule length_concat_bytes)
  then obtain ss z p where e: "base64_encode bs = map sym6 ss @ replicate p CHR ''=''" and six: "\<forall>s\<in>set ss. length s = 6"
    and c: "concat ss = ?b @ replicate z False" and z: "p = 0 \<and> z = 0 \<or> p = 2 \<and> z = 4 \<or> p = 1 \<and> z = 2"
    using enc_bits_sextets [of ?b] unfolding base64_encode_def by auto
  have "6 * length ss = 8 * length bs + z" using arg_cong [OF c, of length] six len by (simp add: sextets_length)
  then have m: "(length (map sym6 ss) + p) mod 4 = 0" using z by simp presburger
  have al: "list_all (\<lambda>c. c \<in> set alphabet) (map sym6 ss)" using six sym6_alphabet by (simp add: list_all_iff)
  have "length (map sym6 ss) mod 4 \<noteq> 1 \<or> p \<noteq> 0" using m by presburger
  then have "atob (map sym6 ss @ replicate p CHR ''='') = Inr (dec_bits (concat (map (\<lambda>c. the (val6 c)) (map sym6 ss))))"
    using z m atob_bare [OF al] atob_pad1 [OF al] atob_pad2 [OF al] by (elim disjE) (simp_all add: numeral_2_eq_2 del: map_map)
  then have "atob (base64_encode bs) = Inr (dec_bits (?b @ replicate z False))"
    unfolding e vals_syms [OF six] c .
  also have "dec_bits (?b @ replicate z False) = bs" by (rule dec_bits_bytes) (use z in auto)
  finally show ?thesis .
qed

text \<open>
  C17: A file the browser reads into a form reaches the request byte for byte: \<^verbatim>\<open>base64ToBytes\<close>, behind the
  trimming reader of the form field, inverts \<^verbatim>\<open>bytesToBase64\<close>.
\<close>

theorem file_field_roundtrip:
  "base64ToBytes (form_text [(key, JStr (bytesToBase64 bs))] key) = Inr bs"
proof -
  have b: "bytesToBase64 bs = base64_encode bs" by (simp add: bytesToBase64_def byte_chunks_id del: byte_chunks.simps)
  have "filter (\<lambda>c. \<not> is_ws c) (base64_encode bs) = base64_encode bs"
    by (rule filter_True) (auto simp: base64_encode_def dest: enc_bits_no_ws)
  then show ?thesis
    unfolding b by (simp add: form_text_def oget_def base64ToBytes_def atob_encode)
qed

section \<open>Structured fields\<close>

lemma obj_of_records: "map (obj_of \<circ> JObj) rs = rs"
  by (induction rs) simp_all



end
