(* ===== verification/Rows.thy ===== *)
theory Rows
  imports Forms
begin

text \<open>
  \<^verbatim>\<open>dashboard/src/rows.ts\<close>: how a protobuf message becomes the plain row a table shows. A message is a
  \<open>pval\<close> keyed by the local names of its fields; the same type holds the plain objects the dashboard passes to a
  call. The descriptors come from generated code, so the registry that maps a type name to its descriptor
  is a parameter (\<open>pe_message\<close>), and so is the rendering of a timestamp by the protobuf library (\<open>pe_iso\<close>).

  \<open>toRow\<close> recurses on the message. The lemmas: a label of an enum value reads back as that value
  (\<open>enum_label_roundtrip\<close>), a row has an entry for every field outside an inactive \<^verbatim>\<open>oneof\<close> and each entry has
  the type its field kind promises (\<open>row_typed\<close>), and lifting nested records never changes a value
  the row already had (\<open>lift_keeps\<close>).
\<close>

section \<open>Messages and their descriptors\<close>

datatype pval =
    PUndef
  | PBool bool
  | PNum jsnum
  | PStr string
  | PBig int
  | PBin string
  | PList "pval list"
  | PObj "(string \<times> pval) list"
  | PMsg string "(string \<times> pval) list"
  | PCase string pval

type_synonym desc_enum = "(string \<times> int) list"

datatype item_kind = ScalarItem | EnumItem desc_enum | MessageItem string

datatype field_kind = ScalarField | EnumField desc_enum | MessageField string | ListField item_kind | MapField item_kind

record desc_field =
  df_name :: string
  df_localName :: string
  df_oneof :: "string option"
  df_kind :: field_kind

record desc_message =
  dm_typeName :: string
  dm_fields :: "desc_field list"

record proto_env =
  pe_message :: "string \<Rightarrow> desc_message option"
  pe_iso :: "pval \<Rightarrow> string res"

definition pget :: "(string \<times> pval) list \<Rightarrow> string \<Rightarrow> pval" where
  "pget r k = (case map_of r k of Some v \<Rightarrow> v | None \<Rightarrow> PUndef)"

fun pfields :: "pval \<Rightarrow> (string \<times> pval) list" where
  "pfields (PMsg n r) = r"
| "pfields (PObj r) = r"
| "pfields _ = []"

fun pitems :: "pval \<Rightarrow> pval list" where
  "pitems (PList xs) = xs"
| "pitems _ = []"

fun pentries :: "pval \<Rightarrow> (string \<times> pval) list" where
  "pentries (PObj ps) = ps"
| "pentries _ = []"

section \<open>Enum labels\<close>

definition dash_lower :: "string \<Rightarrow> string" where
  "dash_lower s = map (\<lambda>c. if c = CHR ''_'' then CHR ''-'' else c) (toLowerCase s)"

text \<open>The loop over \<^verbatim>\<open>count\<close> from the number of words minus one down to one, which stops at the first prefix
  that every name extends.\<close>

definition sharedPrefix :: "desc_enum \<Rightarrow> string" where
  "sharedPrefix desc =
     (let names = map fst desc in
      if length names > 1 then
        (let words = split_by (\<lambda>c. c = CHR ''_'') (hd names);
             candidates = map (\<lambda>count. join ''_'' (take count words) @ ''_'') (rev [1..<length words]) in
         case find (\<lambda>c. list_all (\<lambda>name. startsWith name c \<and> length c < length name) names) candidates of
           Some c \<Rightarrow> c | None \<Rightarrow> [])
      else [])"

definition shortName :: "desc_enum \<Rightarrow> string \<Rightarrow> string" where
  "shortName desc name = dash_lower (drop (length (sharedPrefix desc)) name)"

definition enumLabel :: "desc_enum \<Rightarrow> jsnum \<Rightarrow> string" where
  "enumLabel desc n =
     (case find (\<lambda>it. Fin (of_int (snd it)) = n) desc of
        None \<Rightarrow> num_to_string n
      | Some it \<Rightarrow> shortName desc (fst it))"

definition enumValue :: "desc_enum \<Rightarrow> string \<Rightarrow> int option" where
  "enumValue desc s =
     (let needle = dash_lower (trim s) in
      if needle = [] then None
      else case find (\<lambda>it. shortName desc (fst it) = needle \<or> dash_lower (fst it) = needle) desc of
        Some it \<Rightarrow> Some (snd it)
      | None \<Rightarrow>
          (case str_to_number needle of
             Fin q \<Rightarrow> map_option snd (find (\<lambda>it. of_int (snd it) = q) desc)
           | _ \<Rightarrow> None))"

section \<open>Rows\<close>

definition show_int :: "int \<Rightarrow> string" where
  "show_int n = (if n < 0 then ''-'' @ show_nat (nat (- n)) else show_nat (nat n))"

definition is_safe :: "jsnum \<Rightarrow> bool" where
  "is_safe n = (case n of Fin q \<Rightarrow> of_int \<lfloor>q\<rfloor> = q \<and> \<bar>q\<bar> \<le> 2 ^ 53 - 1 | _ \<Rightarrow> False)"

text \<open>\<^verbatim>\<open>scalar\<close>: a \<^verbatim>\<open>bigint\<close> becomes a number where that is exact and its digits otherwise, bytes their count.
  Nested values do not occur in a scalar field.\<close>

fun scalar :: "pval \<Rightarrow> js" where
  "scalar (PBig n) = (let asNumber = to_double (of_int n) in if is_safe asNumber then JNum asNumber else JStr (show_int n))"
| "scalar (PBin b) = JStr (show_nat (length b) @ '' bytes'')"
| "scalar (PBool b) = JBool b"
| "scalar (PNum n) = JNum n"
| "scalar (PStr s) = JStr s"
| "scalar _ = JUndef"

fun enum_label_of :: "desc_enum \<Rightarrow> pval \<Rightarrow> js" where
  "enum_label_of e (PNum n) = JStr (enumLabel e n)"
| "enum_label_of e _ = JStr ''undefined''"

fun enum_field :: "desc_enum \<Rightarrow> pval \<Rightarrow> js" where
  "enum_field e (PNum n) =
     (case find (\<lambda>it. Fin (of_int (snd it)) = n) e of
        Some it \<Rightarrow> if endsWith (fst it) ''_UNSPECIFIED'' then JNull else JStr (enumLabel e n)
      | None \<Rightarrow> JStr (enumLabel e n))"
| "enum_field e v = enum_label_of e v"

text \<open>The value a field reads: nothing where it belongs to a \<^verbatim>\<open>oneof\<close> that holds another case.\<close>

definition field_input :: "(string \<times> pval) list \<Rightarrow> desc_field \<Rightarrow> pval option" where
  "field_input rec f =
     (case df_oneof f of
        None \<Rightarrow> Some (pget rec (df_localName f))
      | Some g \<Rightarrow>
          (case pget rec g of
             PCase c v \<Rightarrow> if c = df_localName f then Some v else None
           | _ \<Rightarrow> None))"

definition TIMESTAMP :: string where
  "TIMESTAMP = ''google.protobuf.Timestamp''"

definition desc_of :: "proto_env \<Rightarrow> string \<Rightarrow> desc_message" where
  "desc_of env tn = (case pe_message env tn of Some d \<Rightarrow> d | None \<Rightarrow> \<lparr>dm_typeName = tn, dm_fields = []\<rparr>)"

lemma emap_fundef_cong [fundef_cong]:
  "xs = ys \<Longrightarrow> (\<And>x. x \<in> set ys \<Longrightarrow> f x = g x) \<Longrightarrow> emap f xs = emap g ys"
  by (induction ys arbitrary: xs) auto

lemma pget_size: "pget r k = v \<Longrightarrow> size v < size (PMsg n r)"
proof -
  assume "pget r k = v"
  moreover have "(k, w) \<in> set r \<Longrightarrow> size w \<le> size_list (size_prod (\<lambda>_. 0) size) r" for w
    by (induction r) auto
  ultimately show ?thesis
    by (auto simp: pget_def less_Suc_eq_le dest: map_of_SomeD split: option.splits)
qed

lemma field_input_size: "field_input r f = Some v \<Longrightarrow> size v < size (PMsg n r)"
proof -
  have "pget r g = PCase c v \<Longrightarrow> size v < size (PMsg n r)" for g c
    using pget_size [of r g "PCase c v" n] by simp
  then show "field_input r f = Some v \<Longrightarrow> size v < size (PMsg n r)"
    using pget_size [of r "df_localName f" v n]
    by (auto simp: field_input_def split: option.splits pval.splits if_splits)
qed

lemma pitems_size: "x \<in> set (pitems v) \<Longrightarrow> size x < size v"
  by (cases v) (auto simp: less_Suc_eq_le size_list_estimation')

lemma pentries_size: "p \<in> set (pentries v) \<Longrightarrow> size (snd p) < size v"
proof -
  have "p \<in> set ps \<Longrightarrow> size (snd p) \<le> size_list (size_prod (\<lambda>_. 0) size) ps" for ps :: "(string \<times> pval) list"
    by (induction ps) auto
  then show "p \<in> set (pentries v) \<Longrightarrow> size (snd p) < size v"
    by (cases v) (auto simp: less_Suc_eq_le)
qed

text \<open>\<^verbatim>\<open>messageValue\<close>, with \<^verbatim>\<open>fieldValue\<close> and the loop of \<^verbatim>\<open>toRow\<close> over the fields written out: an inactive field
  contributes no entry.\<close>

function messageValue :: "proto_env \<Rightarrow> string \<Rightarrow> pval \<Rightarrow> js res" where
  "messageValue env tn v =
     (if v = PUndef then Inr JNull
      else if tn = TIMESTAMP then ebind (pe_iso env v) (\<lambda>t. Inr (JStr t))
      else case v of
        PMsg n rec \<Rightarrow>
          ebind (emap (\<lambda>f.
              case field_input rec f of
                None \<Rightarrow> Inr []
              | Some x \<Rightarrow> ebind
                  (case df_kind f of
                     ScalarField \<Rightarrow> Inr (scalar x)
                   | EnumField e \<Rightarrow> Inr (enum_field e x)
                   | MessageField m \<Rightarrow> messageValue env m x
                   | ListField it \<Rightarrow>
                       (case it of
                          EnumItem e \<Rightarrow> Inr (JArr (map (enum_label_of e) (pitems x)))
                        | MessageItem m \<Rightarrow> ebind (emap (\<lambda>y. messageValue env m y) (pitems x)) (\<lambda>ys. Inr (JArr ys))
                        | ScalarItem \<Rightarrow> Inr (JArr (map scalar (pitems x))))
                   | MapField it \<Rightarrow>
                       (case it of
                          EnumItem e \<Rightarrow> Inr (JObj (spread [] (map (\<lambda>p. (fst p, enum_label_of e (snd p))) (pentries x))))
                        | MessageItem m \<Rightarrow>
                            ebind (emap (\<lambda>p. ebind (messageValue env m (snd p)) (\<lambda>y. Inr (fst p, y))) (pentries x))
                              (\<lambda>ys. Inr (JObj (spread [] ys)))
                        | ScalarItem \<Rightarrow> Inr (JObj (spread [] (map (\<lambda>p. (fst p, scalar (snd p))) (pentries x))))))
                  (\<lambda>y. Inr [(df_name f, y)]))
            (dm_fields (desc_of env tn))) (\<lambda>rows. Inr (JObj (spread [] (concat rows))))
      | _ \<Rightarrow> Inr (JObj []))"
  by auto
termination
proof (relation "measure (\<lambda>(env, tn, v). size v)")
  fix env tn v n rec f x m y
  assume "v = PMsg n rec" "field_input rec f = Some x" "y \<in> set (pitems x)"
  then show "((env, m, y), env, tn, v) \<in> measure (\<lambda>(env, tn, v). size v)"
    using pitems_size field_input_size by (metis (no_types, lifting) case_prod_conv in_measure less_trans)
next
  fix env tn v n rec f x m p
  assume "v = PMsg n rec" "field_input rec f = Some x" "p \<in> set (pentries x)"
  then show "((env, m, snd p), env, tn, v) \<in> measure (\<lambda>(env, tn, v). size v)"
    using pentries_size field_input_size by (metis (no_types, lifting) case_prod_conv in_measure less_trans)
next
  fix env tn v n rec f x m
  assume "v = PMsg n rec" "field_input rec f = Some x"
  then show "((env, m, x), env, tn, v) \<in> measure (\<lambda>(env, tn, v). size v)"
    using field_input_size by (simp del: pval.size)
qed simp_all

definition fieldValue :: "proto_env \<Rightarrow> field_kind \<Rightarrow> pval \<Rightarrow> js res" where
  "fieldValue env kind v =
     (case kind of
        ScalarField \<Rightarrow> Inr (scalar v)
      | EnumField e \<Rightarrow> Inr (enum_field e v)
      | MessageField m \<Rightarrow> messageValue env m v
      | ListField it \<Rightarrow>
          (case it of
             EnumItem e \<Rightarrow> Inr (JArr (map (enum_label_of e) (pitems v)))
           | MessageItem m \<Rightarrow> ebind (emap (\<lambda>y. messageValue env m y) (pitems v)) (\<lambda>ys. Inr (JArr ys))
           | ScalarItem \<Rightarrow> Inr (JArr (map scalar (pitems v))))
      | MapField it \<Rightarrow>
          (case it of
             EnumItem e \<Rightarrow> Inr (JObj (spread [] (map (\<lambda>p. (fst p, enum_label_of e (snd p))) (pentries v))))
           | MessageItem m \<Rightarrow>
               ebind (emap (\<lambda>p. ebind (messageValue env m (snd p)) (\<lambda>y. Inr (fst p, y))) (pentries v))
                 (\<lambda>ys. Inr (JObj (spread [] ys)))
           | ScalarItem \<Rightarrow> Inr (JObj (spread [] (map (\<lambda>p. (fst p, scalar (snd p))) (pentries v))))))"

definition row_entry :: "proto_env \<Rightarrow> (string \<times> pval) list \<Rightarrow> desc_field \<Rightarrow> obj res" where
  "row_entry env rec f =
     (case field_input rec f of
        None \<Rightarrow> Inr []
      | Some v \<Rightarrow> ebind (fieldValue env (df_kind f) v) (\<lambda>y. Inr [(df_name f, y)]))"

definition toRow :: "proto_env \<Rightarrow> desc_message \<Rightarrow> (string \<times> pval) list \<Rightarrow> obj res" where
  "toRow env desc rec = ebind (emap (row_entry env rec) (dm_fields desc)) (\<lambda>rows. Inr (spread [] (concat rows)))"

text \<open>The three functions call one another as the source has it.\<close>

declare messageValue.simps [simp del]

lemma messageValue_toRow:
  "tn \<noteq> TIMESTAMP \<Longrightarrow> messageValue env tn (PMsg n rec) = ebind (toRow env (desc_of env tn) rec) (\<lambda>r. Inr (JObj r))"
  by (subst messageValue.simps) (simp add: toRow_def row_entry_def [abs_def] fieldValue_def ebind_assoc cong: option.case_cong)

definition toRows :: "proto_env \<Rightarrow> desc_message \<Rightarrow> pval list \<Rightarrow> obj list res" where
  "toRows env desc messages = emap (\<lambda>m. toRow env desc (pfields m)) messages"

definition schemaOf :: "proto_env \<Rightarrow> pval \<Rightarrow> desc_message res" where
  "schemaOf env v =
     (case v of
        PMsg n r \<Rightarrow>
          (case pe_message env n of
             Some d \<Rightarrow> Inr d
           | None \<Rightarrow> Inl (OtherError (''unknown message '' @ n)))
      | _ \<Rightarrow> Inl (OtherError ''unknown message undefined''))"

definition rowOf :: "proto_env \<Rightarrow> pval \<Rightarrow> obj res" where
  "rowOf env m = ebind (schemaOf env m) (\<lambda>d. toRow env d (pfields m))"

definition rowsOf :: "proto_env \<Rightarrow> pval \<Rightarrow> string \<Rightarrow> obj list res" where
  "rowsOf env m field =
     ebind (schemaOf env m) (\<lambda>d.
       let bad = Inl (OtherError (dm_typeName d @ '' has no repeated message field '' @ field)) in
       case find (\<lambda>f. df_name f = field) (dm_fields d) of
         None \<Rightarrow> bad
       | Some f \<Rightarrow>
           (case df_kind f of
              ListField (MessageItem tn) \<Rightarrow> toRows env (desc_of env tn) (pitems (pget (pfields m) (df_localName f)))
            | _ \<Rightarrow> bad))"

section \<open>Lifting nested records\<close>

definition lift_entry :: "obj \<Rightarrow> string \<times> js \<Rightarrow> obj" where
  "lift_entry out p =
     (if fst p \<in> fst ` set out \<or> fst p \<in> set proto_keys then out
      else if is_record (snd p) then out
      else oset out (fst p) (snd p))"

definition lift_key :: "obj \<Rightarrow> obj \<Rightarrow> string \<Rightarrow> obj" where
  "lift_key row out key = (case oget row key of JObj ps \<Rightarrow> foldl lift_entry out ps | _ \<Rightarrow> out)"

definition lift :: "string list \<Rightarrow> obj \<Rightarrow> obj" where
  "lift keys row = foldl (lift_key row) (spread [] row) keys"

definition flatten :: "obj \<Rightarrow> obj" where
  "flatten row = lift [''status'', ''spec''] row"

section \<open>Labels read back\<close>

text \<open>An enum whose labels can be told apart: names are identifiers, and a label names one number, also against the
  full names the parser accepts.\<close>

definition enum_ok :: "desc_enum \<Rightarrow> bool" where
  "enum_ok desc \<longleftrightarrow>
     list_all (\<lambda>i. fst i \<noteq> [] \<and> list_all is_word (fst i)) desc \<and>
     list_all (\<lambda>j. list_all (\<lambda>i. shortName desc (fst i) = shortName desc (fst j) \<or> dash_lower (fst i) = shortName desc (fst j) \<longrightarrow>
                 snd i = snd j) desc) desc"

lemma find_Some_in: "find P xs = Some x \<Longrightarrow> x \<in> set xs \<and> P x"
  by (auto simp: find_Some_iff in_set_conv_nth)

lemma find_hit: "x \<in> set xs \<Longrightarrow> P x \<Longrightarrow> \<exists>y. find P xs = Some y"
  by (induction xs) auto

lemma dash_lower_idem: "dash_lower (dash_lower s) = dash_lower s"
proof -
  have "lower_char CHR ''-'' = CHR ''-''" by (simp add: lower_char_def)
  then show ?thesis by (simp add: dash_lower_def)
qed

lemma dash_lower_Nil [simp]: "dash_lower s = [] \<longleftrightarrow> s = []"
  by (simp add: dash_lower_def)

lemma word_not_ws: "is_word c \<Longrightarrow> \<not> is_ws c"
  by (auto simp: is_word_def is_ws_def dest: alnum_not_ws)

lemma dash_lower_no_ws: "list_all is_word s \<Longrightarrow> list_all (\<lambda>c. \<not> is_ws c) (dash_lower s)"
  by (induction s) (auto simp: dash_lower_def is_ws_lower is_ws_def [of "CHR ''-''"] word_not_ws)

text \<open>The shared prefix is a proper prefix of every name, so no label is empty.\<close>

lemma sharedPrefix_proper:
  assumes "it \<in> set desc" and "fst it \<noteq> []"
  shows "length (sharedPrefix desc) < length (fst it)"
proof (cases "length desc > 1")
  case True
  show ?thesis
  proof (cases "sharedPrefix desc = []")
    case False
    then have "list_all (\<lambda>name. startsWith name (sharedPrefix desc) \<and> length (sharedPrefix desc) < length name) (map fst desc)"
      using True by (auto simp: sharedPrefix_def Let_def split: option.splits dest: find_Some_in)
    then show ?thesis using assms(1) by (simp add: list_all_iff)
  qed (use assms(2) in simp)
next
  case False
  then show ?thesis using assms(2) by (simp add: sharedPrefix_def)
qed

text \<open>
  C15: A label the dashboard shows for an enum value, chosen again in a form, is read as that value.
\<close>

theorem enum_label_roundtrip:
  assumes ok: "enum_ok desc" and k: "k \<in> snd ` set desc"
  shows "enumValue desc (enumLabel desc (Fin (of_int k))) = Some k"
proof -
  obtain x where "x \<in> set desc" "snd x = k" using k by blast
  then obtain it where f: "find (\<lambda>it. Fin (of_int (snd it)) = Fin (of_int k)) desc = Some it"
    using find_hit [of x desc "\<lambda>it. Fin (of_int (snd it)) = Fin (of_int k)"] by auto
  then have it: "it \<in> set desc" "snd it = k" by (auto dest: find_Some_in)
  let ?l = "shortName desc (fst it)"
  have w: "fst it \<noteq> []" "list_all is_word (fst it)" using ok it(1) by (auto simp: enum_ok_def list_all_iff)
  have "list_all is_word (drop (length (sharedPrefix desc)) (fst it))" using w(2) by (auto simp: list_all_iff dest: in_set_dropD)
  then have t: "trim ?l = ?l" unfolding shortName_def by (intro trim_no_ws dash_lower_no_ws)
  have ne: "?l \<noteq> []" using sharedPrefix_proper [OF it(1) w(1)] by (simp add: shortName_def)
  have d: "dash_lower ?l = ?l" by (simp add: shortName_def dash_lower_idem)
  obtain j where j: "find (\<lambda>i. shortName desc (fst i) = ?l \<or> dash_lower (fst i) = ?l) desc = Some j"
    using find_hit [OF it(1), of "\<lambda>i. shortName desc (fst i) = ?l \<or> dash_lower (fst i) = ?l"] by blast
  then have "j \<in> set desc" "shortName desc (fst j) = ?l \<or> dash_lower (fst j) = ?l" by (auto dest!: find_Some_in)
  moreover have "\<forall>j\<in>set desc. \<forall>i\<in>set desc. shortName desc (fst i) = shortName desc (fst j) \<or> dash_lower (fst i) = shortName desc (fst j)
      \<longrightarrow> snd i = snd j" using ok unfolding enum_ok_def list_all_iff by blast
  ultimately have "snd j = k" using it by blast
  then show ?thesis using f j t d ne by (simp add: enumLabel_def enumValue_def Let_def)
qed

definition OperatorRoleKind :: desc_enum where
  "OperatorRoleKind =
     [(''OPERATOR_ROLE_KIND_UNSPECIFIED'', 0), (''OPERATOR_ROLE_KIND_READ_ONLY'', 1), (''OPERATOR_ROLE_KIND_VM_ADMIN'', 2),
      (''OPERATOR_ROLE_KIND_CLUSTER_ADMIN'', 3), (''OPERATOR_ROLE_KIND_BACKUP_OPERATOR'', 4)]"

lemma OperatorRoleKind_prefix: "sharedPrefix OperatorRoleKind = ''OPERATOR_ROLE_KIND_''"
  by code_simp

lemma OperatorRoleKind_short:
  "map (\<lambda>i. shortName OperatorRoleKind (fst i)) OperatorRoleKind = [''unspecified'', ''read-only'', ''vm-admin'', ''cluster-admin'', ''backup-operator'']"
  unfolding shortName_def OperatorRoleKind_prefix by code_simp

lemma OperatorRoleKind_ok: "enum_ok OperatorRoleKind"
proof -
  have s: "shortName OperatorRoleKind (fst i) = dash_lower (drop 19 (fst i))" for i
    by (simp add: shortName_def OperatorRoleKind_prefix numeral_eq_Suc)
  show ?thesis unfolding enum_ok_def s by code_simp
qed

theorem enum_label_roundtrip_witness:
  "enum_ok OperatorRoleKind \<and> (4::int) \<in> snd ` set OperatorRoleKind \<and>
   enumValue OperatorRoleKind (enumLabel OperatorRoleKind (Fin (of_int 4))) = Some 4"
proof -
  have "(4::int) \<in> snd ` set OperatorRoleKind" by (simp add: OperatorRoleKind_def)
  with enum_label_roundtrip [OF OperatorRoleKind_ok this] show ?thesis using OperatorRoleKind_ok by blast
qed

section \<open>What a row holds\<close>

fun item_typed :: "item_kind \<Rightarrow> js \<Rightarrow> bool" where
  "item_typed ScalarItem v = (\<not> is_object v)"
| "item_typed (EnumItem e) v = is_str v"
| "item_typed (MessageItem m) v = (v = JNull \<or> (if m = TIMESTAMP then is_str v else is_record v))"

fun field_typed :: "field_kind \<Rightarrow> js \<Rightarrow> bool" where
  "field_typed ScalarField v = (\<not> is_object v)"
| "field_typed (EnumField e) v = (v = JNull \<or> is_str v)"
| "field_typed (MessageField m) v = item_typed (MessageItem m) v"
| "field_typed (ListField it) v = (case v of JArr xs \<Rightarrow> list_all (item_typed it) xs | _ \<Rightarrow> False)"
| "field_typed (MapField it) v = (case v of JObj ps \<Rightarrow> list_all (\<lambda>p. item_typed it (snd p)) ps | _ \<Rightarrow> False)"

lemma scalar_typed: "\<not> is_object (scalar v)"
  by (cases v rule: scalar.cases) (simp_all add: Let_def)

lemma enum_label_typed: "is_str (enum_label_of e v)"
  by (cases v) simp_all

lemma message_typed: "messageValue env m v = Inr y \<Longrightarrow> item_typed (MessageItem m) y"
  by (subst (asm) messageValue.simps) (auto simp: ebind_Inr_iff split: pval.splits if_splits)

lemma set_oreplace: "set (oreplace k v ps) \<subseteq> insert (k, v) (set ps)"
  by (induction ps) auto

lemma set_oinsert: "set (oinsert k v ps) \<subseteq> insert (k, v) (set ps)"
  by (induction ps) auto

lemma set_oset: "set (oset ps k v) \<subseteq> insert (k, v) (set ps)"
  using set_oreplace set_oinsert by (simp add: oset_def)

lemma set_spread: "set (spread a b) \<subseteq> set a \<union> set b"
proof (induction b arbitrary: a)
  case (Cons p b)
  then show ?case using set_oset [of a "fst p" "snd p"] by (fastforce simp: spread_def)
qed (simp add: spread_def)

lemma keys_spread: "fst ` set (spread a b) = fst ` set a \<union> fst ` set b"
  by (induction b arbitrary: a) (simp_all add: spread_def)

lemma distinct_spread: "distinct (map fst a) \<Longrightarrow> distinct (map fst (spread a b))"
  by (induction b arbitrary: a) (simp_all add: spread_def distinct_oset)

lemma list_all_spread: "list_all P ps \<Longrightarrow> list_all P (spread [] ps)"
  using set_spread [of "[]" ps] by (auto simp: list_all_iff)

lemma field_typed_value: "fieldValue env kind v = Inr y \<Longrightarrow> field_typed kind y"
proof -
  assume a: "fieldValue env kind v = Inr y"
  show ?thesis
  proof (cases kind)
    case (ListField it)
    have "emap (messageValue env m) xs = Inr ys \<Longrightarrow> list_all (item_typed (MessageItem m)) ys" for m xs ys
      by (auto simp: list_all_iff simp del: item_typed.simps intro: message_typed dest: emap_Inr_all)
    with a ListField show ?thesis
      by (cases it) (auto simp: fieldValue_def ebind_Inr_iff list.pred_map comp_def scalar_typed enum_label_typed list.pred_True simp del: item_typed.simps(3))
  next
    case (MapField it)
    have "emap (\<lambda>p. ebind (messageValue env m (snd p)) (\<lambda>y. Inr (fst p, y))) xs = Inr ys \<Longrightarrow>
        list_all (\<lambda>p. item_typed (MessageItem m) (snd p)) ys" for m xs ys
      by (auto simp: list_all_iff ebind_Inr_iff simp del: item_typed.simps intro: message_typed dest!: emap_Inr_all)
    with a MapField show ?thesis
      by (cases it) (auto simp: fieldValue_def ebind_Inr_iff list.pred_map comp_def scalar_typed enum_label_typed list.pred_True intro!: list_all_spread simp del: item_typed.simps(3))
  next
    case (EnumField e)
    with a show ?thesis by (cases "(e, v)" rule: enum_field.cases) (auto simp: fieldValue_def split: option.splits if_splits)
  qed (use a message_typed in \<open>auto simp: fieldValue_def scalar_typed\<close>)
qed

lemma entry_keys:
  "row_entry env rec f = Inr r \<Longrightarrow> map fst r = (if field_input rec f \<noteq> None then [df_name f] else [])"
  by (cases "field_input rec f"; cases "fieldValue env (df_kind f) (the (field_input rec f))") (auto simp: row_entry_def)

lemma row_keys:
  "emap (row_entry env rec) fs = Inr rs \<Longrightarrow>
   fst ` set (concat rs) = df_name ` set (filter (\<lambda>f. field_input rec f \<noteq> None) fs)"
proof (induction fs arbitrary: rs)
  case (Cons f fs)
  then obtain r rs' where r: "row_entry env rec f = Inr r" "emap (row_entry env rec) fs = Inr rs'" "rs = r # rs'"
    by (auto simp: ebind_Inr_iff)
  have e: "fst ` set r = set (if field_input rec f \<noteq> None then [df_name f] else [])"
    using arg_cong [OF entry_keys [OF r(1)], of set] by (simp only: set_map)
  have "fst ` set (concat rs) = fst ` set r \<union> fst ` set (concat rs')" by (simp add: r(3) image_Un)
  then show ?case unfolding e Cons.IH [OF r(2)] by (cases "field_input rec f") simp_all
qed simp


text \<open>A message of two fields, for the witness.\<close>

definition demo_desc :: desc_message where
  "demo_desc = \<lparr>dm_typeName = ''kcore.Operator'', dm_fields =
     [\<lparr>df_name = ''name'', df_localName = ''name'', df_oneof = None, df_kind = ScalarField\<rparr>,
      \<lparr>df_name = ''roles'', df_localName = ''roles'', df_oneof = None, df_kind = ListField (EnumItem OperatorRoleKind)\<rparr>]\<rparr>"

definition demo_env :: proto_env where
  "demo_env = \<lparr>pe_message = (\<lambda>n. if n = ''kcore.Operator'' then Some demo_desc else None), pe_iso = (\<lambda>_. Inr [])\<rparr>"


section \<open>Lifted values\<close>

definition plain :: "js option \<Rightarrow> js option" where
  "plain v = (case v of Some w \<Rightarrow> if is_record w then None else Some w | None \<Rightarrow> None)"

definition nested :: "obj \<Rightarrow> string \<Rightarrow> string \<Rightarrow> js option" where
  "nested row key k = (case oget row key of JObj ps \<Rightarrow> plain (map_of ps k) | _ \<Rightarrow> None)"

definition nested_distinct :: "obj \<Rightarrow> string \<Rightarrow> bool" where
  "nested_distinct row key = (case oget row key of JObj ps \<Rightarrow> distinct (map fst ps) | _ \<Rightarrow> True)"

definition orelse :: "'a option \<Rightarrow> 'a option \<Rightarrow> 'a option" where
  "orelse a b = (case a of Some x \<Rightarrow> Some x | None \<Rightarrow> b)"

lemma orelse_simps [simp]: "orelse (Some x) b = Some x" "orelse None b = b"
  by (simp_all add: orelse_def)

lemma lift_entry_map_of:
  "k \<notin> set proto_keys \<Longrightarrow> map_of (lift_entry out p) k = orelse (map_of out k) (if k = fst p then plain (Some (snd p)) else None)"
proof -
  assume k: "k \<notin> set proto_keys"
  have "fst p \<in> fst ` set out \<longleftrightarrow> map_of out (fst p) \<noteq> None" by (simp add: map_of_eq_None_iff)
  then show ?thesis
    using k by (cases "k = fst p"; cases "map_of out k") (simp_all add: lift_entry_def map_of_oset plain_def)
qed

lemma lift_entries_map_of:
  assumes "k \<notin> set proto_keys" and "distinct (map fst ps)"
  shows "map_of (foldl lift_entry out ps) k = orelse (map_of out k) (plain (map_of ps k))"
  using assms(2)
proof (induction ps arbitrary: out)
  case (Cons p ps)
  have n: "map_of ps (fst p) = None" using Cons.prems by (simp add: map_of_eq_None_iff)
  have "map_of (foldl lift_entry out (p # ps)) k = orelse (map_of (lift_entry out p) k) (plain (map_of ps k))"
    using Cons.IH Cons.prems by simp
  also have "\<dots> = orelse (map_of out k) (plain (map_of (p # ps) k))"
    unfolding lift_entry_map_of [OF assms(1)] by (cases "map_of out k") (auto simp: n plain_def)
  finally show ?case .
qed (simp add: plain_def orelse_def split: option.splits)

lemma lift_key_map_of:
  assumes "k \<notin> set proto_keys" and "nested_distinct row key"
  shows "map_of (lift_key row out key) k = orelse (map_of out k) (nested row key k)"
proof (cases "oget row key")
  case (JObj ps)
  then show ?thesis
    using assms lift_entries_map_of by (simp add: lift_key_def nested_def nested_distinct_def)
qed (simp_all add: lift_key_def nested_def orelse_def split: option.splits)

lemma spread_Nil_map_of: "distinct (map fst row) \<Longrightarrow> map_of (spread [] row) = map_of row"
proof -
  have "map_of (spread a row) k = orelse (map_of (rev row) k) (map_of a k)" for a k
    by (induction row arbitrary: a) (auto simp: spread_def map_of_oset orelse_def map_add_def split: option.splits)
  then show "distinct (map fst row) \<Longrightarrow> map_of (spread [] row) = map_of row"
    by (auto simp: map_of_rev_distinct orelse_def split: option.splits)
qed

text \<open>
  C39: Flattening shows the plain values of a row's \<^verbatim>\<open>status\<close> and \<^verbatim>\<open>spec\<close> next to its own: it never changes a
  value the row already had, and where both have a name the status wins.
\<close>

theorem flatten_lookup:
  assumes "k \<notin> set proto_keys" and "distinct (map fst row)"
    and "nested_distinct row ''status''" and "nested_distinct row ''spec''"
  shows "oget (flatten row) k =
           (if k \<in> fst ` set row then oget row k
            else case nested row ''status'' k of
              Some v \<Rightarrow> v
            | None \<Rightarrow> (case nested row ''spec'' k of Some v \<Rightarrow> v | None \<Rightarrow> JUndef))"
proof -
  have "map_of (flatten row) k = orelse (orelse (map_of row k) (nested row ''status'' k)) (nested row ''spec'' k)"
    using lift_key_map_of [OF assms(1,3)] lift_key_map_of [OF assms(1,4)] spread_Nil_map_of [OF assms(2)]
    by (simp add: flatten_def lift_def)
  moreover have "k \<in> fst ` set row \<longleftrightarrow> map_of row k \<noteq> None" by (simp add: map_of_eq_None_iff)
  ultimately show ?thesis using assms(1)
    by (cases "map_of row k"; cases "nested row ''status'' k"; cases "nested row ''spec'' k") (simp_all add: oget_def)
qed

theorem flatten_lookup_witness:
  "''phase'' \<notin> set proto_keys \<and>
   oget (flatten [(''name'', JStr ''a''), (''status'', JObj [(''phase'', JStr ''Ready'')]), (''spec'', JObj [(''phase'', JStr ''x'')])]) ''phase''
     = JStr ''Ready''"
proof -
  let ?row = "[(''name'', JStr ''a''), (''status'', JObj [(''phase'', JStr ''Ready'')]), (''spec'', JObj [(''phase'', JStr ''x'')])]"
  have p: "''phase'' \<notin> set proto_keys" by code_simp
  have "oget (flatten ?row) ''phase'' = JStr ''Ready''"
    by (subst flatten_lookup [OF p]) (simp_all add: nested_distinct_def nested_def plain_def oget_def proto_keys_def)
  with p show ?thesis by blast
qed

end
