(* ===== verification/Format.thy ===== *)
theory Format
  imports Rows
begin

text \<open>
  \<^verbatim>\<open>dashboard/src/format.ts\<close>: how the dashboard words, colours and abbreviates the values of a row. Keys are field
  names of the proto file, none of which is a member of \<^verbatim>\<open>Object.prototype\<close>, so the word tables are association
  lists. \<^verbatim>\<open>Date.parse\<close> and \<^verbatim>\<open>Intl.DateTimeFormat\<close> belong to the browser and its locale: they are the
  parameters \<open>parse\<close> and \<open>intl\<close>. The ellipsis the source writes is its UTF-8 encoding here, since texts have
  code units below 256. \<^verbatim>\<open>formatNumber\<close> only calls the locale's number format and is left out.

  The lemmas: the unit loop of \<open>formatBytes\<close> ends with a size below 1024 or the largest unit and keeps the value
  (\<open>byte_units\<close>), relative dates never overflow their unit (\<open>date_units\<close>), a percentage stays between 0 and 100
  (\<open>percent_bounded\<close>).
\<close>

section \<open>Words\<close>

definition TITLES :: "(string \<times> string) list" where
  "TITLES =
     [(''network'', ''Host networking''), (''storage'', ''Host storage'')]"

definition displayTitle :: "string \<Rightarrow> string \<Rightarrow> string" where
  "displayTitle id' fallback = (case map_of TITLES id' of Some t \<Rightarrow> t | None \<Rightarrow> fallback)"

definition HIDDEN_NAV :: "string list" where
  "HIDDEN_NAV = [''cluster'']"

definition FULL :: "(string \<times> string) list" where
  "FULL =
     [(''node_id'', ''Node''), (''vm_id'', ''VM''), (''memory_bytes'', ''Memory''),
      (''storage_size_bytes'', ''Disk''), (''cpu_used'', ''CPU used''), (''memory_used'', ''Memory used''),
      (''storage_backend'', ''Backend'')]"

definition WORDS :: "(string \<times> string) list" where
  "WORDS =
     [(''id'', ''ID''), (''ip'', ''IP''), (''ha'', ''HA''), (''vm'', ''VM''), (''vms'', ''VMs''),
      (''cpu'', ''CPU''), (''cpus'', ''CPUs''), (''mtu'', ''MTU''), (''pki'', ''PKI''), (''crl'', ''CRL''),
      (''sbom'', ''SBOM''), (''fsid'', ''FSID''), (''osd'', ''OSD''), (''lvm'', ''LVM''), (''luks'', ''LUKS''),
      (''nat'', ''NAT''), (''vxlan'', ''VXLAN''), (''tls'', ''TLS''), (''cni'', ''CNI''), (''api'', ''API''),
      (''url'', ''URL''), (''mac'', ''MAC''), (''mtls'', ''mTLS''), (''fips'', ''FIPS''),
      (''tls12'', ''TLS 1.2''), (''tls13'', ''TLS 1.3''), (''kx'', ''Key exchange''), (''rbd'', ''RBD''),
      (''gpu'', ''GPU''), (''gpus'', ''GPUs''), (''vgpu'', ''vGPU''), (''vgpus'', ''vGPUs''), (''pci'', ''PCI''),
      (''ssh'', ''SSH''), (''dns'', ''DNS''), (''dhcp'', ''DHCP''), (''ttl'', ''TTL''), (''uuid'', ''UUID''),
      (''uri'', ''URI''), (''totp'', ''TOTP''), (''csr'', ''CSR''), (''ca'', ''CA''), (''san'', ''SAN''),
      (''sans'', ''SANs''), (''ocsp'', ''OCSP''), (''dc'', ''DC''), (''os'', ''OS''), (''ipv4'', ''IPv4''),
      (''ipv6'', ''IPv6''), (''cidr'', ''CIDR''), (''rpc'', ''RPC''), (''http'', ''HTTP''), (''json'', ''JSON''),
      (''yaml'', ''YAML''), (''nix'', ''Nix''), (''sha256'', ''SHA-256''), (''numa'', ''NUMA''),
      (''iops'', ''IOPS'')]"

definition upper_char :: "char \<Rightarrow> char" where
  "upper_char c =
     (if (97 \<le> code c \<and> code c \<le> 122) \<or> (224 \<le> code c \<and> code c \<le> 254 \<and> code c \<noteq> 247)
      then char_of (code c - 32) else c)"

fun capitalise :: "string \<Rightarrow> string" where
  "capitalise [] = []"
| "capitalise (c # cs) = upper_char c # cs"

definition label_words :: "string \<Rightarrow> string list" where
  "label_words key =
     (let parts = split_by (\<lambda>c. c = CHR ''_'') key in
      if length parts > 1 \<and> last parts = ''at'' then butlast parts else parts)"

definition label :: "string \<Rightarrow> string" where
  "label key =
     (case map_of FULL key of
        Some t \<Rightarrow> t
      | None \<Rightarrow>
          join '' '' (map (\<lambda>part. case map_of WORDS part of Some w \<Rightarrow> w | None \<Rightarrow> capitalise part) (label_words key)))"

definition sentence :: "string \<Rightarrow> string" where
  "sentence message = capitalise message"

definition isRecord :: "js \<Rightarrow> bool" where
  "isRecord v = is_record v"

definition isObjectArray :: "js \<Rightarrow> bool" where
  "isObjectArray v = (case v of JArr xs \<Rightarrow> xs \<noteq> [] \<and> list_all isRecord xs | _ \<Rightarrow> False)"

section \<open>Tones\<close>

datatype tone = ToneOk | ToneWarn | ToneBad | ToneNeutral

definition OK_WORDS :: "string list" where
  "OK_WORDS =
     [''running'', ''ready'', ''healthy'', ''active'', ''approved'', ''ok'', ''up'', ''enabled'', ''online'',
      ''available'', ''true'', ''protected'', ''succeeded'', ''complete'', ''completed'']"

definition BAD_WORDS :: "string list" where
  "BAD_WORDS =
     [''stopped'', ''failed'', ''error'', ''rejected'', ''down'', ''unhealthy'', ''expired'', ''revoked'',
      ''critical'', ''false'', ''lost'']"

definition WARN_WORDS :: "string list" where
  "WARN_WORDS =
     [''paused'', ''pending'', ''degraded'', ''draining'', ''warning'', ''expiring'', ''unknown'', ''creating'',
      ''bootstrapping'', ''starting'', ''stopping'', ''migrating'', ''unprotected'']"

definition toneFor :: "string \<Rightarrow> tone" where
  "toneFor s =
     (let w = toLowerCase s in
      if w \<in> set OK_WORDS then ToneOk
      else if w \<in> set BAD_WORDS then ToneBad
      else if w \<in> set WARN_WORDS then ToneWarn
      else ToneNeutral)"

fun toneColor :: "tone \<Rightarrow> string" where
  "toneColor ToneOk = ''#10b981''"
| "toneColor ToneBad = ''#f87171''"
| "toneColor ToneWarn = ''#f59e0b''"
| "toneColor ToneNeutral = ''#6366f1''"

section \<open>Dates\<close>

text \<open>The optional group of the pattern does not change what a prefix test accepts.\<close>

definition looksLikeDate :: "string \<Rightarrow> bool" where
  "looksLikeDate s \<longleftrightarrow>
     length s \<ge> 10 \<and> list_all is_digit (take 4 s) \<and> s ! 4 = CHR ''-'' \<and> list_all is_digit (take 2 (drop 5 s)) \<and>
     s ! 7 = CHR ''-'' \<and> list_all is_digit (take 2 (drop 8 s))"

text \<open>\<^verbatim>\<open>Math.round\<close> on the quotients of the source. They differ from a tie by more than the rounding of a double,
  so the exact quotient rounds alike.\<close>

definition math_round :: "rat \<Rightarrow> int" where
  "math_round q = \<lfloor>q + 1 / 2\<rfloor>"

datatype date_text = JustNow | Minutes int | Hours int | Days int | Wall

definition date_kind :: "rat \<Rightarrow> date_text" where
  "date_kind delta =
     (let minutes = math_round (\<bar>delta\<bar> / 60000); hours = math_round (of_int minutes / 60); days = math_round (of_int hours / 24) in
      if minutes < 1 then JustNow
      else if minutes < 60 then Minutes minutes
      else if hours < 24 then Hours hours
      else if days < 14 then Days days
      else Wall)"

definition formatDate :: "(string \<Rightarrow> rat option) \<Rightarrow> rat \<Rightarrow> (rat \<Rightarrow> string) \<Rightarrow> string \<Rightarrow> string" where
  "formatDate parse now intl v =
     (case parse v of
        None \<Rightarrow> v
      | Some time \<Rightarrow>
          let delta = time - now; relative = (\<lambda>amount. if delta > 0 then ''in '' @ amount else amount @ '' ago'') in
          (case date_kind delta of
             JustNow \<Rightarrow> ''just now''
           | Minutes n \<Rightarrow> relative (show_int n @ ''m'')
           | Hours n \<Rightarrow> relative (show_int n @ ''h'')
           | Days n \<Rightarrow> relative (show_int n @ ''d'')
           | _ \<Rightarrow> intl time))"

definition fullDate :: "(string \<Rightarrow> rat option) \<Rightarrow> (rat \<Rightarrow> string) \<Rightarrow> string \<Rightarrow> string" where
  "fullDate parse intl v = (case parse v of None \<Rightarrow> v | Some time \<Rightarrow> intl time)"

section \<open>Sizes\<close>

definition byte_unit_names :: "string list" where
  "byte_unit_names = [''B'', ''KiB'', ''MiB'', ''GiB'', ''TiB'', ''PiB'']"

text \<open>The loop; dividing a double by 1024 is exact.\<close>

function byte_loop :: "rat \<Rightarrow> nat \<Rightarrow> rat \<times> nat" where
  "byte_loop sz index =
     (if sz \<ge> 1024 \<and> index < length byte_unit_names - 1 then byte_loop (sz / 1024) (index + 1) else (sz, index))"
  by auto
termination
  by (relation "measure (\<lambda>(sz, index). length byte_unit_names - index)") auto

text \<open>\<^verbatim>\<open>x.toFixed(f)\<close> for \<open>f \<le> 1\<close>: the nearest multiple of the last digit, the larger one of two.\<close>

definition toFixed :: "rat \<Rightarrow> nat \<Rightarrow> string" where
  "toFixed x f =
     (if \<bar>x\<bar> \<ge> 10 ^ 21 then num_to_string (Fin x)
      else let n = nat \<lfloor>\<bar>x\<bar> * 10 ^ f + 1 / 2\<rfloor>;
               s = (if f = 0 then show_nat n else show_nat (n div 10) @ ''.'' @ show_nat (n mod 10)) in
           (if x < 0 then ''-'' else []) @ s)"

definition formatBytes :: "jsnum \<Rightarrow> string" where
  "formatBytes v =
     (case v of
        Fin q \<Rightarrow>
          (case byte_loop q 0 of
             (sz, index) \<Rightarrow>
               toFixed sz (if sz \<ge> 10 \<or> index = 0 then 0 else 1) @ '' '' @ byte_unit_names ! index)
      | _ \<Rightarrow> num_to_string v)"

section \<open>Texts\<close>

definition ELLIPSIS :: string where
  "ELLIPSIS = [CHR 0xE2, CHR 0x80, CHR 0xA6]"

definition shortId :: "string \<Rightarrow> string" where
  "shortId s = (if length s \<le> 18 then s else take 8 s @ ELLIPSIS @ drop (length s - 4) s)"

fun fmt_text :: "js \<Rightarrow> string" where
  "fmt_text (JStr s) = s"
| "fmt_text (JNum n) = num_to_string n"
| "fmt_text (JBool b) = (if b then ''true'' else ''false'')"
| "fmt_text _ = []"

definition pretty :: "js \<Rightarrow> string" where
  "pretty v =
     (let rendered = (case JSON_pretty v of Some t \<Rightarrow> t | None \<Rightarrow> []) in
      if length rendered > 80000 then take 80000 rendered @ [CHR 0x0A] @ ELLIPSIS @ '' truncated'' else rendered)"

fun first_text :: "obj \<Rightarrow> string list \<Rightarrow> string" where
  "first_text row [] = ''Details''"
| "first_text row (key # keys) = (let t = fmt_text (oget row key) in if t \<noteq> [] then t else first_text row keys)"

definition rowTitle :: "obj \<Rightarrow> string" where
  "rowTitle row = first_text row [''name'', ''hostname'', ''title'', ''subject'', ''id'']"

section \<open>Quantities\<close>

text \<open>The first match of \<^verbatim>\<open>/-?\d+(\.\d+)?/\<close>.\<close>

definition number_at :: "string \<Rightarrow> string" where
  "number_at s =
     (let ds = takeWhile is_digit s; r = dropWhile is_digit s in
      ds @ (if r \<noteq> [] \<and> hd r = CHR ''.'' \<and> takeWhile is_digit (tl r) \<noteq> [] then ''.'' @ takeWhile is_digit (tl r) else []))"

fun number_match :: "string \<Rightarrow> string option" where
  "number_match [] = None"
| "number_match (c # cs) =
     (if is_digit c then Some (number_at (c # cs))
      else if c = CHR ''-'' \<and> cs \<noteq> [] \<and> is_digit (hd cs) then Some (c # number_at cs)
      else number_match cs)"

definition numberOf :: "js \<Rightarrow> jsnum option" where
  "numberOf v =
     (case v of
        JNum n \<Rightarrow> if isFinite n then Some n else None
      | JStr s \<Rightarrow>
          (case number_match (filter (\<lambda>c. c \<noteq> CHR '','') s) of
             None \<Rightarrow> None
           | Some t \<Rightarrow> (let parsed = str_to_number t in if isFinite parsed then Some parsed else None))
      | _ \<Rightarrow> None)"

text \<open>\<^verbatim>\<open>Math.max(0, Math.min(100, x))\<close>.\<close>

fun clamp100 :: "jsnum \<Rightarrow> jsnum" where
  "clamp100 (Fin q) = Fin (max 0 (min 100 q))"
| "clamp100 PInf = Fin 100"
| "clamp100 NInf = Fin 0"
| "clamp100 NaN = NaN"

text \<open>\<^verbatim>\<open>(left / right) * 100\<close> on doubles, where \<^verbatim>\<open>right\<close> is positive.\<close>

fun ratio_percent :: "jsnum option \<Rightarrow> jsnum option \<Rightarrow> jsnum option" where
  "ratio_percent (Some (Fin l)) (Some (Fin r)) =
     (if r \<le> 0 then None else Some (clamp100 (num_scale (to_double (l / r)) 100)))"
| "ratio_percent _ _ = None"

definition usedPercent :: "js \<Rightarrow> js \<Rightarrow> jsnum option" where
  "usedPercent used whole =
     (case used of
        JStr s \<Rightarrow> if CHR ''%'' \<in> set s then map_option clamp100 (numberOf used) else ratio_percent (numberOf used) (numberOf whole)
      | _ \<Rightarrow> ratio_percent (numberOf used) (numberOf whole))"

section \<open>Bounds\<close>

declare byte_loop.simps [simp del]

lemma byte_loop_spec:
  "byte_loop s i = (t, j) \<Longrightarrow> i \<le> 5 \<Longrightarrow>
   i \<le> j \<and> j \<le> 5 \<and> s = t * 1024 ^ (j - i) \<and> (t < 1024 \<or> j = 5) \<and> (i < j \<longrightarrow> 1 \<le> t)"
proof (induction s i arbitrary: t j rule: byte_loop.induct)
  case (1 s i)
  show ?case
  proof (cases "s \<ge> 1024 \<and> i < length byte_unit_names - 1")
    case True
    then have i: "i < 5" "s \<ge> 1024" by (simp_all add: byte_unit_names_def)
    have "byte_loop (s / 1024) (i + 1) = (t, j)" using "1.prems"(1) True by (subst (asm) byte_loop.simps) simp
    from "1.IH" [OF True this] i have
      h: "i + 1 \<le> j" "j \<le> 5" "s / 1024 = t * 1024 ^ (j - (i + 1))" "t < 1024 \<or> j = 5" "i + 1 < j \<longrightarrow> 1 \<le> t" by auto
    obtain m where m: "j = Suc (i + m)" using h(1) by (metis Suc_eq_plus1 add_Suc less_eqE)
    have s: "s = t * 1024 ^ (j - i)" using h(3) by (simp add: m field_simps)
    have "1 \<le> t"
    proof (cases "i + 1 < j")
      case False
      then have "j - (i + 1) = 0" by simp
      then show ?thesis using h(3) i(2) by simp
    qed (use h(5) in simp)
    with h s show ?thesis by simp
  next
    case False
    then have "(t, j) = (s, i)" using "1.prems"(1) by (subst (asm) byte_loop.simps) auto
    with False "1.prems"(2) show ?thesis by (auto simp: byte_unit_names_def)
  qed
qed

text \<open>
  C40: The unit loop of \<^verbatim>\<open>formatBytes\<close> ends, stays within the unit table, keeps the value, and leaves a size below 1024
  unless the largest unit is reached; a unit above bytes is only used for at least one of it.
\<close>

theorem byte_units:
  "case byte_loop q 0 of (sz, i) \<Rightarrow>
     i < length byte_unit_names \<and> q = sz * 1024 ^ i \<and> (sz < 1024 \<or> Suc i = length byte_unit_names) \<and> (i = 0 \<or> 1 \<le> sz)"
proof -
  obtain sz i where b: "byte_loop q 0 = (sz, i)" by fastforce
  have l: "length byte_unit_names = 6" by (simp add: byte_unit_names_def)
  from byte_loop_spec [OF b] have "i \<le> 5" "q = sz * 1024 ^ i" "sz < 1024 \<or> i = 5" "0 < i \<longrightarrow> 1 \<le> sz" by simp_all
  then show ?thesis unfolding b l by auto
qed

lemma math_round_ge: "of_int n \<le> q \<Longrightarrow> n \<le> math_round q"
  unfolding math_round_def by (simp add: le_floor_iff)

text \<open>
  A relative date never shows a count outside its unit: minutes between 1 and 59, hours between 1 and 23, days
  between 1 and 13.
\<close>

theorem date_units:
  "case date_kind delta of
     Minutes n \<Rightarrow> 1 \<le> n \<and> n < 60
   | Hours n \<Rightarrow> 1 \<le> n \<and> n < 24
   | Days n \<Rightarrow> 1 \<le> n \<and> n < 14
   | _ \<Rightarrow> True"
proof -
  define m where "m = math_round (\<bar>delta\<bar> / 60000)"
  define h where "h = math_round (of_int m / 60)"
  have h: "60 \<le> m \<Longrightarrow> 1 \<le> h" unfolding h_def by (rule math_round_ge) simp
  have d: "24 \<le> h \<Longrightarrow> 1 \<le> math_round (of_int h / 24)" by (rule math_round_ge) simp
  show ?thesis using h d by (simp add: date_kind_def Let_def m_def [symmetric] h_def [symmetric])
qed

lemma numberOf_number: "numberOf v = Some n \<Longrightarrow> n \<noteq> NaN"
  by (auto simp: numberOf_def Let_def split: js.splits if_splits option.splits)

lemma clamp_finite: "n \<noteq> NaN \<Longrightarrow> \<exists>q. clamp100 n = Fin q \<and> 0 \<le> q \<and> q \<le> 100"
  by (cases n) auto

lemma to_double_number: "to_double q \<noteq> NaN"
  by (simp add: to_double_def Let_def)

lemma scale_number: "n \<noteq> NaN \<Longrightarrow> num_scale n k \<noteq> NaN"
  by (cases n) (simp_all add: to_double_number)

text \<open>
  A percentage the dashboard draws as a bar is a number between 0 and 100, whatever the row holds.
\<close>

theorem percent_bounded:
  "usedPercent used whole = Some p \<Longrightarrow> \<exists>q. p = Fin q \<and> 0 \<le> q \<and> q \<le> 100"
proof -
  assume a: "usedPercent used whole = Some p"
  have r: "ratio_percent a b = Some p \<Longrightarrow> \<exists>n. n \<noteq> NaN \<and> p = clamp100 n" for a b
    by (cases "(a, b)" rule: ratio_percent.cases) (use scale_number to_double_number in \<open>auto split: if_splits\<close>)
  have "\<exists>n. n \<noteq> NaN \<and> p = clamp100 n"
    using a r by (auto simp: usedPercent_def split: js.splits if_splits dest!: numberOf_number)
  then show ?thesis using clamp_finite by metis
qed

theorem percent_bounded_witness:
  "\<exists>q. usedPercent (JStr ''170%'') JNull = Some (Fin q) \<and> 0 \<le> q \<and> q \<le> 100"
proof -
  have "usedPercent (JStr ''170%'') JNull \<noteq> None" by code_simp
  then obtain p where "usedPercent (JStr ''170%'') JNull = Some p" by blast
  with percent_bounded [OF this] show ?thesis by auto
qed

end
