(* ===== verification/Columns.thy ===== *)
theory Columns
  imports Format "HOL-Library.Multiset"
begin

text \<open>
  \<^verbatim>\<open>dashboard/src/columns.ts\<close>: which columns a table has. The presets are grouped as the resources are; a table
  without a usable preset infers its columns from the rows. \<^verbatim>\<open>localeCompare\<close> belongs to the browser's locale and is
  the parameter \<open>cmp\<close>. The lemmas show that sorting permutes, and that whatever the preset and the
  rows, every key a row has gets exactly one column (\<open>columns_cover\<close>).
\<close>

section \<open>Columns and presets\<close>

datatype col_kind = CText | CStatus | CBool | CNumber | CBytes | CDate | CId | CNested | CList

record column =
  co_key :: string
  co_label :: string
  co_kind :: col_kind
  co_hidden :: bool
  co_link :: "string option"
  co_unset :: "string option"

definition col :: "string \<Rightarrow> col_kind \<Rightarrow> string option \<Rightarrow> bool \<Rightarrow> string option \<Rightarrow> string option \<Rightarrow> column" where
  "col key kind lab hidden link unset =
     \<lparr>co_key = key, co_label = (case lab of Some l \<Rightarrow> l | None \<Rightarrow> label key), co_kind = kind, co_hidden = hidden,
      co_link = link, co_unset = unset\<rparr>"

abbreviation col0 :: "string \<Rightarrow> col_kind \<Rightarrow> column" where
  "col0 key kind \<equiv> col key kind None False None None"

definition PRESETS_compute :: "(string \<times> column list) list" where
  "PRESETS_compute =
     [(''vms'',
       [col0 ''name'' CText,
        col0 ''state'' CStatus,
        col ''node_id'' CText (Some ''Node'') False (Some ''nodes'') None,
        col ''cpu'' CNumber (Some ''CPUs'') False None None,
        col ''memory_bytes'' CBytes (Some ''Memory'') False None None,
        col ''storage_backend'' CText (Some ''Backend'') False None None,
        col ''storage_size_bytes'' CBytes (Some ''Disk'') False None None,
        col ''ha_protection'' CStatus (Some ''HA'') False None None,
        col ''created_at'' CDate (Some ''Created'') True None None,
        col ''replica_node'' CText (Some ''Replica'') True None None,
        col ''id'' CId None True None None]),
      (''workloads'',
       [col0 ''name'' CText,
        col0 ''kind'' CText,
        col0 ''state'' CStatus,
        col ''node_id'' CText (Some ''Node'') False (Some ''nodes'') None,
        col ''cpu'' CNumber (Some ''CPUs'') False None None,
        col ''memory_bytes'' CBytes (Some ''Memory'') False None None,
        col ''created_at'' CDate (Some ''Created'') True None None,
        col ''id'' CId None True None None]),
      (''containers'',
       [col0 ''name'' CText,
        col0 ''state'' CStatus,
        col0 ''image'' CText,
        col ''status'' CStatus (Some ''Detail'') False None None,
        col ''node_id'' CText (Some ''Node'') False (Some ''nodes'') None,
        col ''id'' CId None True None None]),
      (''operations'',
       [col0 ''kind'' CText,
        col0 ''phase'' CStatus,
        col ''vm_id'' CText (Some ''VM'') False (Some ''vms'') None,
        col ''source_node'' CText (Some ''Source'') False None None,
        col ''target_node'' CText (Some ''Target'') False None None,
        col ''started_at'' CDate (Some ''Started'') False None None,
        col ''updated_at'' CDate (Some ''Updated'') True None None,
        col ''cancel_requested'' CBool (Some ''Cancel requested'') True None None,
        col ''finished_at'' CDate (Some ''Finished'') True None None,
        col ''detail_json'' CText (Some ''Detail'') True None None,
        col ''id'' CId None True None None])]"

definition PRESETS_network :: "(string \<times> column list) list" where
  "PRESETS_network =
     [(''networks'',
       [col0 ''name'' CText,
        col ''network_type'' CText (Some ''Type'') False None None,
        col ''node_id'' CText (Some ''Node'') False (Some ''nodes'') None,
        col ''external_ip'' CText (Some ''External IP'') False None None,
        col ''gateway_ip'' CText (Some ''Gateway'') False None None,
        col ''vlan_id'' CNumber (Some ''VLAN'') False None None,
        col ''enable_outbound_nat'' CBool (Some ''Outbound NAT'') False None None,
        col ''east_west_firewall'' CBool (Some ''East-west firewall'') True None None,
        col ''allowed_tcp_ports'' CList (Some ''TCP ports'') True None None,
        col ''allowed_udp_ports'' CList (Some ''UDP ports'') True None None,
        col ''internal_netmask'' CText None True None None,
        col ''ipv6_prefix'' CText (Some ''IPv6 prefix'') True None None]),
      (''security-groups'',
       [col0 ''name'' CText,
        col0 ''description'' CText,
        col0 ''rules'' CNested]),
      (''volumes'',
       [col0 ''name'' CText,
        col0 ''role'' CText,
        col ''attach_state'' CStatus (Some ''Attached'') False None None,
        col ''storage_size_bytes'' CBytes (Some ''Size'') False None None,
        col ''vm_name'' CText (Some ''VM'') False (Some ''vms'') None,
        col ''storage_backend'' CText (Some ''Backend'') False None None,
        col ''node_id'' CText (Some ''Node'') False (Some ''nodes'') None,
        col0 ''encrypted'' CBool,
        col ''mount_point'' CText (Some ''Mounted at'') True None None,
        col ''fs_type'' CText (Some ''Filesystem'') True None None,
        col ''pool'' CText None True None None,
        col ''image_format'' CText (Some ''Format'') True None None,
        col ''id'' CId None True None None])]"

definition PRESETS_storage :: "(string \<times> column list) list" where
  "PRESETS_storage =
     [(''snapshots'',
       [col0 ''name'' CText,
        col ''volume_name'' CText (Some ''Volume'') False (Some ''volumes'') None,
        col ''size_bytes'' CBytes (Some ''Size'') False None None,
        col0 ''protected'' CBool,
        col0 ''consistency'' CText,
        col ''created_at'' CDate (Some ''Created'') False None None,
        col ''id'' CId None True None None]),
      (''snapshot-policies'',
       [col0 ''name'' CText,
        col0 ''enabled'' CBool,
        col0 ''schedule'' CText,
        col0 ''keep'' CNumber,
        col ''selector_vm'' CText (Some ''VMs'') False None None,
        col ''selector_volume'' CText (Some ''Volumes'') False None None,
        col ''last_run_at'' CDate (Some ''Last run'') False None None,
        col ''last_message'' CText (Some ''Last result'') True None None]),
      (''disk-layouts'',
       [col0 ''name'' CText,
        col0 ''phase'' CStatus,
        col ''node_id'' CText (Some ''Node'') False (Some ''nodes'') None,
        col0 ''generation'' CNumber,
        col ''observed_generation'' CNumber (Some ''Observed'') False None None,
        col0 ''evacuate'' CBool,
        col ''message'' CText None True None None]),
      (''storage-classes'',
       [col0 ''name'' CText,
        col0 ''nodes'' CNumber]),
      (''ceph'',
       [col0 ''name'' CText,
        col0 ''phase'' CStatus,
        col ''health_message'' CText (Some ''Health'') False None None,
        col ''size'' CNumber (Some ''Replicas'') False None None,
        col ''min_size'' CNumber (Some ''Min replicas'') False None None,
        col0 ''public_network'' CText,
        col ''encrypt_osds'' CBool (Some ''Encrypted OSDs'') False None None,
        col ''nodes'' CList None True None None,
        col ''fsid'' CId (Some ''FSID'') True None None,
        col ''cluster_network'' CText None True None None,
        col ''last_transition_at'' CDate (Some ''Changed'') True None None]),
      (''filesystems'',
       [col0 ''name'' CText,
        col0 ''phase'' CStatus,
        col ''ceph_cluster'' CText (Some ''Ceph'') False (Some ''ceph'') None,
        col ''quota_bytes'' CBytes (Some ''Quota'') False None None,
        col0 ''clients'' CList,
        col ''health_message'' CText (Some ''Health'') True None None,
        col ''fs_name'' CText (Some ''CephFS name'') True None None])]"

definition PRESETS_ingress :: "(string \<times> column list) list" where
  "PRESETS_ingress =
     [(''ingress-gateways'',
       [col0 ''name'' CText,
        col0 ''phase'' CStatus,
        col ''ready_nodes'' CText (Some ''Ready nodes'') False None None,
        col ''vip_holder'' CText (Some ''VIP holder'') False (Some ''nodes'') None,
        col ''nodes'' CList None True None None,
        col ''generation'' CNumber None True None None,
        col ''message'' CText None True None None]),
      (''ingress-routes'',
       [col0 ''name'' CText,
        col0 ''phase'' CStatus,
        col ''gateway'' CText None False (Some ''ingress-gateways'') None,
        col0 ''hosts'' CList,
        col0 ''kind'' CText,
        col ''waf_mode'' CText (Some ''WAF'') False None None,
        col ''managed_by'' CText (Some ''Managed by'') True None None,
        col ''message'' CText None True None None]),
      (''waf-policies'',
       [col0 ''name'' CText,
        col0 ''engine'' CStatus,
        col ''paranoia_level'' CNumber (Some ''Paranoia'') False None None,
        col ''generation'' CNumber None True None None]),
      (''waf-events'',
       [col ''created_at'' CDate (Some ''Time'') False None None,
        col0 ''action'' CStatus,
        col ''route'' CText None False (Some ''ingress-routes'') None,
        col ''rule_id'' CNumber (Some ''Rule'') False None None,
        col ''client_ip'' CText (Some ''Client'') False None None,
        col0 ''host'' CText,
        col ''uri'' CText (Some ''URI'') False None None,
        col ''severity'' CText None True None None,
        col ''node_id'' CText (Some ''Node'') True None None,
        col ''tx_id'' CId None True None None]),
      (''object-stores'',
       [col0 ''name'' CText,
        col0 ''phase'' CStatus,
        col ''ceph_cluster'' CText (Some ''Ceph'') False (Some ''ceph'') None,
        col0 ''port'' CNumber,
        col ''tls'' CBool (Some ''TLS'') False None None,
        col0 ''members'' CText,
        col ''health_message'' CText None True None None])]"

definition PRESETS_cluster :: "(string \<times> column list) list" where
  "PRESETS_cluster =
     [(''nodes'',
       [col0 ''hostname'' CText,
        col0 ''status'' CStatus,
        col ''approval_status'' CStatus (Some ''Approval'') False None None,
        col0 ''address'' CText,
        col ''cpu_cores'' CNumber (Some ''Cores'') False None None,
        col ''cpu_cores_used'' CNumber (Some ''Cores used'') False None None,
        col ''memory_bytes'' CBytes (Some ''Memory'') False None None,
        col ''memory_bytes_used'' CBytes (Some ''Memory used'') False None None,
        col ''kcore_version'' CText (Some ''Version'') False None None,
        col ''last_heartbeat'' CDate (Some ''Heartbeat'') True None None,
        col ''storage_backend'' CText (Some ''Backend'') True None None,
        col ''dc_id'' CText (Some ''Datacenter'') True None None,
        col ''luks_method'' CText (Some ''LUKS'') True None None,
        col ''cert_expiry_days'' CNumber (Some ''Cert expires (days)'') True None None,
        col ''labels'' CList None True None None,
        col ''booted_generation'' CText (Some ''Booted generation'') True None None,
        col ''node_id'' CId (Some ''ID'') True None None]),
      (''kubernetes'',
       [col0 ''name'' CText,
        col0 ''phase'' CStatus,
        col ''cni'' CText (Some ''CNI'') False None None,
        col ''api_server_endpoint'' CText (Some ''API'') False None None,
        col ''control_plane_nodes'' CList (Some ''Control planes'') False None None,
        col ''ready_control_planes'' CNumber (Some ''Ready control planes'') False None None,
        col ''worker_nodes'' CList (Some ''Workers'') False None None,
        col ''ready_workers'' CNumber (Some ''Ready workers'') False None None,
        col ''message'' CText None True None None,
        col ''last_updated'' CDate (Some ''Updated'') True None None]),
      (''cluster-updates'',
       [col0 ''name'' CText,
        col0 ''phase'' CStatus,
        col ''approval_status'' CStatus (Some ''Approval'') False None None,
        col0 ''version'' CText,
        col ''update_kind'' CText (Some ''Kind'') False None None,
        col ''flake_rev'' CId (Some ''Revision'') False None None,
        col ''generation'' CNumber None True None None,
        col ''drain_vms'' CBool (Some ''Drain VMs'') True None None,
        col ''created_at'' CDate (Some ''Created'') True None None]),
      (''release'',
       [col0 ''version'' CText,
        col0 ''phase'' CStatus,
        col ''update_name'' CText (Some ''Update'') False None None,
        col0 ''canary'' CText,
        col ''canary_phase'' CStatus (Some ''Canary phase'') False None None,
        col ''canary_message'' CText (Some ''Canary'') True None None,
        col ''flake_rev'' CId (Some ''Revision'') False None None,
        col ''flake_ref'' CText (Some ''Flake ref'') True None None]),
      (''conflicts'',
       [col ''resource_key'' CText (Some ''Resource'') False None None,
        col0 ''reason'' CText,
        col ''incumbent_controller_id'' CText (Some ''Incumbent'') False None None,
        col ''challenger_controller_id'' CText (Some ''Challenger'') False None None,
        col ''id'' CId None True None None])]"

definition PRESETS_identity :: "(string \<times> column list) list" where
  "PRESETS_identity =
     [(''sessions'',
       [col0 ''kind'' CText,
        col ''current'' CBool (Some ''This browser'') False None None,
        col ''created_from'' CText (Some ''From'') False None None,
        col ''created_at'' CDate (Some ''Signed in'') False None None,
        col ''last_used_at'' CDate (Some ''Last used'') False None None,
        col ''expires_at'' CDate (Some ''Expires'') False None None,
        col ''token_id'' CId (Some ''ID'') True None None]),
      (''api-tokens'',
       [col0 ''name'' CText,
        col0 ''operator'' CText,
        col ''max_role'' CText (Some ''Max role'') False None (Some (''Operator'' @ [CHR 0x27] @ ''s role'')),
        col ''created_at'' CDate (Some ''Created'') False None None,
        col ''last_used_at'' CDate (Some ''Last used'') False None (Some ''Never''),
        col ''expires_at'' CDate (Some ''Expires'') False None None,
        col ''created_from'' CText (Some ''From'') True None None,
        col ''token_id'' CId (Some ''ID'') True None None]),
      (''operators'',
       [col0 ''name'' CText,
        col0 ''roles'' CList,
        col ''cert_serial'' CId (Some ''Certificate'') True None None]),
      (''ssh-keys'',
       [col0 ''name'' CText,
        col ''public_key'' CId (Some ''Key'') False None None,
        col ''created_at'' CDate (Some ''Created'') False None None]),
      (''certificates'',
       [col ''subject_cn'' CText (Some ''Subject'') False None None,
        col0 ''status'' CStatus,
        col ''identity_kind'' CText (Some ''Kind'') False None None,
        col ''node_id'' CText (Some ''Node'') False (Some ''nodes'') None,
        col ''not_after'' CDate (Some ''Expires'') False None None,
        col ''days_until_expiry'' CNumber (Some ''Days left'') False None None,
        col ''serial_hex'' CId (Some ''Serial'') True None None,
        col ''issuer_cn'' CText (Some ''Issuer'') True None None,
        col ''revocation_reason'' CText (Some ''Revocation reason'') True None None,
        col ''fingerprint_sha256'' CId (Some ''Fingerprint'') True None None]),
      (''slurm-cluster'',
       [col0 ''name'' CText,
        col0 ''phase'' CStatus,
        col ''controller_node'' CText (Some ''Controller'') False (Some ''nodes'') None,
        col ''compute_count'' CNumber (Some ''Compute'') False None None,
        col ''idle_nodes'' CNumber (Some ''Idle'') False None None,
        col ''alloc_nodes'' CNumber (Some ''Alloc'') False None None,
        col ''down_nodes'' CNumber (Some ''Down'') False None None])]"

definition PRESETS_observe :: "(string \<times> column list) list" where
  "PRESETS_observe =
     [(''postgresql'',
       [col0 ''name'' CText,
        col0 ''database'' CText,
        col0 ''port'' CNumber,
        col ''node_id'' CText (Some ''Node'') False (Some ''nodes'') None,
        col ''package'' CText None True None None]),
      (''gpus'',
       [col0 ''name'' CText,
        col0 ''model'' CText,
        col0 ''assignable'' CBool,
        col ''assigned_vm'' CText (Some ''VM'') False (Some ''vms'') None,
        col ''node_id'' CText (Some ''Node'') False (Some ''nodes'') None,
        col0 ''address'' CText,
        col ''profile'' CText (Some ''Profile'') False None None,
        col ''profiles'' CList (Some ''Profiles'') False None None,
        col ''family'' CText None True None None,
        col ''role'' CText None True None None,
        col ''kind'' CText None True None None]),
      (''audit'',
       [col ''created_at'' CDate (Some ''When'') False None None,
        col0 ''actor'' CText,
        col0 ''action'' CText,
        col0 ''resource'' CText,
        col ''detail'' CText None True None None,
        col ''id'' CId None True None None]),
      (''sbom'',
       [col0 ''kind'' CText,
        col0 ''format'' CText,
        col0 ''filename'' CText,
        col ''signature_present'' CBool (Some ''Signed'') False None None,
        col ''spec_version'' CText (Some ''Spec'') True None None,
        col ''generator'' CText None True None None,
        col ''signing_scheme'' CText None True None None,
        col ''sha256'' CId (Some ''SHA-256'') True None None,
        col ''source'' CText None True None None])]"

definition PRESETS :: "(string \<times> column list) list" where
  "PRESETS =
     PRESETS_compute @ PRESETS_network @ PRESETS_storage @ PRESETS_ingress @ PRESETS_cluster @ PRESETS_identity @ PRESETS_observe"

section \<open>Inference\<close>

definition statusKey :: "string \<Rightarrow> bool" where
  "statusKey key \<longleftrightarrow>
     key = ''approval'' \<or> endsWith key ''_state'' \<or> endsWith key ''_status'' \<or> endsWith key ''_phase'' \<or>
     key = ''state'' \<or> key = ''status'' \<or> key = ''phase''"

definition blank :: "js \<Rightarrow> bool" where
  "blank v \<longleftrightarrow> nullish v \<or> v = JStr [] \<or> v = JArr []"

text \<open>The first value of a column that is not blank; \<open>JUndef\<close> where all are.\<close>

fun sample :: "string \<Rightarrow> obj list \<Rightarrow> js" where
  "sample key [] = JUndef"
| "sample key (row # rows) = (if blank (oget row key) then sample key rows else oget row key)"

fun is_bool :: "js \<Rightarrow> bool" where
  "is_bool (JBool _) = True"
| "is_bool _ = False"

fun is_num :: "js \<Rightarrow> bool" where
  "is_num (JNum _) = True"
| "is_num _ = False"

definition infer :: "string \<Rightarrow> obj list \<Rightarrow> column" where
  "infer key rows =
     (let s = sample key rows;
          kind =
            (if isObjectArray s then CNested
             else if is_arr s then CList
             else if is_bool s \<or> key \<in> set [''encrypted'', ''tls'', ''signed'', ''enabled''] then CBool
             else if statusKey key then CStatus
             else if key = ''id'' \<or> key = ''serial'' then CId
             else if is_str s \<and> looksLikeDate (js_string s) then CDate
             else if is_num s \<and> endsWith key ''_bytes'' then CBytes
             else if is_num s then CNumber
             else CText)
      in col0 key kind)"

fun index_of :: "'a \<Rightarrow> 'a list \<Rightarrow> nat option" where
  "index_of x [] = None"
| "index_of x (y # ys) = (if y = x then Some 0 else map_option Suc (index_of x ys))"

definition importance :: "column \<Rightarrow> nat" where
  "importance c =
     (if co_kind c = CNested then 40
      else case index_of (co_key c)
             [''name'', ''hostname'', ''title'', ''subject'', ''state'', ''status'', ''phase'', ''kind'', ''node_id''] of
        None \<Rightarrow> 20
      | Some i \<Rightarrow> i)"

section \<open>Sorting and choosing\<close>

definition by_importance :: "(string \<Rightarrow> string \<Rightarrow> int) \<Rightarrow> column \<Rightarrow> column \<Rightarrow> int" where
  "by_importance cmp a b =
     (let d = int (importance a) - int (importance b) in if d \<noteq> 0 then d else cmp (co_label a) (co_label b))"

text \<open>The insertion order of \<^verbatim>\<open>new Set\<close>: first occurrences.\<close>

fun first_occurrences :: "'a list \<Rightarrow> 'a list" where
  "first_occurrences [] = []"
| "first_occurrences (x # xs) = x # filter (\<lambda>y. y \<noteq> x) (first_occurrences xs)"

definition present_keys :: "obj list \<Rightarrow> string list" where
  "present_keys rows = first_occurrences (concat (map (map fst) rows))"

definition all_blank :: "obj list \<Rightarrow> string \<Rightarrow> bool" where
  "all_blank rows key \<longleftrightarrow> rows \<noteq> [] \<and> list_all (\<lambda>row. blank (oget row key)) rows"

definition known_columns :: "obj list \<Rightarrow> column list \<Rightarrow> column list" where
  "known_columns rows preset =
     map (\<lambda>c. if all_blank rows (co_key c) \<and> co_unset c = None then c\<lparr>co_hidden := True\<rparr> else c)
       (filter (\<lambda>c. co_key c \<in> set (present_keys rows)) preset)"

definition extra_columns :: "obj list \<Rightarrow> column list \<Rightarrow> column list" where
  "extra_columns rows preset =
     map (\<lambda>key. let c = infer key rows in c\<lparr>co_hidden := co_kind c \<noteq> CNested\<rparr>)
       (filter (\<lambda>key. \<not> list_ex (\<lambda>c. co_key c = key) preset) (present_keys rows))"

definition inferred_columns :: "(string \<Rightarrow> string \<Rightarrow> int) \<Rightarrow> obj list \<Rightarrow> column list" where
  "inferred_columns cmp rows =
     (let cs = sort_by (by_importance cmp) (map (\<lambda>key. infer key rows) (present_keys rows)) in
      map (\<lambda>(c, i). c\<lparr>co_hidden := all_blank rows (co_key c) \<or> (co_kind c \<noteq> CNested \<and> 7 \<le> i)\<rparr>) (zip cs [0..<length cs]))"

definition columnsFor :: "(string \<Rightarrow> string \<Rightarrow> int) \<Rightarrow> string \<Rightarrow> obj list \<Rightarrow> column list" where
  "columnsFor cmp rid rows =
     (case map_of PRESETS rid of
        Some preset \<Rightarrow>
          (let known = known_columns rows preset in
           if 3 \<le> length known then known @ extra_columns rows preset else inferred_columns cmp rows)
      | None \<Rightarrow> inferred_columns cmp rows)"

section \<open>Every key has one column\<close>

lemma set_first_occurrences [simp]: "set (first_occurrences xs) = set xs"
  by (induction xs) auto

lemma distinct_first_occurrences [simp]: "distinct (first_occurrences xs)"
  by (induction xs) auto

lemma mset_insert_by: "mset (insert_by cmp x ys) = add_mset x (mset ys)"
  by (induction ys) auto

lemma mset_sort_by [simp]: "mset (sort_by cmp xs) = mset xs"
  by (induction xs) (simp_all add: sort_by_def mset_insert_by)

lemma set_present: "set (present_keys rows) = (\<Union>row\<in>set rows. fst ` set row)"
  by (simp add: present_keys_def)

lemma infer_key [simp]: "co_key (infer key rows) = key"
  by (simp add: infer_def Let_def col_def)

lemma keys_known: "map co_key (known_columns rows preset) = filter (\<lambda>k. k \<in> set (present_keys rows)) (map co_key preset)"
  by (induction preset) (simp_all add: known_columns_def)

lemma keys_extra:
  "map co_key (extra_columns rows preset) = filter (\<lambda>key. key \<notin> co_key ` set preset) (present_keys rows)"
proof -
  have f: "(\<lambda>key. \<not> list_ex (\<lambda>c. co_key c = key) preset) = (\<lambda>key. key \<notin> co_key ` set preset)"
    by (auto simp: fun_eq_iff list_ex_iff)
  show ?thesis unfolding extra_columns_def f Let_def by (simp add: comp_def)
qed

lemma mset_keys_inferred: "mset (map co_key (inferred_columns cmp rows)) = mset (present_keys rows)"
proof -
  let ?cs = "sort_by (by_importance cmp) (map (\<lambda>key. infer key rows) (present_keys rows))"
  have "map co_key (inferred_columns cmp rows) = map co_key (map fst (zip ?cs [0..<length ?cs]))"
    unfolding inferred_columns_def Let_def map_map by (rule map_cong) auto
  also have "\<dots> = map co_key ?cs" by (simp only: map_fst_zip length_upt diff_zero)
  finally have "mset (map co_key (inferred_columns cmp rows)) = image_mset co_key (mset ?cs)" by simp
  also have "\<dots> = mset (map co_key (map (\<lambda>key. infer key rows) (present_keys rows)))" by (simp only: mset_map mset_sort_by)
  also have "\<dots> = mset (present_keys rows)" by (simp add: comp_def)
  finally show ?thesis .
qed

lemma presets_distinct: "list_all (\<lambda>p. distinct (map co_key (snd p))) PRESETS"
proof -
  have "list_all (\<lambda>p. distinct (map co_key (snd p))) PRESETS_compute" by (simp add: PRESETS_compute_def col_def)
  moreover have "list_all (\<lambda>p. distinct (map co_key (snd p))) PRESETS_network" by (simp add: PRESETS_network_def col_def)
  moreover have "list_all (\<lambda>p. distinct (map co_key (snd p))) PRESETS_storage" by (simp add: PRESETS_storage_def col_def)
  moreover have "list_all (\<lambda>p. distinct (map co_key (snd p))) PRESETS_ingress" by (simp add: PRESETS_ingress_def col_def)
  moreover have "list_all (\<lambda>p. distinct (map co_key (snd p))) PRESETS_cluster" by (simp add: PRESETS_cluster_def col_def)
  moreover have "list_all (\<lambda>p. distinct (map co_key (snd p))) PRESETS_identity" by (simp add: PRESETS_identity_def col_def)
  moreover have "list_all (\<lambda>p. distinct (map co_key (snd p))) PRESETS_observe" by (simp add: PRESETS_observe_def col_def)
  ultimately show ?thesis unfolding PRESETS_def list_all_append by blast
qed

text \<open>
  C14: Whatever the resource, the locale and the rows, the table has exactly one column for every key some row has and
  none beside: a preset only orders and hides.
\<close>

theorem columns_cover:
  "distinct (map co_key (columnsFor cmp rid rows)) \<and>
   set (map co_key (columnsFor cmp rid rows)) = (\<Union>row\<in>set rows. fst ` set row)"
proof -
  have infr: "distinct (map co_key (inferred_columns cmp rows)) \<and> set (map co_key (inferred_columns cmp rows)) = set (present_keys rows)"
    using mset_keys_inferred [of cmp rows] by (metis distinct_first_occurrences mset_eq_imp_distinct_iff mset_eq_setD present_keys_def)
  have pre: "distinct (map co_key (known_columns rows p @ extra_columns rows p)) \<and>
      set (map co_key (known_columns rows p @ extra_columns rows p)) = set (present_keys rows)"
    if "distinct (map co_key p)" for p
    using that unfolding map_append keys_known keys_extra by (auto simp: present_keys_def)
  have "map_of PRESETS rid = Some p \<Longrightarrow> distinct (map co_key p)" for p
    using presets_distinct by (auto simp: list_all_iff dest!: map_of_SomeD)
  with infr pre show ?thesis
    unfolding set_present [symmetric] by (simp add: columnsFor_def Let_def image_Un split: option.splits)
qed

end
