(* ===== verification/DashCore.thy ===== *)
theory DashCore
  imports Columns
begin

text \<open>
  The first part of \<^verbatim>\<open>dashboard/src/catalog.ts\<close>: the shapes of fields, actions and resources, and the helpers every
  resource builds its requests and rows with, and what the requests for VMs and Kubernetes clusters guarantee. A call of the \<^verbatim>\<open>controller\<close>, \<^verbatim>\<open>admin\<close> or \<^verbatim>\<open>auth\<close> client is
  an event \<open>dash_call\<close>; what it answers is an arbitrary function of the calls so far (\<open>de_reply\<close>), since the
  clients are generated code over a remote service. The clock and the protobuf library's \<^verbatim>\<open>fromJson\<close> are parameters as
  well. Enum numbers are those of \<^verbatim>\<open>proto/controller.proto\<close>.

  A request is evaluated as the source writes it, properties from left to right (\<open>props\<close>), so the first
  reader that raises decides which error the operator sees.
\<close>

section \<open>Calls\<close>

record dash_call =
  dc_service :: string
  dc_method :: string
  dc_request :: "(string \<times> pval) list"

record dash = proto_env +
  de_reply :: "dash_call list \<Rightarrow> dash_call \<Rightarrow> pval res"
  de_now :: "dash_call list \<Rightarrow> rat"
  de_stamp :: "dash_call list \<Rightarrow> string"
  de_slurm :: "js \<Rightarrow> pval res"

type_synonym 'a act_io = "(dash_call, 'a) io"

definition client :: "string \<Rightarrow> dash \<Rightarrow> string \<Rightarrow> (string \<times> pval) list res \<Rightarrow> pval act_io" where
  "client svc d method request =
     io_bind (io_lift request) (\<lambda>r. io_event (de_reply d) \<lparr>dc_service = svc, dc_method = method, dc_request = r\<rparr>)"

abbreviation controller :: "dash \<Rightarrow> string \<Rightarrow> (string \<times> pval res) list \<Rightarrow> pval act_io" where
  "controller d method request \<equiv> client ''controller'' d method (props request)"

abbreviation admin :: "dash \<Rightarrow> string \<Rightarrow> (string \<times> pval res) list \<Rightarrow> pval act_io" where
  "admin d method request \<equiv> client ''admin'' d method (props request)"

abbreviation auth :: "dash \<Rightarrow> string \<Rightarrow> (string \<times> pval res) list \<Rightarrow> pval act_io" where
  "auth d method request \<equiv> client ''auth'' d method (props request)"

definition resmap :: "('a \<Rightarrow> 'b) \<Rightarrow> 'a res \<Rightarrow> 'b res" where
  "resmap f r = ebind r (\<lambda>x. Inr (f x))"

lemma resmap_simps [simp]: "resmap f (Inr x) = Inr (f x)" "resmap f (Inl e) = Inl e"
  by (simp_all add: resmap_def)

text \<open>Property values of a request.\<close>

abbreviation q_str :: "string \<Rightarrow> pval res" where "q_str s \<equiv> Inr (PStr s)"

abbreviation q_bool :: "bool \<Rightarrow> pval res" where "q_bool b \<equiv> Inr (PBool b)"

abbreviation q_num :: "int \<Rightarrow> pval res" where "q_num n \<equiv> Inr (PNum (Fin (of_int n)))"

abbreviation q_text :: "form_values \<Rightarrow> string \<Rightarrow> pval res" where "q_text v key \<equiv> Inr (PStr (form_text v key))"

abbreviation q_first :: "form_values \<Rightarrow> string list \<Rightarrow> pval res" where "q_first v keys \<equiv> Inr (PStr (form_first v keys))"

abbreviation q_ident :: "form_values \<Rightarrow> pval res" where "q_ident v \<equiv> Inr (PStr (form_ident v))"

abbreviation q_flag :: "form_values \<Rightarrow> string \<Rightarrow> pval res" where "q_flag v key \<equiv> Inr (PBool (form_flag v key))"

abbreviation q_required :: "form_values \<Rightarrow> string \<Rightarrow> pval res" where "q_required v key \<equiv> resmap PStr (form_required v key)"

abbreviation q_int :: "form_values \<Rightarrow> string \<Rightarrow> pval res" where "q_int v key \<equiv> resmap PNum (form_int v key)"

abbreviation q_soak :: "form_values \<Rightarrow> string \<Rightarrow> pval res" where "q_soak v key \<equiv> resmap PNum (form_soak v key)"

abbreviation q_bytes :: "form_values \<Rightarrow> string \<Rightarrow> pval res" where "q_bytes v key \<equiv> resmap PBig (form_bytes v key)"

abbreviation q_strings :: "form_values \<Rightarrow> string \<Rightarrow> pval res" where
  "q_strings v key \<equiv> Inr (PList (map PStr (form_strings v key)))"

abbreviation q_ints :: "form_values \<Rightarrow> string \<Rightarrow> pval res" where
  "q_ints v key \<equiv> resmap (\<lambda>ns. PList (map PNum ns)) (form_ints v key)"

abbreviation q_obj :: "(string \<times> pval res) list \<Rightarrow> pval res" where "q_obj ps \<equiv> resmap PObj (props ps)"

definition q_labels :: "form_values \<Rightarrow> pval res" where
  "q_labels v = Inr (PObj (map (\<lambda>p. (fst p, PStr (js_string (snd p)))) (form_labels v ''labels'')))"

section \<open>Fields, actions and resources\<close>

datatype dash_kind = TextKind | NumberKind | BoolKind | JsonKind | SecretKind | MultilineKind | FileKind | SelectKind

record dash_field =
  fl_name :: string
  fl_label :: string
  fl_kind :: dash_kind
  fl_required :: bool
  fl_placeholder :: "string option"
  fl_options :: "string list option"

datatype outcome =
    Result js
  | Reveal "(string \<times> js) list" "string option"
  | Download string pval string

record dash_action =
  ac_name :: string
  ac_label :: string
  ac_confirm :: bool
  ac_fields :: "dash_field list"
  ac_preload :: bool
  ac_console :: bool
  ac_run :: "form_values \<Rightarrow> outcome act_io"

record dash_detail =
  dt_detail :: js
  dt_spec :: "form_values option"

record dash_resource =
  rs_id :: string
  rs_title :: string
  rs_noun :: string
  rs_group :: string
  rs_terraform :: "string list"
  rs_kctl :: string
  rs_idField :: string
  rs_fields :: "dash_field list"
  rs_actions :: "dash_action list"
  rs_filters :: "dash_field list"
  rs_checks :: "string list"
  rs_refreshMs :: "nat option"
  rs_single :: bool
  rs_list :: "form_values \<Rightarrow> obj list act_io"
  rs_create :: "(form_values \<Rightarrow> outcome act_io) option"
  rs_inspect :: "(string \<Rightarrow> dash_detail act_io) option"

abbreviation mk_field :: "string \<Rightarrow> string \<Rightarrow> dash_kind \<Rightarrow> bool \<Rightarrow> string option \<Rightarrow> string list option \<Rightarrow> dash_field" where
  "mk_field n l k r p os \<equiv>
     \<lparr>fl_name = n, fl_label = l, fl_kind = k, fl_required = r, fl_placeholder = p, fl_options = os\<rparr>"

definition fld :: "string \<Rightarrow> string \<Rightarrow> bool \<Rightarrow> string option \<Rightarrow> dash_field" where
  "fld name lab req placeholder = mk_field name lab TextKind req placeholder None"

definition pick :: "string \<Rightarrow> string \<Rightarrow> string list \<Rightarrow> bool \<Rightarrow> dash_field" where
  "pick name lab opts req = mk_field name lab SelectKind req None (Some opts)"

definition size_fld :: "string \<Rightarrow> string \<Rightarrow> bool \<Rightarrow> dash_field" where
  "size_fld name lab req = mk_field name lab TextKind req (Some ''4 GiB'') None"

definition num_fld :: "string \<Rightarrow> string \<Rightarrow> bool \<Rightarrow> string option \<Rightarrow> dash_field" where
  "num_fld name lab req placeholder = mk_field name lab NumberKind req placeholder None"

definition bool_fld :: "string \<Rightarrow> string \<Rightarrow> dash_field" where
  "bool_fld name lab = mk_field name lab BoolKind False None None"

definition list_fld :: "string \<Rightarrow> string \<Rightarrow> bool \<Rightarrow> dash_field" where
  "list_fld name lab req = mk_field name lab JsonKind req None None"

definition secret_fld :: "string \<Rightarrow> string \<Rightarrow> bool \<Rightarrow> dash_field" where
  "secret_fld name lab req = mk_field name lab SecretKind req None None"

definition long_fld :: "string \<Rightarrow> string \<Rightarrow> bool \<Rightarrow> dash_field" where
  "long_fld name lab req = mk_field name lab MultilineKind req None None"

definition file_fld :: "string \<Rightarrow> string \<Rightarrow> dash_field" where
  "file_fld name lab = mk_field name lab FileKind True None None"

definition ROLES :: "string list" where
  "ROLES = [''read-only'', ''backup-operator'', ''vm-admin'', ''cluster-admin'']"

definition act :: "string \<Rightarrow> string \<Rightarrow> bool \<Rightarrow> dash_field list \<Rightarrow> (form_values \<Rightarrow> outcome act_io) \<Rightarrow> dash_action" where
  "act name lab confirm fs run =
     \<lparr>ac_name = name, ac_label = lab, ac_confirm = confirm, ac_fields = fs, ac_preload = False, ac_console = False,
      ac_run = run\<rparr>"

section \<open>Answers\<close>

definition resp_field :: "pval \<Rightarrow> string \<Rightarrow> pval" where
  "resp_field resp k = pget (pfields resp) k"

fun plain_text :: "pval \<Rightarrow> string" where
  "plain_text (PStr s) = s"
| "plain_text _ = []"

definition resp_js :: "pval \<Rightarrow> string \<Rightarrow> js" where
  "resp_js resp k = scalar (resp_field resp k)"

definition ok :: "pval \<Rightarrow> obj \<Rightarrow> js res" where
  "ok resp extra =
     (let message = plain_text (resp_field resp ''message'') in
      if resp_field resp ''success'' = PBool False
      then Inl (OtherError (if message = [] then ''The controller refused the request.'' else message))
      else Inr (JObj (spread ([(''ok'', JBool True)] @ (if message = [] then [] else [(''message'', JStr message)])) extra)))"

abbreviation done_ok :: "outcome act_io" where
  "done_ok \<equiv> io_return (Result (JObj [(''ok'', JBool True)]))"

definition ok_io :: "pval act_io \<Rightarrow> outcome act_io" where
  "ok_io m = io_bind m (\<lambda>resp. io_lift (resmap Result (ok resp [])))"

definition ok_with :: "pval act_io \<Rightarrow> (pval \<Rightarrow> obj) \<Rightarrow> outcome act_io" where
  "ok_with m extra = io_bind m (\<lambda>resp. io_lift (resmap Result (ok resp (extra resp))))"

definition then_ok :: "pval act_io \<Rightarrow> outcome act_io" where
  "then_ok m = io_bind m (\<lambda>_. done_ok)"

definition with_message :: "pval act_io \<Rightarrow> outcome act_io" where
  "with_message m = io_bind m (\<lambda>resp. io_return (Result (JObj [(''ok'', JBool True), (''message'', resp_js resp ''message'')])))"

definition row_result :: "dash \<Rightarrow> pval act_io \<Rightarrow> outcome act_io" where
  "row_result d m = io_bind m (\<lambda>resp. io_lift (resmap (\<lambda>r. Result (JObj r)) (rowOf (proto_env.truncate d) resp)))"

abbreviation row_of :: "dash \<Rightarrow> pval act_io \<Rightarrow> obj act_io" where
  "row_of d m \<equiv> io_bind m (\<lambda>resp. io_lift (rowOf (proto_env.truncate d) resp))"

abbreviation rows_of :: "dash \<Rightarrow> pval act_io \<Rightarrow> string \<Rightarrow> obj list act_io" where
  "rows_of d m field \<equiv> io_bind m (\<lambda>resp. io_lift (rowsOf (proto_env.truncate d) resp field))"

definition mapped :: "(obj \<Rightarrow> obj) \<Rightarrow> obj list act_io \<Rightarrow> obj list act_io" where
  "mapped f m = io_bind m (\<lambda>rows. io_return (map f rows))"

definition one_row :: "obj act_io \<Rightarrow> obj list act_io" where
  "one_row m = io_bind m (\<lambda>row. io_return [row])"

definition detail_of_field :: "obj act_io \<Rightarrow> string \<Rightarrow> dash_detail act_io" where
  "detail_of_field m field = io_bind m (\<lambda>row. io_return \<lparr>dt_detail = oget row field, dt_spec = None\<rparr>)"

abbreviation sub :: "obj \<Rightarrow> string \<Rightarrow> obj" where
  "sub row key \<equiv> obj_of (oget row key)"

section \<open>Specs as JSON\<close>

definition specField :: "string \<Rightarrow> dash_field" where
  "specField lab =
     mk_field ''spec'' lab MultilineKind True
       (Some (''{'' @ json_quote ''hosts'' @ '': ['' @ json_quote ''shop.example.com'' @ ''], ...}'')) None"

definition specJson :: "form_values \<Rightarrow> bool \<Rightarrow> string res" where
  "specJson v allowEmpty =
     (let raw = form_text v ''spec'' in
      if raw = [] \<and> allowEmpty then Inr ''{}''
      else if raw = [] then Inl (FormError ''Spec is required'')
      else case JSON_parse raw of
        Some (JObj ps) \<Rightarrow> Inr (json_text (JObj ps))
      | _ \<Rightarrow> Inl (FormError ''Spec must be a JSON object''))"

definition parsedSpec :: "obj \<Rightarrow> js" where
  "parsedSpec row =
     (case JSON_parse (js_string (coalesce (oget row ''spec_json'') (JStr ''{}''))) of
        Some v \<Rightarrow> v
      | None \<Rightarrow> oget row ''spec_json'')"

definition specObject :: "obj \<Rightarrow> obj" where
  "specObject row = (case parsedSpec row of JObj ps \<Rightarrow> ps | _ \<Rightarrow> [])"

section \<open>Rows\<close>

text \<open>\<^verbatim>\<open>xs.find(p)?.key ?? other\<close>.\<close>

definition find_field :: "(js \<Rightarrow> bool) \<Rightarrow> js list \<Rightarrow> string \<Rightarrow> js \<Rightarrow> js" where
  "find_field P xs key other = coalesce (case find P xs of Some x \<Rightarrow> jget x key | None \<Rightarrow> JUndef) other"

definition ingressGatewayRow :: "obj \<Rightarrow> obj" where
  "ingressGatewayRow row =
     (let nodes = arr_items (oget (sub row ''status'') ''nodes'') in
      spread (flatten row)
        [(''nodes'', JArr (map (\<lambda>n. jget n ''node_id'') nodes)),
         (''ready_nodes'', JStr (show_nat (length (filter (\<lambda>n. truthy (jget n ''healthy'')) nodes)) @ ''/'' @ show_nat (length nodes))),
         (''vip_holder'', find_field (\<lambda>n. truthy (jget n ''vip_holder'')) nodes ''node_id'' JNull)])"

definition ingressRouteRow :: "obj \<Rightarrow> obj" where
  "ingressRouteRow row =
     (let spec = specObject row; waf = coalesce (oget spec ''waf'') (JObj []) in
      spread (flatten row)
        [(''kind'', coalesce (oget spec ''kind'') (JStr ''http'')),
         (''hosts'', coalesce (oget spec ''hosts'') (JArr [])),
         (''waf_mode'', coalesce (jget waf ''mode'') (JStr ''policy default'')),
         (''managed_by'', if truthy (oget row ''owner'') then oget row ''owner'' else JNull)])"

definition slurmClusterRow :: "obj \<Rightarrow> obj" where
  "slurmClusterRow row =
     (let spec = sub row ''spec''; status = sub row ''status''; nodes = arr_items (oget status ''nodes'');
          controller = sub spec ''controller'';
          state = (\<lambda>name. JInt (int (length (filter (\<lambda>n. jget n ''slurm_state'' = JStr name) nodes)))) in
      spread (flatten row)
        [(''controller_node'', coalesce (oget controller ''nodeId'') JNull),
         (''compute_count'', JInt (int (length (arr_items (oget spec ''compute''))))),
         (''idle_nodes'', state ''idle''),
         (''alloc_nodes'', state ''alloc''),
         (''down_nodes'', state ''down'')])"

definition wafPolicyRow :: "obj \<Rightarrow> obj" where
  "wafPolicyRow row =
     (let spec = specObject row; crs = coalesce (oget spec ''crs'') (JObj []) in
      spread (spread [] row)
        [(''engine'', coalesce (oget spec ''engine'') (JStr ''detect'')),
         (''paranoia_level'', coalesce (jget crs ''paranoiaLevel'') (JInt 1))])"

definition releaseRow :: "obj \<Rightarrow> obj" where
  "releaseRow row =
     (let nodes = arr_items (oget row ''nodes'');
          is_canary = (\<lambda>n. js_string (jget n ''phase'') \<in> set [''soaking'', ''awaiting-promotion'']) in
      spread (spread [] row)
        [(''canary'', find_field is_canary nodes ''node_id'' (JStr [])),
         (''canary_phase'', find_field is_canary nodes ''phase'' (JStr [])),
         (''canary_message'', find_field is_canary nodes ''last_error'' (JStr []))])"

definition nodeRow :: "obj \<Rightarrow> obj" where
  "nodeRow row =
     (let capacity = sub row ''capacity''; usage = sub row ''usage'' in
      spread (spread [] row)
        [(''cpu_cores'', oget capacity ''cpu_cores''),
         (''memory_bytes'', oget capacity ''memory_bytes''),
         (''cpu_cores_used'', oget usage ''cpu_cores_used''),
         (''memory_bytes_used'', oget usage ''memory_bytes_used'')])"

section \<open>Ingress and Slurm requests\<close>

definition planIngressDocument :: "dash \<Rightarrow> string \<Rightarrow> form_values \<Rightarrow> outcome act_io" where
  "planIngressDocument d kind v =
     io_bind (io_lift (specJson v (kind = ''WafPolicy''))) (\<lambda>raw.
     io_bind (io_lift
       (if kind = ''IngressGateway'' then form_required v ''name''
        else case JSON_parse raw of
          Some spec \<Rightarrow> Inr (case jget spec ''gateway'' of JStr g \<Rightarrow> g | _ \<Rightarrow> [])
        | None \<Rightarrow> Inl (OtherError ''Unexpected end of JSON input''))) (\<lambda>gateway.
     if kind = ''IngressRoute'' \<and> gateway = [] then io_throw (FormError ''The spec needs a gateway to plan against'')
     else row_result d (controller d ''planIngress''
       [(''gateway'', q_str gateway),
        (''documents'', resmap (\<lambda>x. PList [x])
           (q_obj [(''kind'', q_str kind), (''name'', q_required v ''name''), (''specJson'', q_str raw)]))])))"

definition slurmSpec :: "dash \<Rightarrow> form_values \<Rightarrow> pval res" where
  "slurmSpec d v =
     ebind (specJson v False) (\<lambda>raw.
       case JSON_parse raw of
         None \<Rightarrow> Inl (OtherError ''Unexpected end of JSON input'')
       | Some parsed \<Rightarrow>
           (case de_slurm d parsed of
              Inl e \<Rightarrow> Inl (FormError (''Spec is not a valid Slurm cluster: '' @ err_message e))
            | Inr m \<Rightarrow> Inr m))"

section \<open>Virtual machines\<close>

definition backend :: "string \<Rightarrow> pval res" where
  "backend name =
     (let n = toLowerCase name in
      if n \<in> set [''filesystem'', ''file''] then q_num 1
      else if n = ''lvm'' then q_num 2
      else if n = ''zfs'' then q_num 3
      else if n = ''ceph'' then q_num 4
      else Inl (FormError ''storage_backend must be filesystem, file, lvm, zfs, or ceph''))"

definition role :: "form_values \<Rightarrow> string \<Rightarrow> pval res" where
  "role v key =
     ebind (form_required v key) (\<lambda>t.
       case enumValue OperatorRoleKind t of
         Some n \<Rightarrow>
           if n = 0 then Inl (FormError (key @ '' must be read-only, backup-operator, vm-admin, or cluster-admin'')) else q_num n
       | None \<Rightarrow> Inl (FormError (key @ '' must be read-only, backup-operator, vm-admin, or cluster-admin'')))"

definition optionalRole :: "form_values \<Rightarrow> string \<Rightarrow> pval res" where
  "optionalRole v key = (if form_text v key \<noteq> [] then role v key else q_num 0)"

definition pick_text :: "form_values \<Rightarrow> (string \<times> string) list \<Rightarrow> (string \<times> pval) list" where
  "pick_text item keys = map (\<lambda>(k, f). (k, PStr (form_text item f))) keys"

definition nics :: "form_values \<Rightarrow> pval res" where
  "nics v =
     ebind (form_records v ''nics'') (\<lambda>rs.
       let items = filter (\<lambda>n. pget n ''network'' \<noteq> PStr [])
             (map (\<lambda>item. pick_text item [(''network'', ''network''), (''model'', ''model''), (''macAddress'', ''mac_address'')]) rs) in
       Inr (PList (map PObj
         (if items \<noteq> [] \<or> form_text v ''network'' = [] then items
          else [pick_text v [(''network'', ''network''), (''model'', ''nic_model''), (''macAddress'', ''mac_address'')]]))))"

definition dash_disks :: "form_values \<Rightarrow> pval res" where
  "dash_disks v =
     resmap (\<lambda>rs. PList (map PObj
         (filter (\<lambda>k. pget k ''name'' \<noteq> PStr [] \<or> pget k ''backendHandle'' \<noteq> PStr [])
           (map (\<lambda>item. pick_text item
               [(''name'', ''name''), (''backendHandle'', ''backend_handle''), (''bus'', ''bus''), (''device'', ''device'')]) rs))))
       (form_records v ''disks'')"

text \<open>\<^verbatim>\<open>x <= 0\<close> for a number and for a \<^verbatim>\<open>bigint\<close>.\<close>

fun nonpositive :: "pval \<Rightarrow> bool" where
  "nonpositive (PNum n) = (n = Fin 0 \<or> num_less n (Fin 0))"
| "nonpositive (PBig n) = (n \<le> 0)"
| "nonpositive _ = False"

definition vmSpec :: "form_values \<Rightarrow> (string \<times> pval) list res" where
  "vmSpec v =
     ebind (props
       [(''name'', q_required v ''name''),
        (''cpu'', q_int v ''cpu''),
        (''memoryBytes'', q_bytes v ''memory_bytes''),
        (''storageBackend'', q_text v ''storage_backend''),
        (''storageSizeBytes'', q_bytes v ''storage_size_bytes''),
        (''desiredState'', q_num (if form_text v ''desired_state'' \<in> set [''stopped'', ''stop''] then 2 else 1)),
        (''disks'', dash_disks v),
        (''nics'', nics v),
        (''pciDevices'', q_strings v ''pci_devices''),
        (''gpus'', q_strings v ''gpus''),
        (''vgpus'', q_strings v ''vgpus''),
        (''labels'', q_labels v)]) (\<lambda>spec.
     if nonpositive (pget spec ''cpu'') then Inl (FormError ''CPUs must be greater than 0'')
     else if nonpositive (pget spec ''memoryBytes'') then Inl (FormError ''Memory must be greater than 0'')
     else if nonpositive (pget spec ''storageSizeBytes'') then Inl (FormError ''Disk size must be greater than 0'')
     else ebind (backend (plain_text (pget spec ''storageBackend''))) (\<lambda>_. Inr spec))"

definition dash_image :: "form_values \<Rightarrow> (string \<times> pval) list res" where
  "dash_image v =
     (let url = form_text v ''image_url''; sha = form_text v ''image_sha256''; path = form_text v ''image_path'';
          format = form_text v ''image_format'' in
      if path = [] \<and> url = [] then Inl (FormError ''Set an image URL and its SHA-256, or an image path on the node.'')
      else if path \<noteq> [] \<and> format = [] then Inl (FormError ''image_format is required with image_path'')
      else if url \<noteq> [] \<and> sha = [] then Inl (FormError ''image_sha256 is required with image_url'')
      else Inr [(''imageUrl'', PStr url), (''imageSha256'', PStr sha), (''imagePath'', PStr path), (''imageFormat'', PStr format)])"

definition dash_rules :: "form_values \<Rightarrow> pval res" where
  "dash_rules v =
     ebind (form_records v ''rules'') (\<lambda>rs.
       resmap PList (emap (\<lambda>item. q_obj
         [(''protocol'', q_text item ''protocol''),
          (''hostPort'', q_int item ''host_port''),
          (''targetPort'', q_int item ''target_port''),
          (''sourceCidr'', q_text item ''source_cidr''),
          (''targetVm'', q_text item ''target_vm''),
          (''enableDnat'', q_flag item ''enable_dnat'')]) rs))"

definition targetKind :: "form_values \<Rightarrow> pval res" where
  "targetKind v =
     ebind (form_required v ''target_kind'') (\<lambda>t.
       let kind = toLowerCase t in
       if kind = ''vm'' then q_num 1
       else if kind = ''network'' then q_num 2
       else Inl (FormError (''target_kind must be vm or network, got '' @ kind)))"

section \<open>Ceph\<close>

definition cephNodes :: "form_values \<Rightarrow> (string \<times> pval) list list res" where
  "cephNodes v =
     resmap (\<lambda>rs. filter (\<lambda>n. pget n ''nodeId'' \<noteq> PStr [])
         (map (\<lambda>item. pick_text item [(''nodeId'', ''node_id''), (''osdDevice'', ''osd_device'')] @
             [(''osdDevices'', PList (map PStr (form_strings item ''osd_devices'')))] @
             pick_text item [(''monAddr'', ''mon_addr''), (''clusterAddr'', ''cluster_addr''),
               (''publicIface'', ''public_iface''), (''clusterIface'', ''cluster_iface'')]) rs))
       (form_records v ''nodes'')"

definition cephCluster :: "form_values \<Rightarrow> pval res" where
  "cephCluster v =
     ebind (cephNodes v) (\<lambda>nodes.
       if nodes = [] then Inl (FormError ''nodes is required'')
       else q_obj
         [(''name'', q_required v ''name''),
          (''spec'', q_obj
             [(''fsid'', q_text v ''fsid''),
              (''publicNetwork'', q_required v ''public_network''),
              (''clusterNetwork'', q_text v ''cluster_network''),
              (''size'', q_int v ''size''),
              (''minSize'', q_int v ''min_size''),
              (''forceWipe'', q_flag v ''force_wipe''),
              (''encryptOsds'', q_flag v ''encrypt_osds''),
              (''nodes'', Inr (PList (map PObj nodes)))])])"

definition cephForm :: "obj \<Rightarrow> form_values" where
  "cephForm row =
     (let spec = sub row ''spec''; nodes = arr_items (oget spec ''nodes'') in
      [(''name'', oget row ''name''),
       (''fsid'', oget spec ''fsid''),
       (''public_network'', oget spec ''public_network''),
       (''cluster_network'', oget spec ''cluster_network''),
       (''size'', oget spec ''size''),
       (''min_size'', oget spec ''min_size''),
       (''encrypt_osds'', oget spec ''encrypt_osds''),
       (''nodes'', JArr (map (\<lambda>node. JObj (spread (spread [] (obj_of node))
           [(''osd_devices'', JStr (case jget node ''osd_devices'' of JArr xs \<Rightarrow> js_string (JArr xs) | _ \<Rightarrow> []))])) nodes))])"

section \<open>Kubernetes\<close>

definition k8sNode :: "form_values \<Rightarrow> string \<Rightarrow> (string \<times> pval) list res" where
  "k8sNode item defaultRole =
     (let nodeId = form_text item ''node_id''; r = form_text item ''role'';
          advertise = form_text item ''advertise_address''; iface = form_text item ''iface'' in
      if nodeId = [] then Inl (FormError ''node_id is required on each Kubernetes node'')
      else if advertise = [] \<or> iface = [] then Inl (FormError (nodeId @ '' needs advertise_address and iface''))
      else Inr
        [(''nodeId'', PStr nodeId),
         (''role'', PStr (if r = [] then defaultRole else r)),
         (''advertiseAddress'', PStr advertise),
         (''iface'', PStr iface),
         (''initialCluster'', PBool (form_flag item ''initial_cluster'')),
         (''joinExisting'', PBool (form_flag item ''join_existing''))])"

definition k8sNodes :: "form_values \<Rightarrow> string \<Rightarrow> string \<Rightarrow> (string \<times> pval) list list res" where
  "k8sNodes v key defaultRole = ebind (form_records v key) (emap (\<lambda>item. k8sNode item defaultRole))"

text \<open>\<^verbatim>\<open>control[0].initialCluster = true\<close> where no node has it.\<close>

definition set_initial :: "(string \<times> pval) list \<Rightarrow> (string \<times> pval) list" where
  "set_initial n = map (\<lambda>p. if fst p = ''initialCluster'' then (fst p, PBool True) else p) n"

definition with_initial :: "(string \<times> pval) list list \<Rightarrow> (string \<times> pval) list list" where
  "with_initial ns =
     (if list_ex (\<lambda>n. pget n ''initialCluster'' = PBool True) ns then ns
      else case ns of [] \<Rightarrow> [] | n # rest \<Rightarrow> set_initial n # rest)"

definition k8s_ha :: "form_values \<Rightarrow> bool" where
  "k8s_ha v \<longleftrightarrow> form_flag v ''ha_enabled'' \<or> form_text v ''vip_address'' \<noteq> []"

definition k8sSpec :: "form_values \<Rightarrow> pval res" where
  "k8sSpec v =
     ebind (k8sNodes v ''control_plane_nodes'' ''control-plane'') (\<lambda>control.
       if control = [] then
         Inl (FormError ''control_plane_nodes is required; a blank form would replace the cluster spec'')
       else if k8s_ha v \<and> (form_text v ''vip_address'' = [] \<or> form_text v ''vip_interface'' = []) then
         Inl (FormError ''high availability needs vip_address and vip_interface'')
       else q_obj
         [(''clusterCidr'', q_required v ''cluster_cidr''),
          (''serviceCidr'', q_required v ''service_cidr''),
          (''clusterDns'', q_text v ''cluster_dns''),
          (''apiServerEndpoint'', q_required v ''api_server_endpoint''),
          (''cni'', q_str (if form_text v ''cni'' = [] then ''cilium'' else form_text v ''cni'')),
          (''workerNodes'', resmap (\<lambda>ns. PList (map PObj ns)) (k8sNodes v ''worker_nodes'' ''worker'')),
          (''controlPlaneNodes'', Inr (PList (map PObj (with_initial control)))),
          (''scheduleOnControlPlane'', q_flag v ''schedule_on_control_plane''),
          (''highAvailability'',
             if k8s_ha v then Inr (PObj
               [(''enabled'', PBool True),
                (''vipAddress'', PStr (form_text v ''vip_address'')),
                (''vipInterface'', PStr (form_text v ''vip_interface'')),
                (''method'', PStr (if form_text v ''method'' = [] then ''keepalived'' else form_text v ''method''))])
             else Inr PUndef)])"

definition k8sForm :: "obj \<Rightarrow> form_values" where
  "k8sForm row =
     (let spec = sub row ''spec''; ha = sub spec ''high_availability'' in
      [(''name'', oget row ''name''),
       (''cluster_cidr'', oget spec ''cluster_cidr''),
       (''service_cidr'', oget spec ''service_cidr''),
       (''cluster_dns'', oget spec ''cluster_dns''),
       (''api_server_endpoint'', oget spec ''api_server_endpoint''),
       (''cni'', oget spec ''cni''),
       (''schedule_on_control_plane'', oget spec ''schedule_on_control_plane''),
       (''control_plane_nodes'', coalesce (oget spec ''control_plane_nodes'') (JArr [])),
       (''worker_nodes'', coalesce (oget spec ''worker_nodes'') (JArr [])),
       (''ha_enabled'', oget ha ''enabled''),
       (''vip_address'', oget ha ''vip_address''),
       (''vip_interface'', oget ha ''vip_interface''),
       (''method'', oget ha ''method'')])"

definition postedK8s :: "form_values \<Rightarrow> bool res" where
  "postedK8s v =
     (if form_fromRow v then Inr False
      else if form_text v ''cluster_cidr'' \<noteq> [] then Inr True
      else resmap (\<lambda>rs. rs \<noteq> []) (form_records v ''control_plane_nodes''))"

section \<open>Cluster updates and certificates\<close>

definition updateStrategy :: "form_values \<Rightarrow> pval res" where
  "updateStrategy v =
     (let canary = (form_text v ''strategy'' = ''canary'') in
      if \<not> canary \<and> (form_text v ''canary_soak'' \<noteq> [] \<or> form_text v ''canary_node'' \<noteq> [])
      then Inl (FormError ''Canary soak and canary node need the canary strategy'')
      else q_obj
        [(''type'', q_num (if canary then 1 else 2)),
         (''maxUnavailable'', q_num 1),
         (''canarySoakSeconds'', if canary then q_soak v ''canary_soak'' else q_num 0),
         (''canaryNodeId'', q_str (if canary then form_text v ''canary_node'' else []))])"

definition updateSpec :: "form_values \<Rightarrow> pval res" where
  "updateSpec v =
     q_obj
       [(''name'', q_required v ''name''),
        (''target'', q_obj [(''version'', q_text v ''version''), (''flakeRef'', q_text v ''flake_ref''), (''flakeRev'', q_text v ''flake_rev'')]),
        (''selector'', q_obj [(''allNodes'', q_flag v ''all_nodes''), (''nodeIds'', q_strings v ''node_ids'')]),
        (''strategy'', updateStrategy v),
        (''updateKind'', q_str (if form_text v ''update_kind'' = [] then ''kcore'' else form_text v ''update_kind'')),
        (''drainVms'', q_flag v ''drain_vms'')]"

definition revocationReason :: "form_values \<Rightarrow> pval res" where
  "revocationReason v =
     (let r = form_text v ''reason'' in
      if r \<in> set [''keyCompromise'', ''key-compromise''] then q_num 1
      else if r \<in> set [''cACompromise'', ''ca-compromise''] then q_num 2
      else if r = ''affiliationChanged'' then q_num 3
      else if r = ''superseded'' then q_num 4
      else if r = ''cessationOfOperation'' then q_num 5
      else if r = ''certificateHold'' then q_num 6
      else q_num 0)"

section \<open>Workloads\<close>

definition workloadKind :: "string \<Rightarrow> form_values \<Rightarrow> pval res" where
  "workloadKind resource v = q_num (if resource = ''containers'' \<or> form_text v ''kind'' = ''container'' then 2 else 1)"

definition created_workload :: "pval act_io \<Rightarrow> outcome act_io" where
  "created_workload m =
     io_bind m (\<lambda>resp. io_return (Result (JObj
       [(''ok'', JBool True), (''id'', resp_js resp ''workloadId''), (''node'', resp_js resp ''nodeId'')])))"

definition createWorkload :: "dash \<Rightarrow> form_values \<Rightarrow> bool \<Rightarrow> outcome act_io" where
  "createWorkload d v container =
     (if container then created_workload (controller d ''createWorkload''
        [(''kind'', q_num 2),
         (''targetNode'', q_text v ''target_node''),
         (''containerSpec'', q_obj
            [(''name'', q_required v ''name''),
             (''image'', q_required v ''image''),
             (''network'', q_text v ''network''),
             (''command'', q_strings v ''command''),
             (''ports'', q_strings v ''ports''),
             (''storageBackend'', q_text v ''storage_backend''),
             (''storageSizeBytes'', q_bytes v ''storage_size_bytes''),
             (''mountTarget'', q_text v ''mount_target''),
             (''desiredState'', q_num (if form_text v ''desired_state'' = ''stopped'' then 2 else 1))])])
      else io_bind (io_lift (vmSpec v)) (\<lambda>spec.
        created_workload (client ''controller'' d ''createWorkload''
          (ebind (props
             [(''kind'', q_num 1),
              (''targetNode'', q_text v ''target_node''),
              (''vmSpec'', Inr (PObj spec)),
              (''storageBackend'', backend (plain_text (pget spec ''storageBackend''))),
              (''storageSizeBytes'', Inr (pget spec ''storageSizeBytes'')),
              (''sshKeyNames'', q_strings v ''ssh_key_names'')]) (\<lambda>request.
           ebind (dash_image v) (\<lambda>img. Inr (request @ img)))))))"

definition set_workload :: "dash \<Rightarrow> string \<Rightarrow> bool \<Rightarrow> form_values \<Rightarrow> outcome act_io" where
  "set_workload d resource running v =
     then_ok (controller d ''setWorkloadDesiredState''
       [(''kind'', workloadKind resource v),
        (''workloadId'', q_first v [''id'', ''name'']),
        (''desiredState'', q_num (if running then 1 else 2)),
        (''targetNode'', q_text v ''target_node'')])"

definition workloadActions :: "dash \<Rightarrow> string \<Rightarrow> dash_action list" where
  "workloadActions d resource =
     [act ''start'' ''Start'' False [] (set_workload d resource True),
      act ''stop'' ''Stop'' False [] (set_workload d resource False),
      act ''delete'' ''Delete'' True [] (\<lambda>v. then_ok (controller d ''deleteWorkload''
        [(''kind'', workloadKind resource v), (''workloadId'', q_first v [''id'', ''name'']), (''targetNode'', q_text v ''target_node'')]))]"

definition workloadRows :: "dash \<Rightarrow> obj list act_io" where
  "workloadRows d =
     io_bind (controller d ''listWorkloads'' []) (\<lambda>resp.
     io_lift (ebind (rowsOf (proto_env.truncate d) resp ''vms'') (\<lambda>vms.
       ebind (rowsOf (proto_env.truncate d) resp ''containers'') (\<lambda>containers.
         Inr (map (\<lambda>row. spread (spread [] row) [(''kind'', JStr ''vm'')]) vms @
              map (\<lambda>row. spread (spread [] row) [(''kind'', JStr ''container'')]) containers)))))"

section \<open>Forms\<close>

definition vmFields :: "dash_field list" where
  "vmFields =
     [fld ''name'' ''Name'' True None,
      num_fld ''cpu'' ''CPUs'' True None,
      size_fld ''memory_bytes'' ''Memory'' True,
      pick ''storage_backend'' ''Storage backend'' [''filesystem'', ''lvm'', ''zfs'', ''ceph''] True,
      size_fld ''storage_size_bytes'' ''Disk size'' True,
      fld ''image_url'' ''Image URL'' False None,
      fld ''image_sha256'' ''Image SHA-256'' False None,
      fld ''image_path'' ''Image path'' False None,
      pick ''image_format'' ''Image format'' [''raw'', ''qcow2''] False,
      fld ''target_node'' ''Target node'' False None,
      fld ''target_dc'' ''Target datacenter'' False None,
      fld ''network'' ''Network'' False None,
      list_fld ''nics'' ''Network cards'' False,
      list_fld ''disks'' ''Extra disks'' False,
      fld ''ssh_key_names'' ''SSH key names'' False (Some ''comma separated''),
      long_fld ''cloud_init_user_data'' ''Cloud-init user data'' False,
      fld ''anti_affinity'' ''Anti-affinity group'' False None,
      fld ''labels'' ''Labels'' False (Some ''key=value, comma separated''),
      pick ''desired_state'' ''Desired state'' [''running'', ''stopped''] False,
      fld ''gpus'' ''Whole GPUs'' False None,
      fld ''vgpus'' ''vGPU slices'' False (Some ''A2-4C'')]"

definition k8sFields :: "dash_field list" where
  "k8sFields =
     [fld ''cluster_cidr'' ''Pod CIDR'' True None,
      fld ''service_cidr'' ''Service CIDR'' True None,
      fld ''cluster_dns'' ''Cluster DNS'' False None,
      fld ''api_server_endpoint'' ''API endpoint'' True None,
      fld ''cni'' ''CNI'' False (Some ''cilium''),
      list_fld ''control_plane_nodes'' ''Control plane'' True,
      list_fld ''worker_nodes'' ''Workers'' False,
      bool_fld ''ha_enabled'' ''High availability'',
      fld ''vip_address'' ''VIP address'' False None,
      fld ''vip_interface'' ''VIP interface'' False None,
      fld ''method'' ''HA method'' False (Some ''keepalived''),
      bool_fld ''schedule_on_control_plane'' ''Schedule on control plane'']"

section \<open>What the requests guarantee\<close>

text \<open>A form the dashboard accepts for a new VM, and what the request it sends must satisfy.\<close>

definition vm_form_ok :: "form_values \<Rightarrow> bool" where
  "vm_form_ok v \<longleftrightarrow>
     form_text v ''name'' \<noteq> [] \<and>
     (case form_int v ''cpu'' of Inr n \<Rightarrow> \<not> nonpositive (PNum n) | Inl _ \<Rightarrow> False) \<and>
     (case form_bytes v ''memory_bytes'' of Inr n \<Rightarrow> 0 < n | Inl _ \<Rightarrow> False) \<and>
     (case form_bytes v ''storage_size_bytes'' of Inr n \<Rightarrow> 0 < n | Inl _ \<Rightarrow> False) \<and>
     toLowerCase (form_text v ''storage_backend'') \<in> set [''filesystem'', ''file'', ''lvm'', ''zfs'', ''ceph''] \<and>
     is_ok (form_records v ''disks'') \<and> is_ok (form_records v ''nics'') \<and>
     (form_text v ''image_path'' \<noteq> [] \<or> form_text v ''image_url'' \<noteq> []) \<and>
     (form_text v ''image_path'' = [] \<or> form_text v ''image_format'' \<noteq> []) \<and>
     (form_text v ''image_url'' = [] \<or> form_text v ''image_sha256'' \<noteq> [])"

definition nonempty_text :: "pval \<Rightarrow> bool" where
  "nonempty_text p \<longleftrightarrow> (case p of PStr s \<Rightarrow> s \<noteq> [] | _ \<Rightarrow> False)"

definition positive_size :: "pval \<Rightarrow> bool" where
  "positive_size p \<longleftrightarrow> (case p of PBig n \<Rightarrow> 0 < n | _ \<Rightarrow> False)"

definition positive_whole :: "pval \<Rightarrow> bool" where
  "positive_whole p \<longleftrightarrow> (case p of PNum n \<Rightarrow> isInteger n \<and> num_less (Fin 0) n | _ \<Rightarrow> False)"

definition vm_request_sound :: "dash_call \<Rightarrow> bool" where
  "vm_request_sound c \<longleftrightarrow>
     (let r = dc_request c; spec = pfields (pget r ''vmSpec'') in
      dc_service c = ''controller'' \<and> dc_method c = ''createWorkload'' \<and>
      pget r ''kind'' = PNum (Fin 1) \<and>
      nonempty_text (pget spec ''name'') \<and>
      positive_whole (pget spec ''cpu'') \<and>
      positive_size (pget spec ''memoryBytes'') \<and>
      positive_size (pget spec ''storageSizeBytes'') \<and>
      pget r ''storageSizeBytes'' = pget spec ''storageSizeBytes'' \<and>
      backend (plain_text (pget spec ''storageBackend'')) = Inr (pget r ''storageBackend'') \<and>
      (nonempty_text (pget r ''imagePath'') \<and> nonempty_text (pget r ''imageFormat'') \<or>
       nonempty_text (pget r ''imageUrl'') \<and> nonempty_text (pget r ''imageSha256'')))"

lemma resmap_Inr_iff: "resmap f r = Inr y \<longleftrightarrow> (\<exists>x. r = Inr x \<and> y = f x)"
  by (cases r) auto

lemma form_required_Inr_iff: "form_required v key = Inr t \<longleftrightarrow> t = form_text v key \<and> t \<noteq> []"
  by (auto simp: form_required_def Let_def)

lemma form_required_ok: "form_text v key \<noteq> [] \<Longrightarrow> form_required v key = Inr (form_text v key)"
  by (simp add: form_required_Inr_iff)

lemma form_int_integer: "form_int v key = Inr n \<Longrightarrow> isInteger n"
  by (auto simp: form_int_def Let_def split: if_splits)

lemma positive_wholeI:
  assumes "isInteger n" and "\<not> nonpositive (PNum n)"
  shows "positive_whole (PNum n)"
  using assms by (cases n) (auto simp: positive_whole_def)

lemma backend_ok_iff:
  "(\<exists>b. backend s = Inr b) \<longleftrightarrow> toLowerCase s \<in> set [''filesystem'', ''file'', ''lvm'', ''zfs'', ''ceph'']"
  by (auto simp: backend_def Let_def)

lemma vmSpec_ok:
  assumes "vm_form_ok v"
  obtains spec cpu mem disk where "vmSpec v = Inr spec"
    and "pget spec ''name'' = PStr (form_text v ''name'')"
    and "pget spec ''cpu'' = PNum cpu" and "isInteger cpu" and "\<not> nonpositive (PNum cpu)"
    and "pget spec ''memoryBytes'' = PBig mem" and "0 < mem"
    and "pget spec ''storageSizeBytes'' = PBig disk" and "0 < disk"
    and "pget spec ''storageBackend'' = PStr (form_text v ''storage_backend'')"
proof -
  obtain cpu where cpu: "form_int v ''cpu'' = Inr cpu" "\<not> nonpositive (PNum cpu)"
    using assms by (auto simp: vm_form_ok_def simp del: nonpositive.simps split: sum.splits)
  obtain mem where mem: "form_bytes v ''memory_bytes'' = Inr mem" "0 < mem"
    using assms by (auto simp: vm_form_ok_def split: sum.splits)
  obtain disk where disk: "form_bytes v ''storage_size_bytes'' = Inr disk" "0 < disk"
    using assms by (auto simp: vm_form_ok_def split: sum.splits)
  obtain b where b: "backend (form_text v ''storage_backend'') = Inr b"
    using assms backend_ok_iff [of "form_text v ''storage_backend''"] unfolding vm_form_ok_def by blast
  obtain ds where ds: "form_records v ''disks'' = Inr ds"
    using assms by (auto simp: vm_form_ok_def is_ok_def split: sum.splits)
  obtain ns where ns: "form_records v ''nics'' = Inr ns"
    using assms by (auto simp: vm_form_ok_def is_ok_def split: sum.splits)
  have name: "form_required v ''name'' = Inr (form_text v ''name'')"
    using assms by (simp add: vm_form_ok_def form_required_ok)
  have disks': "\<exists>x. dash_disks v = Inr x" by (simp add: dash_disks_def ds)
  have nics': "\<exists>x. nics v = Inr x" by (simp add: nics_def ns Let_def)
  from disks' nics' obtain x y where xy: "dash_disks v = Inr x" "nics v = Inr y" by blast
  have "\<exists>spec. vmSpec v = Inr spec \<and> pget spec ''name'' = PStr (form_text v ''name'') \<and>
      pget spec ''cpu'' = PNum cpu \<and> pget spec ''memoryBytes'' = PBig mem \<and>
      pget spec ''storageSizeBytes'' = PBig disk \<and> pget spec ''storageBackend'' = PStr (form_text v ''storage_backend'')"
    using cpu(2) mem(2) disk(2)
    by (simp add: vmSpec_def name cpu(1) mem(1) disk(1) xy q_labels_def pget_def b)
  with that cpu mem disk form_int_integer [OF cpu(1)] show thesis by blast
qed

text \<open>Every reader of the form refuses with a \<^verbatim>\<open>FormError\<close>.\<close>

definition form_refusal :: "'a res \<Rightarrow> bool" where
  "form_refusal r \<longleftrightarrow> (\<forall>e. r = Inl e \<longrightarrow> (\<exists>m. e = FormError m))"

lemma form_refusal_simps [simp]:
  "form_refusal (Inr x)"
  "form_refusal (Inl (FormError m))"
  by (simp_all add: form_refusal_def)

lemma form_refusal_ebind: "form_refusal r \<Longrightarrow> (\<And>x. form_refusal (f x)) \<Longrightarrow> form_refusal (ebind r f)"
  by (cases r) (auto simp: form_refusal_def)

lemma form_refusal_resmap [simp]: "form_refusal (resmap f r) = form_refusal r"
  by (cases r) (auto simp: form_refusal_def)

lemma form_refusal_props: "(\<And>p. p \<in> set ps \<Longrightarrow> form_refusal (snd p)) \<Longrightarrow> form_refusal (props ps)"
  by (induction ps) (simp_all add: form_refusal_ebind)

lemma form_refusal_readers [simp]:
  "form_refusal (form_required v key)"
  "form_refusal (form_int v key)"
  "form_refusal (form_records v key)"
  "form_refusal (backend s)"
  by (simp_all add: form_required_def form_int_def form_records_def backend_def Let_def split: js.splits option.splits)

lemma form_refusal_bytes [simp]: "form_refusal (form_bytes v key)"
  by (simp add: form_bytes_def Let_def split: option.splits prod.splits)

lemma form_refusal_vmSpec: "form_refusal (vmSpec v)"
  unfolding vmSpec_def
  by (intro form_refusal_ebind form_refusal_props)
    (auto simp: nics_def dash_disks_def q_labels_def Let_def intro!: form_refusal_ebind)

lemma form_refusal_image: "form_refusal (dash_image v)"
  by (simp add: dash_image_def Let_def)

lemma vm_form_okI:
  assumes "vmSpec v = Inr spec" and "dash_image v = Inr img"
  shows "vm_form_ok v"
proof -
  obtain cpu mem disk x y where r: "form_text v ''name'' \<noteq> []" "form_int v ''cpu'' = Inr cpu"
    "form_bytes v ''memory_bytes'' = Inr mem" "form_bytes v ''storage_size_bytes'' = Inr disk"
    "dash_disks v = Inr x" "nics v = Inr y"
    using assms(1) unfolding vmSpec_def by (auto simp: ebind_Inr_iff resmap_Inr_iff form_required_Inr_iff)
  have n: "form_required v ''name'' = Inr (form_text v ''name'')" using r(1) by (rule form_required_ok)
  have pos: "\<not> nonpositive (PNum cpu)" "0 < mem" "0 < disk"
      "\<exists>b. backend (form_text v ''storage_backend'') = Inr b"
    using assms(1) unfolding vmSpec_def
    by (simp_all add: n r q_labels_def pget_def ebind_Inr_iff split: if_splits)
  have "is_ok (form_records v ''disks'')" using r(5) by (auto simp: dash_disks_def resmap_Inr_iff)
  moreover have "is_ok (form_records v ''nics'')" using r(6) by (auto simp: nics_def ebind_Inr_iff)
  ultimately show ?thesis
    using r pos assms(2) unfolding vm_form_ok_def backend_ok_iff
    by (simp add: dash_image_def Let_def split: if_splits)
qed

lemma vm_form_ok_iff: "vm_form_ok v \<longleftrightarrow> is_ok (vmSpec v) \<and> is_ok (dash_image v)"
proof
  assume ok: "vm_form_ok v"
  have "is_ok (dash_image v)" using ok by (auto simp: vm_form_ok_def dash_image_def Let_def)
  moreover obtain spec where "vmSpec v = Inr spec" using vmSpec_ok [OF ok] by blast
  ultimately show "is_ok (vmSpec v) \<and> is_ok (dash_image v)" by simp
next
  assume "is_ok (vmSpec v) \<and> is_ok (dash_image v)"
  then show "vm_form_ok v" using vm_form_okI [of v] by (auto simp: is_ok_def split: sum.splits)
qed

lemma createWorkload_vm:
  assumes "vmSpec v = Inr spec" and "dash_image v = Inr img"
    and "backend (plain_text (pget spec ''storageBackend'')) = Inr b"
  shows "snd (createWorkload d v False tr) = tr @ [\<lparr>dc_service = ''controller'', dc_method = ''createWorkload'',
     dc_request = [(''kind'', PNum (Fin 1)), (''targetNode'', PStr (form_text v ''target_node'')), (''vmSpec'', PObj spec),
       (''storageBackend'', b), (''storageSizeBytes'', pget spec ''storageSizeBytes''),
       (''sshKeyNames'', PList (map PStr (form_strings v ''ssh_key_names'')))] @ img\<rparr>]"
  by (simp add: createWorkload_def created_workload_def client_def assms io_bind_def io_lift_def io_event_def
    split: sum.splits)

text \<open>
  C18: Creating a VM from the dashboard: where the form is complete, exactly one call is made, and it asks the controller
  for a VM with a name, a positive whole number of CPUs, positive memory and disk sizes, the storage backend the form names,
  and an image that comes with its checksum or its format. Otherwise nothing is sent and the operator is told what is wrong
  with the form.
\<close>

theorem vm_creation_checked:
  "if vm_form_ok v
   then \<exists>c. snd (createWorkload d v False tr) = tr @ [c] \<and> vm_request_sound c
   else \<exists>m. createWorkload d v False tr = (Inl (FormError m), tr)"
proof (cases "vm_form_ok v")
  case True
  obtain spec cpu mem disk where s: "vmSpec v = Inr spec"
    "pget spec ''name'' = PStr (form_text v ''name'')"
    "pget spec ''cpu'' = PNum cpu" "isInteger cpu" "\<not> nonpositive (PNum cpu)"
    "pget spec ''memoryBytes'' = PBig mem" "0 < mem"
    "pget spec ''storageSizeBytes'' = PBig disk" "0 < disk"
    "pget spec ''storageBackend'' = PStr (form_text v ''storage_backend'')"
    by (rule vmSpec_ok [OF True])
  obtain img where img: "dash_image v = Inr img" using True by (auto simp: vm_form_ok_iff is_ok_def split: sum.splits)
  obtain b where b: "backend (plain_text (pget spec ''storageBackend'')) = Inr b"
    using True backend_ok_iff [of "form_text v ''storage_backend''"] unfolding vm_form_ok_def s(10) plain_text.simps by blast
  have "form_text v ''name'' \<noteq> []" using True by (simp add: vm_form_ok_def)
  moreover have "positive_whole (PNum cpu)" using s(4,5) by (rule positive_wholeI)
  ultimately show ?thesis
    using True img s b createWorkload_vm [OF s(1) img b, of d tr]
    by (auto simp: vm_request_sound_def nonempty_text_def positive_size_def pget_def dash_image_def Let_def split: if_splits)
next
  case False
  have "\<exists>m. createWorkload d v False tr = (Inl (FormError m), tr)"
  proof (cases "vmSpec v")
    case (Inl e)
    then obtain m where "e = FormError m" using form_refusal_vmSpec [of v] by (auto simp: form_refusal_def)
    with Inl show ?thesis by (simp add: createWorkload_def io_bind_def io_lift_def)
  next
    case (Inr spec)
    then have "\<exists>b. backend (plain_text (pget spec ''storageBackend'')) = Inr b"
      unfolding vmSpec_def by (auto simp: ebind_Inr_iff split: if_splits)
    then obtain b where b: "backend (plain_text (pget spec ''storageBackend'')) = Inr b" by blast
    obtain m where "dash_image v = Inl (FormError m)"
      using False Inr form_refusal_image [of v] by (cases "dash_image v") (auto simp: vm_form_ok_iff form_refusal_def)
    with Inr b show ?thesis
      by (simp add: createWorkload_def created_workload_def client_def io_bind_def io_lift_def)
  qed
  with False show ?thesis by simp
qed

definition k8s_node_ok :: "(string \<times> pval) list \<Rightarrow> bool" where
  "k8s_node_ok n \<longleftrightarrow> nonempty_text (pget n ''nodeId'') \<and> nonempty_text (pget n ''advertiseAddress'') \<and> nonempty_text (pget n ''iface'')"

lemma k8sNode_ok: "k8sNode item r = Inr n \<Longrightarrow> k8s_node_ok n \<and> map_of n ''initialCluster'' \<noteq> None"
  by (auto simp: k8sNode_def k8s_node_ok_def nonempty_text_def pget_def Let_def split: if_splits)

lemma k8sNodes_ok: "k8sNodes v key r = Inr ns \<Longrightarrow> n \<in> set ns \<Longrightarrow> k8s_node_ok n \<and> map_of n ''initialCluster'' \<noteq> None"
  using emap_Inr_all k8sNode_ok by (fastforce simp: k8sNodes_def ebind_Inr_iff)

lemma map_of_set_initial:
  "map_of (set_initial n) k = (if k = ''initialCluster'' \<and> map_of n k \<noteq> None then Some (PBool True) else map_of n k)"
  by (induction n) (auto simp: set_initial_def)

lemma with_initial_nonempty: "ns \<noteq> [] \<Longrightarrow> with_initial ns \<noteq> []"
  by (cases ns) (simp_all add: with_initial_def)

lemma with_initial_nodes:
  assumes "\<And>n. n \<in> set ns \<Longrightarrow> k8s_node_ok n" and "n \<in> set (with_initial ns)"
  shows "k8s_node_ok n"
  using assms by (auto simp: with_initial_def k8s_node_ok_def pget_def map_of_set_initial split: if_splits list.splits)

lemma with_initial_bootstraps:
  assumes "ns \<noteq> []" and "\<And>n. n \<in> set ns \<Longrightarrow> map_of n ''initialCluster'' \<noteq> None"
  shows "\<exists>n \<in> set (with_initial ns). pget n ''initialCluster'' = PBool True"
proof (cases "list_ex (\<lambda>n. pget n ''initialCluster'' = PBool True) ns")
  case True
  then show ?thesis by (simp add: with_initial_def list_ex_iff)
next
  case False
  obtain n rest where ns: "ns = n # rest" using assms(1) by (cases ns) auto
  then have "map_of n ''initialCluster'' \<noteq> None" using assms(2) [of n] by simp
  with False ns show ?thesis by (simp add: with_initial_def pget_def map_of_set_initial)
qed

lemma with_initial_ids: "map (\<lambda>n. pget n ''nodeId'') (with_initial ns) = map (\<lambda>n. pget n ''nodeId'') ns"
  by (auto simp: with_initial_def pget_def map_of_set_initial split: list.splits)

lemma k8sNodes_ids:
  assumes "form_records v key = Inr rs" and "k8sNodes v key r = Inr ns"
  shows "map (\<lambda>n. pget n ''nodeId'') ns = map (\<lambda>item. PStr (form_text item ''node_id'')) rs"
proof -
  have node: "k8sNode item r = Inr n \<Longrightarrow> pget n ''nodeId'' = PStr (form_text item ''node_id'')" for item n
    by (auto simp: k8sNode_def pget_def Let_def split: if_splits)
  have "emap (\<lambda>item. k8sNode item r) rs = Inr ns" using assms by (simp add: k8sNodes_def)
  then show ?thesis by (induction rs arbitrary: ns) (auto simp: ebind_Inr_iff node)
qed

text \<open>
  C19: A Kubernetes cluster spec the dashboard accepts can be bootstrapped: its control plane is the nodes the form lists, in
  that order, at least one; some node of it starts the initial cluster; every node, worker or control plane, has an id, an
  address and an interface; and high availability is either off or comes with its virtual address and interface.
\<close>

theorem k8s_spec_bootstraps:
  assumes "k8sSpec v = Inr spec"
  shows "\<exists>rs control workers.
    form_records v ''control_plane_nodes'' = Inr rs \<and> rs \<noteq> [] \<and>
    pget (pfields spec) ''controlPlaneNodes'' = PList (map PObj control) \<and>
    map (\<lambda>n. pget n ''nodeId'') control = map (\<lambda>item. PStr (form_text item ''node_id'')) rs \<and>
    (\<exists>n \<in> set control. pget n ''initialCluster'' = PBool True) \<and>
    pget (pfields spec) ''workerNodes'' = PList (map PObj workers) \<and>
    list_all k8s_node_ok (control @ workers) \<and>
    (let ha = pget (pfields spec) ''highAvailability'' in
     ha = PUndef \<or> nonempty_text (pget (pfields ha) ''vipAddress'') \<and> nonempty_text (pget (pfields ha) ''vipInterface''))"
proof -
  obtain ns where ns: "k8sNodes v ''control_plane_nodes'' ''control-plane'' = Inr ns"
    using assms unfolding k8sSpec_def by (auto simp: ebind_Inr_iff)
  obtain ws where ws: "k8sNodes v ''worker_nodes'' ''worker'' = Inr ws"
    using assms ns unfolding k8sSpec_def by (auto simp: ebind_Inr_iff resmap_Inr_iff split: if_splits)
  obtain rs where rs: "form_records v ''control_plane_nodes'' = Inr rs"
    using ns by (auto simp: k8sNodes_def ebind_Inr_iff)
  have ne: "ns \<noteq> []" and ha: "\<not> (k8s_ha v \<and> (form_text v ''vip_address'' = [] \<or> form_text v ''vip_interface'' = []))"
    using assms ns unfolding k8sSpec_def by (auto split: if_splits)
  have flds: "pget (pfields spec) ''controlPlaneNodes'' = PList (map PObj (with_initial ns))"
    "pget (pfields spec) ''workerNodes'' = PList (map PObj ws)"
    "pget (pfields spec) ''highAvailability'' = (if k8s_ha v then PObj
        [(''enabled'', PBool True), (''vipAddress'', PStr (form_text v ''vip_address'')),
         (''vipInterface'', PStr (form_text v ''vip_interface'')),
         (''method'', PStr (if form_text v ''method'' = [] then ''keepalived'' else form_text v ''method''))] else PUndef)"
    using assms ns ws ne ha unfolding k8sSpec_def
    by (auto simp: ebind_Inr_iff resmap_Inr_iff pget_def split: if_splits)
  have ids: "map (\<lambda>n. pget n ''nodeId'') (with_initial ns) = map (\<lambda>item. PStr (form_text item ''node_id'')) rs"
    using with_initial_ids k8sNodes_ids [OF rs ns] by simp
  moreover have "rs \<noteq> []" using ids with_initial_nonempty [OF ne] by auto
  moreover have "list_all k8s_node_ok (with_initial ns @ ws)"
    using with_initial_nodes [of ns] k8sNodes_ok [OF ns] k8sNodes_ok [OF ws] by (auto simp: list_all_iff)
  moreover have "\<exists>n \<in> set (with_initial ns). pget n ''initialCluster'' = PBool True"
    using with_initial_bootstraps [OF ne] k8sNodes_ok [OF ns] by blast
  moreover have "let h = pget (pfields spec) ''highAvailability'' in
     h = PUndef \<or> nonempty_text (pget (pfields h) ''vipAddress'') \<and> nonempty_text (pget (pfields h) ''vipInterface'')"
    unfolding flds Let_def using ha by (simp add: nonempty_text_def pget_def)
  ultimately show ?thesis using rs flds(1,2) by blast
qed

theorem k8s_spec_bootstraps_witness:
  "\<exists>v spec rs control.
     k8sSpec v = Inr spec \<and> form_records v ''control_plane_nodes'' = Inr rs \<and> length rs = 2 \<and>
     pget (pfields spec) ''controlPlaneNodes'' = PList (map PObj control) \<and>
     (\<exists>n \<in> set control. pget n ''initialCluster'' = PBool True)"
proof -
  define v where "v =
    [(''cluster_cidr'', JStr ''10.42.0.0/16''), (''service_cidr'', JStr ''10.43.0.0/16''),
     (''api_server_endpoint'', JStr ''10.0.0.10:6443''),
     (''control_plane_nodes'', JArr
        [JObj [(''node_id'', JStr ''n1''), (''advertise_address'', JStr ''10.0.0.1''), (''iface'', JStr ''eth0'')],
         JObj [(''node_id'', JStr ''n2''), (''advertise_address'', JStr ''10.0.0.2''), (''iface'', JStr ''eth0'')]])]"
  have "is_ok (k8sSpec v)" unfolding v_def by code_simp
  then obtain spec where spec: "k8sSpec v = Inr spec" by (auto simp: is_ok_def split: sum.splits)
  have "map_sum id length (form_records v ''control_plane_nodes'') = (Inr 2 :: nat res)" unfolding v_def by code_simp
  then have two: "form_records v ''control_plane_nodes'' = Inr rs \<Longrightarrow> length rs = 2" for rs by simp
  from k8s_spec_bootstraps [OF spec] spec two show ?thesis by blast
qed

end
