(* ===== verification/Spec2Isabelle.thy ===== *)
theory Spec2Isabelle
  imports Interview Flows DashCore
begin

text \<open>
  A verification development of two TypeScript programs of the kcore repository: the MCP server
  (\<^verbatim>\<open>kcore-mcp/packages/server/src\<close>), through which an assistant plans and changes a cluster, and the dashboard
  (\<^verbatim>\<open>dashboard/src\<close>), through which an operator does it in a browser. Both turn text a person typed into
  gRPC requests to the controller, and the development follows that text: what is accepted, what request
  it becomes, who agreed to it, and what of the answer is shown.

  \<^bold>\<open>How code is written.\<close> A function that may throw returns \<open>'a res\<close>; an \<^verbatim>\<open>async\<close> function is an \<open>io\<close>, which
  extends the list of events performed so far (\<open>Prelude\<close>). Strings are lists of 8-bit code units and numbers
  are doubles by value (\<open>JsPrim\<close>); values and objects are \<open>js\<close> and \<open>obj\<close> (\<open>JsVal\<close>). Definitions keep the names of
  the source, with a prefix where two files use the same name (\<open>form_text\<close> is \<^verbatim>\<open>text\<close> of \<^verbatim>\<open>forms.ts\<close>).

  \<^bold>\<open>The MCP server.\<close>
  \<^item> \<open>Names\<close> (\<^verbatim>\<open>names.ts\<close>): the validators. \<open>Catalog\<close> (\<^verbatim>\<open>catalog.ts\<close>): the resource kinds. \<open>Plan\<close> (\<^verbatim>\<open>plan.ts\<close>):
    the local planner. \<open>Platform\<close>: the parameters standing for the platform.
  \<^item> \<open>Requests_Core\<close>, \<open>Requests_Msg\<close>, \<open>Requests\<close> (\<^verbatim>\<open>requests.ts\<close>): readers, messages, and \<open>buildApply\<close>,
    \<open>buildRead\<close>, \<open>buildDelete\<close>, \<open>buildPlanCall\<close>, \<open>buildOperation\<close>.
  \<^item> \<open>Services\<close>, \<open>Rpc\<close> (the proto files, \<^verbatim>\<open>rpc.ts\<close>): the methods and which of them are reads.
  \<^item> \<open>Base64\<close>, \<open>Connection\<close> (\<^verbatim>\<open>connection.ts\<close>), \<open>Grpc\<close> (\<^verbatim>\<open>grpc.ts\<close>), \<open>Vault\<close> (\<^verbatim>\<open>vault.ts\<close>): finding a controller,
    dialling it, redacting its answers, the backup vault. \<open>world\<close> holds the remote parties.
  \<^item> \<open>Questions\<close>, \<open>Advise\<close>, \<open>Interview\<close> (\<^verbatim>\<open>advise.ts\<close>): the interview that completes a spec.
  \<^item> \<open>Pki\<close> (\<^verbatim>\<open>pki.ts\<close>): creating the trust root and the context file of a new cluster.
  \<^item> \<open>Tools\<close>, \<open>Server\<close> (\<^verbatim>\<open>server.ts\<close>): the helpers and the handler of every tool, prompt and resource.
  \<^item> \<open>Session\<close>, \<open>Flows\<close>: properties of whole tool calls and of sessions of them.

  \<^bold>\<open>The dashboard.\<close>
  \<^item> \<open>Json\<close>: \<^verbatim>\<open>JSON.parse\<close>, which inverts the printing of \<open>JsVal\<close>. \<open>Forms\<close> (\<^verbatim>\<open>forms.ts\<close>): the readers of form values.
  \<^item> \<open>Rows\<close> (\<^verbatim>\<open>rows.ts\<close>): messages as rows, enum labels, lifting. \<open>Format\<close> (\<^verbatim>\<open>format.ts\<close>): words, tones,
    dates, sizes, percentages. \<open>Columns\<close> (\<^verbatim>\<open>columns.ts\<close>): which columns a table has.
  \<^item> \<open>DashCore\<close> (\<^verbatim>\<open>catalog.ts\<close> up to \<^verbatim>\<open>RESOURCES\<close>): fields, actions, resources, and the helpers that build
    requests and rows.

  \<^bold>\<open>What is proved.\<close>
  \<^item> Consent: in every session a change belongs to a call that was confirmed or answered yes; read-only tools only read;
    a node installation needs the acknowledgement word for word (\<open>Session\<close>, \<open>Flows\<close>).
  \<^item> Secrecy: answers are redacted, private keys keep mode 600, plain text is dialled only on request.
  \<^item> Consistency: reads and writes are classified as the services declare them; a plan converges; the interview blocks
    exactly where the builders refuse and converges where it can; a created context file is atomic, never
    replaces a trust root, and connects.
  \<^item> The two programs agree: a soak and a size mean the same to both (\<open>Forms\<close>).
  \<^item> Nothing is lost on the way through the dashboard: files, JSON lists and enum labels are read back as
    shown, rows are typed by their descriptors, every key has one column.
  \<^item> What the dashboard asks for is complete: a VM request is checked or not sent, a Kubernetes spec can be bootstrapped
    (\<open>DashCore\<close>).
  \<^item> Defects the model exposed are stated as theorems where they stand and listed with the findings.

  The locales \<open>store\<close> (objects), \<open>sanitizer\<close> (validators) and \<open>monitored\<close> (consent over sessions) are the
  interfaces; each is interpreted on the definitions of the source.

  \<^bold>\<open>Bounds.\<close> The JSON parser runs on fuel, twice the length of the text plus two; more fuel never changes a
  result, and a fuel of the length of the text suffices for every printed value (\<open>jval_mono\<close>, \<open>reads_json\<close>).
  Every other recursion is proved terminating.

  \<^bold>\<open>Not modelled.\<close> The list \<^verbatim>\<open>RESOURCES\<close> of the dashboard's catalog, its React components, router, charts,
  terminal and browser storage; code units above 255; time (deadlines, keepalive, clocks other than as
  parameters); the Rust crates, the Nix modules and the shell scripts, which are other programs; the bundles under
  \<^verbatim>\<open>dist\<close>, which the build generates; the VS Code extension, which only registers the server; third-party packages
  (gRPC, protobuf, YAML, X.509, the MCP library), which are parameters.
\<close>

end
